(* ===== verification/Sentinel_Prelude.thy ===== *)
theory Sentinel_Prelude
  imports Main "HOL-Library.Word" "HOL-Library.Sublist" "HOL-Library.Monad_Syntax"
begin

text \<open>
  Shared ground of the development: machine integers, results, strings of Unicode scalar
  values with the operations of Rust's standard library that the program uses (\<open>trim\<close>,
  \<open>to_lowercase\<close>, \<open>contains\<close>, \<open>starts_with\<close>, \<open>len\<close>), decimal text, and the lemma collections.
\<close>

named_theorems result_simps \<open>how results of fallible operations are taken apart\<close>
named_theorems wf_intros \<open>an operation keeps the invariant of its component\<close>
named_theorems frame_simps \<open>the fields an operation leaves unchanged\<close>

unbundle bit_operations_syntax

section \<open>Machine integers and results\<close>

type_synonym u8 = "8 word"
type_synonym u32 = "32 word"
type_synonym u64 = "64 word"
type_synonym uuid = "128 word"
type_synonym bytes = "u8 list"

lemma option_eqI: "(\<And>x. a = Some x \<longleftrightarrow> b = Some x) \<Longrightarrow> a = b"
  by (cases a; cases b) auto

text \<open>\<open>Result<T, E>\<close> is the sum \<open>'e + 't\<close>: \<open>Err\<close> is \<open>Inl\<close>, \<open>Ok\<close> is \<open>Inr\<close>.\<close>

definition bind_result :: "'e + 'a \<Rightarrow> ('a \<Rightarrow> 'e + 'b) \<Rightarrow> 'e + 'b" where
  "bind_result r f = (case r of Inl e \<Rightarrow> Inl e | Inr x \<Rightarrow> f x)"

definition map_err :: "('e \<Rightarrow> 'f) \<Rightarrow> 'e + 'a \<Rightarrow> 'f + 'a" where
  "map_err h r = (case r of Inl e \<Rightarrow> Inl (h e) | Inr x \<Rightarrow> Inr x)"

definition ok_or :: "'e \<Rightarrow> 'a option \<Rightarrow> 'e + 'a" where
  "ok_or e x = (case x of None \<Rightarrow> Inl e | Some y \<Rightarrow> Inr y)"

definition to_ok :: "'e + 'a \<Rightarrow> 'a option" where
  "to_ok r = (case r of Inl e \<Rightarrow> None | Inr x \<Rightarrow> Some x)"

lemma bind_result_simps [simp]:
  "bind_result (Inl e) f = Inl e"
  "bind_result (Inr x) f = f x"
  by (simp_all add: bind_result_def)

lemma bind_result_Inr [result_simps]:
  "bind_result r f = Inr y \<longleftrightarrow> (\<exists>x. r = Inr x \<and> f x = Inr y)"
  by (cases r) auto

lemma bind_result_Inl [result_simps]:
  "bind_result r f = Inl e \<longleftrightarrow> r = Inl e \<or> (\<exists>x. r = Inr x \<and> f x = Inl e)"
  by (cases r) auto

lemma map_err_simps [simp]:
  "map_err h (Inl e) = Inl (h e)"
  "map_err h (Inr x) = Inr x"
  by (simp_all add: map_err_def)

lemma map_err_Inr [result_simps]: "map_err h r = Inr x \<longleftrightarrow> r = Inr x"
  by (cases r) auto

lemma map_err_Inl [result_simps]: "map_err h r = Inl e \<longleftrightarrow> (\<exists>e'. r = Inl e' \<and> e = h e')"
  by (cases r) auto

lemma ok_or_simps [simp]:
  "ok_or e None = Inl e"
  "ok_or e (Some x) = Inr x"
  by (simp_all add: ok_or_def)

lemma ok_or_Inr [result_simps]: "ok_or e x = Inr y \<longleftrightarrow> x = Some y"
  by (cases x) auto

lemma to_ok_simps [simp]:
  "to_ok (Inl e) = None"
  "to_ok (Inr x) = Some x"
  by (simp_all add: to_ok_def)

text \<open>\<open>iter().map(f).collect::<Result<Vec<_>, _>>()\<close>: the first error wins.\<close>

fun collect_results :: "('e + 'a) list \<Rightarrow> 'e + 'a list" where
  "collect_results [] = Inr []"
| "collect_results (r # rs) = bind_result r (\<lambda>x. bind_result (collect_results rs) (\<lambda>xs. Inr (x # xs)))"

lemma collect_results_Inr [result_simps]: "collect_results rs = Inr xs \<longleftrightarrow> rs = map Inr xs"
proof (induction rs arbitrary: xs)
  case (Cons r rs)
  then show ?case by (cases r; cases xs) (auto simp: bind_result_Inr)
qed auto

section \<open>Strings\<close>

text \<open>
  A Rust \<open>String\<close> is a sequence of Unicode scalar values; here a list of code points.
  \<open>lit\<close> embeds the ASCII literals of the source.
\<close>

type_synonym rstring = "nat list"

definition lit :: "string \<Rightarrow> rstring" where
  "lit s = map of_char s"

lemma lit_eq_iff [simp]: "lit s = lit t \<longleftrightarrow> s = t"
proof -
  have "inj (of_char :: char \<Rightarrow> nat)"
    by (rule injI) simp
  then show ?thesis
    unfolding lit_def by (simp add: inj_map_eq_map)
qed

lemma lit_Nil [simp]: "lit '''' = []"
  by (simp add: lit_def)

lemma lit_append: "lit (s @ t) = lit s @ lit t"
  by (simp add: lit_def)

lemma lit_is_Nil [simp]: "lit s = [] \<longleftrightarrow> s = ''''" "[] = lit s \<longleftrightarrow> s = ''''"
  by (auto simp: lit_def)

text \<open>\<open>char::is_whitespace\<close>: the Unicode property \<open>White_Space\<close>.\<close>

definition is_whitespace :: "nat \<Rightarrow> bool" where
  "is_whitespace c \<longleftrightarrow>
     (9 \<le> c \<and> c \<le> 13) \<or> c = 32 \<or> c = 133 \<or> c = 160 \<or> c = 5760 \<or> (8192 \<le> c \<and> c \<le> 8202)
     \<or> c = 8232 \<or> c = 8233 \<or> c = 8239 \<or> c = 8287 \<or> c = 12288"

definition trim :: "rstring \<Rightarrow> rstring" where
  "trim s = rev (dropWhile is_whitespace (rev (dropWhile is_whitespace s)))"

definition is_blank :: "rstring \<Rightarrow> bool" where
  "is_blank s \<longleftrightarrow> (\<forall>c \<in> set s. is_whitespace c)"

lemma trim_Nil_iff: "trim s = [] \<longleftrightarrow> is_blank s"
proof -
  have "dropWhile is_whitespace (rev (dropWhile is_whitespace s)) = []
        \<longleftrightarrow> (\<forall>c \<in> set (dropWhile is_whitespace s). is_whitespace c)"
    by (simp add: dropWhile_eq_Nil_conv)
  also have "\<dots> \<longleftrightarrow> (\<forall>c \<in> set s. is_whitespace c)"
    by (induction s) auto
  finally show ?thesis
    by (simp add: trim_def is_blank_def)
qed

lemma dropWhile_idem_rev:
  "dropWhile P (rev (dropWhile P (rev (dropWhile P s)))) = rev (dropWhile P (rev (dropWhile P s)))"
proof (cases "dropWhile P s")
  case Nil
  show ?thesis unfolding Nil by simp
next
  case (Cons x xs)
  then have nP: "\<not> P x"
    by (metis dropWhile_eq_Cons_conv)
  have "dropWhile P (rev xs @ [x]) = dropWhile P (rev xs) @ [x]"
    using nP by (cases "\<forall>y \<in> set (rev xs). P y") (auto simp: dropWhile_append dropWhile_eq_Nil_conv)
  with Cons nP show ?thesis by simp
qed

lemma trim_trim [simp]: "trim (trim s) = trim s"
  by (simp add: trim_def dropWhile_idem_rev dropWhile_idem)

lemma trim_sublist: "sublist (trim s) s"
proof -
  have "suffix (dropWhile is_whitespace s) s"
    by (rule suffix_dropWhile)
  moreover have "prefix (trim s) (dropWhile is_whitespace s)"
    unfolding trim_def suffix_to_prefix [symmetric]
    by (metis rev_rev_ident suffix_dropWhile suffix_to_prefix)
  ultimately show ?thesis
    by (meson prefix_imp_sublist sublist_order.order.trans suffix_imp_sublist)
qed

lemma length_trim_le: "length (trim s) \<le> length s"
  using trim_sublist sublist_length_le by blast

text \<open>
  \<open>char::to_lowercase\<close> on the code points below U+0180 (Basic Latin, Latin-1 and Latin
  Extended-A, the scripts of the deployment's two languages); the model leaves every other code
  point unchanged.
\<close>

definition char_lower :: "nat \<Rightarrow> rstring" where
  "char_lower c =
     (if 65 \<le> c \<and> c \<le> 90 then [c + 32]
      else if 192 \<le> c \<and> c \<le> 222 \<and> c \<noteq> 215 then [c + 32]
      else if c = 304 then [105, 775]
      else if c = 376 then [255]
      else if 256 \<le> c \<and> c \<le> 311 \<and> even c then [c + 1]
      else if 313 \<le> c \<and> c \<le> 328 \<and> odd c then [c + 1]
      else if 330 \<le> c \<and> c \<le> 375 \<and> even c then [c + 1]
      else if (c = 377 \<or> c = 379 \<or> c = 381) then [c + 1]
      else [c])"

definition to_lowercase :: "rstring \<Rightarrow> rstring" where
  "to_lowercase s = concat (map char_lower s)"

lemma to_lowercase_append [simp]: "to_lowercase (s @ t) = to_lowercase s @ to_lowercase t"
  by (simp add: to_lowercase_def)

lemma to_lowercase_Nil [simp]: "to_lowercase [] = []"
  by (simp add: to_lowercase_def)

text \<open>\<open>str::contains\<close> and \<open>str::starts_with\<close> for a string pattern.\<close>

fun starts_with :: "rstring \<Rightarrow> rstring \<Rightarrow> bool" where
  "starts_with s [] = True"
| "starts_with [] (p # ps) = False"
| "starts_with (c # cs) (p # ps) = (c = p \<and> starts_with cs ps)"

fun str_contains :: "rstring \<Rightarrow> rstring \<Rightarrow> bool" where
  "str_contains [] p = (p = [])"
| "str_contains (c # cs) p = (starts_with (c # cs) p \<or> str_contains cs p)"

lemma starts_with_prefix: "starts_with s p \<longleftrightarrow> prefix p s"
  by (induction s p rule: starts_with.induct) auto

lemma str_contains_sublist: "str_contains s p \<longleftrightarrow> sublist p s"
proof (induction s p rule: str_contains.induct)
  case (1 p)
  then show ?case by simp
next
  case (2 c cs p)
  then show ?case
    by (simp add: starts_with_prefix del: starts_with.simps)
       (metis prefix_imp_sublist sublist_Cons_right)
qed

text \<open>\<open>str::len\<close> counts the bytes of the UTF-8 encoding.\<close>

definition utf8_len_char :: "nat \<Rightarrow> nat" where
  "utf8_len_char c = (if c < 128 then 1 else if c < 2048 then 2 else if c < 65536 then 3 else 4)"

definition str_len :: "rstring \<Rightarrow> nat" where
  "str_len s = sum_list (map utf8_len_char s)"

text \<open>Decimal rendering of an unsigned integer (\<open>Display\<close> of \<open>u32\<close> and \<open>u64\<close>).\<close>

fun show_nat :: "nat \<Rightarrow> rstring" where
  "show_nat n = (if n < 10 then [48 + n] else show_nat (n div 10) @ [48 + n mod 10])"

declare show_nat.simps [simp del]

end
