(* ===== verification/Sentinel_Contracts.thy ===== *)
theory Sentinel_Contracts
  imports Sentinel_Prelude
begin

text \<open>
  Identifiers (\<open>crates/domain/src/ids.rs\<close>), JSON values, and the contracts that several
  components share, as locales: \<open>db_label\<close> and \<open>db_enum\<close> (the text form of an enum in a
  database column), \<open>nonblank_text\<close> (a newtype built from trimmed, non-blank text),
  \<open>versioned_aggregate\<close> and \<open>status_machine\<close> (an aggregate whose operations bump a version,
  emit an event carrying it, and move a status along an allowed relation).
\<close>

section \<open>Identifiers\<close>

text \<open>
  \<open>strong_id!\<close> wraps a UUID. \<open>new()\<close> draws it from \<open>Uuid::new_v4\<close>; in the model the drawn
  UUIDs are arguments of the operation that draws them.
\<close>

datatype report_id = ReportId (report_uuid: uuid)
datatype case_id = CaseId (case_uuid: uuid)
datatype case_event_id = CaseEventId (case_event_uuid: uuid)
datatype alert_id = AlertId (alert_uuid: uuid)
datatype alert_event_id = AlertEventId (alert_event_uuid: uuid)
datatype consumer_id = ConsumerId (consumer_uuid: uuid)
datatype subscription_id = SubscriptionId (subscription_uuid: uuid)
datatype audit_event_id = AuditEventId (audit_event_uuid: uuid)
datatype outbox_event_id = OutboxEventId (outbox_event_uuid: uuid)
datatype delivery_id = DeliveryId (delivery_uuid: uuid)
datatype delivery_event_id = DeliveryEventId (delivery_event_uuid: uuid)
datatype delivery_attempt_id = DeliveryAttemptId (delivery_attempt_uuid: uuid)
datatype attachment_id = AttachmentId (attachment_uuid: uuid)
datatype organization_id = OrganizationId (organization_uuid: uuid)
datatype report_extraction_id = ReportExtractionId (report_extraction_uuid: uuid)
datatype alert_description_generation_id =
  AlertDescriptionGenerationId (alert_description_generation_uuid: uuid)

section \<open>JSON\<close>

text \<open>\<open>serde_json::Value\<close>; the numbers of this program's payloads are unsigned.\<close>

datatype json = JNull | JBool bool | JNum nat | JStr rstring | JArr "json list"
  | JObj "(rstring \<times> json) list"

fun json_get :: "json \<Rightarrow> rstring \<Rightarrow> json option" where
  "json_get (JObj kvs) k = map_of kvs k"
| "json_get _ k = None"

fun json_as_str :: "json \<Rightarrow> rstring option" where
  "json_as_str (JStr s) = Some s"
| "json_as_str _ = None"

fun json_as_bool :: "json \<Rightarrow> bool option" where
  "json_as_bool (JBool b) = Some b"
| "json_as_bool _ = None"

fun json_as_array :: "json \<Rightarrow> json list option" where
  "json_as_array (JArr xs) = Some xs"
| "json_as_array _ = None"

fun json_as_u64 :: "json \<Rightarrow> nat option" where
  "json_as_u64 (JNum n) = Some n"
| "json_as_u64 _ = None"

text \<open>The strings a value carries anywhere inside it.\<close>

fun json_strings :: "json \<Rightarrow> rstring set" where
  "json_strings (JStr s) = {s}"
| "json_strings (JArr xs) = (\<Union>x \<in> set xs. json_strings x)"
| "json_strings (JObj kvs) = (\<Union>kv \<in> set kvs. json_strings (snd kv))"
| "json_strings _ = {}"

section \<open>Enumerations in database columns\<close>

locale db_label =
  fixes to_db :: "'a \<Rightarrow> rstring"
  assumes inj_to_db: "inj to_db"
begin

lemma to_db_eq_iff: "to_db x = to_db y \<longleftrightarrow> x = y"
  using inj_to_db by (auto dest: injD)

end

locale db_enum =
  fixes to_db :: "'a \<Rightarrow> rstring"
    and from_db :: "rstring \<Rightarrow> 'a option"
  assumes from_to: "from_db (to_db x) = Some x"
    and to_from: "from_db v = Some x \<Longrightarrow> to_db x = v"
begin

lemma from_db_Some_iff: "from_db v = Some x \<longleftrightarrow> v = to_db x"
  using from_to to_from by auto

lemma from_db_None_iff: "from_db v = None \<longleftrightarrow> v \<notin> range to_db"
proof (cases "from_db v")
  case None
  then show ?thesis using from_to by fastforce
next
  case (Some x)
  then show ?thesis using to_from by auto
qed

lemma decode_list: "those (map from_db (map to_db xs)) = Some xs"
  by (induction xs) (auto simp: from_to)

lemma codec: "from_db (to_db x) = Some x \<and> (from_db v = Some y \<longleftrightarrow> v = to_db y)"
  using from_to from_db_Some_iff by blast

end

sublocale db_enum \<subseteq> label: db_label to_db
proof unfold_locales
  show "inj to_db"
    by (rule inj_on_inverseI [where g = "\<lambda>v. the (from_db v)"]) (simp add: from_to)
qed

section \<open>Newtypes of trimmed, non-blank text\<close>

locale nonblank_text =
  fixes mk :: "rstring \<Rightarrow> 'e + 'a"
    and text_of :: "'a \<Rightarrow> rstring"
    and blank_error :: 'e
  assumes mk_blank: "is_blank s \<Longrightarrow> mk s = Inl blank_error"
    and mk_text: "\<not> is_blank s \<Longrightarrow> \<exists>x. mk s = Inr x \<and> text_of x = trim s"
begin

lemma mk_Inl_iff: "mk s = Inl e \<longleftrightarrow> is_blank s \<and> e = blank_error"
  by (cases "is_blank s") (auto simp: mk_blank dest: mk_text)

lemma mk_Inr_text: "mk s = Inr x \<Longrightarrow> text_of x = trim s"
  by (cases "is_blank s") (auto simp: mk_blank dest: mk_text)

lemma mk_Inr_nonblank:
  assumes "mk s = Inr x"
  shows "\<not> is_blank (text_of x)"
proof -
  from assms have "\<not> is_blank s" by (auto simp: mk_blank)
  then show ?thesis
    using mk_Inr_text [OF assms] by (simp flip: trim_Nil_iff)
qed

lemma mk_reparse:
  assumes "mk s = Inr x"
  shows "\<exists>y. mk (text_of x) = Inr y \<and> text_of y = text_of x"
  using mk_text [OF mk_Inr_nonblank [OF assms]] mk_Inr_text [OF assms] by auto

end

section \<open>Aggregates with a version\<close>

text \<open>
  A \<open>&mut self\<close> operation that returns \<open>Err\<close> leaves the aggregate as it was; \<open>Ok\<close> carries the
  event to persist. \<open>run_ops\<close> applies a sequence of operations and collects the events.
\<close>

fun run_ops :: "('s \<Rightarrow> 'op \<Rightarrow> 'e + 's \<times> 'ev) \<Rightarrow> 's \<Rightarrow> 'op list \<Rightarrow> 's \<times> 'ev list" where
  "run_ops f s [] = (s, [])"
| "run_ops f s (x # xs) =
     (case f s x of
        Inl e \<Rightarrow> run_ops f s xs
      | Inr (s', ev) \<Rightarrow> (case run_ops f s' xs of (s'', evs) \<Rightarrow> (s'', ev # evs)))"

lemma run_ops_induct:
  assumes "P s"
    and "\<And>s x s' ev. P s \<Longrightarrow> f s x = Inr (s', ev) \<Longrightarrow> P s'"
  shows "P (fst (run_ops f s xs))"
  using assms(1)
proof (induction xs arbitrary: s)
  case (Cons x xs)
  then show ?case
    using assms(2) by (fastforce split: sum.splits prod.splits)
qed simp

lemma run_ops_append:
  "run_ops f s (xs @ ys) =
     (case run_ops f s xs of (s', es) \<Rightarrow> case run_ops f s' ys of (s'', es') \<Rightarrow> (s'', es @ es'))"
  by (induction xs arbitrary: s) (auto split: sum.splits prod.splits)

lemma run_ops_trace_induct:
  assumes "P s0 []"
    and "\<And>s evs x s' ev. P s evs \<Longrightarrow> f s x = Inr (s', ev) \<Longrightarrow> P s' (evs @ [ev])"
  shows "P (fst (run_ops f s0 xs)) (snd (run_ops f s0 xs))"
proof (induction xs rule: rev_induct)
  case Nil
  then show ?case by (simp add: assms(1))
next
  case (snoc x xs)
  then show ?case
    using assms(2) by (fastforce simp: run_ops_append split: sum.splits prod.splits)
qed

locale versioned_aggregate =
  fixes apply_op :: "'s \<Rightarrow> 'op \<Rightarrow> 'e + 's \<times> 'ev"
    and version_of :: "'s \<Rightarrow> u64"
    and event_version :: "'ev \<Rightarrow> u64"
  assumes op_version: "apply_op s x = Inr (s', ev) \<Longrightarrow> version_of s' = version_of s + 1"
    and op_event_version: "apply_op s x = Inr (s', ev) \<Longrightarrow> event_version ev = version_of s'"
begin

lemma run_version:
  "version_of (fst (run_ops apply_op s xs)) = version_of s + of_nat (length (snd (run_ops apply_op s xs)))"
proof (induction xs arbitrary: s)
  case (Cons x xs)
  show ?case
  proof (cases "apply_op s x")
    case (Inl e)
    then show ?thesis by (simp add: Cons.IH)
  next
    case (Inr r)
    obtain s' ev where r: "r = (s', ev)" by (cases r)
    with Inr Cons.IH [of s'] op_version [of s x s' ev] show ?thesis
      by (simp add: case_prod_unfold algebra_simps)
  qed
qed simp

lemma run_event_versions:
  "map event_version (snd (run_ops apply_op s xs)) =
     map (\<lambda>i. version_of s + of_nat (Suc i)) [0..<length (snd (run_ops apply_op s xs))]"
proof (induction xs arbitrary: s)
  case (Cons x xs)
  show ?case
  proof (cases "apply_op s x")
    case (Inl e)
    then show ?thesis by (simp add: Cons.IH)
  next
    case (Inr r)
    obtain s' ev where r: "r = (s', ev)" by (cases r)
    let ?n = "length (snd (run_ops apply_op s' xs))"
    have "[0..<Suc ?n] = 0 # map Suc [0..<?n]"
      by (simp add: map_Suc_upt upt_conv_Cons del: upt_Suc)
    with Inr r Cons.IH [of s'] op_version [of s x s' ev] op_event_version [of s x s' ev]
    show ?thesis
      by (simp add: case_prod_unfold algebra_simps del: upt_Suc)
  qed
qed simp

end

locale status_machine = versioned_aggregate apply_op version_of event_version
  for apply_op :: "'s \<Rightarrow> 'op \<Rightarrow> 'e + 's \<times> 'ev"
    and version_of :: "'s \<Rightarrow> u64"
    and event_version :: "'ev \<Rightarrow> u64" +
  fixes status_of :: "'s \<Rightarrow> 'st"
    and allowed :: "'st \<Rightarrow> 'st \<Rightarrow> bool"
  assumes op_status: "apply_op s x = Inr (s', ev) \<Longrightarrow>
    status_of s' = status_of s \<or> allowed (status_of s) (status_of s')"
begin

lemma run_status_path: "allowed\<^sup>*\<^sup>* (status_of s) (status_of (fst (run_ops apply_op s xs)))"
proof (rule run_ops_induct [where P = "\<lambda>s'. allowed\<^sup>*\<^sup>* (status_of s) (status_of s')"])
  fix s1 x s2 ev
  assume "allowed\<^sup>*\<^sup>* (status_of s) (status_of s1)" and "apply_op s1 x = Inr (s2, ev)"
  then show "allowed\<^sup>*\<^sup>* (status_of s) (status_of s2)"
    using op_status by (metis rtranclp.rtrancl_into_rtrancl)
qed simp

lemma run_terminal:
  assumes "\<And>t. \<not> allowed (status_of s) t"
  shows "status_of (fst (run_ops apply_op s xs)) = status_of s"
  using run_status_path [of s xs] assms by (metis converse_rtranclpE)

lemma run_closed:
  assumes "P (status_of s)" and "\<And>a b. P a \<Longrightarrow> allowed a b \<Longrightarrow> P b"
  shows "P (status_of (fst (run_ops apply_op s xs)))"
  using run_status_path [of s xs] by (induction rule: rtranclp_induct) (use assms in auto)

end

section \<open>Sequences of checks\<close>

text \<open>A stateful yes/no check applied to a sequence of requests.\<close>

fun run_checks :: "('s \<Rightarrow> 'r \<Rightarrow> 's \<times> bool) \<Rightarrow> 's \<Rightarrow> 'r list \<Rightarrow> 's \<times> bool list" where
  "run_checks f s [] = (s, [])"
| "run_checks f s (r # rs) =
     (case f s r of (s', b) \<Rightarrow> case run_checks f s' rs of (s'', bs) \<Rightarrow> (s'', b # bs))"

lemma length_run_checks [simp]: "length (snd (run_checks f s rs)) = length rs"
proof (induction rs arbitrary: s)
  case (Cons r rs)
  then show ?case by (simp add: case_prod_unfold)
qed simp

text \<open>How many requests of a key were admitted.\<close>

definition admitted :: "('r \<Rightarrow> 'k) \<Rightarrow> 'k \<Rightarrow> 'r list \<Rightarrow> bool list \<Rightarrow> nat" where
  "admitted key k rs bs = length (filter (\<lambda>(r, b). key r = k \<and> b) (zip rs bs))"

definition requests_of :: "('r \<Rightarrow> 'k) \<Rightarrow> 'k \<Rightarrow> 'r list \<Rightarrow> nat" where
  "requests_of key k rs = length (filter (\<lambda>r. key r = k) rs)"

section \<open>Optimistic stores\<close>

text \<open>
  A store of aggregates with versions: a write carries the key and the version it wants to reach,
  is applied only on top of the version before, and changes no other aggregate.
\<close>

locale versioned_store =
  fixes ok :: "'db \<Rightarrow> bool"
    and lookup :: "'db \<Rightarrow> 'k \<Rightarrow> 'a option"
    and version_of :: "'a \<Rightarrow> 'v::len word"
    and save :: "'db \<Rightarrow> 'w \<Rightarrow> 'db \<times> bool"
    and write_key :: "'w \<Rightarrow> 'k"
    and write_version :: "'w \<Rightarrow> 'v::len word"
  assumes save_ok: "ok db \<Longrightarrow> ok (fst (save db w))"
    and save_refused: "ok db \<Longrightarrow> \<not> snd (save db w) \<Longrightarrow> fst (save db w) = db"
    and save_applied: "ok db \<Longrightarrow> snd (save db w) \<Longrightarrow>
      \<exists>a0 a1. lookup db (write_key w) = Some a0 \<and> version_of a0 + 1 = write_version w \<and>
              lookup (fst (save db w)) (write_key w) = Some a1 \<and> version_of a1 = write_version w"
    and save_frame: "ok db \<Longrightarrow> k \<noteq> write_key w \<Longrightarrow> lookup (fst (save db w)) k = lookup db k"
begin

lemma stale_refused:
  "ok db \<Longrightarrow> lookup db (write_key w) = Some a \<Longrightarrow> version_of a + 1 \<noteq> write_version w \<Longrightarrow> \<not> snd (save db w)"
  using save_applied by fastforce

lemma missing_refused: "ok db \<Longrightarrow> lookup db (write_key w) = None \<Longrightarrow> \<not> snd (save db w)"
  using save_applied by fastforce

lemma save_version:
  assumes "ok db" and "lookup db k = Some a"
  shows "\<exists>a'. lookup (fst (save db w)) k = Some a' \<and>
    version_of a' = version_of a + (if write_key w = k \<and> snd (save db w) then 1 else 0)"
  using assms save_refused [of db w] save_applied [of db w] save_frame [of db k w]
  by (cases "write_key w = k"; cases "snd (save db w)") auto

lemma run_ok: "ok db \<Longrightarrow> ok (fst (run_checks save db ws))"
  by (induction ws arbitrary: db) (simp_all add: case_prod_unfold save_ok)

lemma run_version:
  "ok db \<Longrightarrow> lookup db k = Some a \<Longrightarrow>
   \<exists>a'. lookup (fst (run_checks save db ws)) k = Some a' \<and>
        version_of a' = version_of a + of_nat (admitted write_key k ws (snd (run_checks save db ws)))"
proof (induction ws arbitrary: db a)
  case Nil
  then show ?case by (simp add: admitted_def)
next
  case (Cons w ws)
  obtain a1 where a1: "lookup (fst (save db w)) k = Some a1"
    "version_of a1 = version_of a + (if write_key w = k \<and> snd (save db w) then 1 else 0)"
    using save_version [OF Cons.prems] by blast
  from Cons.IH [OF save_ok [OF Cons.prems(1)] a1(1)] a1(2) show ?case
    by (auto simp: case_prod_unfold admitted_def algebra_simps)
qed

text \<open>While a key has reached a version, no write for that version is applied again (until the
  version wraps).\<close>

lemma reached_refused:
  assumes "ok db" and "lookup db k = Some a" and "version_of a = v + of_nat n"
    and "n + length ws < 2 ^ LENGTH('v)"
  shows "admitted (\<lambda>w. (write_key w, write_version w)) (k, v) ws (snd (run_checks save db ws)) = 0"
  using assms
proof (induction ws arbitrary: db a n)
  case Nil
  then show ?case by (simp add: admitted_def)
next
  case (Cons w ws)
  have "\<not> snd (save db w)" if "write_key w = k" "write_version w = v"
  proof -
    have "(of_nat (Suc n) :: 'v word) \<noteq> 0"
    proof
      assume "(of_nat (Suc n) :: 'v word) = 0"
      then have "2 ^ LENGTH('v) dvd Suc n" by (simp only: word_of_nat_eq_0_iff)
      then have "2 ^ LENGTH('v) \<le> Suc n" by (rule dvd_imp_le) simp
      with Cons.prems(4) show False by simp
    qed
    then have "version_of a + 1 \<noteq> v"
      using Cons.prems(3) by (simp add: add.assoc add.commute)
    then show ?thesis using stale_refused [OF Cons.prems(1)] Cons.prems(2) that by blast
  qed
  moreover obtain a1 where a1: "lookup (fst (save db w)) k = Some a1"
    "version_of a1 = v + of_nat (n + (if write_key w = k \<and> snd (save db w) then 1 else 0))"
    using save_version [OF Cons.prems(1,2), of w] Cons.prems(3) by (auto simp: algebra_simps)
  moreover have small: "n + (if write_key w = k \<and> snd (save db w) then 1 else 0) + length ws < 2 ^ LENGTH('v)"
    using Cons.prems(4) by auto
  ultimately show ?case
    using Cons.IH [OF save_ok [OF Cons.prems(1)] a1 small]
    by (auto simp: case_prod_unfold admitted_def simp del: of_nat_add)
qed

lemma one_write_per_version:
  "ok db \<Longrightarrow> length ws < 2 ^ LENGTH('v) \<Longrightarrow>
   admitted (\<lambda>w. (write_key w, write_version w)) (k, v) ws (snd (run_checks save db ws)) \<le> 1"
proof (induction ws arbitrary: db)
  case Nil
  then show ?case by (simp add: admitted_def)
next
  case (Cons w ws)
  have ok': "ok (fst (save db w))" using Cons.prems(1) by (rule save_ok)
  show ?case
  proof (cases "snd (save db w) \<and> write_key w = k \<and> write_version w = v")
    case True
    then obtain a1 where a1: "lookup (fst (save db w)) k = Some a1" "version_of a1 = v + of_nat 0"
      using save_applied [OF Cons.prems(1), of w] by auto
    from reached_refused [OF ok' a1, of ws] Cons.prems(2) True show ?thesis
      by (simp add: case_prod_unfold admitted_def)
  next
    case False
    with Cons.IH [OF ok'] Cons.prems(2) show ?thesis
      by (auto simp: case_prod_unfold admitted_def)
  qed
qed

end

end
