(* ===== verification/Case_Model.thy ===== *)
theory Case_Model
  imports Sentinel_Contracts
begin

text \<open>
  The case aggregate (\<open>crates/domain/src/case.rs\<close>): incident types, the status graph, the
  events, creation, linking of further reports and status transitions.
\<close>

section \<open>Incident types, statuses, events\<close>

datatype incident_type = IncidentType_MissingChild | IncidentType_OtherProtectionIncident

fun incident_type_to_db :: "incident_type \<Rightarrow> rstring" where
  "incident_type_to_db IncidentType_MissingChild = lit ''MISSING_CHILD''"
| "incident_type_to_db IncidentType_OtherProtectionIncident = lit ''OTHER_PROTECTION_INCIDENT''"

definition incident_type_from_db :: "rstring \<Rightarrow> incident_type option" where
  "incident_type_from_db v =
     (if v = lit ''MISSING_CHILD'' then Some IncidentType_MissingChild
      else if v = lit ''OTHER_PROTECTION_INCIDENT'' then Some IncidentType_OtherProtectionIncident
      else None)"

interpretation incident_type_db: db_enum incident_type_to_db incident_type_from_db
proof unfold_locales
  show "incident_type_from_db (incident_type_to_db x) = Some x" for x
    by (cases x) (simp_all add: incident_type_from_db_def)
  show "incident_type_from_db v = Some x \<Longrightarrow> incident_type_to_db x = v" for v x
    by (auto simp: incident_type_from_db_def split: if_splits)
qed

datatype case_status = CaseStatus_Reported | CaseStatus_UnderReview | CaseStatus_Verified
  | CaseStatus_Active | CaseStatus_Resolved | CaseStatus_Cancelled | CaseStatus_Rejected

fun case_status_to_db :: "case_status \<Rightarrow> rstring" where
  "case_status_to_db CaseStatus_Reported = lit ''REPORTED''"
| "case_status_to_db CaseStatus_UnderReview = lit ''UNDER_REVIEW''"
| "case_status_to_db CaseStatus_Verified = lit ''VERIFIED''"
| "case_status_to_db CaseStatus_Active = lit ''ACTIVE''"
| "case_status_to_db CaseStatus_Resolved = lit ''RESOLVED''"
| "case_status_to_db CaseStatus_Cancelled = lit ''CANCELLED''"
| "case_status_to_db CaseStatus_Rejected = lit ''REJECTED''"

definition case_status_from_db :: "rstring \<Rightarrow> case_status option" where
  "case_status_from_db v =
     (if v = lit ''REPORTED'' then Some CaseStatus_Reported
      else if v = lit ''UNDER_REVIEW'' then Some CaseStatus_UnderReview
      else if v = lit ''VERIFIED'' then Some CaseStatus_Verified
      else if v = lit ''ACTIVE'' then Some CaseStatus_Active
      else if v = lit ''RESOLVED'' then Some CaseStatus_Resolved
      else if v = lit ''CANCELLED'' then Some CaseStatus_Cancelled
      else if v = lit ''REJECTED'' then Some CaseStatus_Rejected
      else None)"

interpretation case_status_db: db_enum case_status_to_db case_status_from_db
proof unfold_locales
  show "case_status_from_db (case_status_to_db x) = Some x" for x
    by (cases x) (simp_all add: case_status_from_db_def)
  show "case_status_from_db v = Some x \<Longrightarrow> case_status_to_db x = v" for v x
    by (auto simp: case_status_from_db_def split: if_splits)
qed

datatype case_event_type = CaseEventType_CaseCreated | CaseEventType_CaseReportLinked
  | CaseEventType_CaseUnderReview | CaseEventType_CaseVerified | CaseEventType_CaseActivated
  | CaseEventType_CaseResolved | CaseEventType_CaseCancelled | CaseEventType_CaseRejected

fun case_event_type_to_db :: "case_event_type \<Rightarrow> rstring" where
  "case_event_type_to_db CaseEventType_CaseCreated = lit ''CASE_CREATED''"
| "case_event_type_to_db CaseEventType_CaseReportLinked = lit ''CASE_REPORT_LINKED''"
| "case_event_type_to_db CaseEventType_CaseUnderReview = lit ''CASE_UNDER_REVIEW''"
| "case_event_type_to_db CaseEventType_CaseVerified = lit ''CASE_VERIFIED''"
| "case_event_type_to_db CaseEventType_CaseActivated = lit ''CASE_ACTIVATED''"
| "case_event_type_to_db CaseEventType_CaseResolved = lit ''CASE_RESOLVED''"
| "case_event_type_to_db CaseEventType_CaseCancelled = lit ''CASE_CANCELLED''"
| "case_event_type_to_db CaseEventType_CaseRejected = lit ''CASE_REJECTED''"

definition case_event_type_from_db :: "rstring \<Rightarrow> case_event_type option" where
  "case_event_type_from_db v =
     (if v = lit ''CASE_CREATED'' then Some CaseEventType_CaseCreated
      else if v = lit ''CASE_REPORT_LINKED'' then Some CaseEventType_CaseReportLinked
      else if v = lit ''CASE_UNDER_REVIEW'' then Some CaseEventType_CaseUnderReview
      else if v = lit ''CASE_VERIFIED'' then Some CaseEventType_CaseVerified
      else if v = lit ''CASE_ACTIVATED'' then Some CaseEventType_CaseActivated
      else if v = lit ''CASE_RESOLVED'' then Some CaseEventType_CaseResolved
      else if v = lit ''CASE_CANCELLED'' then Some CaseEventType_CaseCancelled
      else if v = lit ''CASE_REJECTED'' then Some CaseEventType_CaseRejected
      else None)"

interpretation case_event_type_db: db_enum case_event_type_to_db case_event_type_from_db
proof unfold_locales
  show "case_event_type_from_db (case_event_type_to_db x) = Some x" for x
    by (cases x) (simp_all add: case_event_type_from_db_def)
  show "case_event_type_from_db v = Some x \<Longrightarrow> case_event_type_to_db x = v" for v x
    by (auto simp: case_event_type_from_db_def split: if_splits)
qed

section \<open>The aggregate\<close>

record incident_case =
  case_id :: case_id
  case_incident_type :: incident_type
  case_status :: case_status
  case_report_ids :: "report_id list"
  case_version :: u64

record case_event =
  case_event_id :: case_event_id
  case_event_case_id :: case_id
  case_event_type :: case_event_type
  case_event_version :: u64

text \<open>
  The failures of a status change: the \<open>TransitionError\<close> the code returns, and the panic of the
  \<open>unreachable!\<close> arm of \<open>event_for\<close>.
\<close>

datatype transition_error = TransitionError case_status case_status | TransitionPanic

datatype duplicate_report_link = DuplicateReportLink case_id report_id

definition case_new_event :: "incident_case \<Rightarrow> case_event_type \<Rightarrow> uuid \<Rightarrow> case_event" where
  "case_new_event c t ev_id =
     \<lparr>case_event_id = CaseEventId ev_id, case_event_case_id = case_id c,
      case_event_type = t, case_event_version = case_version c\<rparr>"

definition case_create ::
  "incident_type \<Rightarrow> report_id \<Rightarrow> uuid \<Rightarrow> uuid \<Rightarrow> incident_case \<times> case_event" where
  "case_create it first_report new_id ev_id =
     (let c = \<lparr>case_id = CaseId new_id, case_incident_type = it,
               case_status = CaseStatus_Reported, case_report_ids = [first_report],
               case_version = 1\<rparr>
      in (c, case_new_event c CaseEventType_CaseCreated ev_id))"

definition case_reconstitute ::
  "case_id \<Rightarrow> incident_type \<Rightarrow> case_status \<Rightarrow> report_id list \<Rightarrow> u64 \<Rightarrow> incident_case" where
  "case_reconstitute i it st rs v =
     \<lparr>case_id = i, case_incident_type = it, case_status = st, case_report_ids = rs,
      case_version = v\<rparr>"

definition case_link_report ::
  "incident_case \<Rightarrow> report_id \<Rightarrow> uuid \<Rightarrow> duplicate_report_link + incident_case \<times> case_event" where
  "case_link_report c r ev_id =
     (if r \<in> set (case_report_ids c) then Inl (DuplicateReportLink (case_id c) r)
      else let c' = c\<lparr>case_report_ids := case_report_ids c @ [r],
                      case_version := case_version c + 1\<rparr>
           in Inr (c', case_new_event c' CaseEventType_CaseReportLinked ev_id))"

definition is_allowed_transition :: "case_status \<Rightarrow> case_status \<Rightarrow> bool" where
  "is_allowed_transition from to \<longleftrightarrow>
     (from, to) \<in> {(CaseStatus_Reported, CaseStatus_UnderReview),
                   (CaseStatus_UnderReview, CaseStatus_Verified),
                   (CaseStatus_UnderReview, CaseStatus_Rejected),
                   (CaseStatus_Verified, CaseStatus_Active),
                   (CaseStatus_Verified, CaseStatus_Cancelled),
                   (CaseStatus_Active, CaseStatus_Resolved),
                   (CaseStatus_Active, CaseStatus_Cancelled)}"

fun event_for :: "case_status \<Rightarrow> case_event_type option" where
  "event_for CaseStatus_UnderReview = Some CaseEventType_CaseUnderReview"
| "event_for CaseStatus_Verified = Some CaseEventType_CaseVerified"
| "event_for CaseStatus_Active = Some CaseEventType_CaseActivated"
| "event_for CaseStatus_Resolved = Some CaseEventType_CaseResolved"
| "event_for CaseStatus_Cancelled = Some CaseEventType_CaseCancelled"
| "event_for CaseStatus_Rejected = Some CaseEventType_CaseRejected"
| "event_for CaseStatus_Reported = None"

definition case_transition_to ::
  "incident_case \<Rightarrow> case_status \<Rightarrow> uuid \<Rightarrow> transition_error + incident_case \<times> case_event" where
  "case_transition_to c next_status ev_id =
     (if \<not> is_allowed_transition (case_status c) next_status
      then Inl (TransitionError (case_status c) next_status)
      else let c' = c\<lparr>case_status := next_status, case_version := case_version c + 1\<rparr>
           in case event_for next_status of
                None \<Rightarrow> Inl TransitionPanic
              | Some t \<Rightarrow> Inr (c', case_new_event c' t ev_id))"

section \<open>Operations and invariant\<close>

text \<open>The two mutating methods as one operation type, with the event id each call draws.\<close>

datatype case_op = CaseOp_Link report_id uuid | CaseOp_Transition case_status uuid

datatype case_failure = CaseFailure_Link duplicate_report_link | CaseFailure_Transition transition_error

fun case_apply :: "incident_case \<Rightarrow> case_op \<Rightarrow> case_failure + incident_case \<times> case_event" where
  "case_apply c (CaseOp_Link r e) = map_err CaseFailure_Link (case_link_report c r e)"
| "case_apply c (CaseOp_Transition s e) = map_err CaseFailure_Transition (case_transition_to c s e)"

definition case_wf :: "incident_case \<Rightarrow> bool" where
  "case_wf c \<longleftrightarrow> case_report_ids c \<noteq> [] \<and> distinct (case_report_ids c)"

lemma allowed_event_for: "is_allowed_transition a b \<Longrightarrow> \<exists>t. event_for b = Some t"
  by (cases b) (auto simp: is_allowed_transition_def)

lemma case_transition_to_Inr [result_simps]:
  "case_transition_to c s e = Inr (c', ev) \<longleftrightarrow>
     is_allowed_transition (case_status c) s \<and>
     c' = c\<lparr>case_status := s, case_version := case_version c + 1\<rparr> \<and>
     (\<exists>t. event_for s = Some t \<and> ev = case_new_event c' t e)"
  by (auto simp: case_transition_to_def Let_def split: option.splits)

lemma case_transition_to_Inl [result_simps]:
  "case_transition_to c s e = Inl er \<longleftrightarrow>
     \<not> is_allowed_transition (case_status c) s \<and> er = TransitionError (case_status c) s"
proof (cases "is_allowed_transition (case_status c) s")
  case True
  then obtain t where "event_for s = Some t" using allowed_event_for by blast
  with True show ?thesis by (simp add: case_transition_to_def Let_def)
next
  case False
  then show ?thesis by (auto simp: case_transition_to_def)
qed

lemma case_link_report_Inr [result_simps]:
  "case_link_report c r e = Inr (c', ev) \<longleftrightarrow>
     r \<notin> set (case_report_ids c) \<and>
     c' = c\<lparr>case_report_ids := case_report_ids c @ [r], case_version := case_version c + 1\<rparr> \<and>
     ev = case_new_event c' CaseEventType_CaseReportLinked e"
  by (auto simp: case_link_report_def Let_def)

lemma case_new_event_simps [simp]:
  "case_event_id (case_new_event c t e) = CaseEventId e"
  "case_event_case_id (case_new_event c t e) = case_id c"
  "case_event_type (case_new_event c t e) = t"
  "case_event_version (case_new_event c t e) = case_version c"
  by (simp_all add: case_new_event_def)

lemma case_apply_wf [wf_intros]: "case_wf c \<Longrightarrow> case_apply c x = Inr (c', ev) \<Longrightarrow> case_wf c'"
  by (cases x) (auto simp: case_wf_def result_simps)

lemma case_apply_frame [frame_simps]:
  "case_apply c x = Inr (c', ev) \<Longrightarrow>
     case_id c' = case_id c \<and> case_incident_type c' = case_incident_type c \<and>
     prefix (case_report_ids c) (case_report_ids c')"
  by (cases x) (auto simp: result_simps)

interpretation case_machine: status_machine case_apply case_version case_event_version case_status
  is_allowed_transition
proof unfold_locales
  fix c x c' and ev :: case_event
  assume *: "case_apply c x = Inr (c', ev)"
  show "case_version c' = case_version c + 1"
    using * by (cases x) (auto simp: result_simps)
  show "case_event_version ev = case_version c'"
    using * by (cases x) (auto simp: result_simps)
  show "case_status c' = case_status c \<or> is_allowed_transition (case_status c) (case_status c')"
    using * by (cases x) (auto simp: result_simps)
qed

lemma case_terminal_no_exit:
  "s \<in> {CaseStatus_Resolved, CaseStatus_Cancelled, CaseStatus_Rejected} \<Longrightarrow> \<not> is_allowed_transition s t"
  by (auto simp: is_allowed_transition_def)

text \<open>What a run has to show in its events before the case counts as verified.\<close>

definition is_verified_or_later :: "case_status \<Rightarrow> bool" where
  "is_verified_or_later s \<longleftrightarrow> s \<in> {CaseStatus_Verified, CaseStatus_Active, CaseStatus_Resolved}"

definition verified_witnessed :: "incident_case \<Rightarrow> case_event list \<Rightarrow> bool" where
  "verified_witnessed c evs \<longleftrightarrow>
     (is_verified_or_later (case_status c) \<or> case_status c = CaseStatus_Cancelled \<longrightarrow>
        CaseEventType_CaseVerified \<in> case_event_type ` set evs)"

lemma verified_witnessed_step:
  "verified_witnessed c evs \<Longrightarrow> case_apply c x = Inr (c', ev) \<Longrightarrow> verified_witnessed c' (evs @ [ev])"
  by (cases x)
     (auto simp: verified_witnessed_def is_verified_or_later_def result_simps is_allowed_transition_def)

section \<open>Properties\<close>


text \<open>A transition is accepted exactly on the allowed edges; it then changes the status, adds one
  to the version and emits the event of the target status. Otherwise the error names both statuses,
  and the lookup of the event never fails. Resolved, cancelled and rejected cases never change status
  again, whatever is applied to them.\<close>

theorem case_transition_exact:
  "(case_transition_to c s e = Inr (c', ev) \<longleftrightarrow>
      is_allowed_transition (case_status c) s \<and>
      c' = c\<lparr>case_status := s, case_version := case_version c + 1\<rparr> \<and>
      (\<exists>t. event_for s = Some t \<and>
         ev = \<lparr>case_event_id = CaseEventId e, case_event_case_id = case_id c, case_event_type = t,
               case_event_version = case_version c + 1\<rparr>)) \<and>
   (case_transition_to c s e = Inl er \<longleftrightarrow>
      \<not> is_allowed_transition (case_status c) s \<and> er = TransitionError (case_status c) s) \<and>
   (case_status c \<in> {CaseStatus_Resolved, CaseStatus_Cancelled, CaseStatus_Rejected} \<longrightarrow>
      case_status (fst (run_ops case_apply c xs)) = case_status c)"
  using case_machine.run_terminal [of c xs] case_terminal_no_exit
  by (auto simp: case_transition_to_Inr case_transition_to_Inl case_new_event_def)

theorem case_transition_exact_witness:
  "\<exists>c. case_status c = CaseStatus_Rejected \<and>
     case_status (fst (run_ops case_apply c [CaseOp_Transition CaseStatus_Verified 1])) = CaseStatus_Rejected"
  using case_transition_exact [of "\<lparr>case_id = CaseId 1, case_incident_type = IncidentType_MissingChild,
      case_status = CaseStatus_Rejected, case_report_ids = [ReportId 2], case_version = 3\<rparr>"
      CaseStatus_Verified 1 undefined undefined undefined "[CaseOp_Transition CaseStatus_Verified 1]"]
  by (intro exI [of _ "\<lparr>case_id = CaseId 1, case_incident_type = IncidentType_MissingChild,
      case_status = CaseStatus_Rejected, case_report_ids = [ReportId 2], case_version = 3\<rparr>"]) simp

end
