(* ===== verification/Report_Model.thy ===== *)
theory Report_Model
  imports Case_Model
begin

text \<open>
  Anonymous reports (\<open>crates/domain/src/report.rs\<close>), the fields an extraction suggests
  (\<open>extraction.rs\<close>), generated descriptions (\<open>description_generation.rs\<close>), and the use case that
  prepares a submission (\<open>crates/application/src/lib.rs\<close>). SHA-256 and the text form of a UUID come
  from other crates and are arguments.
\<close>

section \<open>Channels and statuses\<close>

datatype report_source_channel = ReportSourceChannel_Web | ReportSourceChannel_Sms
  | ReportSourceChannel_Whatsapp | ReportSourceChannel_Phone | ReportSourceChannel_PartnerApi

fun report_source_channel_to_db :: "report_source_channel \<Rightarrow> rstring" where
  "report_source_channel_to_db ReportSourceChannel_Web = lit ''WEB''"
| "report_source_channel_to_db ReportSourceChannel_Sms = lit ''SMS''"
| "report_source_channel_to_db ReportSourceChannel_Whatsapp = lit ''WHATSAPP''"
| "report_source_channel_to_db ReportSourceChannel_Phone = lit ''PHONE''"
| "report_source_channel_to_db ReportSourceChannel_PartnerApi = lit ''PARTNER_API''"

definition report_source_channel_from_db :: "rstring \<Rightarrow> report_source_channel option" where
  "report_source_channel_from_db v =
     (if v = lit ''WEB'' then Some ReportSourceChannel_Web
      else if v = lit ''SMS'' then Some ReportSourceChannel_Sms
      else if v = lit ''WHATSAPP'' then Some ReportSourceChannel_Whatsapp
      else if v = lit ''PHONE'' then Some ReportSourceChannel_Phone
      else if v = lit ''PARTNER_API'' then Some ReportSourceChannel_PartnerApi
      else None)"

interpretation report_source_channel_db: db_enum report_source_channel_to_db report_source_channel_from_db
proof unfold_locales
  show "report_source_channel_from_db (report_source_channel_to_db x) = Some x" for x
    by (cases x) (simp_all add: report_source_channel_from_db_def)
  show "report_source_channel_from_db v = Some x \<Longrightarrow> report_source_channel_to_db x = v" for v x
    by (auto simp: report_source_channel_from_db_def split: if_splits)
qed

datatype report_status = ReportStatus_Received | ReportStatus_UnderReview
  | ReportStatus_LinkedToCase | ReportStatus_Closed

fun report_status_to_db :: "report_status \<Rightarrow> rstring" where
  "report_status_to_db ReportStatus_Received = lit ''RECEIVED''"
| "report_status_to_db ReportStatus_UnderReview = lit ''UNDER_REVIEW''"
| "report_status_to_db ReportStatus_LinkedToCase = lit ''LINKED_TO_CASE''"
| "report_status_to_db ReportStatus_Closed = lit ''CLOSED''"

definition report_status_from_db :: "rstring \<Rightarrow> report_status option" where
  "report_status_from_db v =
     (if v = lit ''RECEIVED'' then Some ReportStatus_Received
      else if v = lit ''UNDER_REVIEW'' then Some ReportStatus_UnderReview
      else if v = lit ''LINKED_TO_CASE'' then Some ReportStatus_LinkedToCase
      else if v = lit ''CLOSED'' then Some ReportStatus_Closed
      else None)"

interpretation report_status_db: db_enum report_status_to_db report_status_from_db
proof unfold_locales
  show "report_status_from_db (report_status_to_db x) = Some x" for x
    by (cases x) (simp_all add: report_status_from_db_def)
  show "report_status_from_db v = Some x \<Longrightarrow> report_status_to_db x = v" for v x
    by (auto simp: report_status_from_db_def split: if_splits)
qed

record anonymous_report =
  report_id :: report_id
  report_source_channel :: report_source_channel
  report_raw_content :: rstring
  report_incident_type :: "incident_type option"

section \<open>Extracted fields\<close>

record extracted_report_fields =
  extracted_person_description :: "rstring option"
  extracted_age :: "rstring option"
  extracted_time :: "rstring option"
  extracted_place :: "rstring option"
  extracted_incident_category :: "rstring option"
  extracted_vehicle_details :: "rstring option"
  extracted_contact_request :: "rstring option"

definition normalize_text :: "rstring option \<Rightarrow> rstring option" where
  "normalize_text value =
     Option.bind value (\<lambda>v. let trimmed = trim v in if trimmed = [] then None else Some trimmed)"

definition extracted_new ::
  "rstring option \<Rightarrow> rstring option \<Rightarrow> rstring option \<Rightarrow> rstring option \<Rightarrow> rstring option \<Rightarrow>
   rstring option \<Rightarrow> rstring option \<Rightarrow> extracted_report_fields" where
  "extracted_new person age time place category vehicle contact =
     \<lparr>extracted_person_description = normalize_text person,
      extracted_age = normalize_text age,
      extracted_time = normalize_text time,
      extracted_place = normalize_text place,
      extracted_incident_category = normalize_text category,
      extracted_vehicle_details = normalize_text vehicle,
      extracted_contact_request = normalize_text contact\<rparr>"

definition extracted_is_empty :: "extracted_report_fields \<Rightarrow> bool" where
  "extracted_is_empty f \<longleftrightarrow>
     extracted_person_description f = None \<and> extracted_age f = None \<and> extracted_time f = None
     \<and> extracted_place f = None \<and> extracted_incident_category f = None
     \<and> extracted_vehicle_details f = None \<and> extracted_contact_request f = None"

record generated_description =
  description_en :: rstring
  description_fr :: rstring

lemma normalize_text_None_iff: "normalize_text v = None \<longleftrightarrow> (\<forall>s. v = Some s \<longrightarrow> is_blank s)"
  by (cases v) (auto simp: normalize_text_def Let_def trim_Nil_iff)

lemma normalize_text_Some:
  "normalize_text v = Some t \<longleftrightarrow> (\<exists>s. v = Some s \<and> \<not> is_blank s \<and> t = trim s)"
  by (cases v) (auto simp: normalize_text_def Let_def trim_Nil_iff)

lemma normalize_text_idem [simp]: "normalize_text (normalize_text v) = normalize_text v"
  by (cases v) (auto simp: normalize_text_def Let_def)

section \<open>Submitting a report\<close>

definition MAX_REPORT_CONTENT_CHARS :: nat where
  "MAX_REPORT_CONTENT_CHARS = 10000"

datatype report_validation_error = ReportValidation_EmptyContent | ReportValidation_ContentTooLong

fun report_validation_error_display :: "report_validation_error \<Rightarrow> rstring" where
  "report_validation_error_display ReportValidation_EmptyContent = lit ''report content cannot be blank''"
| "report_validation_error_display ReportValidation_ContentTooLong =
     lit ''report content exceeds the allowed length''"

record report_submission =
  submission_report :: anonymous_report
  submission_reference_code :: rstring
  submission_reference_code_hash :: bytes
  submission_idempotency_key_hash :: "bytes option"
  submission_audit_event_id :: audit_event_id
  submission_outbox_event_id :: outbox_event_id
  submission_request_id :: uuid

text \<open>
  \<open>ids\<close> are the UUIDs drawn in the order of the code: the reference token, the report id, the
  audit event id, the outbox event id.
\<close>

definition prepare_anonymous_report ::
  "(uuid \<Rightarrow> rstring) \<Rightarrow> (rstring \<Rightarrow> bytes) \<Rightarrow> rstring \<Rightarrow> uuid \<Rightarrow> rstring option \<Rightarrow> incident_type option \<Rightarrow>
   uuid \<times> uuid \<times> uuid \<times> uuid \<Rightarrow> report_validation_error + report_submission" where
  "prepare_anonymous_report show_uuid sha256 raw_content request_id idempotency_key reported ids =
     (let normalized = trim raw_content; (token, rid, aid, oid) = ids in
      if normalized = [] then Inl ReportValidation_EmptyContent
      else if MAX_REPORT_CONTENT_CHARS < length normalized then Inl ReportValidation_ContentTooLong
      else let reference_code = lit ''SC-'' @ show_uuid token in
           Inr \<lparr>submission_report =
                  \<lparr>report_id = ReportId rid, report_source_channel = ReportSourceChannel_Web,
                   report_raw_content = normalized, report_incident_type = reported\<rparr>,
                submission_reference_code = reference_code,
                submission_reference_code_hash = sha256 reference_code,
                submission_idempotency_key_hash = map_option sha256 idempotency_key,
                submission_audit_event_id = AuditEventId aid,
                submission_outbox_event_id = OutboxEventId oid,
                submission_request_id = request_id\<rparr>)"

definition report_submitted_event_payload :: "(uuid \<Rightarrow> rstring) \<Rightarrow> report_submission \<Rightarrow> json" where
  "report_submitted_event_payload show_uuid s =
     JObj [(lit ''report_id'', JStr (show_uuid (report_uuid (report_id (submission_report s))))),
           (lit ''source_channel'',
            JStr (report_source_channel_to_db (report_source_channel (submission_report s))))]"

lemma prepare_anonymous_report_Inl:
  "prepare_anonymous_report su sha raw rq key rep ids = Inl e \<longleftrightarrow>
     (is_blank raw \<and> e = ReportValidation_EmptyContent
      \<or> \<not> is_blank raw \<and> 10000 < length (trim raw) \<and> e = ReportValidation_ContentTooLong)"
  by (auto simp: prepare_anonymous_report_def Let_def trim_Nil_iff MAX_REPORT_CONTENT_CHARS_def
      split: prod.splits if_splits)

lemma prepare_anonymous_report_Inr:
  assumes "prepare_anonymous_report su sha raw rq key rep (token, rid, aid, oid) = Inr s"
  shows "\<not> is_blank raw" "length (trim raw) \<le> 10000"
    and "submission_report s = \<lparr>report_id = ReportId rid, report_source_channel = ReportSourceChannel_Web,
           report_raw_content = trim raw, report_incident_type = rep\<rparr>"
    and "submission_reference_code s = lit ''SC-'' @ su token"
    and "submission_reference_code_hash s = sha (submission_reference_code s)"
    and "submission_idempotency_key_hash s = map_option sha key"
    and "submission_request_id s = rq"
  using assms
  by (auto simp: prepare_anonymous_report_def Let_def MAX_REPORT_CONTENT_CHARS_def trim_Nil_iff
      split: if_splits)

section \<open>Properties\<close>

text \<open>An anonymous report is refused exactly when its trimmed text is empty or longer than 10,000
  characters. An accepted one stores the trimmed text and keeps only hashes of the reference code and
  of the idempotency key, and its outbox payload repeats neither the text nor the reference code.\<close>

theorem report_submission_safe:
  "case prepare_anonymous_report su sha raw rq key rep (token, rid, aid, oid) of
     Inl err \<Rightarrow>
       is_blank raw \<and> err = ReportValidation_EmptyContent \<or>
       \<not> is_blank raw \<and> 10000 < length (trim raw) \<and> err = ReportValidation_ContentTooLong
   | Inr s \<Rightarrow>
       trim raw \<noteq> [] \<and> length (trim raw) \<le> 10000 \<and>
       report_raw_content (submission_report s) = trim raw \<and>
       submission_reference_code_hash s = sha (lit ''SC-'' @ su token) \<and>
       submission_idempotency_key_hash s = map_option sha key \<and>
       json_strings (report_submitted_event_payload su s) = {su rid, lit ''WEB''}"
proof (cases "prepare_anonymous_report su sha raw rq key rep (token, rid, aid, oid)")
  case (Inl err)
  from iffD1 [OF prepare_anonymous_report_Inl this] Inl show ?thesis by simp
next
  case (Inr s)
  from prepare_anonymous_report_Inr [OF this] Inr show ?thesis
    by (auto simp: trim_Nil_iff report_submitted_event_payload_def)
qed

end
