(* ===== verification/Attachment_Model.thy ===== *)
theory Attachment_Model
  imports Report_Model
begin

text \<open>
  Attachment metadata (\<open>crates/domain/src/attachment.rs\<close>) and the preparation of an upload behind
  the storage port (\<open>crates/application/src/attachment_workflow.rs\<close>).
\<close>

section \<open>Providers and content types\<close>

datatype storage_provider = StorageProvider_R2

fun storage_provider_to_db :: "storage_provider \<Rightarrow> rstring" where
  "storage_provider_to_db StorageProvider_R2 = lit ''R2''"

definition storage_provider_from_db :: "rstring \<Rightarrow> storage_provider option" where
  "storage_provider_from_db v = (if v = lit ''R2'' then Some StorageProvider_R2 else None)"

interpretation storage_provider_db: db_enum storage_provider_to_db storage_provider_from_db
proof unfold_locales
  show "storage_provider_from_db (storage_provider_to_db x) = Some x" for x
    by (cases x) (simp_all add: storage_provider_from_db_def)
  show "storage_provider_from_db v = Some x \<Longrightarrow> storage_provider_to_db x = v" for v x
    by (auto simp: storage_provider_from_db_def split: if_splits)
qed

datatype attachment_content_type = ContentType_ImageJpeg | ContentType_ImagePng
  | ContentType_ImageWebp | ContentType_ApplicationPdf | ContentType_AudioMpeg
  | ContentType_AudioOgg | ContentType_VideoMp4

fun content_type_to_mime :: "attachment_content_type \<Rightarrow> rstring" where
  "content_type_to_mime ContentType_ImageJpeg = lit ''image/jpeg''"
| "content_type_to_mime ContentType_ImagePng = lit ''image/png''"
| "content_type_to_mime ContentType_ImageWebp = lit ''image/webp''"
| "content_type_to_mime ContentType_ApplicationPdf = lit ''application/pdf''"
| "content_type_to_mime ContentType_AudioMpeg = lit ''audio/mpeg''"
| "content_type_to_mime ContentType_AudioOgg = lit ''audio/ogg''"
| "content_type_to_mime ContentType_VideoMp4 = lit ''video/mp4''"

definition content_type_from_mime :: "rstring \<Rightarrow> attachment_content_type option" where
  "content_type_from_mime v =
     (if v = lit ''image/jpeg'' then Some ContentType_ImageJpeg
      else if v = lit ''image/png'' then Some ContentType_ImagePng
      else if v = lit ''image/webp'' then Some ContentType_ImageWebp
      else if v = lit ''application/pdf'' then Some ContentType_ApplicationPdf
      else if v = lit ''audio/mpeg'' then Some ContentType_AudioMpeg
      else if v = lit ''audio/ogg'' then Some ContentType_AudioOgg
      else if v = lit ''video/mp4'' then Some ContentType_VideoMp4
      else None)"

interpretation content_type_mime: db_enum content_type_to_mime content_type_from_mime
proof unfold_locales
  show "content_type_from_mime (content_type_to_mime x) = Some x" for x
    by (cases x) (simp_all add: content_type_from_mime_def)
  show "content_type_from_mime v = Some x \<Longrightarrow> content_type_to_mime x = v" for v x
    by (auto simp: content_type_from_mime_def split: if_splits)
qed

fun content_type_to_db :: "attachment_content_type \<Rightarrow> rstring" where
  "content_type_to_db ContentType_ImageJpeg = lit ''IMAGE_JPEG''"
| "content_type_to_db ContentType_ImagePng = lit ''IMAGE_PNG''"
| "content_type_to_db ContentType_ImageWebp = lit ''IMAGE_WEBP''"
| "content_type_to_db ContentType_ApplicationPdf = lit ''APPLICATION_PDF''"
| "content_type_to_db ContentType_AudioMpeg = lit ''AUDIO_MPEG''"
| "content_type_to_db ContentType_AudioOgg = lit ''AUDIO_OGG''"
| "content_type_to_db ContentType_VideoMp4 = lit ''VIDEO_MP4''"

definition content_type_from_db :: "rstring \<Rightarrow> attachment_content_type option" where
  "content_type_from_db v =
     (if v = lit ''IMAGE_JPEG'' then Some ContentType_ImageJpeg
      else if v = lit ''IMAGE_PNG'' then Some ContentType_ImagePng
      else if v = lit ''IMAGE_WEBP'' then Some ContentType_ImageWebp
      else if v = lit ''APPLICATION_PDF'' then Some ContentType_ApplicationPdf
      else if v = lit ''AUDIO_MPEG'' then Some ContentType_AudioMpeg
      else if v = lit ''AUDIO_OGG'' then Some ContentType_AudioOgg
      else if v = lit ''VIDEO_MP4'' then Some ContentType_VideoMp4
      else None)"

interpretation content_type_db: db_enum content_type_to_db content_type_from_db
proof unfold_locales
  show "content_type_from_db (content_type_to_db x) = Some x" for x
    by (cases x) (simp_all add: content_type_from_db_def)
  show "content_type_from_db v = Some x \<Longrightarrow> content_type_to_db x = v" for v x
    by (auto simp: content_type_from_db_def split: if_splits)
qed

section \<open>Attachments\<close>

definition MAX_ATTACHMENT_SIZE_BYTES :: u64 where
  "MAX_ATTACHMENT_SIZE_BYTES = 25 * 1024 * 1024"

datatype attachment_error = Attachment_EmptyObjectKey | Attachment_EmptyChecksum
  | Attachment_ZeroSize | Attachment_SizeExceedsLimit u64

fun attachment_error_display :: "attachment_error \<Rightarrow> rstring" where
  "attachment_error_display Attachment_EmptyObjectKey = lit ''object_key cannot be blank''"
| "attachment_error_display Attachment_EmptyChecksum = lit ''checksum cannot be blank''"
| "attachment_error_display Attachment_ZeroSize = lit ''size_bytes must be greater than zero''"
| "attachment_error_display (Attachment_SizeExceedsLimit m) =
     lit ''size_bytes exceeds the '' @ show_nat (unat m) @ lit ''-byte limit''"

record attachment =
  attachment_id :: attachment_id
  attachment_report_id :: report_id
  attachment_storage_provider :: storage_provider
  attachment_object_key :: rstring
  attachment_content_type :: attachment_content_type
  attachment_size_bytes :: u64
  attachment_checksum :: rstring

definition attachment_new ::
  "report_id \<Rightarrow> storage_provider \<Rightarrow> rstring \<Rightarrow> attachment_content_type \<Rightarrow> u64 \<Rightarrow> rstring \<Rightarrow> uuid \<Rightarrow>
   attachment_error + attachment" where
  "attachment_new rid provider object_key ct size_bytes checksum new_id =
     (if trim object_key = [] then Inl Attachment_EmptyObjectKey
      else if trim checksum = [] then Inl Attachment_EmptyChecksum
      else if size_bytes = 0 then Inl Attachment_ZeroSize
      else if MAX_ATTACHMENT_SIZE_BYTES < size_bytes
        then Inl (Attachment_SizeExceedsLimit MAX_ATTACHMENT_SIZE_BYTES)
      else Inr \<lparr>attachment_id = AttachmentId new_id, attachment_report_id = rid,
                attachment_storage_provider = provider, attachment_object_key = object_key,
                attachment_content_type = ct, attachment_size_bytes = size_bytes,
                attachment_checksum = checksum\<rparr>)"

definition attachment_reconstitute ::
  "attachment_id \<Rightarrow> report_id \<Rightarrow> storage_provider \<Rightarrow> rstring \<Rightarrow> attachment_content_type \<Rightarrow> u64 \<Rightarrow> rstring \<Rightarrow>
   attachment" where
  "attachment_reconstitute i rid provider object_key ct size_bytes checksum =
     \<lparr>attachment_id = i, attachment_report_id = rid, attachment_storage_provider = provider,
      attachment_object_key = object_key, attachment_content_type = ct,
      attachment_size_bytes = size_bytes, attachment_checksum = checksum\<rparr>"

definition attachment_wf :: "attachment \<Rightarrow> bool" where
  "attachment_wf a \<longleftrightarrow> \<not> is_blank (attachment_object_key a) \<and> \<not> is_blank (attachment_checksum a)
     \<and> 0 < unat (attachment_size_bytes a) \<and> unat (attachment_size_bytes a) \<le> 26214400"

lemma unat_max_attachment: "unat MAX_ATTACHMENT_SIZE_BYTES = 26214400"
  by (simp add: MAX_ATTACHMENT_SIZE_BYTES_def)

lemma attachment_new_wf [wf_intros]: "attachment_new r p k ct n cs i = Inr a \<Longrightarrow> attachment_wf a"
  using unat_max_attachment
  by (auto simp: attachment_new_def attachment_wf_def trim_Nil_iff word_less_nat_alt unat_gt_0
      split: if_splits)

lemma attachment_new_fields:
  "attachment_new r p k ct n cs i = Inr a \<Longrightarrow>
     attachment_report_id a = r \<and> attachment_object_key a = k \<and> attachment_content_type a = ct"
  by (auto simp: attachment_new_def split: if_splits)

section \<open>Preparing an upload\<close>

record signed_url =
  signed_url_url :: rstring
  signed_url_expires_in :: nat

datatype prepare_attachment_error = PrepareAttachment_Invalid attachment_error
  | PrepareAttachment_Storage rstring

record prepared_attachment_upload =
  prepared_attachment :: attachment
  prepared_upload :: signed_url

text \<open>
  The storage port is an argument: its provider and its \<open>create_upload_url\<close>. The two ids are the
  UUID of the object key and the attachment id.
\<close>

definition attachment_object_key_for :: "(uuid \<Rightarrow> rstring) \<Rightarrow> report_id \<Rightarrow> uuid \<Rightarrow> rstring" where
  "attachment_object_key_for show_uuid rid u =
     lit ''attachments/'' @ show_uuid (report_uuid rid) @ lit ''/'' @ show_uuid u"

definition prepare_attachment_upload ::
  "(uuid \<Rightarrow> rstring) \<Rightarrow> storage_provider \<Rightarrow>
   (rstring \<Rightarrow> attachment_content_type \<Rightarrow> rstring + signed_url) \<Rightarrow>
   report_id \<Rightarrow> attachment_content_type \<Rightarrow> u64 \<Rightarrow> rstring \<Rightarrow> uuid \<times> uuid \<Rightarrow>
   prepare_attachment_error + prepared_attachment_upload" where
  "prepare_attachment_upload show_uuid provider create_upload_url rid ct size_bytes checksum ids =
     (let (key_id, new_id) = ids; object_key = attachment_object_key_for show_uuid rid key_id in
      bind_result (map_err PrepareAttachment_Invalid
          (attachment_new rid provider object_key ct size_bytes checksum new_id))
        (\<lambda>a. bind_result (map_err PrepareAttachment_Storage (create_upload_url object_key ct))
          (\<lambda>u. Inr \<lparr>prepared_attachment = a, prepared_upload = u\<rparr>)))"

lemma object_key_nonblank: "\<not> is_blank (attachment_object_key_for su rid u)"
  by (auto simp: attachment_object_key_for_def is_blank_def lit_def is_whitespace_def)

lemma prepare_attachment_upload_Inr:
  assumes "prepare_attachment_upload su p url rid ct n cs (k, i) = Inr u"
  shows "attachment_wf (prepared_attachment u)"
    and "attachment_report_id (prepared_attachment u) = rid"
    and "attachment_object_key (prepared_attachment u) = attachment_object_key_for su rid k"
    and "url (attachment_object_key_for su rid k) ct = Inr (prepared_upload u)"
proof -
  from assms obtain a where a: "attachment_new rid p (attachment_object_key_for su rid k) ct n cs i = Inr a"
    and url: "url (attachment_object_key_for su rid k) ct = Inr (prepared_upload u)"
    and u: "prepared_attachment u = a"
    by (auto simp: prepare_attachment_upload_def Let_def result_simps)
  show "attachment_wf (prepared_attachment u)"
    using attachment_new_wf [OF a] u by simp
  show "attachment_report_id (prepared_attachment u) = rid"
    and "attachment_object_key (prepared_attachment u) = attachment_object_key_for su rid k"
    using attachment_new_fields [OF a] u by simp_all
  show "url (attachment_object_key_for su rid k) ct = Inr (prepared_upload u)"
    by (rule url)
qed

end
