(* ===== verification/Organization_Model.thy ===== *)
theory Organization_Model
  imports Case_Model
begin

text \<open>
  Roles, memberships and organizations (\<open>crates/domain/src/organization.rs\<close>) and consumers
  (\<open>crates/domain/src/consumer.rs\<close>). The alert visibilities an organization is trusted with are
  declared here and documented with the alert policy (\<open>crates/domain/src/alert.rs\<close>).
\<close>

section \<open>Alert visibilities\<close>

datatype alert_visibility = AlertVisibility_Internal | AlertVisibility_Partner
  | AlertVisibility_Community | AlertVisibility_Public

fun alert_visibility_to_db :: "alert_visibility \<Rightarrow> rstring" where
  "alert_visibility_to_db AlertVisibility_Internal = lit ''INTERNAL''"
| "alert_visibility_to_db AlertVisibility_Partner = lit ''PARTNER''"
| "alert_visibility_to_db AlertVisibility_Community = lit ''COMMUNITY''"
| "alert_visibility_to_db AlertVisibility_Public = lit ''PUBLIC''"

definition alert_visibility_from_db :: "rstring \<Rightarrow> alert_visibility option" where
  "alert_visibility_from_db v =
     (if v = lit ''INTERNAL'' then Some AlertVisibility_Internal
      else if v = lit ''PARTNER'' then Some AlertVisibility_Partner
      else if v = lit ''COMMUNITY'' then Some AlertVisibility_Community
      else if v = lit ''PUBLIC'' then Some AlertVisibility_Public
      else None)"

interpretation alert_visibility_db: db_enum alert_visibility_to_db alert_visibility_from_db
proof unfold_locales
  show "alert_visibility_from_db (alert_visibility_to_db x) = Some x" for x
    by (cases x) (simp_all add: alert_visibility_from_db_def)
  show "alert_visibility_from_db v = Some x \<Longrightarrow> alert_visibility_to_db x = v" for v x
    by (auto simp: alert_visibility_from_db_def split: if_splits)
qed

definition admits_internal_only_fields :: "alert_visibility \<Rightarrow> bool" where
  "admits_internal_only_fields v \<longleftrightarrow> v \<in> {AlertVisibility_Internal, AlertVisibility_Partner}"

section \<open>Roles and memberships\<close>

datatype role = Role_PlatformAdmin | Role_OrgAdmin | Role_Member

fun role_to_db :: "role \<Rightarrow> rstring" where
  "role_to_db Role_PlatformAdmin = lit ''PLATFORM_ADMIN''"
| "role_to_db Role_OrgAdmin = lit ''ORG_ADMIN''"
| "role_to_db Role_Member = lit ''MEMBER''"

definition role_from_db :: "rstring \<Rightarrow> role option" where
  "role_from_db v =
     (if v = lit ''PLATFORM_ADMIN'' then Some Role_PlatformAdmin
      else if v = lit ''ORG_ADMIN'' then Some Role_OrgAdmin
      else if v = lit ''MEMBER'' then Some Role_Member
      else None)"

interpretation role_db: db_enum role_to_db role_from_db
proof unfold_locales
  show "role_from_db (role_to_db x) = Some x" for x
    by (cases x) (simp_all add: role_from_db_def)
  show "role_from_db v = Some x \<Longrightarrow> role_to_db x = v" for v x
    by (auto simp: role_from_db_def split: if_splits)
qed

record membership =
  member_role :: role
  member_organization_id :: "organization_id option"

section \<open>Organizations\<close>

datatype empty_organization_name = EmptyOrganizationName

record organization =
  organization_id :: organization_id
  organization_name :: rstring
  organization_description :: "rstring option"
  organization_location :: "rstring option"
  organization_contact :: "rstring option"
  organization_verified_incident_types :: "incident_type list"
  organization_verified_alert_visibilities :: "alert_visibility list"
  organization_consumer_id :: "consumer_id option"
  organization_is_active :: bool

definition organization_new :: "uuid \<Rightarrow> rstring \<Rightarrow> empty_organization_name + organization" where
  "organization_new new_id name =
     (let trimmed = trim name in
      if trimmed = [] then Inl EmptyOrganizationName
      else Inr \<lparr>organization_id = OrganizationId new_id, organization_name = trimmed,
                organization_description = None, organization_location = None,
                organization_contact = None, organization_verified_incident_types = [],
                organization_verified_alert_visibilities = [], organization_consumer_id = None,
                organization_is_active = True\<rparr>)"

definition organization_with_profile ::
  "organization \<Rightarrow> rstring option \<Rightarrow> rstring option \<Rightarrow> organization" where
  "organization_with_profile g description loc =
     g\<lparr>organization_description := description, organization_location := loc\<rparr>"

definition organization_with_contact :: "organization \<Rightarrow> rstring option \<Rightarrow> organization" where
  "organization_with_contact g contact = g\<lparr>organization_contact := contact\<rparr>"

definition organization_reconstitute ::
  "organization_id \<Rightarrow> rstring \<Rightarrow> rstring option \<Rightarrow> rstring option \<Rightarrow> incident_type list \<Rightarrow>
   alert_visibility list \<Rightarrow> consumer_id option \<Rightarrow> bool \<Rightarrow> organization" where
  "organization_reconstitute i name description loc its vs consumer active =
     \<lparr>organization_id = i, organization_name = name, organization_description = description,
      organization_location = loc, organization_contact = None,
      organization_verified_incident_types = its, organization_verified_alert_visibilities = vs,
      organization_consumer_id = consumer, organization_is_active = active\<rparr>"

definition may_verify :: "organization \<Rightarrow> incident_type \<Rightarrow> bool" where
  "may_verify g it \<longleftrightarrow> it \<in> set (organization_verified_incident_types g)"

definition may_issue_alert :: "organization \<Rightarrow> alert_visibility \<Rightarrow> bool" where
  "may_issue_alert g v \<longleftrightarrow> v \<in> set (organization_verified_alert_visibilities g)"

interpretation organization_name: nonblank_text "organization_new new_id" organization_name
  EmptyOrganizationName for new_id
  by unfold_locales (auto simp: organization_new_def Let_def trim_Nil_iff)

section \<open>Consumers\<close>

datatype consumer_type = ConsumerType_Organization | ConsumerType_Citizen

fun consumer_type_to_db :: "consumer_type \<Rightarrow> rstring" where
  "consumer_type_to_db ConsumerType_Organization = lit ''ORGANIZATION''"
| "consumer_type_to_db ConsumerType_Citizen = lit ''CITIZEN''"

definition consumer_type_from_db :: "rstring \<Rightarrow> consumer_type option" where
  "consumer_type_from_db v =
     (if v = lit ''ORGANIZATION'' then Some ConsumerType_Organization
      else if v = lit ''CITIZEN'' then Some ConsumerType_Citizen
      else None)"

interpretation consumer_type_db: db_enum consumer_type_to_db consumer_type_from_db
proof unfold_locales
  show "consumer_type_from_db (consumer_type_to_db x) = Some x" for x
    by (cases x) (simp_all add: consumer_type_from_db_def)
  show "consumer_type_from_db v = Some x \<Longrightarrow> consumer_type_to_db x = v" for v x
    by (auto simp: consumer_type_from_db_def split: if_splits)
qed

datatype empty_consumer_name = EmptyConsumerName

record consumer =
  consumer_id :: consumer_id
  consumer_name :: rstring
  consumer_type :: consumer_type
  consumer_locale :: "rstring option"

definition consumer_new :: "uuid \<Rightarrow> consumer_type \<Rightarrow> rstring \<Rightarrow> empty_consumer_name + consumer" where
  "consumer_new new_id ct name =
     (let trimmed = trim name in
      if trimmed = [] then Inl EmptyConsumerName
      else Inr \<lparr>consumer_id = ConsumerId new_id, consumer_name = trimmed, consumer_type = ct,
                consumer_locale = None\<rparr>)"

definition consumer_with_locale :: "consumer \<Rightarrow> rstring option \<Rightarrow> consumer" where
  "consumer_with_locale c loc =
     c\<lparr>consumer_locale :=
         Option.bind (map_option trim loc) (\<lambda>v. if v = [] then None else Some v)\<rparr>"

definition consumer_reconstitute ::
  "consumer_id \<Rightarrow> rstring \<Rightarrow> consumer_type \<Rightarrow> rstring option \<Rightarrow> consumer" where
  "consumer_reconstitute i name ct loc =
     \<lparr>consumer_id = i, consumer_name = name, consumer_type = ct, consumer_locale = loc\<rparr>"

interpretation consumer_name: nonblank_text "consumer_new new_id ct" consumer_name EmptyConsumerName
  for new_id ct
  by unfold_locales (auto simp: consumer_new_def Let_def trim_Nil_iff)

lemma consumer_with_locale_nonblank:
  "consumer_locale (consumer_with_locale c loc) = Some v \<Longrightarrow> \<not> is_blank v \<and> trim v = v"
  by (auto simp: consumer_with_locale_def bind_eq_Some_conv simp flip: trim_Nil_iff split: if_splits)

end
