(* ===== verification/Alert_Model.thy ===== *)
theory Alert_Model
  imports Organization_Model
begin

text \<open>
  Alert policies and alerts (\<open>crates/domain/src/alert.rs\<close>): the closed vocabulary of fields, the
  policy constructor that refuses forbidden and audience-restricted fields, the projection of a
  verified case into an alert, cancellation, and the choice of a description by locale.
\<close>

section \<open>Fields, severities, geographies\<close>

datatype alert_field = AlertField_IncidentCategory | AlertField_ApproximateAge
  | AlertField_LastSeenGeneralArea | AlertField_TimeWindow | AlertField_SafeDescription
  | AlertField_OfficialContact | AlertField_CaseReference | AlertField_ReporterIdentity
  | AlertField_InternalNotes | AlertField_ExactLocation | AlertField_WitnessDetails
  | AlertField_SafeDescriptionEn | AlertField_SafeDescriptionFr

fun alert_field_to_db :: "alert_field \<Rightarrow> rstring" where
  "alert_field_to_db AlertField_IncidentCategory = lit ''INCIDENT_CATEGORY''"
| "alert_field_to_db AlertField_ApproximateAge = lit ''APPROXIMATE_AGE''"
| "alert_field_to_db AlertField_LastSeenGeneralArea = lit ''LAST_SEEN_GENERAL_AREA''"
| "alert_field_to_db AlertField_TimeWindow = lit ''TIME_WINDOW''"
| "alert_field_to_db AlertField_SafeDescription = lit ''SAFE_DESCRIPTION''"
| "alert_field_to_db AlertField_OfficialContact = lit ''OFFICIAL_CONTACT''"
| "alert_field_to_db AlertField_CaseReference = lit ''CASE_REFERENCE''"
| "alert_field_to_db AlertField_ReporterIdentity = lit ''REPORTER_IDENTITY''"
| "alert_field_to_db AlertField_InternalNotes = lit ''INTERNAL_NOTES''"
| "alert_field_to_db AlertField_ExactLocation = lit ''EXACT_LOCATION''"
| "alert_field_to_db AlertField_WitnessDetails = lit ''WITNESS_DETAILS''"
| "alert_field_to_db AlertField_SafeDescriptionEn = lit ''SAFE_DESCRIPTION_EN''"
| "alert_field_to_db AlertField_SafeDescriptionFr = lit ''SAFE_DESCRIPTION_FR''"

definition alert_field_from_db :: "rstring \<Rightarrow> alert_field option" where
  "alert_field_from_db v =
     (if v = lit ''INCIDENT_CATEGORY'' then Some AlertField_IncidentCategory
      else if v = lit ''APPROXIMATE_AGE'' then Some AlertField_ApproximateAge
      else if v = lit ''LAST_SEEN_GENERAL_AREA'' then Some AlertField_LastSeenGeneralArea
      else if v = lit ''TIME_WINDOW'' then Some AlertField_TimeWindow
      else if v = lit ''SAFE_DESCRIPTION'' then Some AlertField_SafeDescription
      else if v = lit ''OFFICIAL_CONTACT'' then Some AlertField_OfficialContact
      else if v = lit ''CASE_REFERENCE'' then Some AlertField_CaseReference
      else if v = lit ''REPORTER_IDENTITY'' then Some AlertField_ReporterIdentity
      else if v = lit ''INTERNAL_NOTES'' then Some AlertField_InternalNotes
      else if v = lit ''EXACT_LOCATION'' then Some AlertField_ExactLocation
      else if v = lit ''WITNESS_DETAILS'' then Some AlertField_WitnessDetails
      else if v = lit ''SAFE_DESCRIPTION_EN'' then Some AlertField_SafeDescriptionEn
      else if v = lit ''SAFE_DESCRIPTION_FR'' then Some AlertField_SafeDescriptionFr
      else None)"

interpretation alert_field_db: db_enum alert_field_to_db alert_field_from_db
proof unfold_locales
  show "alert_field_from_db (alert_field_to_db x) = Some x" for x
    by (cases x) (simp_all add: alert_field_from_db_def)
  show "alert_field_from_db v = Some x \<Longrightarrow> alert_field_to_db x = v" for v x
    by (auto simp: alert_field_from_db_def split: if_splits)
qed

definition is_forbidden :: "alert_field \<Rightarrow> bool" where
  "is_forbidden f \<longleftrightarrow> f = AlertField_ReporterIdentity"

definition is_restricted_to_internal_audiences :: "alert_field \<Rightarrow> bool" where
  "is_restricted_to_internal_audiences f \<longleftrightarrow>
     f \<in> {AlertField_InternalNotes, AlertField_ExactLocation, AlertField_WitnessDetails}"

datatype severity = Severity_Low | Severity_Medium | Severity_High | Severity_Critical

fun severity_to_db :: "severity \<Rightarrow> rstring" where
  "severity_to_db Severity_Low = lit ''LOW''"
| "severity_to_db Severity_Medium = lit ''MEDIUM''"
| "severity_to_db Severity_High = lit ''HIGH''"
| "severity_to_db Severity_Critical = lit ''CRITICAL''"

definition severity_from_db :: "rstring \<Rightarrow> severity option" where
  "severity_from_db v =
     (if v = lit ''LOW'' then Some Severity_Low
      else if v = lit ''MEDIUM'' then Some Severity_Medium
      else if v = lit ''HIGH'' then Some Severity_High
      else if v = lit ''CRITICAL'' then Some Severity_Critical
      else None)"

interpretation severity_db: db_enum severity_to_db severity_from_db
proof unfold_locales
  show "severity_from_db (severity_to_db x) = Some x" for x
    by (cases x) (simp_all add: severity_from_db_def)
  show "severity_from_db v = Some x \<Longrightarrow> severity_to_db x = v" for v x
    by (auto simp: severity_from_db_def split: if_splits)
qed

text \<open>The derived \<open>Ord\<close> follows the declaration order of the variants.\<close>

fun severity_rank :: "severity \<Rightarrow> nat" where
  "severity_rank Severity_Low = 0"
| "severity_rank Severity_Medium = 1"
| "severity_rank Severity_High = 2"
| "severity_rank Severity_Critical = 3"

instantiation severity :: linorder
begin

definition less_eq_severity :: "severity \<Rightarrow> severity \<Rightarrow> bool" where
  "less_eq_severity a b \<longleftrightarrow> severity_rank a \<le> severity_rank b"

definition less_severity :: "severity \<Rightarrow> severity \<Rightarrow> bool" where
  "less_severity a b \<longleftrightarrow> severity_rank a < severity_rank b"

instance
proof
  fix x y z :: severity
  show "x < y \<longleftrightarrow> x \<le> y \<and> \<not> y \<le> x" by (auto simp: less_eq_severity_def less_severity_def)
  show "x \<le> x" by (simp add: less_eq_severity_def)
  show "x \<le> y \<Longrightarrow> y \<le> z \<Longrightarrow> x \<le> z" by (simp add: less_eq_severity_def)
  show "x \<le> y \<Longrightarrow> y \<le> x \<Longrightarrow> x = y"
    by (cases x; cases y) (simp_all add: less_eq_severity_def)
  show "x \<le> y \<or> y \<le> x" by (auto simp: less_eq_severity_def)
qed

end

datatype alert_policy_id = AlertPolicyId (alert_policy_code: rstring)

datatype target_geography = TargetGeography (target_geography_text: rstring)

datatype empty_target_geography = EmptyTargetGeography

definition target_geography_new :: "rstring \<Rightarrow> empty_target_geography + target_geography" where
  "target_geography_new description =
     (let trimmed = trim description in
      if trimmed = [] then Inl EmptyTargetGeography else Inr (TargetGeography trimmed))"

interpretation target_geography: nonblank_text target_geography_new target_geography_text
  EmptyTargetGeography
  by unfold_locales (auto simp: target_geography_new_def Let_def trim_Nil_iff)

section \<open>Policies\<close>

datatype alert_policy_error = AlertPolicy_EmptyFieldAllowlist
  | AlertPolicy_FieldNeverAllowed alert_field
  | AlertPolicy_FieldNotAllowedForVisibility alert_field alert_visibility
  | AlertPolicy_TriggerBeforeVerification case_event_type

record alert_policy =
  policy_id :: alert_policy_id
  policy_version :: u32
  policy_incident_type :: incident_type
  policy_visibility :: alert_visibility
  policy_trigger :: case_event_type
  policy_field_allowlist :: "alert_field list"

definition alert_policy_new ::
  "alert_policy_id \<Rightarrow> u32 \<Rightarrow> incident_type \<Rightarrow> alert_visibility \<Rightarrow> case_event_type \<Rightarrow> alert_field list \<Rightarrow>
   alert_policy_error + alert_policy" where
  "alert_policy_new i v it vis trig allowlist =
     (if allowlist = [] then Inl AlertPolicy_EmptyFieldAllowlist
      else case find is_forbidden allowlist of
        Some f \<Rightarrow> Inl (AlertPolicy_FieldNeverAllowed f)
      | None \<Rightarrow>
         (case (if \<not> admits_internal_only_fields vis
                then find is_restricted_to_internal_audiences allowlist else None) of
            Some f \<Rightarrow> Inl (AlertPolicy_FieldNotAllowedForVisibility f vis)
          | None \<Rightarrow>
             (if trig \<notin> {CaseEventType_CaseVerified, CaseEventType_CaseActivated,
                          CaseEventType_CaseResolved}
              then Inl (AlertPolicy_TriggerBeforeVerification trig)
              else Inr \<lparr>policy_id = i, policy_version = v, policy_incident_type = it,
                        policy_visibility = vis, policy_trigger = trig,
                        policy_field_allowlist = allowlist\<rparr>)))"

definition allows_field :: "alert_policy \<Rightarrow> alert_field \<Rightarrow> bool" where
  "allows_field p f \<longleftrightarrow> f \<in> set (policy_field_allowlist p)"

definition missing_child_community_v1 :: "alert_policy_error + alert_policy" where
  "missing_child_community_v1 =
     alert_policy_new (AlertPolicyId (lit ''MISSING_CHILD_COMMUNITY'')) 1 IncidentType_MissingChild
       AlertVisibility_Community CaseEventType_CaseVerified
       [AlertField_IncidentCategory, AlertField_ApproximateAge, AlertField_LastSeenGeneralArea,
        AlertField_TimeWindow, AlertField_SafeDescriptionEn, AlertField_SafeDescriptionFr,
        AlertField_OfficialContact, AlertField_CaseReference]"

text \<open>What a policy promises about the fields it may expose.\<close>

definition policy_safe :: "alert_policy \<Rightarrow> bool" where
  "policy_safe p \<longleftrightarrow>
     policy_field_allowlist p \<noteq> [] \<and>
     (\<forall>f \<in> set (policy_field_allowlist p). \<not> is_forbidden f \<and>
        (is_restricted_to_internal_audiences f \<longrightarrow> admits_internal_only_fields (policy_visibility p))) \<and>
     policy_trigger p \<in> {CaseEventType_CaseVerified, CaseEventType_CaseActivated, CaseEventType_CaseResolved}"

lemma alert_policy_new_Inr [result_simps]:
  "alert_policy_new i v it vis trig al = Inr p \<longleftrightarrow>
     p = \<lparr>policy_id = i, policy_version = v, policy_incident_type = it, policy_visibility = vis,
          policy_trigger = trig, policy_field_allowlist = al\<rparr> \<and> policy_safe p"
  by (auto simp: alert_policy_new_def policy_safe_def find_None_iff find_Some_iff
      split: option.splits if_splits)

lemma missing_child_community_v1_ok: "\<exists>p. missing_child_community_v1 = Inr p \<and> policy_safe p"
  by (simp add: missing_child_community_v1_def result_simps policy_safe_def is_forbidden_def
      is_restricted_to_internal_audiences_def)

section \<open>Alerts\<close>

record alert_field_value =
  field_value_field :: alert_field
  field_value_value :: rstring

datatype alert_status = AlertStatus_Active | AlertStatus_Cancelled

fun alert_status_to_db :: "alert_status \<Rightarrow> rstring" where
  "alert_status_to_db AlertStatus_Active = lit ''ACTIVE''"
| "alert_status_to_db AlertStatus_Cancelled = lit ''CANCELLED''"

definition alert_status_from_db :: "rstring \<Rightarrow> alert_status option" where
  "alert_status_from_db v =
     (if v = lit ''ACTIVE'' then Some AlertStatus_Active
      else if v = lit ''CANCELLED'' then Some AlertStatus_Cancelled
      else None)"

interpretation alert_status_db: db_enum alert_status_to_db alert_status_from_db
proof unfold_locales
  show "alert_status_from_db (alert_status_to_db x) = Some x" for x
    by (cases x) (simp_all add: alert_status_from_db_def)
  show "alert_status_from_db v = Some x \<Longrightarrow> alert_status_to_db x = v" for v x
    by (auto simp: alert_status_from_db_def split: if_splits)
qed

datatype alert_event_type = AlertEventType_AlertCreated | AlertEventType_AlertCancelled

fun alert_event_type_to_db :: "alert_event_type \<Rightarrow> rstring" where
  "alert_event_type_to_db AlertEventType_AlertCreated = lit ''ALERT_CREATED''"
| "alert_event_type_to_db AlertEventType_AlertCancelled = lit ''ALERT_CANCELLED''"

interpretation alert_event_type_db: db_label alert_event_type_to_db
proof unfold_locales
  have "alert_event_type_to_db x = alert_event_type_to_db y \<Longrightarrow> x = y" for x y
    by (cases x; cases y) simp_all
  then show "inj alert_event_type_to_db" by (rule injI)
qed

record alert =
  alert_id :: alert_id
  alert_case_id :: case_id
  alert_policy_id :: alert_policy_id
  alert_policy_version :: u32
  alert_incident_type :: incident_type
  alert_severity :: severity
  alert_visibility :: alert_visibility
  alert_trigger :: case_event_type
  alert_target_geography :: target_geography
  alert_status :: alert_status
  alert_fields :: "alert_field_value list"
  alert_version :: u64
  alert_issued_by_organization_id :: "organization_id option"

record alert_event =
  alert_event_id :: alert_event_id
  alert_event_alert_id :: alert_id
  alert_event_type :: alert_event_type
  alert_event_version :: u64

datatype alert_creation_error = AlertCreation_CaseNotVerified case_status
  | AlertCreation_IncidentTypeMismatch incident_type incident_type
  | AlertCreation_FieldNotAllowedByPolicy alert_field
  | AlertCreation_DuplicateField alert_field

datatype alert_transition_error = AlertTransitionError alert_status alert_status

definition alert_new_event :: "alert \<Rightarrow> alert_event_type \<Rightarrow> uuid \<Rightarrow> alert_event" where
  "alert_new_event a t ev_id =
     \<lparr>alert_event_id = AlertEventId ev_id, alert_event_alert_id = alert_id a,
      alert_event_type = t, alert_event_version = alert_version a\<rparr>"

text \<open>The loop over the supplied fields, with the \<open>seen_fields\<close> accumulator of the code.\<close>

fun check_fields :: "alert_policy \<Rightarrow> alert_field list \<Rightarrow> alert_field_value list \<Rightarrow> alert_creation_error option" where
  "check_fields p seen [] = None"
| "check_fields p seen (fv # fvs) =
     (if \<not> allows_field p (field_value_field fv)
      then Some (AlertCreation_FieldNotAllowedByPolicy (field_value_field fv))
      else if field_value_field fv \<in> set seen
      then Some (AlertCreation_DuplicateField (field_value_field fv))
      else check_fields p (seen @ [field_value_field fv]) fvs)"

definition alert_create_from_case ::
  "incident_case \<Rightarrow> alert_policy \<Rightarrow> severity \<Rightarrow> target_geography \<Rightarrow> alert_field_value list \<Rightarrow>
   organization_id option \<Rightarrow> uuid \<Rightarrow> uuid \<Rightarrow> alert_creation_error + alert \<times> alert_event" where
  "alert_create_from_case c p sev geo fvs org new_id ev_id =
     (if \<not> is_verified_or_later (case_status c)
      then Inl (AlertCreation_CaseNotVerified (case_status c))
      else if case_incident_type c \<noteq> policy_incident_type p
      then Inl (AlertCreation_IncidentTypeMismatch (case_incident_type c) (policy_incident_type p))
      else case check_fields p [] fvs of
        Some e \<Rightarrow> Inl e
      | None \<Rightarrow>
         (let a = \<lparr>alert_id = AlertId new_id, alert_case_id = Case_Model.case_id c,
                   alert_policy_id = policy_id p, alert_policy_version = policy_version p,
                   alert_incident_type = policy_incident_type p, alert_severity = sev,
                   alert_visibility = policy_visibility p, alert_trigger = policy_trigger p,
                   alert_target_geography = geo, alert_status = AlertStatus_Active,
                   alert_fields = fvs, alert_version = 1,
                   alert_issued_by_organization_id = org\<rparr>
          in Inr (a, alert_new_event a AlertEventType_AlertCreated ev_id)))"

definition alert_reconstitute ::
  "alert_id \<Rightarrow> case_id \<Rightarrow> alert_policy_id \<Rightarrow> u32 \<Rightarrow> incident_type \<Rightarrow> severity \<Rightarrow> alert_visibility \<Rightarrow>
   case_event_type \<Rightarrow> target_geography \<Rightarrow> alert_status \<Rightarrow> alert_field_value list \<Rightarrow> u64 \<Rightarrow>
   organization_id option \<Rightarrow> alert" where
  "alert_reconstitute i ci pid pv it sev vis trig geo st fvs v org =
     \<lparr>alert_id = i, alert_case_id = ci, alert_policy_id = pid, alert_policy_version = pv,
      alert_incident_type = it, alert_severity = sev, alert_visibility = vis, alert_trigger = trig,
      alert_target_geography = geo, alert_status = st, alert_fields = fvs, alert_version = v,
      alert_issued_by_organization_id = org\<rparr>"

definition alert_cancel :: "alert \<Rightarrow> uuid \<Rightarrow> alert_transition_error + alert \<times> alert_event" where
  "alert_cancel a ev_id =
     (if alert_status a \<noteq> AlertStatus_Active
      then Inl (AlertTransitionError (alert_status a) AlertStatus_Cancelled)
      else let a' = a\<lparr>alert_status := AlertStatus_Cancelled, alert_version := alert_version a + 1\<rparr>
           in Inr (a', alert_new_event a' AlertEventType_AlertCancelled ev_id))"

definition alert_field_value :: "alert \<Rightarrow> alert_field \<Rightarrow> rstring option" where
  "alert_field_value a f =
     map_option field_value_value (find (\<lambda>fv. field_value_field fv = f) (alert_fields a))"

definition prefers_french :: "rstring option \<Rightarrow> bool" where
  "prefers_french locale =
     (case locale of None \<Rightarrow> False | Some v \<Rightarrow> starts_with (to_lowercase (trim v)) (lit ''fr''))"

definition description_for_locale :: "alert \<Rightarrow> rstring option \<Rightarrow> rstring option" where
  "description_for_locale a locale =
     (let (primary, secondary) =
        (if prefers_french locale then (AlertField_SafeDescriptionFr, AlertField_SafeDescriptionEn)
         else (AlertField_SafeDescriptionEn, AlertField_SafeDescriptionFr))
      in case alert_field_value a primary of
           Some d \<Rightarrow> Some d
         | None \<Rightarrow> (case alert_field_value a secondary of
              Some d \<Rightarrow> Some d
            | None \<Rightarrow> alert_field_value a AlertField_SafeDescription))"

section \<open>Invariant and lemmas\<close>

definition alert_wf :: "alert \<Rightarrow> bool" where
  "alert_wf a \<longleftrightarrow>
     distinct (map field_value_field (alert_fields a)) \<and>
     (\<forall>fv \<in> set (alert_fields a). \<not> is_forbidden (field_value_field fv) \<and>
        (is_restricted_to_internal_audiences (field_value_field fv) \<longrightarrow>
           admits_internal_only_fields (alert_visibility a)))"

lemma alert_new_event_simps [simp]:
  "alert_event_id (alert_new_event a t e) = AlertEventId e"
  "alert_event_alert_id (alert_new_event a t e) = alert_id a"
  "alert_event_type (alert_new_event a t e) = t"
  "alert_event_version (alert_new_event a t e) = alert_version a"
  by (simp_all add: alert_new_event_def)

lemma check_fields_None:
  "check_fields p seen fvs = None \<longleftrightarrow>
     (\<forall>fv \<in> set fvs. allows_field p (field_value_field fv)) \<and>
     distinct (map field_value_field fvs) \<and>
     set (map field_value_field fvs) \<inter> set seen = {}"
  by (induction p seen fvs rule: check_fields.induct) auto

lemma alert_create_from_case_Inr [result_simps]:
  "alert_create_from_case c p sev geo fvs org i e = Inr (a, ev) \<longleftrightarrow>
     is_verified_or_later (case_status c) \<and> case_incident_type c = policy_incident_type p \<and>
     check_fields p [] fvs = None \<and>
     a = \<lparr>alert_id = AlertId i, alert_case_id = Case_Model.case_id c,
          alert_policy_id = policy_id p, alert_policy_version = policy_version p,
          alert_incident_type = policy_incident_type p, alert_severity = sev,
          alert_visibility = policy_visibility p, alert_trigger = policy_trigger p,
          alert_target_geography = geo, alert_status = AlertStatus_Active,
          alert_fields = fvs, alert_version = 1, alert_issued_by_organization_id = org\<rparr> \<and>
     ev = alert_new_event a AlertEventType_AlertCreated e"
  by (auto simp: alert_create_from_case_def Let_def split: option.splits)

lemma alert_create_wf [wf_intros]:
  assumes "policy_safe p" and "alert_create_from_case c p sev geo fvs org i e = Inr (a, ev)"
  shows "alert_wf a"
  using assms
  by (auto simp: result_simps check_fields_None alert_wf_def policy_safe_def allows_field_def)

lemma alert_cancel_Inr [result_simps]:
  "alert_cancel a e = Inr (a', ev) \<longleftrightarrow>
     alert_status a = AlertStatus_Active \<and>
     a' = a\<lparr>alert_status := AlertStatus_Cancelled, alert_version := alert_version a + 1\<rparr> \<and>
     ev = alert_new_event a' AlertEventType_AlertCancelled e"
  by (auto simp: alert_cancel_def Let_def)

lemma alert_cancel_wf [wf_intros]: "alert_wf a \<Longrightarrow> alert_cancel a e = Inr (a', ev) \<Longrightarrow> alert_wf a'"
  by (auto simp: result_simps alert_wf_def)

interpretation alert_machine: status_machine alert_cancel alert_version alert_event_version alert_status
  "\<lambda>s t. s = AlertStatus_Active \<and> t = AlertStatus_Cancelled"
proof unfold_locales
  fix a x a' and ev :: alert_event
  assume *: "alert_cancel a x = Inr (a', ev)"
  show "alert_version a' = alert_version a + 1" and "alert_event_version ev = alert_version a'"
    and "alert_status a' = alert_status a \<or>
         alert_status a = AlertStatus_Active \<and> alert_status a' = AlertStatus_Cancelled"
    using * by (auto simp: result_simps)
qed

lemma alert_field_value_Some:
  "alert_wf a \<Longrightarrow> alert_field_value a f = Some v \<longleftrightarrow>
     \<lparr>field_value_field = f, field_value_value = v\<rparr> \<in> set (alert_fields a)"
proof -
  assume "alert_wf a"
  then have d: "distinct (map field_value_field (alert_fields a))" by (simp add: alert_wf_def)
  have "map_option field_value_value (find (\<lambda>fv. field_value_field fv = f) fvs) = Some v \<longleftrightarrow>
        \<lparr>field_value_field = f, field_value_value = v\<rparr> \<in> set fvs"
    if "distinct (map field_value_field fvs)" for fvs :: "alert_field_value list"
    using that
  proof (induction fvs)
    case (Cons fv fvs)
    show ?case
    proof (cases "field_value_field fv = f")
      case True
      with Cons.prems have "\<lparr>field_value_field = f, field_value_value = v\<rparr> \<notin> set fvs"
        by (metis alert_field_value.select_convs(1) distinct.simps(2) imageI list.simps(9) list.set_map)
      with True show ?thesis by (cases fv) auto
    next
      case False
      with Cons show ?thesis by auto
    qed
  qed simp
  with d show ?thesis by (simp add: alert_field_value_def)
qed

section \<open>Properties\<close>

text \<open>A policy is built exactly when its allowlist is not empty and never exposes the reporter's
  identity, nor to a community or public audience an internal-only field, and its trigger comes after
  verification; the built-in template is such a policy, so its \<open>expect\<close> never fails.\<close>

lemma policy_construction_exact:
  "((\<exists>p. alert_policy_new i v it vis trig al = Inr p) \<longleftrightarrow>
      al \<noteq> [] \<and> AlertField_ReporterIdentity \<notin> set al \<and>
      \<not> (\<not> admits_internal_only_fields vis \<and> (\<exists>f \<in> set al. is_restricted_to_internal_audiences f)) \<and>
      trig \<in> {CaseEventType_CaseVerified, CaseEventType_CaseActivated, CaseEventType_CaseResolved}) \<and>
   (\<exists>p. missing_child_community_v1 = Inr p)"
  using missing_child_community_v1_ok
  by (auto simp: alert_policy_new_Inr policy_safe_def is_forbidden_def)

text \<open>A small alert on which the properties are exercised.\<close>

definition sample_alert :: alert where
  "sample_alert =
     \<lparr>alert_id = AlertId 1, alert_case_id = CaseId 2, alert_policy_id = AlertPolicyId (lit ''P''),
      alert_policy_version = 1, alert_incident_type = IncidentType_MissingChild, alert_severity = Severity_High,
      alert_visibility = AlertVisibility_Community, alert_trigger = CaseEventType_CaseVerified,
      alert_target_geography = TargetGeography (lit ''Douala''), alert_status = AlertStatus_Active,
      alert_fields = [\<lparr>field_value_field = AlertField_SafeDescriptionEn, field_value_value = lit ''girl''\<rparr>],
      alert_version = 1, alert_issued_by_organization_id = None\<rparr>"

text \<open>The description for a recipient is the first present of: the one in the recipient's
  language (French exactly when the trimmed, lower-cased locale starts with \<open>fr\<close>, English otherwise),
  the one in the other language, the language-neutral one. It is never another field.\<close>

lemma description_choice:
  assumes "alert_wf a"
  shows "description_for_locale a locale = Some d \<longleftrightarrow>
    (let order = (if prefers_french locale
          then [AlertField_SafeDescriptionFr, AlertField_SafeDescriptionEn, AlertField_SafeDescription]
          else [AlertField_SafeDescriptionEn, AlertField_SafeDescriptionFr, AlertField_SafeDescription])
     in \<exists>k < 3. \<lparr>field_value_field = order ! k, field_value_value = d\<rparr> \<in> set (alert_fields a) \<and>
          (\<forall>j < k. order ! j \<notin> field_value_field ` set (alert_fields a)))"
proof -
  have none: "alert_field_value a f = None \<longleftrightarrow> f \<notin> field_value_field ` set (alert_fields a)" for f
    by (auto simp: alert_field_value_def find_None_iff)
  have three: "(\<exists>k < 3. P k) \<longleftrightarrow> P 0 \<or> P 1 \<or> P (2 :: nat)" for P
    by (auto simp: numeral_3_eq_3 Ex_less_Suc numeral_2_eq_2)
  show ?thesis
    unfolding three description_for_locale_def Let_def
    by (auto simp: none [symmetric] alert_field_value_Some [OF assms, symmetric] All_less_Suc2
        less_Suc_eq numeral_2_eq_2 split: option.splits)
qed

end
