(* ===== verification/Case_Workflow.thy ===== *)
theory Case_Workflow
  imports Alert_Model
begin

text \<open>
  The case use cases (\<open>crates/application/src/case_workflow.rs\<close>): who acts, which transitions
  need a reviewer, and what creating a case, linking a report and reviewing a case hand to the
  repository. Audit and outbox identifiers are drawn like aggregate identifiers and are arguments.
\<close>

section \<open>Actors\<close>

datatype actor = Actor_Reviewer uuid | Actor_Automated

fun actor_to_db :: "actor \<Rightarrow> rstring" where
  "actor_to_db (Actor_Reviewer u) = lit ''REVIEWER''"
| "actor_to_db Actor_Automated = lit ''AUTOMATED''"

fun actor_id :: "actor \<Rightarrow> uuid option" where
  "actor_id (Actor_Reviewer u) = Some u"
| "actor_id Actor_Automated = None"

definition is_reviewer :: "actor \<Rightarrow> bool" where
  "is_reviewer a \<longleftrightarrow> (\<exists>u. a = Actor_Reviewer u)"

lemma is_reviewer_simps [simp]:
  "is_reviewer (Actor_Reviewer u)" "\<not> is_reviewer Actor_Automated"
  by (simp_all add: is_reviewer_def)

text \<open>What every use case attaches for the audit trail and the outbox.\<close>

record trail =
  trail_actor :: actor
  trail_audit_event_id :: audit_event_id
  trail_outbox_event_id :: outbox_event_id
  trail_request_id :: uuid

section \<open>Authorization of transitions\<close>

datatype authorization_error = AuthorizationError case_status

fun authorize_case_transition :: "actor \<Rightarrow> case_status \<Rightarrow> authorization_error + unit" where
  "authorize_case_transition _ CaseStatus_UnderReview = Inr ()"
| "authorize_case_transition (Actor_Reviewer _) _ = Inr ()"
| "authorize_case_transition Actor_Automated attempted = Inl (AuthorizationError attempted)"

lemma authorize_case_transition_Inr [result_simps]:
  "authorize_case_transition a s = Inr u \<longleftrightarrow> s = CaseStatus_UnderReview \<or> is_reviewer a"
  by (cases a; cases s) auto

lemma authorize_case_transition_Inl [result_simps]:
  "authorize_case_transition a s = Inl e \<longleftrightarrow>
     s \<noteq> CaseStatus_UnderReview \<and> a = Actor_Automated \<and> e = AuthorizationError s"
  by (cases a; cases s) auto

datatype case_review_error = CaseReview_NotAuthorized authorization_error
  | CaseReview_InvalidTransition transition_error

section \<open>Use cases\<close>

record case_creation =
  creation_case :: incident_case
  creation_event :: case_event
  creation_trail :: trail

definition create_case_from_report ::
  "incident_type \<Rightarrow> report_id \<Rightarrow> actor \<Rightarrow> uuid \<Rightarrow> (nat \<Rightarrow> uuid) \<Rightarrow> case_creation" where
  "create_case_from_report it rid a request_id ids =
     (let (c, ev) = case_create it rid (ids 0) (ids 1)
      in \<lparr>creation_case = c, creation_event = ev,
          creation_trail = \<lparr>trail_actor = a, trail_audit_event_id = AuditEventId (ids 2),
            trail_outbox_event_id = OutboxEventId (ids 3), trail_request_id = request_id\<rparr>\<rparr>)"

definition uuid_json :: "(uuid \<Rightarrow> rstring) \<Rightarrow> uuid \<Rightarrow> json" where
  "uuid_json show_uuid u = JStr (show_uuid u)"

definition case_created_event_payload :: "(uuid \<Rightarrow> rstring) \<Rightarrow> case_creation \<Rightarrow> json" where
  "case_created_event_payload su cr = JObj
     [(lit ''case_id'', uuid_json su (case_uuid (Case_Model.case_id (creation_case cr)))),
      (lit ''incident_type'', JStr (incident_type_to_db (case_incident_type (creation_case cr)))),
      (lit ''report_id'', (case case_report_ids (creation_case cr) of
          [] \<Rightarrow> JNull | r # _ \<Rightarrow> uuid_json su (report_uuid r)))]"

record case_report_link =
  link_event :: case_event
  link_report_id :: report_id
  link_trail :: trail

definition link_report_to_case ::
  "incident_case \<Rightarrow> report_id \<Rightarrow> actor \<Rightarrow> uuid \<Rightarrow> (nat \<Rightarrow> uuid) \<Rightarrow>
   duplicate_report_link + incident_case \<times> case_report_link" where
  "link_report_to_case c rid a request_id ids =
     bind_result (case_link_report c rid (ids 0)) (\<lambda>(c', ev).
       Inr (c', \<lparr>link_event = ev, link_report_id = rid,
          link_trail = \<lparr>trail_actor = a, trail_audit_event_id = AuditEventId (ids 1),
            trail_outbox_event_id = OutboxEventId (ids 2), trail_request_id = request_id\<rparr>\<rparr>))"

definition case_report_linked_event_payload ::
  "(uuid \<Rightarrow> rstring) \<Rightarrow> case_id \<Rightarrow> case_report_link \<Rightarrow> json" where
  "case_report_linked_event_payload su i l = JObj
     [(lit ''case_id'', uuid_json su (case_uuid i)),
      (lit ''report_id'', uuid_json su (report_uuid (link_report_id l)))]"

record case_review =
  review_event :: case_event
  review_trail :: trail

definition review_case ::
  "incident_case \<Rightarrow> actor \<Rightarrow> case_status \<Rightarrow> uuid \<Rightarrow> (nat \<Rightarrow> uuid) \<Rightarrow>
   case_review_error + incident_case \<times> case_review" where
  "review_case c a to request_id ids =
     bind_result (map_err CaseReview_NotAuthorized (authorize_case_transition a to)) (\<lambda>_.
     bind_result (map_err CaseReview_InvalidTransition (case_transition_to c to (ids 0))) (\<lambda>(c', ev).
       Inr (c', \<lparr>review_event = ev,
          review_trail = \<lparr>trail_actor = a, trail_audit_event_id = AuditEventId (ids 1),
            trail_outbox_event_id = OutboxEventId (ids 2), trail_request_id = request_id\<rparr>\<rparr>)))"

definition case_status_changed_event_payload ::
  "(uuid \<Rightarrow> rstring) \<Rightarrow> incident_case \<Rightarrow> case_review \<Rightarrow> json" where
  "case_status_changed_event_payload su c r = JObj
     [(lit ''case_id'', uuid_json su (case_uuid (Case_Model.case_id c))),
      (lit ''status'', JStr (case_status_to_db (case_status c))),
      (lit ''aggregate_version'', JNum (unat (case_event_version (review_event r))))]"

lemma review_case_Inr [result_simps]:
  "review_case c a to rq ids = Inr (c', r) \<longleftrightarrow>
     (to = CaseStatus_UnderReview \<or> is_reviewer a) \<and>
     case_transition_to c to (ids 0) = Inr (c', review_event r) \<and>
     r = \<lparr>review_event = review_event r,
          review_trail = \<lparr>trail_actor = a, trail_audit_event_id = AuditEventId (ids 1),
            trail_outbox_event_id = OutboxEventId (ids 2), trail_request_id = rq\<rparr>\<rparr>"
  unfolding review_case_def
  by (cases r) (auto simp: bind_result_Inr map_err_Inr authorize_case_transition_Inr)

lemma review_case_Inl [result_simps]:
  "review_case c a to rq ids = Inl e \<longleftrightarrow>
     (if to \<noteq> CaseStatus_UnderReview \<and> a = Actor_Automated
      then e = CaseReview_NotAuthorized (AuthorizationError to)
      else \<not> is_allowed_transition (case_status c) to \<and>
           e = CaseReview_InvalidTransition (TransitionError (case_status c) to))"
proof (cases "to \<noteq> CaseStatus_UnderReview \<and> a = Actor_Automated")
  case True
  then have "authorize_case_transition a to = Inl (AuthorizationError to)"
    by (simp add: authorize_case_transition_Inl)
  with True show ?thesis by (auto simp: review_case_def)
next
  case False
  then have "authorize_case_transition a to = Inr ()"
    by (cases a) (auto simp: authorize_case_transition_Inr)
  moreover have "is_allowed_transition (case_status c) to \<longleftrightarrow>
      (\<exists>x. case_transition_to c to (ids 0) = Inr x)"
    by (cases "case_transition_to c to (ids 0)") (auto simp: case_transition_to_Inl case_transition_to_Inr)
  ultimately show ?thesis
    using False
    by (auto simp: review_case_def bind_result_Inl map_err_Inl case_transition_to_Inl)
qed

section \<open>Histories of reviews\<close>

text \<open>A reviewing session: requests by actors, applied in order; a refused one changes nothing.\<close>

datatype review_request = ReviewRequest actor case_status uuid "nat \<Rightarrow> uuid"

fun review_apply ::
  "incident_case \<Rightarrow> review_request \<Rightarrow> case_review_error + incident_case \<times> case_review" where
  "review_apply c (ReviewRequest a to rq ids) = review_case c a to rq ids"

definition reviews_witnessed :: "incident_case \<Rightarrow> case_review list \<Rightarrow> bool" where
  "reviews_witnessed c rs \<longleftrightarrow>
     (case_status c \<notin> {CaseStatus_Reported, CaseStatus_UnderReview} \<longrightarrow>
        (\<exists>r \<in> set rs. is_reviewer (trail_actor (review_trail r)) \<and>
           case_event_type (review_event r) \<in> {CaseEventType_CaseVerified, CaseEventType_CaseRejected}))"

lemma reviews_witnessed_step:
  assumes w: "reviews_witnessed c rs" and s: "review_apply c x = Inr (c', r)"
  shows "reviews_witnessed c' (rs @ [r])"
proof -
  obtain a to rq ids where x: "x = ReviewRequest a to rq ids" by (cases x)
  with s have 1: "to = CaseStatus_UnderReview \<or> is_reviewer a"
    and 2: "is_allowed_transition (case_status c) to" "case_status c' = to"
    and 3: "event_for to = Some (case_event_type (review_event r))"
    and 4: "trail_actor (review_trail r) = a"
    by (auto simp: review_case_Inr case_transition_to_Inr)
  show ?thesis
    using w 1 2 3 4 by (cases to) (auto simp: reviews_witnessed_def is_allowed_transition_def)
qed

interpretation review_machine: status_machine review_apply case_version
  "\<lambda>r. case_event_version (review_event r)" case_status is_allowed_transition
proof unfold_locales
  fix c x c' and r :: case_review
  assume *: "review_apply c x = Inr (c', r)"
  then obtain e ev s where t: "case_transition_to c s e = Inr (c', ev)" and r: "review_event r = ev"
    by (cases x) (auto simp: review_case_Inr)
  show "case_version c' = case_version c + 1" using t by (auto simp: case_transition_to_Inr)
  show "case_event_version (review_event r) = case_version c'"
    using t r by (auto simp: case_transition_to_Inr)
  show "case_status c' = case_status c \<or> is_allowed_transition (case_status c) (case_status c')"
    using t by (auto simp: case_transition_to_Inr)
qed

section \<open>Properties\<close>

text \<open>C5: However a new case is reviewed, by automated processes and reviewers in any order, it leaves
  the unreviewed statuses only if a reviewer took the decision to verify or to reject it.\<close>

theorem decisions_are_human:
  "case run_ops review_apply (creation_case (create_case_from_report it rid a rq ids)) xs of (c, rs) \<Rightarrow>
     case_status c \<notin> {CaseStatus_Reported, CaseStatus_UnderReview} \<longrightarrow>
     (\<exists>r \<in> set rs. (\<exists>u. trail_actor (review_trail r) = Actor_Reviewer u) \<and>
        case_event_type (review_event r) \<in> {CaseEventType_CaseVerified, CaseEventType_CaseRejected})"
proof -
  let ?c0 = "creation_case (create_case_from_report it rid a rq ids)"
  have "reviews_witnessed (fst (run_ops review_apply ?c0 xs)) (snd (run_ops review_apply ?c0 xs))"
  proof (rule run_ops_trace_induct)
    show "reviews_witnessed ?c0 []"
      by (simp add: reviews_witnessed_def create_case_from_report_def case_create_def Let_def)
  qed (rule reviews_witnessed_step)
  then show ?thesis
    by (auto simp: reviews_witnessed_def is_reviewer_def case_prod_unfold split: actor.splits)
qed

theorem decisions_are_human_witness:
  "\<exists>c rs. run_ops review_apply
       (creation_case (create_case_from_report IncidentType_MissingChild (ReportId 1) Actor_Automated 2 of_nat))
       [ReviewRequest Actor_Automated CaseStatus_UnderReview 3 of_nat,
        ReviewRequest Actor_Automated CaseStatus_Verified 4 of_nat,
        ReviewRequest (Actor_Reviewer 9) CaseStatus_Verified 5 of_nat] = (c, rs) \<and>
     case_status c = CaseStatus_Verified \<and> length rs = 2 \<and>
     (\<exists>r \<in> set rs. (\<exists>u. trail_actor (review_trail r) = Actor_Reviewer u) \<and>
        case_event_type (review_event r) \<in> {CaseEventType_CaseVerified, CaseEventType_CaseRejected})"
  using decisions_are_human [of IncidentType_MissingChild "ReportId 1" Actor_Automated 2 of_nat
      "[ReviewRequest Actor_Automated CaseStatus_UnderReview 3 of_nat,
        ReviewRequest Actor_Automated CaseStatus_Verified 4 of_nat,
        ReviewRequest (Actor_Reviewer 9) CaseStatus_Verified 5 of_nat]"]
  by (simp add: create_case_from_report_def case_create_def Let_def review_case_def
      case_transition_to_def is_allowed_transition_def)

end
