(* ===== verification/Authorization_Model.thy ===== *)
theory Authorization_Model
  imports Case_Workflow
begin

text \<open>
  Authorization (\<open>crates/application/src/authorization.rs\<close>): the flat capabilities, membership
  grants, and the two families of organization-aware checks. Checks on an organization's trust
  (verifying a case, issuing an alert) and checks on ownership (managing a consumer, cancelling an
  alert) are each one contract with two providers.
\<close>

section \<open>Capabilities\<close>

datatype capability = Capability_Report | Capability_ViewCase | Capability_ReviewReport
  | Capability_VerifyCase | Capability_CreateAlert | Capability_ManageSubscriptions
  | Capability_ViewAudit | Capability_ManageChannelProvider

datatype authorization_denied = AuthorizationDenied actor capability

definition authorize :: "actor \<Rightarrow> capability \<Rightarrow> authorization_denied + unit" where
  "authorize a cap =
     (if cap = Capability_Report then Inr ()
      else case a of
        Actor_Reviewer _ \<Rightarrow> Inr ()
      | Actor_Automated \<Rightarrow> Inl (AuthorizationDenied a cap))"

lemma authorize_Inr [result_simps]:
  "authorize a cap = Inr u \<longleftrightarrow> cap = Capability_Report \<or> is_reviewer a"
  by (cases a) (auto simp: authorize_def)

section \<open>Membership grants\<close>

datatype membership_grant_denied = MembershipGrantDenied

definition authorize_membership_grant ::
  "membership option \<Rightarrow> u64 \<Rightarrow> role \<Rightarrow> organization_id option \<Rightarrow> membership_grant_denied + unit" where
  "authorize_membership_grant granter existing_reviewer_count target_role target_org =
     (if existing_reviewer_count = 0 then Inr ()
      else case granter of
        None \<Rightarrow> Inl MembershipGrantDenied
      | Some m \<Rightarrow>
         (case (member_role m, member_organization_id m) of
            (Role_PlatformAdmin, _) \<Rightarrow> Inr ()
          | (Role_OrgAdmin, Some granter_org) \<Rightarrow>
              if target_role = Role_Member \<and> target_org = Some granter_org then Inr ()
              else Inl MembershipGrantDenied
          | _ \<Rightarrow> Inl MembershipGrantDenied))"

lemma authorize_membership_grant_Inr [result_simps]:
  "authorize_membership_grant g n tr tog = Inr u \<longleftrightarrow>
     n = 0 \<or>
     (\<exists>m. g = Some m \<and>
        (member_role m = Role_PlatformAdmin \<or>
         (member_role m = Role_OrgAdmin \<and> member_organization_id m \<noteq> None \<and>
          tr = Role_Member \<and> tog = member_organization_id m)))"
  by (auto simp: authorize_membership_grant_def split: option.splits role.splits)

datatype invalid_membership_shape = InvalidMembershipShape

definition validate_membership_shape ::
  "role \<Rightarrow> organization_id option \<Rightarrow> invalid_membership_shape + unit" where
  "validate_membership_shape r g =
     (let valid = (case r of Role_PlatformAdmin \<Rightarrow> g = None | _ \<Rightarrow> g \<noteq> None)
      in if valid then Inr () else Inl InvalidMembershipShape)"

lemma validate_membership_shape_Inr [result_simps]:
  "validate_membership_shape r g = Inr u \<longleftrightarrow> (r = Role_PlatformAdmin \<longleftrightarrow> g = None)"
  by (cases r) (auto simp: validate_membership_shape_def)

text \<open>How far a membership reaches: an organization administrator's powers are those of a member
  plus staffing; a platform administrator's contain every other.\<close>

fun role_rank :: "role \<Rightarrow> nat" where
  "role_rank Role_Member = 0"
| "role_rank Role_OrgAdmin = 1"
| "role_rank Role_PlatformAdmin = 2"

section \<open>Trust and ownership\<close>

locale trust_gate =
  fixes gate :: "membership \<Rightarrow> organization option \<Rightarrow> 'x \<Rightarrow> 'e + unit"
    and trusted :: "organization \<Rightarrow> 'x \<Rightarrow> bool"
  assumes gate_Inr: "gate m g x = Inr u \<longleftrightarrow>
    member_role m = Role_PlatformAdmin \<or> (\<exists>o'. g = Some o' \<and> organization_is_active o' \<and> trusted o' x)"
begin

lemma inactive_denied:
  "member_role m \<noteq> Role_PlatformAdmin \<Longrightarrow> \<not> organization_is_active o' \<Longrightarrow> gate m (Some o') x \<noteq> Inr u"
  by (simp add: gate_Inr)

lemma no_organization_denied: "member_role m \<noteq> Role_PlatformAdmin \<Longrightarrow> gate m None x \<noteq> Inr u"
  by (simp add: gate_Inr)

lemma more_trust:
  "gate m (Some o1) x = Inr u \<Longrightarrow> organization_is_active o2 \<Longrightarrow> (trusted o1 x \<Longrightarrow> trusted o2 x)
     \<Longrightarrow> gate m (Some o2) x = Inr u"
  by (auto simp: gate_Inr)

end

locale owner_gate =
  fixes gate :: "membership \<Rightarrow> organization_id option \<Rightarrow> 'e + unit"
  assumes gate_Inr: "gate m owner = Inr u \<longleftrightarrow>
    member_role m = Role_PlatformAdmin \<or> owner = None \<or> owner = member_organization_id m"
begin

lemma foreign_denied:
  "member_role m \<noteq> Role_PlatformAdmin \<Longrightarrow> owner \<noteq> None \<Longrightarrow> member_organization_id m \<noteq> owner
     \<Longrightarrow> gate m owner \<noteq> Inr u"
  by (auto simp: gate_Inr)

end

datatype case_verification_not_authorized = CaseVerificationNotAuthorized

definition authorize_case_verification ::
  "membership \<Rightarrow> organization option \<Rightarrow> incident_type \<Rightarrow> case_verification_not_authorized + unit" where
  "authorize_case_verification m g it =
     (if member_role m = Role_PlatformAdmin then Inr ()
      else case g of
        Some o' \<Rightarrow> if organization_is_active o' \<and> may_verify o' it then Inr ()
                   else Inl CaseVerificationNotAuthorized
      | None \<Rightarrow> Inl CaseVerificationNotAuthorized)"

interpretation case_verification: trust_gate authorize_case_verification may_verify
  by unfold_locales (auto simp: authorize_case_verification_def split: option.splits)

datatype alert_issuance_not_authorized = AlertIssuanceNotAuthorized

definition authorize_alert_issuance ::
  "membership \<Rightarrow> organization option \<Rightarrow> alert_visibility \<Rightarrow> alert_issuance_not_authorized + unit" where
  "authorize_alert_issuance m g v =
     (if member_role m = Role_PlatformAdmin then Inr ()
      else case g of
        Some o' \<Rightarrow> if organization_is_active o' \<and> may_issue_alert o' v then Inr ()
                   else Inl AlertIssuanceNotAuthorized
      | None \<Rightarrow> Inl AlertIssuanceNotAuthorized)"

interpretation alert_issuance: trust_gate authorize_alert_issuance may_issue_alert
  by unfold_locales (auto simp: authorize_alert_issuance_def split: option.splits)

datatype consumer_management_not_authorized = ConsumerManagementNotAuthorized

definition authorize_consumer_management ::
  "membership \<Rightarrow> organization_id option \<Rightarrow> consumer_management_not_authorized + unit" where
  "authorize_consumer_management m owner =
     (if member_role m = Role_PlatformAdmin then Inr ()
      else case owner of
        None \<Rightarrow> Inr ()
      | Some g \<Rightarrow> if member_organization_id m = Some g then Inr ()
                  else Inl ConsumerManagementNotAuthorized)"

interpretation consumer_management: owner_gate authorize_consumer_management
  by unfold_locales (auto simp: authorize_consumer_management_def split: option.splits)

datatype alert_cancellation_not_authorized = AlertCancellationNotAuthorized

definition authorize_alert_cancellation ::
  "membership \<Rightarrow> organization_id option \<Rightarrow> alert_cancellation_not_authorized + unit" where
  "authorize_alert_cancellation m issuer =
     (if member_role m = Role_PlatformAdmin then Inr ()
      else case issuer of
        None \<Rightarrow> Inr ()
      | Some g \<Rightarrow> if member_organization_id m = Some g then Inr ()
                  else Inl AlertCancellationNotAuthorized)"

interpretation alert_cancellation: owner_gate authorize_alert_cancellation
  by unfold_locales (auto simp: authorize_alert_cancellation_def split: option.splits)

section \<open>Properties\<close>

text \<open>Whoever grants a membership once any exists holds at least the rights granted: a platform
  administrator may grant anything, an organization administrator only the lowest role inside the own
  organization, and everyone else nothing.\<close>

lemma membership_grant_never_escalates:
  "authorize_membership_grant g n r org = Inr u \<longleftrightarrow>
     n = 0 \<or>
     (\<exists>m. g = Some m \<and> role_rank r \<le> role_rank (member_role m) \<and>
        (member_role m = Role_PlatformAdmin \<or>
         member_role m = Role_OrgAdmin \<and> r = Role_Member \<and>
         (\<exists>o'. member_organization_id m = Some o' \<and> org = Some o')))"
  by (cases r) (auto simp: authorize_membership_grant_Inr)

text \<open>Beyond platform administrators, a case is verified only by members of an active organization
  trusted for its incident type and an alert issued only by members of an active organization trusted
  for its visibility; a consumer or an alert is managed only by members of the organization that owns
  it, or by anyone when nobody owns it.\<close>

lemma organization_gates_exact:
  assumes "member_role m \<noteq> Role_PlatformAdmin"
  shows "(authorize_case_verification m g it = Inr () \<longleftrightarrow>
       (\<exists>o'. g = Some o' \<and> organization_is_active o' \<and> it \<in> set (organization_verified_incident_types o'))) \<and>
    (authorize_alert_issuance m g vis = Inr () \<longleftrightarrow>
       (\<exists>o'. g = Some o' \<and> organization_is_active o' \<and> vis \<in> set (organization_verified_alert_visibilities o'))) \<and>
    (authorize_consumer_management m owner = Inr () \<longleftrightarrow> owner \<in> {None, member_organization_id m}) \<and>
    (authorize_alert_cancellation m owner = Inr () \<longleftrightarrow> owner \<in> {None, member_organization_id m})"
  using assms
  by (simp add: case_verification.gate_Inr alert_issuance.gate_Inr consumer_management.gate_Inr
      alert_cancellation.gate_Inr may_verify_def may_issue_alert_def)

end
