(* ===== verification/Alert_Workflow.thy ===== *)
theory Alert_Workflow
  imports Case_Workflow
begin

text \<open>
  The alert use cases (\<open>crates/application/src/alert_workflow.rs\<close>): creating an alert from a
  verified case through a policy template, and cancelling one. \<open>sha256\<close> (crate \<open>sha2\<close>) is an
  argument; the key's bytes are its UTF-8 code points.
\<close>

datatype alert_authorization_error = AlertAuthorizationError alert_visibility

definition authorize_alert_action ::
  "actor \<Rightarrow> alert_visibility \<Rightarrow> alert_authorization_error + unit" where
  "authorize_alert_action a v =
     (if admits_internal_only_fields v then Inr ()
      else case a of
        Actor_Reviewer _ \<Rightarrow> Inr ()
      | Actor_Automated \<Rightarrow> Inl (AlertAuthorizationError v))"

definition authorize_cancelling_actor ::
  "actor \<Rightarrow> alert_visibility \<Rightarrow> alert_authorization_error + unit" where
  "authorize_cancelling_actor a v =
     (case a of
        Actor_Reviewer _ \<Rightarrow> Inr ()
      | Actor_Automated \<Rightarrow> Inl (AlertAuthorizationError v))"

lemma authorize_alert_action_Inr [result_simps]:
  "authorize_alert_action a v = Inr u \<longleftrightarrow> admits_internal_only_fields v \<or> is_reviewer a"
  by (cases a) (auto simp: authorize_alert_action_def)

lemma authorize_cancelling_actor_Inr [result_simps]:
  "authorize_cancelling_actor a v = Inr u \<longleftrightarrow> is_reviewer a"
  by (cases a) (auto simp: authorize_cancelling_actor_def)

text \<open>\<open>Some (Inl e)\<close> would be the panic of \<open>expect\<close> inside the template.\<close>

definition resolve_policy :: "rstring \<Rightarrow> (alert_policy_error + alert_policy) option" where
  "resolve_policy i =
     (if i = lit ''MISSING_CHILD_COMMUNITY'' then Some missing_child_community_v1 else None)"

lemma resolve_policy_safe: "resolve_policy i = Some r \<Longrightarrow> \<exists>p. r = Inr p \<and> policy_safe p"
  using missing_child_community_v1_ok by (auto simp: resolve_policy_def split: if_splits)

datatype alert_creation_use_case_error =
    AlertCreationUseCase_NotAuthorized alert_authorization_error
  | AlertCreationUseCase_InvalidAlert alert_creation_error

record alert_creation =
  alert_creation_alert :: alert
  alert_creation_event :: alert_event
  alert_creation_trail :: trail
  alert_creation_key_hash :: "bytes option"

definition create_alert_from_case ::
  "(rstring \<Rightarrow> bytes) \<Rightarrow> incident_case \<Rightarrow> alert_policy \<Rightarrow> severity \<Rightarrow> target_geography \<Rightarrow>
   alert_field_value list \<Rightarrow> actor \<Rightarrow> uuid \<Rightarrow> rstring option \<Rightarrow> organization_id option \<Rightarrow>
   (nat \<Rightarrow> uuid) \<Rightarrow> alert_creation_use_case_error + alert_creation" where
  "create_alert_from_case sha256 c p sev geo fvs a request_id key org ids =
     bind_result (map_err AlertCreationUseCase_NotAuthorized
                    (authorize_alert_action a (policy_visibility p))) (\<lambda>_.
     bind_result (map_err AlertCreationUseCase_InvalidAlert
                    (alert_create_from_case c p sev geo fvs org (ids 0) (ids 1))) (\<lambda>(al, ev).
       Inr \<lparr>alert_creation_alert = al, alert_creation_event = ev,
            alert_creation_trail = \<lparr>trail_actor = a, trail_audit_event_id = AuditEventId (ids 2),
              trail_outbox_event_id = OutboxEventId (ids 3), trail_request_id = request_id\<rparr>,
            alert_creation_key_hash = map_option sha256 key\<rparr>))"

definition alert_created_event_payload :: "(uuid \<Rightarrow> rstring) \<Rightarrow> alert_creation \<Rightarrow> json" where
  "alert_created_event_payload su cr =
     (let al = alert_creation_alert cr in JObj
       [(lit ''alert_id'', uuid_json su (alert_uuid (Alert_Model.alert_id al))),
        (lit ''case_id'', uuid_json su (case_uuid (alert_case_id al))),
        (lit ''policy_id'', JStr (alert_policy_code (Alert_Model.alert_policy_id al))),
        (lit ''policy_version'', JNum (unat (alert_policy_version al))),
        (lit ''visibility'', JStr (alert_visibility_to_db (Alert_Model.alert_visibility al)))])"

datatype alert_cancellation_error = AlertCancellation_NotAuthorized alert_authorization_error
  | AlertCancellation_InvalidTransition alert_transition_error

record alert_cancellation =
  cancellation_event :: alert_event
  cancellation_trail :: trail

definition cancel_alert ::
  "alert \<Rightarrow> actor \<Rightarrow> uuid \<Rightarrow> (nat \<Rightarrow> uuid) \<Rightarrow> alert_cancellation_error + alert \<times> alert_cancellation" where
  "cancel_alert al a request_id ids =
     bind_result (map_err AlertCancellation_NotAuthorized
                    (authorize_cancelling_actor a (Alert_Model.alert_visibility al))) (\<lambda>_.
     bind_result (map_err AlertCancellation_InvalidTransition (alert_cancel al (ids 0))) (\<lambda>(al', ev).
       Inr (al', \<lparr>cancellation_event = ev,
            cancellation_trail = \<lparr>trail_actor = a, trail_audit_event_id = AuditEventId (ids 1),
              trail_outbox_event_id = OutboxEventId (ids 2), trail_request_id = request_id\<rparr>\<rparr>)))"

definition alert_cancelled_event_payload ::
  "(uuid \<Rightarrow> rstring) \<Rightarrow> alert \<Rightarrow> alert_cancellation \<Rightarrow> json" where
  "alert_cancelled_event_payload su al cn = JObj
     [(lit ''alert_id'', uuid_json su (alert_uuid (Alert_Model.alert_id al))),
      (lit ''case_id'', uuid_json su (case_uuid (alert_case_id al))),
      (lit ''aggregate_version'', JNum (unat (alert_event_version (cancellation_event cn))))]"

lemma create_alert_from_case_Inr [result_simps]:
  "create_alert_from_case sha c p sev geo fvs a rq key org ids = Inr cr \<longleftrightarrow>
     (admits_internal_only_fields (policy_visibility p) \<or> is_reviewer a) \<and>
     alert_create_from_case c p sev geo fvs org (ids 0) (ids 1) =
       Inr (alert_creation_alert cr, alert_creation_event cr) \<and>
     alert_creation_trail cr = \<lparr>trail_actor = a, trail_audit_event_id = AuditEventId (ids 2),
              trail_outbox_event_id = OutboxEventId (ids 3), trail_request_id = rq\<rparr> \<and>
     alert_creation_key_hash cr = map_option sha key"
  unfolding create_alert_from_case_def
  by (cases cr) (auto simp: bind_result_Inr map_err_Inr authorize_alert_action_Inr)

lemma cancel_alert_Inr [result_simps]:
  "cancel_alert al a rq ids = Inr (al', cn) \<longleftrightarrow>
     is_reviewer a \<and> alert_cancel al (ids 0) = Inr (al', cancellation_event cn) \<and>
     cancellation_trail cn = \<lparr>trail_actor = a, trail_audit_event_id = AuditEventId (ids 1),
              trail_outbox_event_id = OutboxEventId (ids 2), trail_request_id = rq\<rparr>"
  unfolding cancel_alert_def
  by (cases cn) (auto simp: bind_result_Inr map_err_Inr authorize_cancelling_actor_Inr)

section \<open>Properties\<close>


definition sample_case :: incident_case where
  "sample_case = \<lparr>case_id = CaseId 7, case_incident_type = IncidentType_MissingChild,
     case_status = CaseStatus_Verified, case_report_ids = [ReportId 8], case_version = 3\<rparr>"

lemma sample_policy_resolves:
  "\<exists>p cr. resolve_policy (lit ''MISSING_CHILD_COMMUNITY'') = Some (Inr p) \<and>
     create_alert_from_case (\<lambda>_. []) sample_case p Severity_High (TargetGeography (lit ''Douala''))
       [\<lparr>field_value_field = AlertField_ApproximateAge, field_value_value = lit ''8''\<rparr>]
       (Actor_Reviewer 5) 6 None None of_nat = Inr cr"
  by (simp add: resolve_policy_def missing_child_community_v1_def alert_policy_new_def is_forbidden_def
      is_restricted_to_internal_audiences_def create_alert_from_case_def authorize_alert_action_def
      alert_create_from_case_def sample_case_def is_verified_or_later_def allows_field_def Let_def)


end
