(* ===== verification/Subscription_Model.thy ===== *)
theory Subscription_Model
  imports Alert_Model
begin

text \<open>
  Subscription matching (\<open>crates/domain/src/subscription.rs\<close>): comparison operators, areas, the
  closed set of rules, subscriptions with a version, the evaluation of one alert against them, and
  the grouping of matched decisions by consumer. \<open>dedup_spec\<close> is the abstract specification of the
  grouping.
\<close>

section \<open>Comparisons and areas\<close>

datatype comparison = Comparison_GreaterThan | Comparison_GreaterThanOrEqual | Comparison_Equal
  | Comparison_LessThanOrEqual | Comparison_LessThan

fun comparison_evaluate :: "comparison \<Rightarrow> 'a::linorder \<Rightarrow> 'a \<Rightarrow> bool" where
  "comparison_evaluate Comparison_GreaterThan lhs rhs = (lhs > rhs)"
| "comparison_evaluate Comparison_GreaterThanOrEqual lhs rhs = (lhs \<ge> rhs)"
| "comparison_evaluate Comparison_Equal lhs rhs = (lhs = rhs)"
| "comparison_evaluate Comparison_LessThanOrEqual lhs rhs = (lhs \<le> rhs)"
| "comparison_evaluate Comparison_LessThan lhs rhs = (lhs < rhs)"

fun comparison_as_str :: "comparison \<Rightarrow> rstring" where
  "comparison_as_str Comparison_GreaterThan = lit ''>''"
| "comparison_as_str Comparison_GreaterThanOrEqual = lit ''>=''"
| "comparison_as_str Comparison_Equal = lit ''==''"
| "comparison_as_str Comparison_LessThanOrEqual = lit ''<=''"
| "comparison_as_str Comparison_LessThan = lit ''<''"

fun comparison_to_db :: "comparison \<Rightarrow> rstring" where
  "comparison_to_db Comparison_GreaterThan = lit ''GREATER_THAN''"
| "comparison_to_db Comparison_GreaterThanOrEqual = lit ''GREATER_THAN_OR_EQUAL''"
| "comparison_to_db Comparison_Equal = lit ''EQUAL''"
| "comparison_to_db Comparison_LessThanOrEqual = lit ''LESS_THAN_OR_EQUAL''"
| "comparison_to_db Comparison_LessThan = lit ''LESS_THAN''"

definition comparison_from_db :: "rstring \<Rightarrow> comparison option" where
  "comparison_from_db v =
     (if v = lit ''GREATER_THAN'' then Some Comparison_GreaterThan
      else if v = lit ''GREATER_THAN_OR_EQUAL'' then Some Comparison_GreaterThanOrEqual
      else if v = lit ''EQUAL'' then Some Comparison_Equal
      else if v = lit ''LESS_THAN_OR_EQUAL'' then Some Comparison_LessThanOrEqual
      else if v = lit ''LESS_THAN'' then Some Comparison_LessThan
      else None)"

interpretation comparison_db: db_enum comparison_to_db comparison_from_db
proof unfold_locales
  show "comparison_from_db (comparison_to_db x) = Some x" for x
    by (cases x) (simp_all add: comparison_from_db_def)
  show "comparison_from_db v = Some x \<Longrightarrow> comparison_to_db x = v" for v x
    by (auto simp: comparison_from_db_def split: if_splits)
qed

datatype geo_area = GeoArea (geo_area_text: rstring)

datatype empty_geo_area = EmptyGeoArea

definition geo_area_new :: "rstring \<Rightarrow> empty_geo_area + geo_area" where
  "geo_area_new name =
     (let trimmed = trim name in
      if trimmed = [] then Inl EmptyGeoArea else Inr (GeoArea trimmed))"

interpretation geo_area: nonblank_text geo_area_new geo_area_text EmptyGeoArea
  by unfold_locales (auto simp: geo_area_new_def Let_def trim_Nil_iff)

definition matches_target :: "geo_area \<Rightarrow> target_geography \<Rightarrow> bool" where
  "matches_target area target \<longleftrightarrow>
     str_contains (to_lowercase (target_geography_text target)) (to_lowercase (geo_area_text area))"

section \<open>Rules and subscriptions\<close>

datatype subscription_rule =
    Rule_IncidentType "incident_type list"
  | Rule_Severity comparison severity
  | Rule_EventType "case_event_type list"
  | Rule_Geography "geo_area list"
  | Rule_Visibility "alert_visibility list"

record match_reason =
  reason_rule :: subscription_rule
  reason_matched :: bool

datatype empty_subscription_rules = EmptySubscriptionRules

record subscription =
  subscription_id :: subscription_id
  subscription_consumer_id :: consumer_id
  subscription_version :: u32
  subscription_rules :: "subscription_rule list"
  subscription_created_at :: "rstring option"

definition subscription_new ::
  "subscription_id \<Rightarrow> consumer_id \<Rightarrow> u32 \<Rightarrow> subscription_rule list \<Rightarrow>
   empty_subscription_rules + subscription" where
  "subscription_new i c v rules =
     (if rules = [] then Inl EmptySubscriptionRules
      else Inr \<lparr>subscription_id = i, subscription_consumer_id = c, subscription_version = v,
                subscription_rules = rules, subscription_created_at = None\<rparr>)"

definition subscription_with_created_at :: "subscription \<Rightarrow> rstring \<Rightarrow> subscription" where
  "subscription_with_created_at s at = s\<lparr>subscription_created_at := Some at\<rparr>"

text \<open>\<open>&mut self\<close>: an \<open>Err\<close> leaves the subscription as it was.\<close>

definition update_rules ::
  "subscription \<Rightarrow> subscription_rule list \<Rightarrow> empty_subscription_rules + subscription" where
  "update_rules s rules =
     (if rules = [] then Inl EmptySubscriptionRules
      else Inr (s\<lparr>subscription_rules := rules, subscription_version := subscription_version s + 1\<rparr>))"

section \<open>Evaluation\<close>

record match_decision =
  decision_subscription_id :: subscription_id
  decision_subscription_version :: u32
  decision_consumer_id :: consumer_id
  decision_matched :: bool
  decision_reasons :: "match_reason list"

fun rule_matches :: "alert \<Rightarrow> subscription_rule \<Rightarrow> bool" where
  "rule_matches a (Rule_IncidentType values) = (alert_incident_type a \<in> set values)"
| "rule_matches a (Rule_Severity operator value) = comparison_evaluate operator (alert_severity a) value"
| "rule_matches a (Rule_EventType values) = (alert_trigger a \<in> set values)"
| "rule_matches a (Rule_Geography areas) =
     list_ex (\<lambda>area. matches_target area (alert_target_geography a)) areas"
| "rule_matches a (Rule_Visibility values) = (Alert_Model.alert_visibility a \<in> set values)"

definition evaluate_rule :: "alert \<Rightarrow> subscription_rule \<Rightarrow> match_reason" where
  "evaluate_rule a r = \<lparr>reason_rule = r, reason_matched = rule_matches a r\<rparr>"

definition evaluate_subscription :: "subscription \<Rightarrow> alert \<Rightarrow> match_decision" where
  "evaluate_subscription s a =
     (let reasons = map (evaluate_rule a) (subscription_rules s) in
      \<lparr>decision_subscription_id = subscription_id s,
       decision_subscription_version = subscription_version s,
       decision_consumer_id = subscription_consumer_id s,
       decision_matched = list_all reason_matched reasons,
       decision_reasons = reasons\<rparr>)"

definition evaluate_subscriptions :: "subscription list \<Rightarrow> alert \<Rightarrow> match_decision list" where
  "evaluate_subscriptions ss a = map (\<lambda>s. evaluate_subscription s a) ss"

section \<open>Grouping by consumer\<close>

record matched_subscription =
  matched_subscription_id :: subscription_id
  matched_subscription_version :: u32

record consumer_match =
  match_consumer_id :: consumer_id
  matching_subscriptions :: "matched_subscription list"

definition decision_match :: "match_decision \<Rightarrow> matched_subscription" where
  "decision_match d =
     \<lparr>matched_subscription_id = decision_subscription_id d,
      matched_subscription_version = decision_subscription_version d\<rparr>"

text \<open>One turn of the loop: \<open>iter_mut().find\<close> extends the first group of the consumer in place,
  otherwise a new group goes to the end.\<close>

fun add_match :: "consumer_match list \<Rightarrow> consumer_id \<Rightarrow> matched_subscription \<Rightarrow> consumer_match list" where
  "add_match [] c m = [\<lparr>match_consumer_id = c, matching_subscriptions = [m]\<rparr>]"
| "add_match (g # gs) c m =
     (if match_consumer_id g = c
      then g\<lparr>matching_subscriptions := matching_subscriptions g @ [m]\<rparr> # gs
      else g # add_match gs c m)"

fun dedup_loop :: "consumer_match list \<Rightarrow> match_decision list \<Rightarrow> consumer_match list" where
  "dedup_loop result [] = result"
| "dedup_loop result (d # ds) =
     dedup_loop (if decision_matched d then add_match result (decision_consumer_id d) (decision_match d)
                 else result) ds"

definition deduplicate_by_consumer :: "match_decision list \<Rightarrow> consumer_match list" where
  "deduplicate_by_consumer ds = dedup_loop [] ds"

section \<open>Specification of the grouping\<close>

text \<open>The consumers of the matched decisions in the order they first appear, each with the
  matched subscriptions of its decisions, in order.\<close>

fun first_seen :: "'a list \<Rightarrow> 'a list" where
  "first_seen [] = []"
| "first_seen (x # xs) = x # filter (\<lambda>y. y \<noteq> x) (first_seen xs)"

definition matches_of :: "consumer_id \<Rightarrow> match_decision list \<Rightarrow> matched_subscription list" where
  "matches_of c ds = map decision_match (filter (\<lambda>d. decision_matched d \<and> decision_consumer_id d = c) ds)"

definition dedup_spec :: "match_decision list \<Rightarrow> consumer_match list" where
  "dedup_spec ds =
     map (\<lambda>c. \<lparr>match_consumer_id = c, matching_subscriptions = matches_of c ds\<rparr>)
       (first_seen (map decision_consumer_id (filter decision_matched ds)))"

lemma set_first_seen [simp]: "set (first_seen xs) = set xs"
  by (induction xs) auto

lemma distinct_first_seen [simp]: "distinct (first_seen xs)"
  by (induction xs) auto

lemma first_seen_snoc:
  "first_seen (xs @ [x]) = (if x \<in> set xs then first_seen xs else first_seen xs @ [x])"
  by (induction xs) auto

lemma add_match_spec:
  "distinct cs \<Longrightarrow>
   add_match (map (\<lambda>c. \<lparr>match_consumer_id = c, matching_subscriptions = f c\<rparr>) cs) c0 m =
     map (\<lambda>c. \<lparr>match_consumer_id = c, matching_subscriptions = (if c = c0 then f c @ [m] else f c)\<rparr>) cs
     @ (if c0 \<in> set cs then [] else [\<lparr>match_consumer_id = c0, matching_subscriptions = [m]\<rparr>])"
proof (induction cs)
  case (Cons a cs)
  then show ?case by (cases "a = c0") (auto intro: map_cong)
qed simp

lemma dedup_loop_snoc:
  "dedup_loop gs (ds @ [d]) =
     (if decision_matched d then add_match (dedup_loop gs ds) (decision_consumer_id d) (decision_match d)
      else dedup_loop gs ds)"
  by (induction ds arbitrary: gs) auto

lemma matches_of_snoc:
  "matches_of c (ds @ [d]) =
     matches_of c ds @ (if decision_matched d \<and> decision_consumer_id d = c then [decision_match d] else [])"
  by (simp add: matches_of_def)

lemma matches_of_Nil_iff:
  "matches_of c ds = [] \<longleftrightarrow> c \<notin> set (map decision_consumer_id (filter decision_matched ds))"
  by (auto simp: matches_of_def filter_empty_conv)

lemma dedup_refines_spec: "deduplicate_by_consumer ds = dedup_spec ds"
  unfolding deduplicate_by_consumer_def
proof (induction ds rule: rev_induct)
  case Nil
  then show ?case by (simp add: dedup_spec_def)
next
  case (snoc d ds)
  show ?case
  proof (cases "decision_matched d")
    case False
    then have "matches_of c (ds @ [d]) = matches_of c ds" for c
      by (simp add: matches_of_snoc)
    with False snoc show ?thesis by (simp add: dedup_loop_snoc dedup_spec_def)
  next
    case True
    let ?c0 = "decision_consumer_id d"
    let ?cs = "first_seen (map decision_consumer_id (filter decision_matched ds))"
    have "?c0 \<notin> set ?cs \<Longrightarrow> matches_of ?c0 ds = []"
      using matches_of_Nil_iff [of ?c0 ds] by simp
    moreover have "map (\<lambda>c. \<lparr>match_consumer_id = c,
        matching_subscriptions = (if c = ?c0 then matches_of c ds @ [decision_match d] else matches_of c ds)\<rparr>) ?cs
      = map (\<lambda>c. \<lparr>match_consumer_id = c, matching_subscriptions = matches_of c (ds @ [d])\<rparr>) ?cs"
      using True by (intro map_cong) (auto simp: matches_of_snoc)
    ultimately show ?thesis
      using True snoc add_match_spec [of ?cs "\<lambda>c. matches_of c ds" ?c0 "decision_match d"]
      by (auto simp: dedup_loop_snoc dedup_spec_def first_seen_snoc matches_of_snoc)
  qed
qed

section \<open>Lemmas on evaluation\<close>

lemma evaluate_subscription_simps [simp]:
  "decision_subscription_id (evaluate_subscription s a) = subscription_id s"
  "decision_subscription_version (evaluate_subscription s a) = subscription_version s"
  "decision_consumer_id (evaluate_subscription s a) = subscription_consumer_id s"
  "decision_matched (evaluate_subscription s a) = list_all (rule_matches a) (subscription_rules s)"
  by (simp_all add: evaluate_subscription_def Let_def evaluate_rule_def list_all_iff)

lemma subscription_new_Inr [result_simps]:
  "subscription_new i c v rules = Inr s \<longleftrightarrow>
     rules \<noteq> [] \<and> s = \<lparr>subscription_id = i, subscription_consumer_id = c, subscription_version = v,
                        subscription_rules = rules, subscription_created_at = None\<rparr>"
  by (auto simp: subscription_new_def)

lemma update_rules_Inr [result_simps]:
  "update_rules s rules = Inr s' \<longleftrightarrow>
     rules \<noteq> [] \<and> s' = s\<lparr>subscription_rules := rules, subscription_version := subscription_version s + 1\<rparr>"
  by (auto simp: update_rules_def)

section \<open>Properties\<close>

text \<open>C7: The consumers to notify are exactly the owners of at least one subscription all of whose
  rules match the alert, each once, in the order of their first matching subscription, with exactly
  their matching subscriptions at their versions, in order.\<close>

theorem matching_is_exact:
  "deduplicate_by_consumer (evaluate_subscriptions ss a) =
     (let hits = filter (\<lambda>s. list_all (rule_matches a) (subscription_rules s)) ss in
      map (\<lambda>c. \<lparr>match_consumer_id = c,
        matching_subscriptions =
          map (\<lambda>s. \<lparr>matched_subscription_id = subscription_id s, matched_subscription_version = subscription_version s\<rparr>)
            (filter (\<lambda>s. subscription_consumer_id s = c) hits)\<rparr>)
      (first_seen (map subscription_consumer_id hits)))"
proof -
  have f: "filter decision_matched (evaluate_subscriptions ss a) =
      map (\<lambda>s. evaluate_subscription s a) (filter (\<lambda>s. list_all (rule_matches a) (subscription_rules s)) ss)"
    by (simp add: evaluate_subscriptions_def filter_map comp_def)
  have m: "matches_of c (evaluate_subscriptions ss a) =
      map (\<lambda>s. \<lparr>matched_subscription_id = subscription_id s, matched_subscription_version = subscription_version s\<rparr>)
        (filter (\<lambda>s. subscription_consumer_id s = c)
           (filter (\<lambda>s. list_all (rule_matches a) (subscription_rules s)) ss))" for c
    by (simp add: matches_of_def evaluate_subscriptions_def filter_map comp_def decision_match_def conj_commute)
  show ?thesis
    by (simp add: dedup_refines_spec dedup_spec_def f m Let_def comp_def)
qed

end
