(* ===== verification/Delivery_Model.thy ===== *)
theory Delivery_Model
  imports Subscription_Model
begin

text \<open>
  Delivery planning and the delivery lifecycle (\<open>crates/domain/src/delivery.rs\<close>): channel
  endpoints, preferences and their fallback tiers, the idempotency key, the retry policy with its
  backoff, the delivery aggregate, and \<open>plan_deliveries\<close>. The text form of a UUID comes from the
  \<open>uuid\<close> crate and is the argument \<open>show_uuid\<close>.
\<close>

section \<open>Channels, endpoints, preferences\<close>

datatype channel_type = ChannelType_WhatsApp | ChannelType_Sms | ChannelType_Email | ChannelType_Push

fun channel_type_to_db :: "channel_type \<Rightarrow> rstring" where
  "channel_type_to_db ChannelType_WhatsApp = lit ''WHATSAPP''"
| "channel_type_to_db ChannelType_Sms = lit ''SMS''"
| "channel_type_to_db ChannelType_Email = lit ''EMAIL''"
| "channel_type_to_db ChannelType_Push = lit ''PUSH''"

definition channel_type_from_db :: "rstring \<Rightarrow> channel_type option" where
  "channel_type_from_db v =
     (if v = lit ''WHATSAPP'' then Some ChannelType_WhatsApp
      else if v = lit ''SMS'' then Some ChannelType_Sms
      else if v = lit ''EMAIL'' then Some ChannelType_Email
      else if v = lit ''PUSH'' then Some ChannelType_Push
      else None)"

interpretation channel_type_db: db_enum channel_type_to_db channel_type_from_db
proof unfold_locales
  show "channel_type_from_db (channel_type_to_db x) = Some x" for x
    by (cases x) (simp_all add: channel_type_from_db_def)
  show "channel_type_from_db v = Some x \<Longrightarrow> channel_type_to_db x = v" for v x
    by (auto simp: channel_type_from_db_def split: if_splits)
qed

datatype empty_channel_endpoint_address = EmptyChannelEndpointAddress

record channel_endpoint =
  endpoint_channel :: channel_type
  endpoint_address :: rstring

definition channel_endpoint_new ::
  "channel_type \<Rightarrow> rstring \<Rightarrow> empty_channel_endpoint_address + channel_endpoint" where
  "channel_endpoint_new ch address =
     (let trimmed = trim address in
      if trimmed = [] then Inl EmptyChannelEndpointAddress
      else Inr \<lparr>endpoint_channel = ch, endpoint_address = trimmed\<rparr>)"

interpretation channel_endpoint: nonblank_text "channel_endpoint_new ch" endpoint_address
  EmptyChannelEndpointAddress for ch
  by unfold_locales (auto simp: channel_endpoint_new_def Let_def trim_Nil_iff)

datatype delivery_strategy = DeliveryStrategy_All | DeliveryStrategy_PrimaryFallback
  | DeliveryStrategy_PriorityList

fun delivery_strategy_to_db :: "delivery_strategy \<Rightarrow> rstring" where
  "delivery_strategy_to_db DeliveryStrategy_All = lit ''ALL''"
| "delivery_strategy_to_db DeliveryStrategy_PrimaryFallback = lit ''PRIMARY_FALLBACK''"
| "delivery_strategy_to_db DeliveryStrategy_PriorityList = lit ''PRIORITY_LIST''"

definition delivery_strategy_from_db :: "rstring \<Rightarrow> delivery_strategy option" where
  "delivery_strategy_from_db v =
     (if v = lit ''ALL'' then Some DeliveryStrategy_All
      else if v = lit ''PRIMARY_FALLBACK'' then Some DeliveryStrategy_PrimaryFallback
      else if v = lit ''PRIORITY_LIST'' then Some DeliveryStrategy_PriorityList
      else None)"

interpretation delivery_strategy_db: db_enum delivery_strategy_to_db delivery_strategy_from_db
proof unfold_locales
  show "delivery_strategy_from_db (delivery_strategy_to_db x) = Some x" for x
    by (cases x) (simp_all add: delivery_strategy_from_db_def)
  show "delivery_strategy_from_db v = Some x \<Longrightarrow> delivery_strategy_to_db x = v" for v x
    by (auto simp: delivery_strategy_from_db_def split: if_splits)
qed

datatype delivery_preference_error = DeliveryPreference_EmptyChannelList
  | DeliveryPreference_DuplicateChannel channel_type

record delivery_preference =
  preference_strategy :: delivery_strategy
  preference_channels :: "channel_endpoint list"

text \<open>The loop that looks for a channel listed twice, with its \<open>seen\<close> accumulator.\<close>

fun duplicate_channel :: "channel_type list \<Rightarrow> channel_endpoint list \<Rightarrow> channel_type option" where
  "duplicate_channel seen [] = None"
| "duplicate_channel seen (e # es) =
     (if endpoint_channel e \<in> set seen then Some (endpoint_channel e)
      else duplicate_channel (seen @ [endpoint_channel e]) es)"

definition delivery_preference_new ::
  "delivery_strategy \<Rightarrow> channel_endpoint list \<Rightarrow> delivery_preference_error + delivery_preference" where
  "delivery_preference_new strategy channels =
     (if channels = [] then Inl DeliveryPreference_EmptyChannelList
      else case duplicate_channel [] channels of
        Some ch \<Rightarrow> Inl (DeliveryPreference_DuplicateChannel ch)
      | None \<Rightarrow> Inr \<lparr>preference_strategy = strategy, preference_channels = channels\<rparr>)"

text \<open>\<open>index as u8\<close> keeps the low eight bits, as \<open>of_nat\<close> does.\<close>

definition preference_tiers :: "delivery_preference \<Rightarrow> (u8 \<times> channel_endpoint) list" where
  "preference_tiers p =
     map (\<lambda>(index, endpoint).
            ((case preference_strategy p of
                DeliveryStrategy_All \<Rightarrow> 0
              | _ \<Rightarrow> of_nat index), endpoint))
         (enumerate 0 (preference_channels p))"

definition preference_wf :: "delivery_preference \<Rightarrow> bool" where
  "preference_wf p \<longleftrightarrow>
     preference_channels p \<noteq> [] \<and> distinct (map endpoint_channel (preference_channels p))"

lemma duplicate_channel_None:
  "duplicate_channel seen es = None \<longleftrightarrow>
     distinct (map endpoint_channel es) \<and> set (map endpoint_channel es) \<inter> set seen = {}"
  by (induction seen es rule: duplicate_channel.induct) auto

lemma delivery_preference_new_Inr [result_simps]:
  "delivery_preference_new st chs = Inr p \<longleftrightarrow>
     p = \<lparr>preference_strategy = st, preference_channels = chs\<rparr> \<and> preference_wf p"
  using duplicate_channel_None [of "[]" chs]
  by (cases "duplicate_channel [] chs") (auto simp: delivery_preference_new_def preference_wf_def)

lemma channel_type_UNIV: "(UNIV :: channel_type set) =
  {ChannelType_WhatsApp, ChannelType_Sms, ChannelType_Email, ChannelType_Push}"
  using channel_type.exhaust by auto

lemma finite_channel_type: "finite (UNIV :: channel_type set)"
  by (simp add: channel_type_UNIV)

lemma preference_channels_le_4: "preference_wf p \<Longrightarrow> length (preference_channels p) \<le> 4"
proof -
  assume "preference_wf p"
  then have "length (preference_channels p) = card (endpoint_channel ` set (preference_channels p))"
    by (metis distinct_card length_map list.set_map preference_wf_def)
  also have "\<dots> \<le> card (UNIV :: channel_type set)"
    by (rule card_mono [OF finite_channel_type subset_UNIV])
  also have "\<dots> = 4" by (simp add: channel_type_UNIV)
  finally show ?thesis .
qed

lemma map_snd_tiers: "map snd (preference_tiers p) = preference_channels p"
  by (simp add: preference_tiers_def case_prod_unfold comp_def)

lemma length_tiers [simp]: "length (preference_tiers p) = length (preference_channels p)"
  by (simp add: preference_tiers_def)

lemma nth_tiers:
  "i < length (preference_channels p) \<Longrightarrow>
     preference_tiers p ! i =
       ((if preference_strategy p = DeliveryStrategy_All then 0 else of_nat i), preference_channels p ! i)"
  by (cases "preference_strategy p") (simp_all add: preference_tiers_def nth_enumerate_eq)

section \<open>Idempotency key\<close>

definition delivery_idempotency_key ::
  "(uuid \<Rightarrow> rstring) \<Rightarrow> consumer_id \<Rightarrow> alert_id \<Rightarrow> channel_type \<Rightarrow> rstring \<Rightarrow> rstring" where
  "delivery_idempotency_key show_uuid c a ch address =
     show_uuid (consumer_uuid c) @ lit '':'' @ show_uuid (alert_uuid a) @ lit '':''
     @ channel_type_to_db ch @ lit '':'' @ address"

text \<open>What the key relies on: the hyphenated text form of a UUID has 36 characters and
  determines the UUID.\<close>

definition uuid_display :: "(uuid \<Rightarrow> rstring) \<Rightarrow> bool" where
  "uuid_display show_uuid \<longleftrightarrow> inj show_uuid \<and> (\<forall>u. length (show_uuid u) = 36)"

lemma channel_prefix_inj:
  "channel_type_to_db c @ lit '':'' @ x = channel_type_to_db d @ lit '':'' @ y \<Longrightarrow> c = d \<and> x = y"
  by (cases c; cases d) (simp_all add: lit_def)

lemma idempotency_key_inj:
  assumes "uuid_display su"
    and "delivery_idempotency_key su c a ch x = delivery_idempotency_key su c' a' ch' x'"
  shows "c = c' \<and> a = a' \<and> ch = ch' \<and> x = x'"
proof -
  have len: "length (su u) = length (su v)" and inj: "su u = su v \<Longrightarrow> u = v" for u v
    using assms(1) by (auto simp: uuid_display_def inj_eq)
  from assms(2) have "su (consumer_uuid c) = su (consumer_uuid c')"
    and "su (alert_uuid a) = su (alert_uuid a')"
    and "channel_type_to_db ch @ lit '':'' @ x = channel_type_to_db ch' @ lit '':'' @ x'"
    by (auto simp: delivery_idempotency_key_def len append_eq_append_conv)
  then show ?thesis
    using inj channel_prefix_inj by (metis alert_id.expand consumer_id.expand)
qed

section \<open>Retry policy\<close>

datatype invalid_retry_policy = InvalidRetryPolicy

datatype retry_policy = RetryPolicy (retry_max_attempts: u32)

definition retry_policy_new :: "u32 \<Rightarrow> invalid_retry_policy + retry_policy" where
  "retry_policy_new max_attempts =
     (if max_attempts = 0 then Inl InvalidRetryPolicy else Inr (RetryPolicy max_attempts))"

definition retry_policy_standard :: retry_policy where
  "retry_policy_standard = RetryPolicy 5"

text \<open>The delay in seconds; \<open>1u64 << exponent\<close> is \<open>push_bit\<close>.\<close>

definition backoff_after_attempt :: "retry_policy \<Rightarrow> u32 \<Rightarrow> u64" where
  "backoff_after_attempt p attempt_count =
     (let exponent = min (if attempt_count = 0 then 0 else attempt_count - 1) 6;
          multiplier = push_bit (unat exponent) (1 :: u64)
      in min (30 * multiplier) (30 * 60))"

section \<open>The aggregate\<close>

datatype delivery_status = DeliveryStatus_Queued | DeliveryStatus_Sending | DeliveryStatus_Sent
  | DeliveryStatus_Delivered | DeliveryStatus_Retrying | DeliveryStatus_FailedPermanently

fun delivery_status_to_db :: "delivery_status \<Rightarrow> rstring" where
  "delivery_status_to_db DeliveryStatus_Queued = lit ''QUEUED''"
| "delivery_status_to_db DeliveryStatus_Sending = lit ''SENDING''"
| "delivery_status_to_db DeliveryStatus_Sent = lit ''SENT''"
| "delivery_status_to_db DeliveryStatus_Delivered = lit ''DELIVERED''"
| "delivery_status_to_db DeliveryStatus_Retrying = lit ''RETRYING''"
| "delivery_status_to_db DeliveryStatus_FailedPermanently = lit ''FAILED_PERMANENTLY''"

definition delivery_status_from_db :: "rstring \<Rightarrow> delivery_status option" where
  "delivery_status_from_db v =
     (if v = lit ''QUEUED'' then Some DeliveryStatus_Queued
      else if v = lit ''SENDING'' then Some DeliveryStatus_Sending
      else if v = lit ''SENT'' then Some DeliveryStatus_Sent
      else if v = lit ''DELIVERED'' then Some DeliveryStatus_Delivered
      else if v = lit ''RETRYING'' then Some DeliveryStatus_Retrying
      else if v = lit ''FAILED_PERMANENTLY'' then Some DeliveryStatus_FailedPermanently
      else None)"

interpretation delivery_status_db: db_enum delivery_status_to_db delivery_status_from_db
proof unfold_locales
  show "delivery_status_from_db (delivery_status_to_db x) = Some x" for x
    by (cases x) (simp_all add: delivery_status_from_db_def)
  show "delivery_status_from_db v = Some x \<Longrightarrow> delivery_status_to_db x = v" for v x
    by (auto simp: delivery_status_from_db_def split: if_splits)
qed

definition delivery_status_is_terminal :: "delivery_status \<Rightarrow> bool" where
  "delivery_status_is_terminal s \<longleftrightarrow> s \<in> {DeliveryStatus_Delivered, DeliveryStatus_FailedPermanently}"

datatype delivery_transition_error = DeliveryTransitionError delivery_status delivery_status

datatype delivery_event_type = DeliveryEventType_DeliveryRequested
  | DeliveryEventType_DeliveryStarted | DeliveryEventType_DeliverySent
  | DeliveryEventType_DeliveryDelivered | DeliveryEventType_DeliveryFailed
  | DeliveryEventType_DeliveryRetried

fun delivery_event_type_to_db :: "delivery_event_type \<Rightarrow> rstring" where
  "delivery_event_type_to_db DeliveryEventType_DeliveryRequested = lit ''DELIVERY_REQUESTED''"
| "delivery_event_type_to_db DeliveryEventType_DeliveryStarted = lit ''DELIVERY_STARTED''"
| "delivery_event_type_to_db DeliveryEventType_DeliverySent = lit ''DELIVERY_SENT''"
| "delivery_event_type_to_db DeliveryEventType_DeliveryDelivered = lit ''DELIVERY_DELIVERED''"
| "delivery_event_type_to_db DeliveryEventType_DeliveryFailed = lit ''DELIVERY_FAILED''"
| "delivery_event_type_to_db DeliveryEventType_DeliveryRetried = lit ''DELIVERY_RETRIED''"

interpretation delivery_event_type_db: db_label delivery_event_type_to_db
proof unfold_locales
  have "delivery_event_type_to_db x = delivery_event_type_to_db y \<Longrightarrow> x = y" for x y
    by (cases x; cases y) simp_all
  then show "inj delivery_event_type_to_db" by (rule injI)
qed

record delivery_event =
  delivery_event_id :: delivery_event_id
  delivery_event_delivery_id :: delivery_id
  delivery_event_type :: delivery_event_type
  delivery_event_version :: u64

datatype delivery_attempt_outcome = AttemptOutcome_Sent "rstring option"
  | AttemptOutcome_Failed bool rstring

record delivery_attempt =
  attempt_id :: delivery_attempt_id
  attempt_delivery_id :: delivery_id
  attempt_number :: u32
  attempt_outcome :: delivery_attempt_outcome

record delivery =
  delivery_id :: delivery_id
  delivery_alert_id :: alert_id
  delivery_consumer_id :: consumer_id
  delivery_channel :: channel_type
  delivery_endpoint_address :: rstring
  delivery_tier :: u8
  delivery_key :: rstring
  delivery_matching_subscriptions :: "matched_subscription list"
  delivery_retry_policy :: retry_policy
  delivery_status :: delivery_status
  delivery_attempt_count :: u32
  delivery_version :: u64

definition delivery_new_event :: "delivery \<Rightarrow> delivery_event_type \<Rightarrow> uuid \<Rightarrow> delivery_event" where
  "delivery_new_event d t ev_id =
     \<lparr>delivery_event_id = DeliveryEventId ev_id, delivery_event_delivery_id = delivery_id d,
      delivery_event_type = t, delivery_event_version = delivery_version d\<rparr>"

definition delivery_transition_error :: "delivery \<Rightarrow> delivery_status \<Rightarrow> delivery_transition_error" where
  "delivery_transition_error d to = DeliveryTransitionError (delivery_status d) to"

definition plan_one ::
  "(uuid \<Rightarrow> rstring) \<Rightarrow> alert_id \<Rightarrow> consumer_id \<Rightarrow> channel_endpoint \<Rightarrow> u8 \<Rightarrow>
   matched_subscription list \<Rightarrow> retry_policy \<Rightarrow> uuid \<Rightarrow> uuid \<Rightarrow> delivery \<times> delivery_event" where
  "plan_one show_uuid aid cid ep tier ms rp new_id ev_id =
     (let d = \<lparr>delivery_id = DeliveryId new_id, delivery_alert_id = aid,
               delivery_consumer_id = cid, delivery_channel = endpoint_channel ep,
               delivery_endpoint_address = endpoint_address ep, delivery_tier = tier,
               delivery_key = delivery_idempotency_key show_uuid cid aid (endpoint_channel ep)
                                (endpoint_address ep),
               delivery_matching_subscriptions = ms, delivery_retry_policy = rp,
               delivery_status = DeliveryStatus_Queued, delivery_attempt_count = 0,
               delivery_version = 1\<rparr>
      in (d, delivery_new_event d DeliveryEventType_DeliveryRequested ev_id))"

definition delivery_reconstitute ::
  "(uuid \<Rightarrow> rstring) \<Rightarrow> delivery_id \<Rightarrow> alert_id \<Rightarrow> consumer_id \<Rightarrow> channel_type \<Rightarrow> rstring \<Rightarrow> u8 \<Rightarrow>
   matched_subscription list \<Rightarrow> retry_policy \<Rightarrow> delivery_status \<Rightarrow> u32 \<Rightarrow> u64 \<Rightarrow> delivery" where
  "delivery_reconstitute show_uuid i aid cid ch address tier ms rp st n v =
     \<lparr>delivery_id = i, delivery_alert_id = aid, delivery_consumer_id = cid,
      delivery_channel = ch, delivery_endpoint_address = address, delivery_tier = tier,
      delivery_key = delivery_idempotency_key show_uuid cid aid ch address,
      delivery_matching_subscriptions = ms, delivery_retry_policy = rp, delivery_status = st,
      delivery_attempt_count = n, delivery_version = v\<rparr>"

definition delivery_max_attempts :: "delivery \<Rightarrow> u32" where
  "delivery_max_attempts d = retry_max_attempts (delivery_retry_policy d)"

definition retry_backoff :: "delivery \<Rightarrow> u64 option" where
  "retry_backoff d =
     (if delivery_status d = DeliveryStatus_Retrying
      then Some (backoff_after_attempt (delivery_retry_policy d) (delivery_attempt_count d))
      else None)"

definition start_attempt ::
  "delivery \<Rightarrow> uuid \<Rightarrow> delivery_transition_error + delivery \<times> delivery_event" where
  "start_attempt d ev_id =
     (if delivery_status d \<notin> {DeliveryStatus_Queued, DeliveryStatus_Retrying}
      then Inl (delivery_transition_error d DeliveryStatus_Sending)
      else let d' = d\<lparr>delivery_status := DeliveryStatus_Sending,
                      delivery_attempt_count := delivery_attempt_count d + 1,
                      delivery_version := delivery_version d + 1\<rparr>
           in Inr (d', delivery_new_event d' DeliveryEventType_DeliveryStarted ev_id))"

definition record_success ::
  "delivery \<Rightarrow> rstring option \<Rightarrow> uuid \<Rightarrow> uuid \<Rightarrow>
   delivery_transition_error + delivery \<times> delivery_event \<times> delivery_attempt" where
  "record_success d provider_message_id att_id ev_id =
     (if delivery_status d \<noteq> DeliveryStatus_Sending
      then Inl (delivery_transition_error d DeliveryStatus_Sent)
      else let d' = d\<lparr>delivery_status := DeliveryStatus_Sent,
                      delivery_version := delivery_version d + 1\<rparr>;
               att = \<lparr>attempt_id = DeliveryAttemptId att_id, attempt_delivery_id = delivery_id d',
                      attempt_number = delivery_attempt_count d',
                      attempt_outcome = AttemptOutcome_Sent provider_message_id\<rparr>
           in Inr (d', delivery_new_event d' DeliveryEventType_DeliverySent ev_id, att))"

definition record_delivered ::
  "delivery \<Rightarrow> uuid \<Rightarrow> delivery_transition_error + delivery \<times> delivery_event" where
  "record_delivered d ev_id =
     (if delivery_status d \<noteq> DeliveryStatus_Sent
      then Inl (delivery_transition_error d DeliveryStatus_Delivered)
      else let d' = d\<lparr>delivery_status := DeliveryStatus_Delivered,
                      delivery_version := delivery_version d + 1\<rparr>
           in Inr (d', delivery_new_event d' DeliveryEventType_DeliveryDelivered ev_id))"

definition record_failure ::
  "delivery \<Rightarrow> bool \<Rightarrow> rstring \<Rightarrow> uuid \<Rightarrow> uuid \<Rightarrow>
   delivery_transition_error + delivery \<times> delivery_event \<times> delivery_attempt" where
  "record_failure d retryable reason att_id ev_id =
     (if delivery_status d \<noteq> DeliveryStatus_Sending
      then Inl (delivery_transition_error d DeliveryStatus_FailedPermanently)
      else let will_retry = (retryable \<and>
                 delivery_attempt_count d < retry_max_attempts (delivery_retry_policy d));
               d' = d\<lparr>delivery_status := (if will_retry then DeliveryStatus_Retrying
                                          else DeliveryStatus_FailedPermanently),
                      delivery_version := delivery_version d + 1\<rparr>;
               att = \<lparr>attempt_id = DeliveryAttemptId att_id, attempt_delivery_id = delivery_id d',
                      attempt_number = delivery_attempt_count d',
                      attempt_outcome = AttemptOutcome_Failed retryable reason\<rparr>;
               event_type = (if will_retry then DeliveryEventType_DeliveryRetried
                             else DeliveryEventType_DeliveryFailed)
           in Inr (d', delivery_new_event d' event_type ev_id, att))"

section \<open>Planning\<close>

text \<open>
  \<open>ids\<close> is the stream of UUIDs that \<open>Uuid::new_v4\<close> returns; each planned delivery draws its id
  and then the id of its event.
\<close>

fun plan_endpoints ::
  "(uuid \<Rightarrow> rstring) \<Rightarrow> alert_id \<Rightarrow> consumer_match \<Rightarrow> retry_policy \<Rightarrow> (nat \<Rightarrow> uuid) \<Rightarrow> nat \<Rightarrow>
   (u8 \<times> channel_endpoint) list \<Rightarrow> (delivery \<times> delivery_event) list" where
  "plan_endpoints show_uuid aid m rp ids n [] = []"
| "plan_endpoints show_uuid aid m rp ids n ((tier, ep) # rest) =
     plan_one show_uuid aid (match_consumer_id m) ep tier (matching_subscriptions m) rp
       (ids n) (ids (n + 1))
     # plan_endpoints show_uuid aid m rp ids (n + 2) rest"

fun plan_loop ::
  "(uuid \<Rightarrow> rstring) \<Rightarrow> alert_id \<Rightarrow> (consumer_id \<Rightarrow> delivery_preference option) \<Rightarrow> retry_policy \<Rightarrow>
   (nat \<Rightarrow> uuid) \<Rightarrow> nat \<Rightarrow> consumer_match list \<Rightarrow> (delivery \<times> delivery_event) list" where
  "plan_loop show_uuid aid prefs rp ids n [] = []"
| "plan_loop show_uuid aid prefs rp ids n (m # ms) =
     (case prefs (match_consumer_id m) of
        None \<Rightarrow> plan_loop show_uuid aid prefs rp ids n ms
      | Some p \<Rightarrow>
          plan_endpoints show_uuid aid m rp ids n (preference_tiers p)
          @ plan_loop show_uuid aid prefs rp ids (n + 2 * length (preference_tiers p)) ms)"

definition plan_deliveries ::
  "(uuid \<Rightarrow> rstring) \<Rightarrow> alert \<Rightarrow> consumer_match list \<Rightarrow> (consumer_id \<Rightarrow> delivery_preference option) \<Rightarrow>
   retry_policy \<Rightarrow> (nat \<Rightarrow> uuid) \<Rightarrow> (delivery \<times> delivery_event) list" where
  "plan_deliveries show_uuid a matches prefs rp ids =
     plan_loop show_uuid (Alert_Model.alert_id a) prefs rp ids 0 matches"

end
