(* ===== verification/Citizen_Subscription.thy ===== *)
theory Citizen_Subscription
  imports Delivery_Model
begin

text \<open>
  Self-service citizen subscriptions (\<open>crates/application/src/citizen_subscription.rs\<close>): the
  management token and its constant-time check, and \<open>prepare_citizen_subscription\<close>. \<open>sha256\<close> and
  the text form of a UUID are arguments.
\<close>

section \<open>Management tokens\<close>

definition generate_management_token :: "(uuid \<Rightarrow> rstring) \<Rightarrow> uuid \<Rightarrow> rstring" where
  "generate_management_token show_uuid u = show_uuid u"

definition hash_management_token :: "(rstring \<Rightarrow> bytes) \<Rightarrow> rstring \<Rightarrow> bytes" where
  "hash_management_token sha256 token = sha256 token"

definition constant_time_eq :: "bytes \<Rightarrow> bytes \<Rightarrow> bool" where
  "constant_time_eq a b =
     (if length a \<noteq> length b then False
      else fold (\<lambda>(x, y) acc. acc OR (x XOR y)) (zip a b) 0 = 0)"

definition verify_management_token :: "(rstring \<Rightarrow> bytes) \<Rightarrow> rstring \<Rightarrow> bytes \<Rightarrow> bool" where
  "verify_management_token sha256 token stored_hash =
     constant_time_eq (hash_management_token sha256 token) stored_hash"

lemma fold_or_xor_eq_0:
  fixes acc :: u8
  shows "fold (\<lambda>(x, y) acc. acc OR (x XOR y)) ps acc = 0 \<longleftrightarrow> acc = 0 \<and> (\<forall>(x, y) \<in> set ps. x = y)"
proof (induction ps arbitrary: acc)
  case (Cons p ps)
  obtain x y where p: "p = (x, y)" by (cases p)
  have "x XOR y = 0 \<longleftrightarrow> x = y"
    by (metis xor.assoc xor.right_neutral xor_self_eq)
  moreover have "acc OR (x XOR y) = 0 \<longleftrightarrow> acc = 0 \<and> x XOR y = 0"
    by (rule or_eq_0_iff)
  ultimately have "acc OR (x XOR y) = 0 \<longleftrightarrow> acc = 0 \<and> x = y" by simp
  with Cons.IH p show ?case by auto
qed simp

lemma constant_time_eq_iff: "constant_time_eq a b \<longleftrightarrow> a = b"
proof (cases "length a = length b")
  case True
  then have "(\<forall>(x, y) \<in> set (zip a b). x = y) \<longleftrightarrow> a = b"
    by (induction a b rule: list_induct2) auto
  with True show ?thesis by (simp add: constant_time_eq_def fold_or_xor_eq_0)
next
  case False
  then show ?thesis by (auto simp: constant_time_eq_def)
qed

section \<open>Preparing a subscription\<close>

definition citizen_alert_visibilities :: "alert_visibility list" where
  "citizen_alert_visibilities = [AlertVisibility_Community, AlertVisibility_Public]"

definition citizen_consumer_name :: rstring where
  "citizen_consumer_name = lit ''Citizen (self-subscribed)''"

text \<open>The three errors, and the panics of the two \<open>expect\<close> calls and the \<open>unreachable!\<close>.\<close>

datatype citizen_subscription_error = CitizenSubscription_EmptyIncidentTypes
  | CitizenSubscription_InvalidGeography | CitizenSubscription_InvalidPushSubscription
  | CitizenSubscription_Panic

record citizen_subscription_request =
  request_incident_types :: "incident_type list"
  request_minimum_severity :: severity
  request_geography :: "rstring list"
  request_push_subscription_json :: rstring
  request_locale :: "rstring option"

record prepared_citizen_subscription =
  prepared_consumer :: consumer
  prepared_delivery_preference :: delivery_preference
  prepared_subscription :: subscription
  prepared_management_token :: rstring
  prepared_management_token_hash :: bytes

text \<open>Draws, in order: the consumer id, the subscription id, the management token.\<close>

definition prepare_citizen_subscription ::
  "(uuid \<Rightarrow> rstring) \<Rightarrow> (rstring \<Rightarrow> bytes) \<Rightarrow> citizen_subscription_request \<Rightarrow> (nat \<Rightarrow> uuid) \<Rightarrow>
   citizen_subscription_error + prepared_citizen_subscription" where
  "prepare_citizen_subscription show_uuid sha256 rq ids =
     (if request_incident_types rq = [] then Inl CitizenSubscription_EmptyIncidentTypes
      else
        let geo_areas = List.map_filter (\<lambda>area. to_ok (geo_area_new area)) (request_geography rq) in
        if geo_areas = [] then Inl CitizenSubscription_InvalidGeography
        else
          bind_result (map_err (\<lambda>_. CitizenSubscription_InvalidPushSubscription)
            (channel_endpoint_new ChannelType_Push (request_push_subscription_json rq))) (\<lambda>endpoint.
          bind_result (map_err (\<lambda>_. CitizenSubscription_Panic)
            (consumer_new (ids 0) ConsumerType_Citizen citizen_consumer_name)) (\<lambda>consumer0.
          let consumer = consumer_with_locale consumer0 (request_locale rq) in
          bind_result (map_err (\<lambda>_. CitizenSubscription_Panic)
            (delivery_preference_new DeliveryStrategy_All [endpoint])) (\<lambda>pref.
          let rules =
            [Rule_IncidentType (request_incident_types rq),
             Rule_Severity Comparison_GreaterThanOrEqual (request_minimum_severity rq),
             Rule_Geography geo_areas,
             Rule_Visibility citizen_alert_visibilities] in
          bind_result (map_err (\<lambda>_. CitizenSubscription_Panic)
            (subscription_new (SubscriptionId (ids 1)) (consumer_id consumer) 1 rules)) (\<lambda>sub.
          let token = generate_management_token show_uuid (ids 2) in
          Inr \<lparr>prepared_consumer = consumer, prepared_delivery_preference = pref,
               prepared_subscription = sub, prepared_management_token = token,
               prepared_management_token_hash = hash_management_token sha256 token\<rparr>)))))"

lemma geo_area_new_simps:
  "geo_area_new s = (if is_blank s then Inl EmptyGeoArea else Inr (GeoArea (trim s)))"
  by (simp add: geo_area_new_def Let_def trim_Nil_iff)

definition citizen_areas :: "rstring list \<Rightarrow> geo_area list" where
  "citizen_areas names = map (GeoArea \<circ> trim) (filter (\<lambda>s. \<not> is_blank s) names)"

lemma citizen_areas_filter:
  "List.map_filter (\<lambda>area. to_ok (geo_area_new area)) names = citizen_areas names"
  by (induction names) (simp_all add: citizen_areas_def List.map_filter_def geo_area_new_simps)

definition citizen_rules :: "citizen_subscription_request \<Rightarrow> subscription_rule list" where
  "citizen_rules rq =
     [Rule_IncidentType (request_incident_types rq),
      Rule_Severity Comparison_GreaterThanOrEqual (request_minimum_severity rq),
      Rule_Geography (citizen_areas (request_geography rq)),
      Rule_Visibility citizen_alert_visibilities]"

lemma citizen_consumer_new:
  "consumer_new u ConsumerType_Citizen citizen_consumer_name =
     Inr \<lparr>consumer_id = ConsumerId u, consumer_name = citizen_consumer_name,
          consumer_type = ConsumerType_Citizen, consumer_locale = None\<rparr>"
  by (simp add: consumer_new_def citizen_consumer_name_def lit_def trim_def is_whitespace_def)

lemma single_channel_preference:
  "delivery_preference_new st [e] = Inr \<lparr>preference_strategy = st, preference_channels = [e]\<rparr>"
  by (simp add: delivery_preference_new_def)

lemma channel_endpoint_new_simps:
  "channel_endpoint_new ch s =
     (if is_blank s then Inl EmptyChannelEndpointAddress
      else Inr \<lparr>endpoint_channel = ch, endpoint_address = trim s\<rparr>)"
  by (simp add: channel_endpoint_new_def Let_def trim_Nil_iff)

lemma prepare_citizen_subscription_eq:
  "prepare_citizen_subscription su sha rq ids =
     (if request_incident_types rq = [] then Inl CitizenSubscription_EmptyIncidentTypes
      else if list_all is_blank (request_geography rq) then Inl CitizenSubscription_InvalidGeography
      else if is_blank (request_push_subscription_json rq)
           then Inl CitizenSubscription_InvalidPushSubscription
      else Inr
        \<lparr>prepared_consumer = consumer_with_locale
           \<lparr>consumer_id = ConsumerId (ids 0), consumer_name = citizen_consumer_name,
            consumer_type = ConsumerType_Citizen, consumer_locale = None\<rparr> (request_locale rq),
         prepared_delivery_preference =
           \<lparr>preference_strategy = DeliveryStrategy_All,
            preference_channels = [\<lparr>endpoint_channel = ChannelType_Push,
              endpoint_address = trim (request_push_subscription_json rq)\<rparr>]\<rparr>,
         prepared_subscription =
           \<lparr>subscription_id = SubscriptionId (ids 1), subscription_consumer_id = ConsumerId (ids 0),
            subscription_version = 1, subscription_rules = citizen_rules rq,
            subscription_created_at = None\<rparr>,
         prepared_management_token = su (ids 2),
         prepared_management_token_hash = sha (su (ids 2))\<rparr>)"
proof -
  have "citizen_areas (request_geography rq) = [] \<longleftrightarrow> list_all is_blank (request_geography rq)"
    by (auto simp: citizen_areas_def filter_empty_conv list_all_iff)
  then show ?thesis
    unfolding prepare_citizen_subscription_def citizen_areas_filter
    by (simp add: channel_endpoint_new_simps citizen_consumer_new single_channel_preference
        subscription_new_def consumer_with_locale_def citizen_rules_def generate_management_token_def
        hash_management_token_def Let_def)
qed

section \<open>Properties\<close>

text \<open>Preparing a citizen subscription fails exactly on no incident type, no usable area or a blank
  push address, and never panics. The subscription it makes matches an alert exactly when the type is
  listed, the severity is at least the minimum, one usable area occurs in the target geography up to
  letter case, and the alert is for the community or the public.\<close>

theorem citizen_subscription_exact:
  "case prepare_citizen_subscription su sha rq ids of
     Inl err \<Rightarrow>
       request_incident_types rq = [] \<and> err = CitizenSubscription_EmptyIncidentTypes \<or>
       list_all is_blank (request_geography rq) \<and> err = CitizenSubscription_InvalidGeography \<or>
       is_blank (request_push_subscription_json rq) \<and> err = CitizenSubscription_InvalidPushSubscription
   | Inr p \<Rightarrow>
       request_incident_types rq \<noteq> [] \<and> \<not> list_all is_blank (request_geography rq) \<and>
       \<not> is_blank (request_push_subscription_json rq) \<and>
       preference_wf (prepared_delivery_preference p) \<and>
       verify_management_token sha (prepared_management_token p) (prepared_management_token_hash p) \<and>
       (decision_matched (evaluate_subscription (prepared_subscription p) al) \<longleftrightarrow>
          alert_incident_type al \<in> set (request_incident_types rq) \<and>
          request_minimum_severity rq \<le> alert_severity al \<and>
          (\<exists>area \<in> set (request_geography rq). \<not> is_blank area \<and>
             sublist (to_lowercase (trim area)) (to_lowercase (target_geography_text (alert_target_geography al)))) \<and>
          Alert_Model.alert_visibility al \<in> {AlertVisibility_Community, AlertVisibility_Public})"
  by (auto simp: prepare_citizen_subscription_eq citizen_rules_def citizen_areas_def citizen_alert_visibilities_def
      list_ex_iff matches_target_def str_contains_sublist preference_wf_def verify_management_token_def
      hash_management_token_def constant_time_eq_iff)

text \<open>The constant-time comparison is equality, so a management token is accepted exactly when its
  hash is the stored one.\<close>

lemma constant_time_comparison_correct:
  "(constant_time_eq a b \<longleftrightarrow> a = b) \<and> (verify_management_token sha token stored \<longleftrightarrow> sha token = stored)"
  by (simp add: constant_time_eq_iff verify_management_token_def hash_management_token_def)

end
