(* ===== verification/Rate_Limit.thy ===== *)
theory Rate_Limit
  imports Sentinel_Contracts
begin

text \<open>
  Per-source rate limits: scopes (\<open>crates/application/src/rate_limit.rs\<close>), the in-memory limiter
  of the same file and the fixed-window counter in Postgres
  (\<open>crates/infrastructure/src/postgres/rate_limits.rs\<close>). Both provide one contract, a counter per
  key; time in seconds is an argument. A database failure other than the overflow of the
  \<open>integer\<close> column is not modelled.
\<close>

section \<open>Scopes\<close>

datatype rate_limit_scope = Scope_AnonymousReportSubmission | Scope_ReviewerLoginAttempt
  | Scope_CitizenSubscriptionCreation | Scope_AttachmentUploadRequest
  | Scope_VoiceTranscriptionRequest

fun rate_limit_scope_to_db :: "rate_limit_scope \<Rightarrow> rstring" where
  "rate_limit_scope_to_db Scope_AnonymousReportSubmission = lit ''ANONYMOUS_REPORT_SUBMISSION''"
| "rate_limit_scope_to_db Scope_ReviewerLoginAttempt = lit ''REVIEWER_LOGIN_ATTEMPT''"
| "rate_limit_scope_to_db Scope_CitizenSubscriptionCreation = lit ''CITIZEN_SUBSCRIPTION_CREATION''"
| "rate_limit_scope_to_db Scope_AttachmentUploadRequest = lit ''ATTACHMENT_UPLOAD_REQUEST''"
| "rate_limit_scope_to_db Scope_VoiceTranscriptionRequest = lit ''VOICE_TRANSCRIPTION_REQUEST''"

interpretation rate_limit_scope_db: db_label rate_limit_scope_to_db
proof unfold_locales
  have "rate_limit_scope_to_db x = rate_limit_scope_to_db y \<Longrightarrow> x = y" for x y
    by (cases x; cases y) simp_all
  then show "inj rate_limit_scope_to_db" by (rule injI)
qed

fun scope_limit :: "rate_limit_scope \<Rightarrow> u32" where
  "scope_limit Scope_AnonymousReportSubmission = 10"
| "scope_limit Scope_ReviewerLoginAttempt = 5"
| "scope_limit Scope_CitizenSubscriptionCreation = 10"
| "scope_limit Scope_AttachmentUploadRequest = 30"
| "scope_limit Scope_VoiceTranscriptionRequest = 5"

fun scope_window :: "rate_limit_scope \<Rightarrow> nat" where
  "scope_window Scope_AnonymousReportSubmission = 60 * 60"
| "scope_window Scope_ReviewerLoginAttempt = 15 * 60"
| "scope_window Scope_CitizenSubscriptionCreation = 60 * 60"
| "scope_window Scope_AttachmentUploadRequest = 60 * 60"
| "scope_window Scope_VoiceTranscriptionRequest = 60 * 60"

lemma scope_limit_le: "unat (scope_limit s) \<le> 30"
  by (cases s) simp_all

lemma scope_window_pos: "0 < scope_window s"
  by (cases s) simp_all

section \<open>The contract\<close>

locale counting_limiter =
  fixes check :: "'s \<Rightarrow> 'r \<Rightarrow> 's \<times> bool"
    and key :: "'r \<Rightarrow> 'k"
    and count_of :: "'s \<Rightarrow> 'k \<Rightarrow> nat"
    and limit_of :: "'k \<Rightarrow> nat"
    and cap :: nat
  assumes counts: "count_of s (key r) < cap \<Longrightarrow> count_of (fst (check s r)) (key r) = count_of s (key r) + 1"
    and frame: "k \<noteq> key r \<Longrightarrow> count_of (fst (check s r)) k = count_of s k"
    and admits: "count_of s (key r) < cap \<Longrightarrow> snd (check s r) \<longleftrightarrow> count_of s (key r) < limit_of (key r)"
begin

lemma run_admitted:
  "count_of s k + length rs \<le> cap \<Longrightarrow>
     admitted key k rs (snd (run_checks check s rs)) =
       min (requests_of key k rs) (limit_of k - count_of s k)"
proof (induction rs arbitrary: s)
  case Nil
  then show ?case by (simp add: admitted_def requests_of_def)
next
  case (Cons r rs)
  obtain s' b where c: "check s r = (s', b)" by (cases "check s r")
  show ?case
  proof (cases "key r = k")
    case True
    then have "count_of s' k = count_of s k + 1" and "b \<longleftrightarrow> count_of s k < limit_of k"
      using c Cons.prems counts [of s r] admits [of s r] by auto
    with Cons.IH [of s'] Cons.prems True c show ?thesis
      by (auto simp: admitted_def requests_of_def case_prod_unfold)
  next
    case False
    then have "count_of s' k = count_of s k"
      using c frame [of k r s] by auto
    with Cons.IH [of s'] Cons.prems False c show ?thesis
      by (auto simp: admitted_def requests_of_def case_prod_unfold)
  qed
qed

end

section \<open>The in-memory limiter\<close>

type_synonym memory_limiter = "rate_limit_scope \<times> rstring \<Rightarrow> u32 option"

definition memory_record_and_check ::
  "memory_limiter \<Rightarrow> rate_limit_scope \<times> rstring \<Rightarrow> memory_limiter \<times> bool" where
  "memory_record_and_check counts k =
     (let count = (case counts k of None \<Rightarrow> 0 | Some c \<Rightarrow> c) + 1
      in (counts(k \<mapsto> count), count \<le> scope_limit (fst k)))"

definition memory_count :: "memory_limiter \<Rightarrow> rate_limit_scope \<times> rstring \<Rightarrow> nat" where
  "memory_count counts k = (case counts k of None \<Rightarrow> 0 | Some c \<Rightarrow> unat c)"

lemma unat_Suc_u32: "unat (c :: u32) < 2 ^ 32 - 1 \<Longrightarrow> unat (c + 1) = unat c + 1"
  by (subst unat_plus_if_size) (simp add: word_size)

interpretation memory_limiter: counting_limiter memory_record_and_check "\<lambda>k. k" memory_count
  "\<lambda>k. unat (scope_limit (fst k))" "2 ^ 32 - 1"
  by unfold_locales
     (auto simp: memory_record_and_check_def memory_count_def Let_def unat_Suc_u32 word_le_nat_alt
       split: option.splits)

section \<open>The Postgres limiter\<close>

text \<open>The table: scope label, source key and window start to the request count, a positive
  \<open>integer\<close>; incrementing past \<open>2 ^ 31 - 1\<close> is an error and leaves the row.\<close>

type_synonym window_key = "rstring \<times> rstring \<times> nat"
type_synonym rate_limit_windows = "window_key \<Rightarrow> nat option"

datatype rate_limit_error = RateLimitError

definition window_start :: "rate_limit_scope \<Rightarrow> nat \<Rightarrow> nat" where
  "window_start scope now = now - now mod scope_window scope"

definition pg_record_and_check ::
  "rate_limit_windows \<Rightarrow> rate_limit_scope \<Rightarrow> rstring \<Rightarrow> nat \<Rightarrow>
   rate_limit_windows \<times> (rate_limit_error + bool)" where
  "pg_record_and_check t scope source_key now =
     (let k = (rate_limit_scope_to_db scope, source_key, window_start scope now);
          request_count = (case t k of None \<Rightarrow> 1 | Some c \<Rightarrow> c + 1)
      in if request_count \<ge> 2 ^ 31 then (t, Inl RateLimitError)
         else (t(k \<mapsto> request_count), Inr (of_nat request_count \<le> scope_limit scope)))"

definition retention :: nat where
  "retention = 24 * 60 * 60"

definition delete_expired_windows :: "rate_limit_windows \<Rightarrow> int \<Rightarrow> rate_limit_windows" where
  "delete_expired_windows t now =
     (\<lambda>k. if int (snd (snd k)) < now - int retention then None else t k)"

text \<open>A request refused, or answered with an error, is not admitted.\<close>

type_synonym limit_request = "rate_limit_scope \<times> rstring \<times> nat"

definition pg_check :: "rate_limit_windows \<Rightarrow> limit_request \<Rightarrow> rate_limit_windows \<times> bool" where
  "pg_check t = (\<lambda>(scope, source_key, now).
     case pg_record_and_check t scope source_key now of (t', r) \<Rightarrow> (t', r = Inr True))"

definition window_of :: "limit_request \<Rightarrow> rate_limit_scope \<times> rstring \<times> nat" where
  "window_of = (\<lambda>(scope, source_key, now). (scope, source_key, window_start scope now))"

definition pg_count :: "rate_limit_windows \<Rightarrow> rate_limit_scope \<times> rstring \<times> nat \<Rightarrow> nat" where
  "pg_count t = (\<lambda>(scope, source_key, start).
     case t (rate_limit_scope_to_db scope, source_key, start) of None \<Rightarrow> 0 | Some c \<Rightarrow> c)"

lemma of_nat_le_limit:
  assumes "c < 2 ^ 31"
  shows "(of_nat c :: u32) \<le> scope_limit s \<longleftrightarrow> c \<le> unat (scope_limit s)"
proof -
  have "unat (of_nat c :: u32) = c"
    using assms by (simp add: unat_of_nat take_bit_nat_eq_self)
  then show ?thesis by (simp add: word_le_nat_alt)
qed

interpretation pg_limiter: counting_limiter pg_check window_of pg_count
  "\<lambda>k. unat (scope_limit (fst k))" "2 ^ 31 - 1"
proof unfold_locales
  fix t and r :: limit_request and k
  obtain scope src now where r: "r = (scope, src, now)" by (cases r)
  show "pg_count (fst (pg_check t r)) (window_of r) = pg_count t (window_of r) + 1"
    if "pg_count t (window_of r) < 2 ^ 31 - 1"
    using that
    by (auto simp: r pg_check_def pg_record_and_check_def window_of_def pg_count_def Let_def
        split: option.splits)
  show "pg_count (fst (pg_check t r)) k = pg_count t k" if "k \<noteq> window_of r"
    using that
    by (cases k)
       (auto simp: r pg_check_def pg_record_and_check_def window_of_def pg_count_def Let_def
          rate_limit_scope_db.to_db_eq_iff)
  show "snd (pg_check t r) \<longleftrightarrow> pg_count t (window_of r) < unat (scope_limit (fst (window_of r)))"
    if "pg_count t (window_of r) < 2 ^ 31 - 1"
    using that of_nat_le_limit [of 1 scope] of_nat_le_limit [of "pg_count t (window_of r) + 1" scope]
    by (auto simp: r pg_check_def pg_record_and_check_def window_of_def pg_count_def Let_def
        split: option.splits)
qed

text \<open>The window that is open now survives the cleanup.\<close>

lemma open_window_kept:
  "delete_expired_windows t (int now) (l, src, window_start scope now) = t (l, src, window_start scope now)"
proof -
  have "now mod scope_window scope < scope_window scope"
    using scope_window_pos by simp
  also have "scope_window scope \<le> 3600" by (cases scope) simp_all
  finally have "int (window_start scope now) \<ge> int now - 3600"
    by (simp add: window_start_def)
  then show ?thesis by (simp add: delete_expired_windows_def retention_def)
qed

section \<open>Properties\<close>

text \<open>For every scope and source, the requests that the Postgres limiter admits in one window are
  as many as were made, up to the limit of the scope (at most 30), in whatever order the requests of
  other sources, scopes and windows come between them.\<close>

theorem rate_limit_enforced:
  assumes "length rs \<le> 2 ^ 31 - 1"
  shows "admitted window_of (scope, src, start) rs (snd (run_checks pg_check (\<lambda>_. None) rs)) =
       min (requests_of window_of (scope, src, start) rs) (unat (scope_limit scope)) \<and>
     admitted window_of (scope, src, start) rs (snd (run_checks pg_check (\<lambda>_. None) rs)) \<le> 30"
proof -
  have "pg_count (\<lambda>_. None) (scope, src, start) = 0" by (simp add: pg_count_def)
  with pg_limiter.run_admitted [of "\<lambda>_. None" "(scope, src, start)" rs] assms scope_limit_le [of scope]
  show ?thesis by simp
qed

theorem rate_limit_enforced_witness:
  "admitted window_of (Scope_ReviewerLoginAttempt, lit ''a'', 0)
     (replicate 7 (Scope_ReviewerLoginAttempt, lit ''a'', 12))
     (snd (run_checks pg_check (\<lambda>_. None) (replicate 7 (Scope_ReviewerLoginAttempt, lit ''a'', 12)))) = 5"
  using rate_limit_enforced [of "replicate 7 (Scope_ReviewerLoginAttempt, lit ''a'', 12)" Scope_ReviewerLoginAttempt
      "lit ''a''" 0]
  by (simp add: requests_of_def window_of_def window_start_def)

end
