(* ===== verification/Uuid_Text.thy ===== *)
theory Uuid_Text
  imports Delivery_Model
begin

text \<open>
  Hexadecimal digits, and the hyphenated text form of a UUID as a concrete instance of the
  hypotheses that the development states about the \<open>uuid\<close> crate: \<open>uuid_display\<close> (the text has 36
  characters and determines the UUID) and \<open>uuid_text\<close> (parsing undoes printing, and no dot occurs).
\<close>

section \<open>Hexadecimal digits\<close>

definition hex_digit :: "nat \<Rightarrow> nat" where
  "hex_digit d = (if d < 10 then 48 + d else 87 + d)"

definition hex_value :: "nat \<Rightarrow> nat option" where
  "hex_value c =
     (if 48 \<le> c \<and> c \<le> 57 then Some (c - 48)
      else if 97 \<le> c \<and> c \<le> 102 then Some (c - 87)
      else if 65 \<le> c \<and> c \<le> 70 then Some (c - 55)
      else None)"

lemma hex_value_digit [simp]: "d < 16 \<Longrightarrow> hex_value (hex_digit d) = Some d"
  by (auto simp: hex_value_def hex_digit_def)

lemma hex_value_less: "hex_value c = Some d \<Longrightarrow> d < 16"
  by (auto simp: hex_value_def split: if_splits)

lemma hex_digit_less: "d < 16 \<Longrightarrow> hex_digit d < 128"
  by (simp add: hex_digit_def)

fun hex_fixed :: "nat \<Rightarrow> nat \<Rightarrow> rstring" where
  "hex_fixed 0 n = []"
| "hex_fixed (Suc k) n = hex_fixed k (n div 16) @ [hex_digit (n mod 16)]"

definition hex_number :: "rstring \<Rightarrow> nat" where
  "hex_number s = foldl (\<lambda>a c. 16 * a + the (hex_value c)) 0 s"

lemma length_hex_fixed [simp]: "length (hex_fixed k n) = k"
  by (induction k arbitrary: n) simp_all

lemma hex_number_fixed: "hex_number (hex_fixed k n) = n mod 16 ^ k"
proof (induction k arbitrary: n)
  case (Suc k)
  have "hex_number (hex_fixed (Suc k) n) = 16 * (n div 16 mod 16 ^ k) + n mod 16"
    using Suc by (simp add: hex_number_def)
  also have "\<dots> = n mod 16 ^ Suc k"
    by (simp add: mod_mult2_eq)
  finally show ?case .
qed (simp add: hex_number_def)

lemma hex_fixed_chars: "c \<in> set (hex_fixed k n) \<Longrightarrow> \<exists>d < 16. c = hex_digit d"
  by (induction k arbitrary: n) (auto, metis mod_less_divisor zero_less_numeral)

section \<open>The hyphenated form\<close>

definition hyphenate :: "rstring \<Rightarrow> rstring" where
  "hyphenate s = take 8 s @ [45] @ take 4 (drop 8 s) @ [45] @ take 4 (drop 12 s) @ [45]
     @ take 4 (drop 16 s) @ [45] @ drop 20 s"

definition hyphenated :: "uuid \<Rightarrow> rstring" where
  "hyphenated u = hyphenate (hex_fixed 32 (unat u))"

definition parse_hyphenated :: "rstring \<Rightarrow> uuid option" where
  "parse_hyphenated s =
     (if length s = 36 then Some (of_nat (hex_number (filter (\<lambda>c. c \<noteq> 45) s))) else None)"

lemma filter_hyphenate: "45 \<notin> set s \<Longrightarrow> filter (\<lambda>c. c \<noteq> 45) (hyphenate s) = s"
proof -
  assume no: "45 \<notin> set s"
  have keep: "filter (\<lambda>c. c \<noteq> 45) xs = xs" if "set xs \<subseteq> set s" for xs
    using that no by (auto simp: filter_id_conv)
  have sub: "set (take n (drop m s)) \<subseteq> set s" "set (take n s) \<subseteq> set s" "set (drop n s) \<subseteq> set s" for n m
    by (meson order.trans set_drop_subset set_take_subset)+
  have "filter (\<lambda>c. c \<noteq> 45) (hyphenate s) =
      take 8 s @ take 4 (drop 8 s) @ take 4 (drop 12 s) @ take 4 (drop 16 s) @ drop 20 s"
    by (simp add: hyphenate_def keep sub)
  also have "take 4 (drop 16 s) @ drop 20 s = drop 16 s"
    using append_take_drop_id [of 4 "drop 16 s"] by simp
  also have "take 4 (drop 12 s) @ drop 16 s = drop 12 s"
    using append_take_drop_id [of 4 "drop 12 s"] by simp
  also have "take 4 (drop 8 s) @ drop 12 s = drop 8 s"
    using append_take_drop_id [of 4 "drop 8 s"] by simp
  finally show ?thesis by simp
qed

lemma length_hyphenated: "length (hyphenated u) = 36"
  by (simp add: hyphenated_def hyphenate_def)

lemma hex_fixed_no: "c \<in> {45, 46, 58} \<Longrightarrow> c \<notin> set (hex_fixed k n)"
proof
  assume c: "c \<in> {45, 46, 58}" and "c \<in> set (hex_fixed k n)"
  then obtain d where "d < 16" "c = hex_digit d" using hex_fixed_chars by blast
  with c show False by (auto simp: hex_digit_def split: if_splits)
qed

lemma parse_hyphenated: "parse_hyphenated (hyphenated u) = Some u"
proof -
  have "hex_number (filter (\<lambda>c. c \<noteq> 45) (hyphenated u)) = unat u mod 16 ^ 32"
    unfolding hyphenated_def
    by (subst filter_hyphenate) (simp_all add: hex_fixed_no hex_number_fixed)
  also have "\<dots> = unat u"
    using unsigned_less [of u, where ?'a = nat] by simp
  finally show ?thesis
    by (simp add: parse_hyphenated_def length_hyphenated)
qed

lemma hyphenated_display: "uuid_display hyphenated"
  unfolding uuid_display_def
  by (metis injI length_hyphenated option.inject parse_hyphenated)

section \<open>Printing and parsing\<close>

definition uuid_text :: "(uuid \<Rightarrow> rstring) \<Rightarrow> (rstring \<Rightarrow> uuid option) \<Rightarrow> bool" where
  "uuid_text show_uuid parse_uuid \<longleftrightarrow>
     (\<forall>u. parse_uuid (show_uuid u) = Some u \<and> 46 \<notin> set (show_uuid u))"

lemma hyphenated_text: "uuid_text hyphenated parse_hyphenated"
proof -
  have "46 \<notin> set (hyphenated u)" for u
  proof -
    have "46 \<notin> set (hex_fixed 32 (unat u))" by (rule hex_fixed_no) simp
    then show ?thesis
      unfolding hyphenated_def hyphenate_def by (auto dest: in_set_takeD in_set_dropD)
  qed
  then show ?thesis by (simp add: uuid_text_def parse_hyphenated)
qed

end
