(* ===== verification/Signed_Tokens.thy ===== *)
theory Signed_Tokens
  imports Uuid_Text
begin

text \<open>
  The HMAC schemes: hex (\<open>crates/infrastructure/src/hex.rs\<close>), reviewer session tokens
  (\<open>auth/session_token.rs\<close>) and signed attachment URLs (\<open>storage/hmac_signed.rs\<close>). The MAC (crates
  \<open>hmac\<close>, \<open>sha2\<close>), the text form of a UUID and its parser are arguments; so is the clock.
\<close>

section \<open>UTF-8\<close>

definition utf8_char :: "nat \<Rightarrow> bytes" where
  "utf8_char c =
     (if c < 128 then [of_nat c]
      else if c < 2048 then [of_nat (192 + c div 64), of_nat (128 + c mod 64)]
      else if c < 65536 then
        [of_nat (224 + c div 4096), of_nat (128 + c div 64 mod 64), of_nat (128 + c mod 64)]
      else [of_nat (240 + c div 262144), of_nat (128 + c div 4096 mod 64),
            of_nat (128 + c div 64 mod 64), of_nat (128 + c mod 64)])"

definition utf8 :: "rstring \<Rightarrow> bytes" where
  "utf8 s = concat (map utf8_char s)"

definition is_continuation :: "u8 \<Rightarrow> bool" where
  "is_continuation b \<longleftrightarrow> 128 \<le> b \<and> b < 192"

lemma utf8_ascii: "\<forall>c \<in> set s. c < 128 \<Longrightarrow> utf8 s = map of_nat s"
  by (induction s) (simp_all add: utf8_def utf8_char_def)

lemma length_utf8: "length (utf8 s) = str_len s"
  by (induction s) (simp_all add: utf8_def utf8_char_def str_len_def utf8_len_char_def)

section \<open>Hex\<close>

definition hex_encode :: "bytes \<Rightarrow> rstring" where
  "hex_encode bs = concat (map (\<lambda>b. [hex_digit (unat b div 16), hex_digit (unat b mod 16)]) bs)"

text \<open>\<open>u8::from_str_radix(s, 16)\<close> on a string of two bytes: a leading \<open>+\<close> is skipped.\<close>

definition u8_from_hex2 :: "u8 \<Rightarrow> u8 \<Rightarrow> u8 option" where
  "u8_from_hex2 a b =
     (if a = 43 then map_option of_nat (hex_value (unat b))
      else case (hex_value (unat a), hex_value (unat b)) of
        (Some x, Some y) \<Rightarrow> Some (of_nat (16 * x + y))
      | _ \<Rightarrow> None)"

text \<open>\<open>decode\<close> returns \<open>None\<close> (here \<open>HexInvalid\<close>), or panics when a two-byte slice ends inside a
  character; the lazy \<open>collect\<close> stops at the first \<open>None\<close>.\<close>

datatype hex_error = HexInvalid | HexPanic

fun hex_decode_pairs :: "bytes \<Rightarrow> hex_error + bytes" where
  "hex_decode_pairs [] = Inr []"
| "hex_decode_pairs [a] = Inl HexInvalid"
| "hex_decode_pairs (a # b # rest) =
     (if rest \<noteq> [] \<and> is_continuation (hd rest) then Inl HexPanic
      else case u8_from_hex2 a b of
        None \<Rightarrow> Inl HexInvalid
      | Some v \<Rightarrow> bind_result (hex_decode_pairs rest) (\<lambda>vs. Inr (v # vs)))"

definition hex_decode :: "rstring \<Rightarrow> hex_error + bytes" where
  "hex_decode value =
     (if str_len value mod 2 \<noteq> 0 then Inl HexInvalid else hex_decode_pairs (utf8 value))"

lemma unat_of_nat_u8: "n < 256 \<Longrightarrow> unat (of_nat n :: u8) = n"
  by (simp add: unat_of_nat take_bit_nat_eq_self)

lemma hex_digit_byte: "d < 16 \<Longrightarrow> unat (of_nat (hex_digit d) :: u8) = hex_digit d"
  by (simp add: unat_of_nat_u8 hex_digit_def)

lemma u8_div_16: "unat (b :: u8) div 16 < 16"
  using unsigned_less [of b, where ?'a = nat] by simp

lemma hex_encode_ascii: "c \<in> set (hex_encode bs) \<Longrightarrow> c < 128"
proof -
  assume "c \<in> set (hex_encode bs)"
  then obtain b where "c = hex_digit (unat (b :: u8) div 16) \<or> c = hex_digit (unat b mod 16)"
    by (auto simp: hex_encode_def)
  then show ?thesis using u8_div_16 [of b] by (auto simp: hex_digit_less)
qed

lemma u8_from_hex2_digits:
  "u8_from_hex2 (of_nat (hex_digit (unat b div 16))) (of_nat (hex_digit (unat b mod 16))) = Some b"
proof -
  let ?a = "of_nat (hex_digit (unat b div 16)) :: u8"
  have "?a \<noteq> 43"
  proof
    assume "?a = 43"
    then have "unat ?a = unat (43 :: u8)" by (rule arg_cong)
    then have "hex_digit (unat b div 16) = 43" using u8_div_16 [of b] by (simp add: hex_digit_byte)
    then show False by (simp add: hex_digit_def split: if_splits)
  qed
  moreover have "hex_value (unat ?a) = Some (unat b div 16)"
    using u8_div_16 [of b] by (simp add: hex_digit_byte)
  moreover have "hex_value (unat (of_nat (hex_digit (unat b mod 16)) :: u8)) = Some (unat b mod 16)"
    by (simp add: hex_digit_byte)
  ultimately show ?thesis
    by (simp add: u8_from_hex2_def)
qed

lemma hex_digit_not_continuation: "d < 16 \<Longrightarrow> \<not> is_continuation (of_nat (hex_digit d))"
  by (simp add: is_continuation_def word_le_nat_alt hex_digit_byte) (simp add: hex_digit_def)

lemma hex_decode_pairs_encode: "hex_decode_pairs (map of_nat (hex_encode bs)) = Inr bs"
proof (induction bs)
  case (Cons b bs)
  have "rest = [] \<or> \<not> is_continuation (hd rest)" if "rest = map of_nat (hex_encode bs)" for rest :: bytes
    using that u8_div_16 by (cases bs) (auto simp: hex_encode_def hex_digit_not_continuation)
  with Cons show ?case
    by (auto simp: hex_encode_def u8_from_hex2_digits)
qed (simp add: hex_encode_def)

lemma hex_decode_encode: "hex_decode (hex_encode bs) = Inr bs"
proof -
  have asc: "utf8 (hex_encode bs) = map of_nat (hex_encode bs)"
    using hex_encode_ascii by (intro utf8_ascii) blast
  moreover have "length (utf8 (hex_encode bs)) mod 2 = 0"
    unfolding asc by (induction bs) (simp_all add: hex_encode_def)
  ultimately show ?thesis
    by (simp add: hex_decode_def hex_decode_pairs_encode flip: length_utf8)
qed

text \<open>Decoding is not injective: a pair may carry a sign.\<close>

lemma hex_decode_plus: "hex_decode (lit ''+f'') = hex_decode (lit ''0f'')"
  by (simp add: hex_decode_def lit_def str_len_def utf8_len_char_def utf8_def utf8_char_def
      u8_from_hex2_def hex_value_def)

section \<open>Decimal numbers\<close>

definition is_digit_char :: "nat \<Rightarrow> bool" where
  "is_digit_char c \<longleftrightarrow> 48 \<le> c \<and> c \<le> 57"

definition decimal_value :: "rstring \<Rightarrow> nat" where
  "decimal_value s = foldl (\<lambda>a c. 10 * a + (c - 48)) 0 s"

text \<open>\<open>str::parse::<u64>\<close>: an optional \<open>+\<close>, at least one digit, no overflow.\<close>

definition parse_u64 :: "rstring \<Rightarrow> u64 option" where
  "parse_u64 s =
     (let ds = (if s \<noteq> [] \<and> hd s = 43 then tl s else s) in
      if ds = [] \<or> \<not> list_all is_digit_char ds \<or> decimal_value ds \<ge> 2 ^ 64 then None
      else Some (of_nat (decimal_value ds)))"

lemma is_digit_char_digit: "d < 10 \<Longrightarrow> is_digit_char (48 + d)"
  by (simp add: is_digit_char_def)

lemma show_nat_digits: "list_all is_digit_char (show_nat n)"
proof (induction n rule: show_nat.induct)
  case (1 n)
  then show ?case
    by (subst show_nat.simps) (simp add: is_digit_char_digit)
qed

lemma decimal_value_show: "decimal_value (show_nat n) = n"
proof (induction n rule: show_nat.induct)
  case (1 n)
  show ?case
    using 1 by (subst show_nat.simps) (auto simp: decimal_value_def)
qed

lemma show_nat_nonempty [simp]: "show_nat n \<noteq> []"
  by (subst show_nat.simps) simp

lemma parse_u64_show: "parse_u64 (show_nat (unat v)) = Some v"
proof -
  have "hd (show_nat (unat v)) \<noteq> 43"
    using show_nat_digits [of "unat v"]
    by (cases "show_nat (unat v)") (auto simp: is_digit_char_def)
  moreover have "unat v < 2 ^ 64" using unsigned_less [of v, where ?'a = nat] by simp
  ultimately show ?thesis
    using show_nat_digits [of "unat v"] by (simp add: parse_u64_def Let_def decimal_value_show)
qed

section \<open>Session tokens\<close>

record session_issuer =
  issuer_secret :: bytes
  issuer_ttl :: u64

definition session_issuer_new :: "bytes \<Rightarrow> session_issuer" where
  "session_issuer_new secret = \<lparr>issuer_secret = secret, issuer_ttl = 12 * 60 * 60\<rparr>"

record issued_session_token =
  issued_token :: rstring
  issued_expires_in :: u64

record verified_session_token =
  verified_reviewer_id :: uuid
  verified_issued_at :: u64

definition session_payload :: "(uuid \<Rightarrow> rstring) \<Rightarrow> uuid \<Rightarrow> u64 \<Rightarrow> bytes" where
  "session_payload show_uuid reviewer expires_at =
     utf8 (show_uuid reviewer @ lit '':'' @ show_nat (unat expires_at))"

definition session_sign ::
  "(bytes \<Rightarrow> bytes \<Rightarrow> bytes) \<Rightarrow> (uuid \<Rightarrow> rstring) \<Rightarrow> session_issuer \<Rightarrow> uuid \<Rightarrow> u64 \<Rightarrow> rstring" where
  "session_sign hmac show_uuid s reviewer expires_at =
     hex_encode (hmac (issuer_secret s) (session_payload show_uuid reviewer expires_at))"

definition session_issue ::
  "(bytes \<Rightarrow> bytes \<Rightarrow> bytes) \<Rightarrow> (uuid \<Rightarrow> rstring) \<Rightarrow> session_issuer \<Rightarrow> uuid \<Rightarrow> u64 \<Rightarrow> issued_session_token" where
  "session_issue hmac show_uuid s reviewer now =
     (let expires_at = now + issuer_ttl s in
      \<lparr>issued_token = show_uuid reviewer @ lit ''.'' @ show_nat (unat expires_at) @ lit ''.''
         @ session_sign hmac show_uuid s reviewer expires_at,
       issued_expires_in = issuer_ttl s\<rparr>)"

fun split_dot :: "rstring \<Rightarrow> rstring \<times> rstring option" where
  "split_dot [] = ([], None)"
| "split_dot (c # cs) =
     (if c = 46 then ([], Some cs) else case split_dot cs of (a, r) \<Rightarrow> (c # a, r))"

definition saturating_sub :: "u64 \<Rightarrow> u64 \<Rightarrow> u64" where
  "saturating_sub a b = (if a < b then 0 else a - b)"

text \<open>\<open>None\<close> is \<open>TokenRejected\<close>; \<open>TokenPanic\<close> is the panic inside \<open>hex::decode\<close>.\<close>

datatype token_failure = TokenRejected | TokenPanic

fun hex_failure :: "hex_error \<Rightarrow> token_failure" where
  "hex_failure HexInvalid = TokenRejected"
| "hex_failure HexPanic = TokenPanic"

definition session_verify ::
  "(bytes \<Rightarrow> bytes \<Rightarrow> bytes) \<Rightarrow> (uuid \<Rightarrow> rstring) \<Rightarrow> (rstring \<Rightarrow> uuid option) \<Rightarrow> session_issuer \<Rightarrow>
   u64 \<Rightarrow> rstring \<Rightarrow> token_failure + verified_session_token" where
  "session_verify hmac show_uuid parse_uuid s now token =
     (let (part1, rest1) = split_dot token in
      bind_result (ok_or TokenRejected (parse_uuid part1)) (\<lambda>reviewer.
      bind_result (ok_or TokenRejected rest1) (\<lambda>r1.
      let (part2, rest2) = split_dot r1 in
      bind_result (ok_or TokenRejected (parse_u64 part2)) (\<lambda>expires_at.
      bind_result (ok_or TokenRejected rest2) (\<lambda>signature.
      if expires_at < now then Inl TokenRejected
      else bind_result (map_err hex_failure (hex_decode signature)) (\<lambda>signature_bytes.
        if hmac (issuer_secret s) (session_payload show_uuid reviewer expires_at) \<noteq> signature_bytes
        then Inl TokenRejected
        else Inr \<lparr>verified_reviewer_id = reviewer,
                  verified_issued_at = saturating_sub expires_at (issuer_ttl s)\<rparr>))))))"

lemma split_dot_append: "46 \<notin> set a \<Longrightarrow> split_dot (a @ 46 # b) = (a, Some b)"
  by (induction a) auto

lemma split_dot_Some: "split_dot s = (a, Some b) \<Longrightarrow> s = a @ 46 # b"
  by (induction s arbitrary: a) (auto split: if_splits prod.splits)

lemma show_nat_no_dot: "46 \<notin> set (show_nat n)"
  using show_nat_digits [of n] by (auto simp: list_all_iff is_digit_char_def)

lemma session_issue_parts:
  assumes "uuid_text su pu"
  shows "split_dot (issued_token (session_issue hmac su s u now)) =
           (su u, Some (show_nat (unat (now + issuer_ttl s)) @ 46 # session_sign hmac su s u (now + issuer_ttl s)))"
    and "split_dot (show_nat n @ 46 # x) = (show_nat n, Some x)"
  using assms show_nat_no_dot
  by (simp_all add: session_issue_def Let_def uuid_text_def lit_def split_dot_append)

lemma session_verify_issue:
  assumes "uuid_text su pu"
  shows "session_verify hmac su pu s now' (issued_token (session_issue hmac su s u now)) =
     (if now + issuer_ttl s < now' then Inl TokenRejected
      else Inr \<lparr>verified_reviewer_id = u,
                verified_issued_at = saturating_sub (now + issuer_ttl s) (issuer_ttl s)\<rparr>)"
  using assms
  by (simp add: session_verify_def session_issue_parts [OF assms] parse_u64_show session_sign_def
      hex_decode_encode) (simp add: uuid_text_def)

lemma session_verify_Inr:
  assumes "session_verify hmac su pu s now token = Inr v"
  shows "\<exists>p1 p2 signature expires_at. token = p1 @ 46 # p2 @ 46 # signature \<and>
           pu p1 = Some (verified_reviewer_id v) \<and> parse_u64 p2 = Some expires_at \<and> now \<le> expires_at \<and>
           hex_decode signature = Inr (hmac (issuer_secret s)
             (session_payload su (verified_reviewer_id v) expires_at)) \<and>
           verified_issued_at v = saturating_sub expires_at (issuer_ttl s)"
proof -
  obtain p1 q1 where 1: "split_dot token = (p1, q1)" by (cases "split_dot token")
  with assms obtain u r1 where u: "pu p1 = Some u" and q1: "q1 = Some r1"
    by (auto simp: session_verify_def result_simps)
  obtain p2 q2 where 2: "split_dot r1 = (p2, q2)" by (cases "split_dot r1")
  with 1 u q1 assms obtain e sig where e: "parse_u64 p2 = Some e" and q2: "q2 = Some sig"
    by (auto simp: session_verify_def result_simps)
  have "now \<le> e" "hex_decode sig = Inr (hmac (issuer_secret s) (session_payload su u e))"
    "v = \<lparr>verified_reviewer_id = u, verified_issued_at = saturating_sub e (issuer_ttl s)\<rparr>"
    using assms unfolding session_verify_def
    by (auto simp: 1 2 u q1 e q2 Let_def result_simps not_less split: if_splits)
  moreover have "token = p1 @ 46 # p2 @ 46 # sig"
    using split_dot_Some [OF 1 [unfolded q1]] split_dot_Some [OF 2 [unfolded q2]] by simp
  ultimately show ?thesis using u e
    by (intro exI [of _ p1] exI [of _ p2] exI [of _ sig] exI [of _ e]) simp
qed

section \<open>Signed attachment URLs\<close>

record attachment_signer =
  signer_base_url :: rstring
  signer_secret :: bytes
  signer_upload_ttl :: u64
  signer_download_ttl :: u64

definition attachment_signer_new :: "rstring \<Rightarrow> bytes \<Rightarrow> attachment_signer" where
  "attachment_signer_new base secret =
     \<lparr>signer_base_url = base, signer_secret = secret, signer_upload_ttl = 15 * 60,
      signer_download_ttl = 5 * 60\<rparr>"

definition attachment_payload :: "rstring \<Rightarrow> u64 \<Rightarrow> bytes" where
  "attachment_payload object_key expires_at =
     utf8 (object_key @ lit '':'' @ show_nat (unat expires_at))"

definition attachment_sign ::
  "(bytes \<Rightarrow> bytes \<Rightarrow> bytes) \<Rightarrow> attachment_signer \<Rightarrow> rstring \<Rightarrow> u64 \<Rightarrow> rstring" where
  "attachment_sign hmac s object_key expires_at =
     hex_encode (hmac (signer_secret s) (attachment_payload object_key expires_at))"

definition attachment_verify ::
  "(bytes \<Rightarrow> bytes \<Rightarrow> bytes) \<Rightarrow> attachment_signer \<Rightarrow> u64 \<Rightarrow> rstring \<Rightarrow> u64 \<Rightarrow> rstring \<Rightarrow>
   token_failure + unit" where
  "attachment_verify hmac s now object_key expires_at signature =
     (if expires_at < now then Inl TokenRejected
      else bind_result (map_err hex_failure (hex_decode signature)) (\<lambda>signature_bytes.
        if hmac (signer_secret s) (attachment_payload object_key expires_at) \<noteq> signature_bytes
        then Inl TokenRejected else Inr ()))"

definition attachment_signed_url ::
  "(bytes \<Rightarrow> bytes \<Rightarrow> bytes) \<Rightarrow> attachment_signer \<Rightarrow> u64 \<Rightarrow> rstring \<Rightarrow> u64 \<Rightarrow> rstring \<times> u64" where
  "attachment_signed_url hmac s now object_key ttl =
     (let expires_at = now + ttl;
          signature = attachment_sign hmac s object_key expires_at
      in (signer_base_url s @ lit ''/'' @ object_key @ lit ''?expires='' @ show_nat (unat expires_at)
          @ lit ''&signature='' @ signature, ttl))"

lemma attachment_verify_sign:
  "attachment_verify hmac s now k e (attachment_sign hmac s k e) =
     (if e < now then Inl TokenRejected else Inr ())"
  by (simp add: attachment_verify_def attachment_sign_def hex_decode_encode)

section \<open>Properties\<close>

text \<open>A session token that was issued is accepted by the same issuer up to and including its expiry
  and rejected afterwards, for the reviewer it was issued to and with the time of issue recovered from
  the expiry.\<close>

theorem session_round_trip:
  assumes "uuid_text su pu" and "unat now + unat (issuer_ttl s) < 2 ^ 64"
  shows "session_verify hmac su pu s later (issued_token (session_issue hmac su s u now)) =
     (if unat now + unat (issuer_ttl s) < unat later then Inl TokenRejected
      else Inr \<lparr>verified_reviewer_id = u, verified_issued_at = now\<rparr>)"
proof -
  have add: "unat (now + issuer_ttl s) = unat now + unat (issuer_ttl s)"
    using assms(2) unat_add_lem [of now "issuer_ttl s"] by simp
  have "saturating_sub (now + issuer_ttl s) (issuer_ttl s) = now"
    using add by (simp add: saturating_sub_def word_less_nat_alt)
  then show ?thesis
    using session_verify_issue [OF assms(1)] by (simp add: add word_less_nat_alt)
qed

theorem session_round_trip_witness:
  "session_verify (\<lambda>k m. k @ m) hyphenated parse_hyphenated (session_issuer_new [1]) 100
     (issued_token (session_issue (\<lambda>k m. k @ m) hyphenated (session_issuer_new [1]) 9 40)) =
     Inr \<lparr>verified_reviewer_id = 9, verified_issued_at = 40\<rparr>"
  using session_round_trip [OF hyphenated_text, of 40 "session_issuer_new [1]" "\<lambda>k m. k @ m" 100 9]
  by (simp add: session_issuer_new_def)

text \<open>An accepted session token is the text of the reviewer it is accepted for, an expiry that has not
  passed and a signature, joined by dots; the signature is, in hexadecimal, the MAC of reviewer and expiry
  under the issuer's secret.\<close>

lemma session_authentic:
  assumes "session_verify hmac su pu s now token = Inr v"
  shows "\<exists>reviewer expiry signature expires_at.
     token = reviewer @ lit ''.'' @ expiry @ lit ''.'' @ signature \<and>
     pu reviewer = Some (verified_reviewer_id v) \<and> parse_u64 expiry = Some expires_at \<and> now \<le> expires_at \<and>
     hex_decode signature = Inr (hmac (issuer_secret s)
       (utf8 (su (verified_reviewer_id v) @ lit '':'' @ show_nat (unat expires_at)))) \<and>
     verified_issued_at v = saturating_sub expires_at (issuer_ttl s)"
  using session_verify_Inr [OF assms] by (simp add: session_payload_def lit_def)

text \<open>Hexadecimal text decodes back to the bytes it encodes, so an attachment URL signed for a key
  and an expiry verifies exactly until the expiry.\<close>

lemma attachment_signature_round_trip:
  "hex_decode (hex_encode bs) = Inr bs \<and>
   attachment_verify hmac s now k e (attachment_sign hmac s k e) =
     (if e < now then Inl TokenRejected else Inr ())"
  by (simp add: hex_decode_encode attachment_verify_sign)

text \<open>The decoder is not injective on well-formed signatures: a plus sign is read as a digit zero.\<close>

lemma hex_decode_accepts_plus:
  "hex_decode (lit ''+f'') = hex_decode (lit ''0f'') \<and> (\<exists>bs. hex_decode (lit ''+f'') = Inr bs)"
  using hex_decode_encode [of "[15]"]
  by (simp add: hex_decode_plus hex_encode_def) (simp add: lit_def hex_digit_def)

end
