(* ===== verification/Delivery_Lifecycle.thy ===== *)
theory Delivery_Lifecycle
  imports Uuid_Text
begin

text \<open>
  Lemmas on the delivery aggregate of \<open>Delivery_Model\<close>: the four mutating methods as one
  operation type, the invariant that ties status, attempt count and version together, runs of
  operations with the attempts they record, the backoff, and the specification of planning.
\<close>

section \<open>Operations\<close>

datatype delivery_op =
    DeliveryOp_Start uuid
  | DeliveryOp_Success "rstring option" uuid uuid
  | DeliveryOp_Delivered uuid
  | DeliveryOp_Failure bool rstring uuid uuid

type_synonym delivery_record = "delivery_event \<times> delivery_attempt option"

fun delivery_apply ::
  "delivery \<Rightarrow> delivery_op \<Rightarrow> delivery_transition_error + delivery \<times> delivery_record" where
  "delivery_apply d (DeliveryOp_Start e) =
     bind_result (start_attempt d e) (\<lambda>(d', ev). Inr (d', ev, None))"
| "delivery_apply d (DeliveryOp_Success m a e) =
     bind_result (record_success d m a e) (\<lambda>(d', ev, att). Inr (d', ev, Some att))"
| "delivery_apply d (DeliveryOp_Delivered e) =
     bind_result (record_delivered d e) (\<lambda>(d', ev). Inr (d', ev, None))"
| "delivery_apply d (DeliveryOp_Failure r s a e) =
     bind_result (record_failure d r s a e) (\<lambda>(d', ev, att). Inr (d', ev, Some att))"

lemma delivery_new_event_simps [simp]:
  "delivery_event_id (delivery_new_event d t e) = DeliveryEventId e"
  "delivery_event_delivery_id (delivery_new_event d t e) = delivery_id d"
  "delivery_event_type (delivery_new_event d t e) = t"
  "delivery_event_version (delivery_new_event d t e) = delivery_version d"
  by (simp_all add: delivery_new_event_def)

lemma start_attempt_Inr [result_simps]:
  "start_attempt d e = Inr (d', ev) \<longleftrightarrow>
     delivery_status d \<in> {DeliveryStatus_Queued, DeliveryStatus_Retrying} \<and>
     d' = d\<lparr>delivery_status := DeliveryStatus_Sending,
           delivery_attempt_count := delivery_attempt_count d + 1,
           delivery_version := delivery_version d + 1\<rparr> \<and>
     ev = delivery_new_event d' DeliveryEventType_DeliveryStarted e"
  by (auto simp: start_attempt_def Let_def)

lemma record_success_Inr [result_simps]:
  "record_success d m a e = Inr (d', ev, att) \<longleftrightarrow>
     delivery_status d = DeliveryStatus_Sending \<and>
     d' = d\<lparr>delivery_status := DeliveryStatus_Sent, delivery_version := delivery_version d + 1\<rparr> \<and>
     ev = delivery_new_event d' DeliveryEventType_DeliverySent e \<and>
     att = \<lparr>attempt_id = DeliveryAttemptId a, attempt_delivery_id = delivery_id d,
            attempt_number = delivery_attempt_count d, attempt_outcome = AttemptOutcome_Sent m\<rparr>"
  by (auto simp: record_success_def Let_def)

lemma record_delivered_Inr [result_simps]:
  "record_delivered d e = Inr (d', ev) \<longleftrightarrow>
     delivery_status d = DeliveryStatus_Sent \<and>
     d' = d\<lparr>delivery_status := DeliveryStatus_Delivered, delivery_version := delivery_version d + 1\<rparr> \<and>
     ev = delivery_new_event d' DeliveryEventType_DeliveryDelivered e"
  by (auto simp: record_delivered_def Let_def)

text \<open>The status a failed attempt moves to, and its event.\<close>

definition will_retry :: "delivery \<Rightarrow> bool \<Rightarrow> bool" where
  "will_retry d retryable \<longleftrightarrow> retryable \<and> delivery_attempt_count d < delivery_max_attempts d"

lemma record_failure_Inr [result_simps]:
  "record_failure d r s a e = Inr (d', ev, att) \<longleftrightarrow>
     delivery_status d = DeliveryStatus_Sending \<and>
     d' = d\<lparr>delivery_status := (if will_retry d r then DeliveryStatus_Retrying
                               else DeliveryStatus_FailedPermanently),
           delivery_version := delivery_version d + 1\<rparr> \<and>
     ev = delivery_new_event d' (if will_retry d r then DeliveryEventType_DeliveryRetried
                                 else DeliveryEventType_DeliveryFailed) e \<and>
     att = \<lparr>attempt_id = DeliveryAttemptId a, attempt_delivery_id = delivery_id d,
            attempt_number = delivery_attempt_count d, attempt_outcome = AttemptOutcome_Failed r s\<rparr>"
  by (auto simp: record_failure_def Let_def will_retry_def delivery_max_attempts_def)

lemma record_failure_Inl:
  "delivery_status d \<noteq> DeliveryStatus_Sending \<Longrightarrow>
     record_failure d r s a e = Inl (DeliveryTransitionError (delivery_status d) DeliveryStatus_FailedPermanently)"
  by (simp add: record_failure_def delivery_transition_error_def)

definition delivery_allowed :: "delivery_status \<Rightarrow> delivery_status \<Rightarrow> bool" where
  "delivery_allowed from to \<longleftrightarrow>
     (from, to) \<in> {(DeliveryStatus_Queued, DeliveryStatus_Sending),
                   (DeliveryStatus_Retrying, DeliveryStatus_Sending),
                   (DeliveryStatus_Sending, DeliveryStatus_Sent),
                   (DeliveryStatus_Sending, DeliveryStatus_Retrying),
                   (DeliveryStatus_Sending, DeliveryStatus_FailedPermanently),
                   (DeliveryStatus_Sent, DeliveryStatus_Delivered)}"

lemma delivery_apply_frame [frame_simps]:
  assumes "delivery_apply d x = Inr (d', ev, att)"
  shows "delivery_id d' = delivery_id d" "delivery_alert_id d' = delivery_alert_id d"
    "delivery_consumer_id d' = delivery_consumer_id d" "delivery_channel d' = delivery_channel d"
    "delivery_endpoint_address d' = delivery_endpoint_address d" "delivery_tier d' = delivery_tier d"
    "delivery_key d' = delivery_key d" "delivery_retry_policy d' = delivery_retry_policy d"
    "delivery_matching_subscriptions d' = delivery_matching_subscriptions d"
  using assms by (cases x; auto simp: result_simps split: prod.splits)+

interpretation delivery_machine: status_machine delivery_apply delivery_version
  "\<lambda>r. delivery_event_version (fst r)" delivery_status delivery_allowed
proof unfold_locales
  fix d x d' and r :: delivery_record
  assume "delivery_apply d x = Inr (d', r)"
  moreover obtain ev att where "r = (ev, att)" by (cases r)
  ultimately have *: "delivery_apply d x = Inr (d', ev, att)" and r: "r = (ev, att)" by simp_all
  show "delivery_version d' = delivery_version d + 1"
    using * by (cases x) (auto simp: result_simps)
  show "delivery_event_version (fst r) = delivery_version d'"
    using * r by (cases x) (auto simp: result_simps)
  show "delivery_status d' = delivery_status d \<or> delivery_allowed (delivery_status d) (delivery_status d')"
    using * by (cases x) (auto simp: result_simps delivery_allowed_def split: if_splits)
qed

section \<open>Invariant\<close>

text \<open>How far the version is ahead of twice the attempt count.\<close>

fun version_offset :: "delivery_status \<Rightarrow> nat" where
  "version_offset DeliveryStatus_Sending = 0"
| "version_offset DeliveryStatus_Delivered = 2"
| "version_offset _ = 1"

definition delivery_wf :: "delivery \<Rightarrow> bool" where
  "delivery_wf d \<longleftrightarrow>
     delivery_attempt_count d \<le> delivery_max_attempts d \<and>
     0 < delivery_max_attempts d \<and>
     (delivery_status d = DeliveryStatus_Queued \<longleftrightarrow> delivery_attempt_count d = 0) \<and>
     (delivery_status d = DeliveryStatus_Retrying \<longrightarrow> delivery_attempt_count d < delivery_max_attempts d) \<and>
     unat (delivery_version d) = 2 * unat (delivery_attempt_count d) + version_offset (delivery_status d)"

lemma unat_plus_one_less:
  fixes a b :: "'a::len word"
  assumes "a < b"
  shows "unat (a + 1) = unat a + 1"
proof -
  have "unat a < unat b" using assms by (simp add: word_less_nat_alt)
  moreover have "unat b < 2 ^ LENGTH('a)" by (rule unsigned_less)
  ultimately have "unat a + unat (1 :: 'a word) < 2 ^ LENGTH('a)"
    by (metis Suc_eq_plus1 Suc_leI le_less_trans unsigned_1)
  then show ?thesis by (simp add: unat_add_lem [THEN iffD1])
qed

lemma u64_Suc_small:
  fixes v :: u64
  assumes "unat v < 2 ^ 63"
  shows "unat (v + 1) = unat v + 1"
  using assms by (subst unat_plus_if_size) (simp add: word_size)

lemma delivery_wf_version_small: "delivery_wf d \<Longrightarrow> unat (delivery_version d) < 2 ^ 63"
proof -
  assume wf: "delivery_wf d"
  have "unat (delivery_attempt_count d) < 2 ^ 32"
    using unsigned_less [of "delivery_attempt_count d", where ?'a = nat] by simp
  moreover have "version_offset (delivery_status d) \<le> 2" by (cases "delivery_status d") auto
  ultimately show ?thesis using wf by (simp add: delivery_wf_def)
qed

lemma delivery_version_Suc:
  "delivery_wf d \<Longrightarrow> unat (delivery_version d + 1) = unat (delivery_version d) + 1"
  by (intro u64_Suc_small delivery_wf_version_small)

lemma start_attempt_wf [wf_intros]:
  assumes wf: "delivery_wf d" and s: "start_attempt d e = Inr (d', ev)"
  shows "delivery_wf d'"
proof -
  have st: "delivery_status d = DeliveryStatus_Queued \<or> delivery_status d = DeliveryStatus_Retrying"
    using s by (auto simp: result_simps)
  have lt: "delivery_attempt_count d < delivery_max_attempts d"
    using wf st by (auto simp: delivery_wf_def)
  then have n: "unat (delivery_attempt_count d + 1) = unat (delivery_attempt_count d) + 1"
    by (rule unat_plus_one_less)
  then have nz: "delivery_attempt_count d + 1 \<noteq> 0"
    by (metis add_is_0 one_neq_zero unat_0)
  have le: "delivery_attempt_count d + 1 \<le> delivery_max_attempts d"
    using lt n by (simp add: word_le_nat_alt word_less_nat_alt)
  show ?thesis
    using wf s st lt n nz le delivery_version_Suc [OF wf]
    by (auto simp: result_simps delivery_wf_def delivery_max_attempts_def)
qed

lemma record_success_wf [wf_intros]:
  assumes "delivery_wf d" "record_success d m a e = Inr (d', ev, att)"
  shows "delivery_wf d'"
  using assms delivery_version_Suc [of d]
  by (auto simp: result_simps delivery_wf_def delivery_max_attempts_def)

lemma record_delivered_wf [wf_intros]:
  assumes "delivery_wf d" "record_delivered d e = Inr (d', ev)"
  shows "delivery_wf d'"
  using assms delivery_version_Suc [of d]
  by (auto simp: result_simps delivery_wf_def delivery_max_attempts_def)

lemma record_failure_wf [wf_intros]:
  assumes "delivery_wf d" "record_failure d r s a e = Inr (d', ev, att)"
  shows "delivery_wf d'"
  using assms delivery_version_Suc [of d]
  by (auto simp: result_simps delivery_wf_def delivery_max_attempts_def will_retry_def)

lemma delivery_apply_wf [wf_intros]:
  "delivery_wf d \<Longrightarrow> delivery_apply d x = Inr (d', r) \<Longrightarrow> delivery_wf d'"
  by (cases x) (auto simp: bind_result_Inr dest: wf_intros)

section \<open>Runs and the attempts they record\<close>

definition attempts_of :: "delivery_record list \<Rightarrow> delivery_attempt list" where
  "attempts_of rs = List.map_filter snd rs"

lemma attempts_of_simps [simp]:
  "attempts_of [] = []"
  "attempts_of (rs @ [(ev, None)]) = attempts_of rs"
  "attempts_of (rs @ [(ev, Some a)]) = attempts_of rs @ [a]"
  by (simp_all add: attempts_of_def List.map_filter_def)

fun retryable_outcome :: "delivery_attempt_outcome \<Rightarrow> bool" where
  "retryable_outcome (AttemptOutcome_Failed r s) = r"
| "retryable_outcome (AttemptOutcome_Sent m) = False"

text \<open>What the recorded attempts say about the aggregate they came from.\<close>

definition history_ok :: "delivery \<Rightarrow> delivery_record list \<Rightarrow> bool" where
  "history_ok d rs \<longleftrightarrow>
     (let ats = attempts_of rs; n = unat (delivery_attempt_count d) in
      map (unat \<circ> attempt_number) ats =
        [1..<(if delivery_status d = DeliveryStatus_Sending then n else Suc n)] \<and>
      (\<forall>a \<in> set (butlast ats). retryable_outcome (attempt_outcome a)) \<and>
      (delivery_status d \<in> {DeliveryStatus_Sending, DeliveryStatus_Retrying} \<longrightarrow>
         (\<forall>a \<in> set ats. retryable_outcome (attempt_outcome a))) \<and>
      (delivery_status d \<in> {DeliveryStatus_Sent, DeliveryStatus_Delivered} \<longleftrightarrow>
         (\<exists>a \<in> set ats. \<exists>m. attempt_outcome a = AttemptOutcome_Sent m)))"

lemma history_ok_step:
  assumes wf: "delivery_wf d" and h: "history_ok d rs" and s: "delivery_apply d x = Inr (d', r)"
  shows "history_ok d' (rs @ [r])"
proof (cases x)
  case (DeliveryOp_Start e)
  then obtain ev where s': "start_attempt d e = Inr (d', ev)" and r: "r = (ev, None)"
    using s by (auto simp: bind_result_Inr)
  have lt: "delivery_attempt_count d < delivery_max_attempts d"
    using wf s' by (auto simp: delivery_wf_def result_simps)
  have "attempts_of rs = []" if "delivery_status d = DeliveryStatus_Queued"
    using h wf that by (auto simp: history_ok_def Let_def delivery_wf_def)
  then show ?thesis
    using h s' r unat_plus_one_less [OF lt] by (auto simp: history_ok_def Let_def result_simps)
next
  case (DeliveryOp_Success m a e)
  then obtain ev att where s': "record_success d m a e = Inr (d', ev, att)" and r: "r = (ev, Some att)"
    using s by (auto simp: bind_result_Inr)
  have "0 < unat (delivery_attempt_count d)"
    using wf s' by (auto simp: delivery_wf_def result_simps unat_gt_0)
  then show ?thesis
    using h s' r by (auto simp: history_ok_def Let_def result_simps)
next
  case (DeliveryOp_Delivered e)
  then obtain ev where s': "record_delivered d e = Inr (d', ev)" and r: "r = (ev, None)"
    using s by (auto simp: bind_result_Inr)
  then show ?thesis
    using h by (auto simp: history_ok_def Let_def result_simps)
next
  case (DeliveryOp_Failure re rea a e)
  then obtain ev att where s': "record_failure d re rea a e = Inr (d', ev, att)" and r: "r = (ev, Some att)"
    using s by (auto simp: bind_result_Inr)
  have "0 < unat (delivery_attempt_count d)"
    using wf s' by (auto simp: delivery_wf_def result_simps unat_gt_0)
  then show ?thesis
    using h s' r by (auto simp: history_ok_def Let_def result_simps will_retry_def)
qed

section \<open>Planned deliveries\<close>

lemma plan_one_simps:
  "delivery_id (fst (plan_one su aid cid ep t ms rp i e)) = DeliveryId i"
  "delivery_alert_id (fst (plan_one su aid cid ep t ms rp i e)) = aid"
  "delivery_consumer_id (fst (plan_one su aid cid ep t ms rp i e)) = cid"
  "delivery_channel (fst (plan_one su aid cid ep t ms rp i e)) = endpoint_channel ep"
  "delivery_endpoint_address (fst (plan_one su aid cid ep t ms rp i e)) = endpoint_address ep"
  "delivery_tier (fst (plan_one su aid cid ep t ms rp i e)) = t"
  "delivery_matching_subscriptions (fst (plan_one su aid cid ep t ms rp i e)) = ms"
  "delivery_retry_policy (fst (plan_one su aid cid ep t ms rp i e)) = rp"
  "delivery_status (fst (plan_one su aid cid ep t ms rp i e)) = DeliveryStatus_Queued"
  "delivery_attempt_count (fst (plan_one su aid cid ep t ms rp i e)) = 0"
  "delivery_version (fst (plan_one su aid cid ep t ms rp i e)) = 1"
  "delivery_key (fst (plan_one su aid cid ep t ms rp i e)) =
     delivery_idempotency_key su cid aid (endpoint_channel ep) (endpoint_address ep)"
  "snd (plan_one su aid cid ep t ms rp i e) =
     delivery_new_event (fst (plan_one su aid cid ep t ms rp i e)) DeliveryEventType_DeliveryRequested e"
  by (simp_all add: plan_one_def Let_def)

lemma plan_one_wf [wf_intros]:
  "0 < retry_max_attempts rp \<Longrightarrow> delivery_wf (fst (plan_one su aid cid ep t ms rp i e))"
  by (simp add: delivery_wf_def delivery_max_attempts_def plan_one_simps)

lemma history_ok_planned:
  "delivery_status d = DeliveryStatus_Queued \<Longrightarrow> delivery_attempt_count d = 0 \<Longrightarrow> history_ok d []"
  by (simp add: history_ok_def)

text \<open>What is planned, without ids and events: for every match whose consumer has a preference,
  one entry per endpoint with its tier.\<close>

definition plan_targets ::
  "(consumer_id \<Rightarrow> delivery_preference option) \<Rightarrow> consumer_match list \<Rightarrow>
   (consumer_id \<times> matched_subscription list \<times> u8 \<times> channel_endpoint) list" where
  "plan_targets prefs ms =
     concat (map (\<lambda>m. case prefs (match_consumer_id m) of
         None \<Rightarrow> []
       | Some p \<Rightarrow> map (\<lambda>(t, ep). (match_consumer_id m, matching_subscriptions m, t, ep)) (preference_tiers p)) ms)"

fun plan_target ::
  "(uuid \<Rightarrow> rstring) \<Rightarrow> alert_id \<Rightarrow> retry_policy \<Rightarrow> (nat \<Rightarrow> uuid) \<Rightarrow> nat \<Rightarrow>
   consumer_id \<times> matched_subscription list \<times> u8 \<times> channel_endpoint \<Rightarrow> delivery \<times> delivery_event" where
  "plan_target su aid rp ids k (c, ms, t, ep) = plan_one su aid c ep t ms rp (ids k) (ids (k + 1))"

lemma map_enumerate_shift:
  "map g (enumerate k xs) = map (\<lambda>(i, x). g (k + i, x)) (enumerate 0 xs)"
  by (rule nth_equalityI) (simp_all add: nth_enumerate_eq)

lemma plan_endpoints_spec:
  "plan_endpoints su aid m rp ids n ts =
     map (\<lambda>(i, t, ep). plan_target su aid rp ids (n + 2 * i)
            (match_consumer_id m, matching_subscriptions m, t, ep)) (enumerate 0 ts)"
proof (induction su aid m rp ids n ts rule: plan_endpoints.induct)
  case (2 su aid m rp ids n tier ep rest)
  then show ?case
    by (simp add: map_enumerate_shift [of _ "Suc 0"] case_prod_unfold)
qed simp

lemma plan_loop_spec:
  "plan_loop su aid prefs rp ids n ms =
     map (\<lambda>(i, x). plan_target su aid rp ids (n + 2 * i) x) (enumerate 0 (plan_targets prefs ms))"
proof (induction su aid prefs rp ids n ms rule: plan_loop.induct)
  case (2 su aid prefs rp ids n m ms)
  show ?case
  proof (cases "prefs (match_consumer_id m)")
    case None
    with 2 show ?thesis by (simp add: plan_targets_def)
  next
    case (Some p)
    let ?xs = "map (\<lambda>(t, ep). (match_consumer_id m, matching_subscriptions m, t, ep)) (preference_tiers p)"
    have split: "plan_targets prefs (m # ms) = ?xs @ plan_targets prefs ms"
      using Some by (simp add: plan_targets_def)
    have "plan_endpoints su aid m rp ids n (preference_tiers p) =
        map (\<lambda>(i, x). plan_target su aid rp ids (n + 2 * i) x) (enumerate 0 ?xs)"
      unfolding plan_endpoints_spec
      by (rule nth_equalityI) (simp_all add: nth_enumerate_eq split: prod.split)
    with Some 2 (2) [OF Some] show ?thesis
      by (simp add: split enumerate_append_eq
          map_enumerate_shift [of _ "length (preference_channels p)"]
          case_prod_unfold algebra_simps)
  qed
qed (simp add: plan_targets_def)

lemma plan_deliveries_spec:
  "plan_deliveries su a ms prefs rp ids =
     map (\<lambda>(i, x). plan_target su (Alert_Model.alert_id a) rp ids (2 * i) x)
       (enumerate 0 (plan_targets prefs ms))"
  by (simp add: plan_deliveries_def plan_loop_spec)

lemma plan_deliveries_wf [wf_intros]:
  assumes "0 < retry_max_attempts rp" and "(d, ev) \<in> set (plan_deliveries su a ms prefs rp ids)"
  shows "delivery_wf d" and "delivery_status d = DeliveryStatus_Queued"
    and "delivery_alert_id d = Alert_Model.alert_id a" and "delivery_attempt_count d = 0"
proof -
  from assms(2) obtain k c m t ep where
    "(d, ev) = plan_one su (Alert_Model.alert_id a) c ep t m rp (ids k) (ids (k + 1))"
    by (auto simp: plan_deliveries_spec elim!: in_set_enumerate_eq [THEN iffD1, elim_format])
  then have d: "d = fst (plan_one su (Alert_Model.alert_id a) c ep t m rp (ids k) (ids (k + 1)))"
    by (metis fst_conv)
  show "delivery_wf d" "delivery_status d = DeliveryStatus_Queued"
    "delivery_alert_id d = Alert_Model.alert_id a" "delivery_attempt_count d = 0"
    unfolding d using assms(1) by (simp_all add: plan_one_simps plan_one_wf)
qed

section \<open>Backoff\<close>

lemma backoff_value:
  "unat (backoff_after_attempt p n) = min (30 * 2 ^ min (unat n - 1) 6) 1800"
proof -
  let ?e = "min (if n = 0 then 0 else n - 1) (6 :: u32)"
  have "unat (if n = 0 then 0 else n - 1) = unat n - 1"
    by (simp add: unat_minus_one)
  then have e: "unat ?e = min (unat n - 1) 6"
    by (simp add: min_def word_le_nat_alt)
  have "min (unat n - 1) 6 \<in> {0, 1, 2, 3, 4, 5, 6}" by auto
  then show ?thesis
    unfolding backoff_after_attempt_def Let_def e
    by (auto simp: push_bit_eq_mult min_def word_le_nat_alt)
qed

section \<open>Properties\<close>

lemma distinct_map_finer:
  assumes "distinct (map g xs)" and "\<And>x y. f x = f y \<Longrightarrow> g x = g y"
  shows "distinct (map f xs)"
proof -
  have "inj_on f (set xs)"
  proof (rule inj_onI)
    fix x y
    assume "x \<in> set xs" "y \<in> set xs" "f x = f y"
    moreover from assms(1) have "inj_on g (set xs)" by (simp add: distinct_map)
    ultimately show "x = y" using assms(2) [of x y] by (metis inj_onD)
  qed
  with assms(1) show ?thesis by (simp add: distinct_map)
qed

lemma plan_targets_consumers: "y \<in> set (plan_targets prefs ms) \<Longrightarrow> fst y \<in> match_consumer_id ` set ms"
  by (auto simp: plan_targets_def split: option.splits)

lemma plan_targets_distinct:
  assumes "distinct (map match_consumer_id ms)" and "\<And>c p. prefs c = Some p \<Longrightarrow> preference_wf p"
  shows "distinct (map (\<lambda>(c, x, t, ep). (c, endpoint_channel ep)) (plan_targets prefs ms))"
  using assms(1)
proof (induction ms)
  case Nil
  then show ?case by (simp add: plan_targets_def)
next
  case (Cons m ms)
  let ?g = "\<lambda>(c, x, t, ep). (c, endpoint_channel ep)"
  show ?case
  proof (cases "prefs (match_consumer_id m)")
    case None
    with Cons show ?thesis by (simp add: plan_targets_def)
  next
    case (Some p)
    let ?A = "map (\<lambda>(t, ep). (match_consumer_id m, matching_subscriptions m, t, ep)) (preference_tiers p)"
    have A: "map ?g ?A = map (Pair (match_consumer_id m)) (map endpoint_channel (preference_channels p))"
      by (simp add: case_prod_unfold comp_def flip: map_snd_tiers)
    have dA: "distinct (map ?g ?A)"
      using assms(2) [OF Some] unfolding A distinct_map [of "Pair _"] by (simp add: preference_wf_def inj_on_def)
    have cA: "fst x = match_consumer_id m" if "x \<in> set (map ?g ?A)" for x
      using that unfolding A by auto
    have cB: "fst x \<noteq> match_consumer_id m" if "x \<in> set (map ?g (plan_targets prefs ms))" for x
    proof -
      from that obtain y where "y \<in> set (plan_targets prefs ms)" "fst x = fst y" by auto
      with plan_targets_consumers [of y prefs ms] Cons.prems show ?thesis by auto
    qed
    have "set (map ?g ?A) \<inter> set (map ?g (plan_targets prefs ms)) = {}"
      using cA cB by blast
    moreover have "map ?g (plan_targets prefs (m # ms)) = map ?g ?A @ map ?g (plan_targets prefs ms)"
      using Some by (simp add: plan_targets_def)
    moreover have "distinct (map ?g (plan_targets prefs ms))" using Cons by simp
    ultimately show ?thesis using dA by (simp only: distinct_append simp_thms)
  qed
qed



text \<open>The idempotency key of a delivery determines its consumer, its alert, its channel and its
  address, whatever characters the address contains.\<close>

lemma idempotency_key_injective:
  assumes "uuid_display su"
  shows "delivery_idempotency_key su c a ch x = delivery_idempotency_key su c' a' ch' x' \<longleftrightarrow>
    c = c' \<and> a = a' \<and> ch = ch' \<and> x = x'"
  using idempotency_key_inj [OF assms] by blast

text \<open>Over any sequence of attempts, outcomes and confirmations on a planned delivery: the attempt
  count never exceeds the policy's maximum, the version is determined by the count and the status, a
  run takes effect at most \<open>2 * max + 1\<close> times, the events carry consecutive versions, and the recorded
  attempts are numbered from 1 without gaps, all but the last retryable failures, with one success
  exactly when the delivery is sent or delivered.\<close>

theorem delivery_history_sound:
  assumes "0 < retry_max_attempts rp"
  shows "case run_ops delivery_apply (fst (plan_one su aid cid ep t ms rp i e)) xs of (d, rs) \<Rightarrow>
    delivery_attempt_count d \<le> retry_max_attempts rp \<and>
    unat (delivery_version d) = 2 * unat (delivery_attempt_count d) + version_offset (delivery_status d) \<and>
    unat (delivery_version d) = Suc (length rs) \<and> length rs \<le> 2 * unat (retry_max_attempts rp) + 1 \<and>
    map (\<lambda>r. unat (delivery_event_version (fst r))) rs = [2..<length rs + 2] \<and>
    history_ok d rs"
proof -
  let ?d0 = "fst (plan_one su aid cid ep t ms rp i e)"
  define d rs where drs: "d = fst (run_ops delivery_apply ?d0 xs)" "rs = snd (run_ops delivery_apply ?d0 xs)"
  let ?P = "\<lambda>d rs. delivery_wf d \<and> history_ok d rs \<and> delivery_retry_policy d = rp \<and>
    unat (delivery_version d) = Suc (length rs) \<and>
    map (\<lambda>r. unat (delivery_event_version (fst r))) rs = [2..<length rs + 2]"
  have "?P (fst (run_ops delivery_apply ?d0 xs)) (snd (run_ops delivery_apply ?d0 xs))"
  proof (rule run_ops_trace_induct)
    show "?P ?d0 []" using assms by (simp add: plan_one_wf history_ok_planned plan_one_simps)
  next
    fix d rs x d' and r :: delivery_record
    assume P: "?P d rs" and s: "delivery_apply d x = Inr (d', r)"
    obtain ev att where r: "r = (ev, att)" by (cases r)
    have "delivery_version d' = delivery_version d + 1" "delivery_event_version ev = delivery_version d'"
      using delivery_machine.op_version [OF s] delivery_machine.op_event_version [OF s] r by simp_all
    then show "?P d' (rs @ [r])"
      using P s r delivery_apply_wf history_ok_step delivery_apply_frame(8) delivery_version_Suc [of d]
      by auto
  qed
  then have P: "?P d rs" by (simp add: drs)
  have "version_offset (delivery_status d) \<le> 2" by (cases "delivery_status d") simp_all
  then show ?thesis
    using P by (auto simp: drs [symmetric] case_prod_unfold delivery_wf_def delivery_max_attempts_def word_le_nat_alt)
qed

theorem delivery_history_sound_witness:
  "\<exists>d rs. run_ops delivery_apply
      (fst (plan_one hyphenated (AlertId 1) (ConsumerId 2) \<lparr>endpoint_channel = ChannelType_Sms, endpoint_address = lit ''1''\<rparr>
         0 [] (RetryPolicy 2) 3 4))
      [DeliveryOp_Start 5, DeliveryOp_Failure True [] 6 7, DeliveryOp_Start 8, DeliveryOp_Success None 9 10,
       DeliveryOp_Delivered 11] = (d, rs) \<and> delivery_status d = DeliveryStatus_Delivered \<and>
     length rs = 5 \<and> history_ok d rs"
  using delivery_history_sound [of "RetryPolicy 2" hyphenated "AlertId 1" "ConsumerId 2"
      "\<lparr>endpoint_channel = ChannelType_Sms, endpoint_address = lit ''1''\<rparr>" 0 "[]" 3 4
      "[DeliveryOp_Start 5, DeliveryOp_Failure True [] 6 7, DeliveryOp_Start 8, DeliveryOp_Success None 9 10,
       DeliveryOp_Delivered 11]"]
  by (simp add: plan_one_def Let_def start_attempt_def record_failure_def record_success_def record_delivered_def)

text \<open>The pause before the next attempt after the \<open>n\<close>-th is \<open>min (30 * 2 ^ min (n - 1) 6) 1800\<close>
  seconds: at least 30 seconds, at most 30 minutes, never shrinking, without overflow; a delivery has
  one exactly while it is retrying.\<close>

theorem backoff_exact:
  "unat (backoff_after_attempt p n) = min (30 * 2 ^ min (unat n - 1) 6) 1800 \<and>
   30 \<le> unat (backoff_after_attempt p n) \<and> unat (backoff_after_attempt p n) \<le> 1800 \<and>
   (n \<le> n' \<longrightarrow> backoff_after_attempt p n \<le> backoff_after_attempt p n') \<and>
   retry_backoff d = (if delivery_status d = DeliveryStatus_Retrying
     then Some (backoff_after_attempt (delivery_retry_policy d) (delivery_attempt_count d)) else None)"
proof -
  have "1 \<le> (2 :: nat) ^ k" for k by simp
  then have "30 \<le> (30 :: nat) * 2 ^ k" for k by (metis mult_le_mono2 mult.right_neutral)
  moreover have "(2 :: nat) ^ min (unat n - 1) 6 \<le> 2 ^ min (unat n' - 1) 6" if "n \<le> n'"
    using that by (intro power_increasing) (auto simp: word_le_nat_alt)
  ultimately show ?thesis
    by (auto simp: backoff_value word_le_nat_alt retry_backoff_def min_le_iff_disj)
qed

theorem backoff_exact_witness:
  "backoff_after_attempt retry_policy_standard 2 \<le> backoff_after_attempt retry_policy_standard 9"
  using backoff_exact [of retry_policy_standard 2 9] by simp

text \<open>A preference is accepted exactly when it lists at least one endpoint and no channel twice;
  it then has at most four, its tiers are all 0 for \<open>ALL\<close>, and otherwise the endpoints' positions, in
  order, which fit the eight bits of the tier.\<close>

lemma preference_tiers_exact:
  "((\<exists>p. delivery_preference_new st chs = Inr p) \<longleftrightarrow> chs \<noteq> [] \<and> distinct (map endpoint_channel chs)) \<and>
   (delivery_preference_new st chs = Inr p \<longrightarrow>
      length chs \<le> 4 \<and> map snd (preference_tiers p) = chs \<and>
      map (unat \<circ> fst) (preference_tiers p) =
        (if st = DeliveryStrategy_All then replicate (length chs) 0 else [0..<length chs]))"
proof (intro conjI impI)
  show "(\<exists>p. delivery_preference_new st chs = Inr p) \<longleftrightarrow> chs \<noteq> [] \<and> distinct (map endpoint_channel chs)"
    by (simp add: delivery_preference_new_Inr preference_wf_def)
next
  assume "delivery_preference_new st chs = Inr p"
  then have p: "p = \<lparr>preference_strategy = st, preference_channels = chs\<rparr>" "preference_wf p"
    unfolding delivery_preference_new_Inr by blast+
  show l: "length chs \<le> 4" using preference_channels_le_4 [OF p(2)] p(1) by simp
  show "map snd (preference_tiers p) = chs" using p(1) by (simp add: map_snd_tiers)
  show "map (unat \<circ> fst) (preference_tiers p) =
        (if st = DeliveryStrategy_All then replicate (length chs) 0 else [0..<length chs])"
  proof (rule nth_equalityI)
    fix i
    assume "i < length (map (unat \<circ> fst) (preference_tiers p))"
    then have i: "i < length chs" using p(1) by simp
    then have "unat (of_nat i :: u8) = i" using l by (simp add: unat_of_nat take_bit_nat_eq_self)
    then show "map (unat \<circ> fst) (preference_tiers p) ! i =
        (if st = DeliveryStrategy_All then replicate (length chs) 0 else [0..<length chs]) ! i"
      using i p(1) by (simp add: nth_tiers)
  qed (simp add: p(1))
qed

end
