(* ===== verification/Delivery_Workflow.thy ===== *)
theory Delivery_Workflow
  imports Case_Workflow Delivery_Lifecycle
begin

text \<open>
  The delivery use cases (\<open>crates/application/src/delivery_workflow.rs\<close>), the webhook events they
  consume (\<open>webhook.rs\<close>) and the outbound message with the channel registry (\<open>channel.rs\<close>).
\<close>

section \<open>Webhook events\<close>

datatype provider_delivery_status = ProviderStatus_Delivered | ProviderStatus_Failed bool rstring

record webhook_event =
  webhook_provider_event_id :: rstring
  webhook_provider_message_id :: rstring
  webhook_status :: provider_delivery_status

section \<open>Planned deliveries\<close>

record planned_delivery =
  planned_delivery :: delivery
  planned_event :: delivery_event
  planned_key_hash :: bytes
  planned_trail :: trail

text \<open>
  The planner draws from \<open>ids\<close>; the \<open>k\<close>-th planned delivery then draws its audit and outbox ids
  from \<open>trail_ids\<close>.
\<close>

definition plan_deliveries_use_case ::
  "(uuid \<Rightarrow> rstring) \<Rightarrow> (rstring \<Rightarrow> bytes) \<Rightarrow> alert \<Rightarrow> consumer_match list \<Rightarrow>
   (consumer_id \<Rightarrow> delivery_preference option) \<Rightarrow> retry_policy \<Rightarrow> actor \<Rightarrow> uuid \<Rightarrow>
   (nat \<Rightarrow> uuid) \<Rightarrow> (nat \<Rightarrow> uuid) \<Rightarrow> planned_delivery list" where
  "plan_deliveries_use_case su sha256 al ms prefs rp a request_id ids trail_ids =
     map (\<lambda>(k, d, ev).
            \<lparr>planned_delivery = d, planned_event = ev, planned_key_hash = sha256 (delivery_key d),
             planned_trail = \<lparr>trail_actor = a, trail_audit_event_id = AuditEventId (trail_ids (2 * k)),
               trail_outbox_event_id = OutboxEventId (trail_ids (2 * k + 1)),
               trail_request_id = request_id\<rparr>\<rparr>)
         (enumerate 0 (plan_deliveries su al ms prefs rp ids))"

definition delivery_requested_event_payload :: "(uuid \<Rightarrow> rstring) \<Rightarrow> planned_delivery \<Rightarrow> json" where
  "delivery_requested_event_payload su pd =
     (let d = planned_delivery pd in JObj
       [(lit ''delivery_id'', uuid_json su (delivery_uuid (Delivery_Model.delivery_id d))),
        (lit ''alert_id'', uuid_json su (alert_uuid (delivery_alert_id d))),
        (lit ''consumer_id'', uuid_json su (consumer_uuid (delivery_consumer_id d))),
        (lit ''channel'', JStr (channel_type_to_db (delivery_channel d))),
        (lit ''tier'', JNum (unat (delivery_tier d)))])"

section \<open>Transitions\<close>

record delivery_transition =
  transition_event :: delivery_event
  transition_trail :: trail

record delivery_attempt_transition =
  attempt_transition_event :: delivery_event
  attempt_transition_attempt :: delivery_attempt
  attempt_transition_trail :: trail

definition new_trail :: "actor \<Rightarrow> uuid \<Rightarrow> uuid \<Rightarrow> uuid \<Rightarrow> trail" where
  "new_trail a request_id audit outbox =
     \<lparr>trail_actor = a, trail_audit_event_id = AuditEventId audit,
      trail_outbox_event_id = OutboxEventId outbox, trail_request_id = request_id\<rparr>"

definition delivery_event_payload :: "(uuid \<Rightarrow> rstring) \<Rightarrow> delivery \<Rightarrow> delivery_event \<Rightarrow> json" where
  "delivery_event_payload su d ev = JObj
     [(lit ''delivery_id'', uuid_json su (delivery_uuid (Delivery_Model.delivery_id d))),
      (lit ''alert_id'', uuid_json su (alert_uuid (delivery_alert_id d))),
      (lit ''consumer_id'', uuid_json su (consumer_uuid (delivery_consumer_id d))),
      (lit ''channel'', JStr (channel_type_to_db (delivery_channel d))),
      (lit ''aggregate_version'', JNum (unat (delivery_event_version ev)))]"

definition start_delivery_attempt ::
  "delivery \<Rightarrow> actor \<Rightarrow> uuid \<Rightarrow> (nat \<Rightarrow> uuid) \<Rightarrow>
   delivery_transition_error + delivery \<times> delivery_transition" where
  "start_delivery_attempt d a request_id ids =
     bind_result (start_attempt d (ids 0)) (\<lambda>(d', ev).
       Inr (d', \<lparr>transition_event = ev, transition_trail = new_trail a request_id (ids 1) (ids 2)\<rparr>))"

definition record_delivery_success ::
  "delivery \<Rightarrow> rstring option \<Rightarrow> actor \<Rightarrow> uuid \<Rightarrow> (nat \<Rightarrow> uuid) \<Rightarrow>
   delivery_transition_error + delivery \<times> delivery_attempt_transition" where
  "record_delivery_success d pid a request_id ids =
     bind_result (record_success d pid (ids 0) (ids 1)) (\<lambda>(d', ev, att).
       Inr (d', \<lparr>attempt_transition_event = ev, attempt_transition_attempt = att,
                 attempt_transition_trail = new_trail a request_id (ids 2) (ids 3)\<rparr>))"

definition record_delivery_delivered ::
  "delivery \<Rightarrow> actor \<Rightarrow> uuid \<Rightarrow> (nat \<Rightarrow> uuid) \<Rightarrow>
   delivery_transition_error + delivery \<times> delivery_transition" where
  "record_delivery_delivered d a request_id ids =
     bind_result (record_delivered d (ids 0)) (\<lambda>(d', ev).
       Inr (d', \<lparr>transition_event = ev, transition_trail = new_trail a request_id (ids 1) (ids 2)\<rparr>))"

definition record_delivery_failure ::
  "delivery \<Rightarrow> bool \<Rightarrow> rstring \<Rightarrow> actor \<Rightarrow> uuid \<Rightarrow> (nat \<Rightarrow> uuid) \<Rightarrow>
   delivery_transition_error + delivery \<times> delivery_attempt_transition" where
  "record_delivery_failure d retryable reason a request_id ids =
     bind_result (record_failure d retryable reason (ids 0) (ids 1)) (\<lambda>(d', ev, att).
       Inr (d', \<lparr>attempt_transition_event = ev, attempt_transition_attempt = att,
                 attempt_transition_trail = new_trail a request_id (ids 2) (ids 3)\<rparr>))"

datatype webhook_applied_transition = WebhookApplied_Delivered delivery_transition
  | WebhookApplied_Failed delivery_attempt_transition

definition apply_webhook_event ::
  "delivery \<Rightarrow> webhook_event \<Rightarrow> actor \<Rightarrow> uuid \<Rightarrow> (nat \<Rightarrow> uuid) \<Rightarrow>
   delivery_transition_error + delivery \<times> webhook_applied_transition" where
  "apply_webhook_event d ev a request_id ids =
     (case webhook_status ev of
        ProviderStatus_Delivered \<Rightarrow>
          bind_result (record_delivery_delivered d a request_id ids)
            (\<lambda>(d', t). Inr (d', WebhookApplied_Delivered t))
      | ProviderStatus_Failed retryable reason \<Rightarrow>
          bind_result (record_delivery_failure d retryable reason a request_id ids)
            (\<lambda>(d', t). Inr (d', WebhookApplied_Failed t)))"

definition delivery_transition_event_payload ::
  "(uuid \<Rightarrow> rstring) \<Rightarrow> delivery \<Rightarrow> delivery_transition \<Rightarrow> json" where
  "delivery_transition_event_payload su d t = delivery_event_payload su d (transition_event t)"

definition delivery_attempt_event_payload ::
  "(uuid \<Rightarrow> rstring) \<Rightarrow> delivery \<Rightarrow> delivery_attempt_transition \<Rightarrow> json" where
  "delivery_attempt_event_payload su d t = delivery_event_payload su d (attempt_transition_event t)"

lemma start_delivery_attempt_Inr [result_simps]:
  "start_delivery_attempt d a rq ids = Inr (d', t) \<longleftrightarrow>
     start_attempt d (ids 0) = Inr (d', transition_event t) \<and>
     transition_trail t = new_trail a rq (ids 1) (ids 2)"
  by (cases t) (auto simp: start_delivery_attempt_def bind_result_Inr)

lemma record_delivery_success_Inr [result_simps]:
  "record_delivery_success d pid a rq ids = Inr (d', t) \<longleftrightarrow>
     record_success d pid (ids 0) (ids 1) =
       Inr (d', attempt_transition_event t, attempt_transition_attempt t) \<and>
     attempt_transition_trail t = new_trail a rq (ids 2) (ids 3)"
  by (cases t) (auto simp: record_delivery_success_def bind_result_Inr)

lemma record_delivery_delivered_Inr [result_simps]:
  "record_delivery_delivered d a rq ids = Inr (d', t) \<longleftrightarrow>
     record_delivered d (ids 0) = Inr (d', transition_event t) \<and>
     transition_trail t = new_trail a rq (ids 1) (ids 2)"
  by (cases t) (auto simp: record_delivery_delivered_def bind_result_Inr)

lemma record_delivery_failure_Inr [result_simps]:
  "record_delivery_failure d r s a rq ids = Inr (d', t) \<longleftrightarrow>
     record_failure d r s (ids 0) (ids 1) =
       Inr (d', attempt_transition_event t, attempt_transition_attempt t) \<and>
     attempt_transition_trail t = new_trail a rq (ids 2) (ids 3)"
  by (cases t) (auto simp: record_delivery_failure_def bind_result_Inr)

section \<open>Outbound messages\<close>

record outbound_message =
  message_endpoint_address :: rstring
  message_body :: rstring

record channel_send_outcome =
  outcome_provider_message_id :: "rstring option"

record channel_error =
  channel_error_retryable :: bool
  channel_error_message :: rstring

record endpoint_validation_error =
  validation_error_channel :: channel_type
  validation_error_reason :: rstring

text \<open>A channel adapter: its type, its endpoint check, and one send. The providers behind \<open>send\<close>
  are outside the repository: the number that \<open>adapter_send\<close> takes tells the calls apart, so that a
  provider may answer the same message differently each time.\<close>

record channel_adapter =
  adapter_channel_type :: channel_type
  adapter_validate_endpoint :: "rstring \<Rightarrow> endpoint_validation_error + unit"
  adapter_send :: "nat \<Rightarrow> outbound_message \<Rightarrow> channel_error + channel_send_outcome"

fun severity_label :: "severity \<Rightarrow> rstring" where
  "severity_label Severity_Low = lit ''Low''"
| "severity_label Severity_Medium = lit ''Medium''"
| "severity_label Severity_High = lit ''High''"
| "severity_label Severity_Critical = lit ''Critical''"

definition newline :: rstring where
  "newline = [10]"

definition build_outbound_message :: "alert \<Rightarrow> delivery \<Rightarrow> rstring option \<Rightarrow> outbound_message" where
  "build_outbound_message al d recipient_locale =
     (let body = lit ''['' @ severity_label (alert_severity al) @ lit ''] ''
                 @ target_geography_text (alert_target_geography al);
          body = (case description_for_locale al recipient_locale of
                    None \<Rightarrow> body
                  | Some description \<Rightarrow>
                      if trim description \<noteq> [] then body @ newline @ newline @ description else body);
          body = (case alert_field_value al AlertField_OfficialContact of
                    None \<Rightarrow> body
                  | Some contact \<Rightarrow> body @ newline @ newline @ lit ''Contact: '' @ contact);
          body = (case alert_field_value al AlertField_CaseReference of
                    None \<Rightarrow> body
                  | Some reference \<Rightarrow> body @ newline @ lit ''Ref: '' @ reference)
      in \<lparr>message_endpoint_address = delivery_endpoint_address d, message_body = body\<rparr>)"

text \<open>The registry is a map; registering replaces the adapter of the same channel.\<close>

type_synonym channel_registry = "channel_type \<Rightarrow> channel_adapter option"

definition registry_new :: channel_registry where
  "registry_new = (\<lambda>_. None)"

definition registry_register :: "channel_registry \<Rightarrow> channel_adapter \<Rightarrow> channel_registry" where
  "registry_register r ch = r(adapter_channel_type ch \<mapsto> ch)"

definition registry_get :: "channel_registry \<Rightarrow> channel_type \<Rightarrow> channel_adapter option" where
  "registry_get r ct = r ct"

text \<open>A field the message never quotes has no influence on it.\<close>

definition message_fields :: "alert_field set" where
  "message_fields = {AlertField_SafeDescription, AlertField_SafeDescriptionEn,
     AlertField_SafeDescriptionFr, AlertField_OfficialContact, AlertField_CaseReference}"

lemma message_fields_public: "f \<in> message_fields \<Longrightarrow>
  \<not> is_forbidden f \<and> \<not> is_restricted_to_internal_audiences f"
  by (auto simp: message_fields_def is_forbidden_def is_restricted_to_internal_audiences_def)

section \<open>Properties\<close>

text \<open>The message sent to a consumer depends on no alert field outside the three descriptions, the
  official contact and the case reference, all of them fit for every audience.\<close>

theorem message_hides_other_fields:
  assumes "\<And>f. f \<in> message_fields \<Longrightarrow> alert_field_value al f = alert_field_value al' f"
    and "alert_severity al = alert_severity al'" and "alert_target_geography al = alert_target_geography al'"
  shows "build_outbound_message al d loc = build_outbound_message al' d loc \<and>
    (\<forall>f \<in> message_fields. \<not> is_forbidden f \<and> \<not> is_restricted_to_internal_audiences f)"
proof -
  have f: "alert_field_value al AlertField_SafeDescription = alert_field_value al' AlertField_SafeDescription"
    "alert_field_value al AlertField_SafeDescriptionEn = alert_field_value al' AlertField_SafeDescriptionEn"
    "alert_field_value al AlertField_SafeDescriptionFr = alert_field_value al' AlertField_SafeDescriptionFr"
    "alert_field_value al AlertField_OfficialContact = alert_field_value al' AlertField_OfficialContact"
    "alert_field_value al AlertField_CaseReference = alert_field_value al' AlertField_CaseReference"
    by (rule assms(1); simp add: message_fields_def)+
  have "description_for_locale al loc = description_for_locale al' loc"
    by (simp add: description_for_locale_def f cong: option.case_cong)
  then show ?thesis
    using message_fields_public by (simp add: build_outbound_message_def f assms(2,3) cong: option.case_cong)
qed

theorem message_hides_other_fields_witness:
  "let d = fst (plan_one hyphenated (AlertId 1) (ConsumerId 2)
       \<lparr>endpoint_channel = ChannelType_Sms, endpoint_address = lit ''1''\<rparr> 0 [] retry_policy_standard 3 4)
   in build_outbound_message sample_alert d None =
   build_outbound_message (sample_alert\<lparr>alert_fields :=
     \<lparr>field_value_field = AlertField_ExactLocation, field_value_value = lit ''x''\<rparr> # alert_fields sample_alert\<rparr>) d None"
  unfolding Let_def by (rule message_hides_other_fields [THEN conjunct1])
     (auto simp: message_fields_def alert_field_value_def)

text \<open>C28: A provider's failure callback is never applied to a delivery that is not being sent, in
  particular not to one the provider has accepted; a success callback is applied exactly to a sent
  delivery.\<close>

theorem callback_effect:
  "(\<exists>d' t. apply_webhook_event d ev a rq ids = Inr (d', t)) \<longleftrightarrow>
     (case webhook_status ev of
        ProviderStatus_Delivered \<Rightarrow> delivery_status d = DeliveryStatus_Sent
      | ProviderStatus_Failed r s \<Rightarrow> delivery_status d = DeliveryStatus_Sending)"
  by (cases "webhook_status ev")
     (simp_all add: apply_webhook_event_def record_delivery_delivered_def record_delivered_def
       record_delivery_failure_def record_failure_def Let_def)

end
