(* ===== verification/Webhook_Model.thy ===== *)
theory Webhook_Model
  imports Signed_Tokens Delivery_Workflow
begin

text \<open>
  Inbound provider callbacks: the HMAC verifier and the replay guards
  (\<open>crates/infrastructure/src/webhook.rs\<close>) and the verifier registry
  (\<open>crates/application/src/webhook.rs\<close>). The MAC and the JSON parser (crate \<open>serde_json\<close>) are
  arguments. Both replay guards provide one contract.
\<close>

section \<open>Verification\<close>

datatype webhook_verification_error =
    WebhookError_InvalidHex | WebhookError_HexPanic
  | WebhookError_MissingSignature | WebhookError_SignatureMismatch
  | WebhookError_InvalidPayload rstring | WebhookError_MissingField rstring
  | WebhookError_UnrecognizedStatus rstring

fun webhook_hex_error :: "hex_error \<Rightarrow> webhook_verification_error" where
  "webhook_hex_error HexInvalid = WebhookError_InvalidHex"
| "webhook_hex_error HexPanic = WebhookError_HexPanic"

text \<open>\<open>decode_hex\<close> of this file is the same loop as \<open>hex::decode\<close>, with its own error.\<close>

definition webhook_decode_hex :: "rstring \<Rightarrow> webhook_verification_error + bytes" where
  "webhook_decode_hex value =
     (if str_len value mod 2 \<noteq> 0 then Inl WebhookError_InvalidHex
      else map_err webhook_hex_error (hex_decode_pairs (utf8 value)))"

definition ascii_lower :: "nat \<Rightarrow> nat" where
  "ascii_lower c = (if 65 \<le> c \<and> c \<le> 90 then c + 32 else c)"

definition eq_ignore_ascii_case :: "rstring \<Rightarrow> rstring \<Rightarrow> bool" where
  "eq_ignore_ascii_case a b \<longleftrightarrow> map ascii_lower a = map ascii_lower b"

definition signature_header :: rstring where
  "signature_header = lit ''x-signature''"

record webhook_verifier =
  verifier_channel_type :: channel_type
  verifier_secret :: bytes

definition webhook_field :: "json \<Rightarrow> string \<Rightarrow> webhook_verification_error + rstring" where
  "webhook_field payload name =
     ok_or (WebhookError_MissingField (lit name)) (Option.bind (json_get payload (lit name)) json_as_str)"

definition webhook_parse_status ::
  "json \<Rightarrow> rstring \<Rightarrow> webhook_verification_error + provider_delivery_status" where
  "webhook_parse_status payload status =
     (if status = lit ''DELIVERED'' then Inr ProviderStatus_Delivered
      else if status = lit ''FAILED'' then
        bind_result (webhook_field payload ''reason'') (\<lambda>reason.
          Inr (ProviderStatus_Failed
                 (case Option.bind (json_get payload (lit ''retryable'')) json_as_bool of
                    Some b \<Rightarrow> b | None \<Rightarrow> False) reason))
      else Inl (WebhookError_UnrecognizedStatus status))"

definition verify_and_parse ::
  "(bytes \<Rightarrow> bytes \<Rightarrow> bytes) \<Rightarrow> (bytes \<Rightarrow> rstring + json) \<Rightarrow> webhook_verifier \<Rightarrow>
   (rstring \<times> rstring) list \<Rightarrow> bytes \<Rightarrow> webhook_verification_error + webhook_event" where
  "verify_and_parse hmac parse_json w headers raw_body =
     bind_result (ok_or WebhookError_MissingSignature
       (map_option snd (find (\<lambda>(name, _). eq_ignore_ascii_case name signature_header) headers))) (\<lambda>header.
     bind_result (webhook_decode_hex header) (\<lambda>signature.
     if hmac (verifier_secret w) raw_body \<noteq> signature then Inl WebhookError_SignatureMismatch
     else
     bind_result (map_err WebhookError_InvalidPayload (parse_json raw_body)) (\<lambda>payload.
     bind_result (webhook_field payload ''event_id'') (\<lambda>event_id.
     bind_result (webhook_field payload ''message_id'') (\<lambda>message_id.
     bind_result (webhook_field payload ''status'') (\<lambda>status.
     bind_result (webhook_parse_status payload status) (\<lambda>st.
       Inr \<lparr>webhook_provider_event_id = event_id, webhook_provider_message_id = message_id,
            webhook_status = st\<rparr>)))))))"

lemma webhook_decode_hex_Inr: "webhook_decode_hex v = Inr bs \<longleftrightarrow> hex_decode v = Inr bs"
  by (auto simp: webhook_decode_hex_def hex_decode_def map_err_Inr)

lemma verify_and_parse_Inr:
  assumes "verify_and_parse hmac pj w headers body = Inr ev"
  shows "\<exists>name header. (name, header) \<in> set headers \<and> eq_ignore_ascii_case name signature_header \<and>
           hex_decode header = Inr (hmac (verifier_secret w) body)"
    and "\<exists>payload. pj body = Inr payload \<and>
           json_get payload (lit ''event_id'') = Some (JStr (webhook_provider_event_id ev)) \<and>
           json_get payload (lit ''message_id'') = Some (JStr (webhook_provider_message_id ev))"
proof -
  have str: "json_as_str j = Some s \<Longrightarrow> j = JStr s" for j s by (cases j) simp_all
  obtain h where f: "find (\<lambda>(name, _). eq_ignore_ascii_case name signature_header) headers = Some h"
    using assms by (auto simp: verify_and_parse_def result_simps)
  have in_h: "h \<in> set headers" "eq_ignore_ascii_case (fst h) signature_header"
    using f by (auto simp: find_Some_iff in_set_conv_nth case_prod_unfold)
  obtain payload where p: "hex_decode (snd h) = Inr (hmac (verifier_secret w) body)" "pj body = Inr payload"
    and fields: "webhook_field payload ''event_id'' = Inr (webhook_provider_event_id ev)"
      "webhook_field payload ''message_id'' = Inr (webhook_provider_message_id ev)"
    using assms f by (auto simp: verify_and_parse_def result_simps webhook_decode_hex_Inr split: if_splits)
  show "\<exists>name header. (name, header) \<in> set headers \<and> eq_ignore_ascii_case name signature_header \<and>
           hex_decode header = Inr (hmac (verifier_secret w) body)"
    using in_h p by (metis prod.collapse)
  show "\<exists>payload. pj body = Inr payload \<and>
           json_get payload (lit ''event_id'') = Some (JStr (webhook_provider_event_id ev)) \<and>
           json_get payload (lit ''message_id'') = Some (JStr (webhook_provider_message_id ev))"
    using p fields by (auto simp: webhook_field_def result_simps bind_eq_Some_conv dest: str)
qed

section \<open>Registry\<close>

type_synonym verifier_registry = "channel_type \<times> rstring \<Rightarrow> webhook_verifier option"

definition verifier_registry_register ::
  "verifier_registry \<Rightarrow> rstring \<Rightarrow> webhook_verifier \<Rightarrow> verifier_registry" where
  "verifier_registry_register r provider w = r((verifier_channel_type w, provider) \<mapsto> w)"

definition verifier_registry_get ::
  "verifier_registry \<Rightarrow> channel_type \<Rightarrow> rstring \<Rightarrow> webhook_verifier option" where
  "verifier_registry_get r ch provider = r (ch, provider)"

section \<open>Replay guards\<close>

locale replay_guard =
  fixes record_new :: "'s \<Rightarrow> channel_type \<times> rstring \<Rightarrow> 's \<times> bool"
    and seen :: "'s \<Rightarrow> (channel_type \<times> rstring) set"
  assumes record_result: "snd (record_new s k) \<longleftrightarrow> k \<notin> seen s"
    and record_seen: "seen (fst (record_new s k)) = insert k (seen s)"
begin

lemma run_admits_once:
  "admitted (\<lambda>k. k) k ks (snd (run_checks record_new s ks)) = (if k \<in> set ks \<and> k \<notin> seen s then 1 else 0)"
proof (induction ks arbitrary: s)
  case Nil
  then show ?case by (simp add: admitted_def)
next
  case (Cons a ks)
  show ?case
    using Cons.IH [of "fst (record_new s a)"] record_result [of s a] record_seen [of s a]
    by (auto simp: admitted_def case_prod_unfold)
qed

lemma run_seen: "seen (fst (run_checks record_new s ks)) = seen s \<union> set ks"
  by (induction ks arbitrary: s) (auto simp: case_prod_unfold record_seen)

end

text \<open>The in-memory guard keeps one string per event; the database guard a row per pair.\<close>

definition replay_key :: "channel_type \<Rightarrow> rstring \<Rightarrow> rstring" where
  "replay_key ch event_id = channel_type_to_db ch @ lit '':'' @ event_id"

definition memory_record_if_new ::
  "rstring list \<Rightarrow> channel_type \<times> rstring \<Rightarrow> rstring list \<times> bool" where
  "memory_record_if_new keys k =
     (let key = replay_key (fst k) (snd k) in
      if key \<in> set keys then (keys, False) else (keys @ [key], True))"

definition memory_seen :: "rstring list \<Rightarrow> (channel_type \<times> rstring) set" where
  "memory_seen keys = {k. replay_key (fst k) (snd k) \<in> set keys}"

lemma replay_key_inj: "replay_key c x = replay_key d y \<longleftrightarrow> c = d \<and> x = y"
  unfolding replay_key_def using channel_prefix_inj by blast

type_synonym replay_rows = "(rstring \<times> rstring) list"

definition pg_record_if_new :: "replay_rows \<Rightarrow> channel_type \<times> rstring \<Rightarrow> replay_rows \<times> bool" where
  "pg_record_if_new rows k =
     (let row = (channel_type_to_db (fst k), snd k);
          rows_affected = (if row \<in> set rows then 0 else 1 :: nat)
      in (if row \<in> set rows then rows else rows @ [row], rows_affected = 1))"

definition pg_seen :: "replay_rows \<Rightarrow> (channel_type \<times> rstring) set" where
  "pg_seen rows = {k. (channel_type_to_db (fst k), snd k) \<in> set rows}"

interpretation memory_replay: replay_guard memory_record_if_new memory_seen
  by unfold_locales (auto simp: memory_record_if_new_def memory_seen_def Let_def replay_key_inj)

interpretation pg_replay: replay_guard pg_record_if_new pg_seen
  by unfold_locales
     (auto simp: pg_record_if_new_def pg_seen_def Let_def channel_type_db.label.to_db_eq_iff)

section \<open>Properties\<close>

text \<open>A webhook is accepted only when some signature header decodes to the MAC of the raw body
  under the channel's secret, and the event's identifiers are those of the signed body.\<close>

lemma webhook_authentic:
  assumes "verify_and_parse hmac pj w headers body = Inr ev"
  shows "(\<exists>name header. (name, header) \<in> set headers \<and> eq_ignore_ascii_case name signature_header \<and>
       hex_decode header = Inr (hmac (verifier_secret w) body)) \<and>
     (\<exists>payload. pj body = Inr payload \<and>
       json_get payload (lit ''event_id'') = Some (JStr (webhook_provider_event_id ev)) \<and>
       json_get payload (lit ''message_id'') = Some (JStr (webhook_provider_message_id ev)))"
  using verify_and_parse_Inr [OF assms] by blast

text \<open>Whatever sequence of callbacks arrives, the Postgres replay guard lets each pair of channel
  and event id through exactly once, the first time, and remembers exactly what arrived.\<close>

lemma replay_admitted_once:
  "admitted (\<lambda>k. k) k ks (snd (run_checks pg_record_if_new t ks)) = (if k \<in> set ks \<and> k \<notin> pg_seen t then 1 else 0) \<and>
   pg_seen (fst (run_checks pg_record_if_new t ks)) = pg_seen t \<union> set ks"
  using pg_replay.run_admits_once [of k ks t] pg_replay.run_seen [of t ks] by simp

end
