(* ===== verification/Store_Base.thy ===== *)
theory Store_Base
  imports Alert_Workflow Webhook_Model
begin

text \<open>
  The Postgres schema the repositories share (\<open>crates/infrastructure/src/postgres\<close>, tables from
  \<open>migrations\<close>): rows with their columns at their database types, the whole database as one
  record, the audit and outbox helpers, and the outbox repository (\<open>outbox.rs\<close>).

  Tables are lists in insertion order, which is their \<open>created_at\<close> order; \<open>now()\<close> is an argument.
  An \<open>i32\<close>/\<open>i64\<close> column holds the bits of the \<open>u32\<close>/\<open>u64\<close> that was cast to it. A statement that
  violates a primary key, a unique constraint, a foreign key or a \<open>CHECK\<close> is a \<open>db_error\<close>; the
  transaction is then rolled back, so an operation that fails returns no new database. Failures of
  the connection are not modelled.
\<close>

datatype db_error = DbError_UniqueViolation | DbError_CheckViolation | DbError_ForeignKeyViolation
  | DbPanic

section \<open>Rows\<close>

record reviewer_row =
  reviewer_row_id :: uuid
  reviewer_row_email :: rstring
  reviewer_row_sessions_revoked_at :: "nat option"

record organization_row =
  organization_row_id :: uuid
  organization_row_name :: rstring
  organization_row_description :: "rstring option"
  organization_row_location :: "rstring option"
  organization_row_incident_types :: "rstring list"
  organization_row_alert_visibilities :: "rstring list"
  organization_row_consumer_id :: "uuid option"
  organization_row_is_active :: bool
  organization_row_contact :: "rstring option"

record membership_row =
  membership_row_reviewer_id :: uuid
  membership_row_role :: rstring
  membership_row_organization_id :: "uuid option"

record case_row =
  case_row_id :: uuid
  case_row_incident_type :: rstring
  case_row_status :: rstring
  case_row_version :: u64
  case_row_updated_at :: nat

record aggregate_event_row =
  event_row_id :: uuid
  event_row_aggregate_id :: uuid
  event_row_type :: rstring
  event_row_version :: u64
  event_row_actor_type :: rstring
  event_row_actor_id :: "uuid option"

record audit_row =
  audit_row_id :: uuid
  audit_row_actor_type :: rstring
  audit_row_actor_id :: "uuid option"
  audit_row_organization_id :: "uuid option"
  audit_row_action :: rstring
  audit_row_resource_type :: rstring
  audit_row_resource_id :: "uuid option"
  audit_row_request_id :: uuid
  audit_row_metadata :: json

record outbox_row =
  outbox_row_id :: uuid
  outbox_row_aggregate_type :: rstring
  outbox_row_aggregate_id :: uuid
  outbox_row_event_type :: rstring
  outbox_row_payload :: json
  outbox_row_claimed_at :: "nat option"
  outbox_row_published_at :: "nat option"

record alert_row =
  alert_row_id :: uuid
  alert_row_case_id :: uuid
  alert_row_policy_id :: rstring
  alert_row_policy_version :: "16 word"
  alert_row_incident_type :: rstring
  alert_row_severity :: rstring
  alert_row_visibility :: rstring
  alert_row_trigger :: rstring
  alert_row_target_geography :: rstring
  alert_row_status :: rstring
  alert_row_version :: u64
  alert_row_key_hash :: "bytes option"
  alert_row_issued_by :: "uuid option"

record subscription_row =
  subscription_row_id :: uuid
  subscription_row_consumer_id :: uuid
  subscription_row_version :: u32
  subscription_row_rules :: json
  subscription_row_created_at :: rstring

record preference_row =
  preference_row_consumer_id :: uuid
  preference_row_strategy :: rstring
  preference_row_channels :: json

record consumer_row =
  consumer_row_id :: uuid
  consumer_row_name :: rstring
  consumer_row_type :: rstring
  consumer_row_token_hash :: "bytes option"
  consumer_row_locale :: "rstring option"

record delivery_row =
  delivery_row_id :: uuid
  delivery_row_alert_id :: uuid
  delivery_row_consumer_id :: uuid
  delivery_row_channel :: rstring
  delivery_row_endpoint_address :: rstring
  delivery_row_tier :: "16 word"
  delivery_row_key_hash :: bytes
  delivery_row_matching :: json
  delivery_row_status :: rstring
  delivery_row_attempt_count :: u32
  delivery_row_max_attempts :: u32
  delivery_row_version :: u64
  delivery_row_next_attempt_at :: "nat option"

record attempt_row =
  attempt_row_id :: uuid
  attempt_row_delivery_id :: uuid
  attempt_row_number :: u32
  attempt_row_outcome :: rstring
  attempt_row_provider_message_id :: "rstring option"
  attempt_row_retryable :: "bool option"
  attempt_row_failure_reason :: "rstring option"

text \<open>\<open>reports\<close> is reduced to the column the case repository writes; a report's id maps to its
  status.\<close>

record database =
  db_reviewers :: "reviewer_row list"
  db_organizations :: "organization_row list"
  db_memberships :: "membership_row list"
  db_report_status :: "(uuid \<times> rstring) list"
  db_cases :: "case_row list"
  db_case_reports :: "(uuid \<times> uuid) list"
  db_case_events :: "aggregate_event_row list"
  db_alerts :: "alert_row list"
  db_alert_fields :: "(uuid \<times> rstring \<times> rstring) list"
  db_alert_events :: "aggregate_event_row list"
  db_subscriptions :: "subscription_row list"
  db_preferences :: "preference_row list"
  db_consumers :: "consumer_row list"
  db_deliveries :: "delivery_row list"
  db_attempts :: "attempt_row list"
  db_delivery_events :: "aggregate_event_row list"
  db_audit :: "audit_row list"
  db_outbox :: "outbox_row list"

definition empty_database :: database where
  "empty_database =
     \<lparr>db_reviewers = [], db_organizations = [], db_memberships = [], db_report_status = [], db_cases = [], db_case_reports = [],
      db_case_events = [], db_alerts = [], db_alert_fields = [], db_alert_events = [],
      db_subscriptions = [], db_preferences = [], db_consumers = [], db_deliveries = [],
      db_attempts = [], db_delivery_events = [], db_audit = [], db_outbox = []\<rparr>"

text \<open>\<open>length(btrim(s)) = 0\<close>: \<open>btrim\<close> strips spaces only.\<close>

definition btrim_blank :: "rstring \<Rightarrow> bool" where
  "btrim_blank s \<longleftrightarrow> list_all (\<lambda>c. c = 32) s"

text \<open>An insert under unique keys.\<close>

definition insert_row :: "('r \<Rightarrow> 'k) \<Rightarrow> 'r \<Rightarrow> 'r list \<Rightarrow> db_error + 'r list" where
  "insert_row key r rows =
     (if key r \<in> key ` set rows then Inl DbError_UniqueViolation else Inr (rows @ [r]))"

lemma insert_row_Inr [result_simps]:
  "insert_row key r rows = Inr rows' \<longleftrightarrow> key r \<notin> key ` set rows \<and> rows' = rows @ [r]"
  by (auto simp: insert_row_def)

text \<open>Lookups and updates by a key that is unique in the table.\<close>

lemma find_unique_id:
  assumes "distinct (map key rows)" and "r \<in> set rows"
  shows "find (\<lambda>x. key x = key r) rows = Some r"
  using assms by (induction rows) (auto simp: image_iff)

lemma filter_unique_id:
  assumes "distinct (map key rows)"
  shows "length (filter (\<lambda>x. key x = k \<and> P x) rows) = (if \<exists>x \<in> set rows. key x = k \<and> P x then 1 else 0)"
  using assms
proof (induction rows)
  case (Cons a rows)
  show ?case
  proof (cases "key a = k")
    case True
    with Cons.prems have "\<forall>x \<in> set rows. key x \<noteq> k" by (auto simp: image_iff)
    then have "filter (\<lambda>x. key x = k \<and> P x) rows = []" by (simp add: filter_empty_conv)
    with True \<open>\<forall>x \<in> set rows. key x \<noteq> k\<close> show ?thesis by auto
  next
    case False
    with Cons show ?thesis by auto
  qed
qed simp

text \<open>A table read through a decoder, one row per key.\<close>

definition row_lookup :: "('r \<Rightarrow> 'k) \<Rightarrow> ('r \<Rightarrow> 'e + 'a) \<Rightarrow> 'r list \<Rightarrow> 'k \<Rightarrow> 'a option" where
  "row_lookup key decode rows k = Option.bind (find (\<lambda>r. key r = k) rows) (to_ok \<circ> decode)"

lemma to_ok_Some: "to_ok x = Some y \<longleftrightarrow> x = Inr y"
  by (cases x) simp_all

lemma row_lookup_Some:
  assumes "distinct (map key rows)"
  shows "row_lookup key decode rows k = Some a \<longleftrightarrow> (\<exists>r \<in> set rows. key r = k \<and> decode r = Inr a)"
proof
    assume "row_lookup key decode rows k = Some a"
    then obtain r where "find (\<lambda>r. key r = k) rows = Some r" "decode r = Inr a"
      by (auto simp: row_lookup_def bind_eq_Some_conv to_ok_Some)
    then show "\<exists>r \<in> set rows. key r = k \<and> decode r = Inr a"
      by (auto simp: find_Some_iff)
  next
    assume "\<exists>r \<in> set rows. key r = k \<and> decode r = Inr a"
    then obtain r where "r \<in> set rows" "key r = k" "decode r = Inr a" by blast
    with find_unique_id [OF assms, of r] show "row_lookup key decode rows k = Some a"
      by (simp add: row_lookup_def)
qed

lemma row_lookup_update:
  assumes "distinct (map key rows)" and "\<And>r. key (upd r) = key r"
  shows "row_lookup key decode (map (\<lambda>r. if key r = k \<and> P r then upd r else r) rows) k' =
    (if k' = k then Option.bind (find (\<lambda>r. key r = k) rows) (\<lambda>r. to_ok (decode (if P r then upd r else r)))
     else row_lookup key decode rows k')"
  using assms(1)
  by (induction rows) (auto simp: row_lookup_def assms(2))

lemma row_lookup_append:
  "row_lookup key decode (rows @ [r]) k =
     (if k \<in> key ` set rows then row_lookup key decode rows k
      else if key r = k then to_ok (decode r) else None)"
  by (induction rows) (auto simp: row_lookup_def)

text \<open>Aggregate event tables: the id and the pair of aggregate and version are unique, the version
  is positive as a signed number.\<close>

definition insert_aggregate_event ::
  "aggregate_event_row \<Rightarrow> aggregate_event_row list \<Rightarrow> db_error + aggregate_event_row list" where
  "insert_aggregate_event r rows =
     (if \<not> 0 <s event_row_version r then Inl DbError_CheckViolation
      else if event_row_id r \<in> event_row_id ` set rows then Inl DbError_UniqueViolation
      else insert_row (\<lambda>e. (event_row_aggregate_id e, event_row_version e)) r rows)"

lemma insert_aggregate_event_Inr [result_simps]:
  "insert_aggregate_event r rows = Inr rows' \<longleftrightarrow>
     0 <s event_row_version r \<and> event_row_id r \<notin> event_row_id ` set rows \<and>
     (event_row_aggregate_id r, event_row_version r) \<notin>
       (\<lambda>e. (event_row_aggregate_id e, event_row_version e)) ` set rows \<and>
     rows' = rows @ [r]"
  by (auto simp: insert_aggregate_event_def insert_row_Inr)

section \<open>Audit and outbox rows\<close>

definition organization_id_for_actor :: "database \<Rightarrow> uuid option \<Rightarrow> uuid option" where
  "organization_id_for_actor db actor =
     (case actor of
        None \<Rightarrow> None
      | Some a \<Rightarrow> Option.bind (find (\<lambda>m. membership_row_reviewer_id m = a) (db_memberships db))
                    membership_row_organization_id)"

definition insert_audit_event ::
  "rstring \<Rightarrow> trail \<Rightarrow> rstring \<Rightarrow> uuid \<Rightarrow> database \<Rightarrow> db_error + database" where
  "insert_audit_event resource_type t action resource_id db =
     bind_result
       (insert_row audit_row_id
          \<lparr>audit_row_id = audit_event_uuid (trail_audit_event_id t),
           audit_row_actor_type = actor_to_db (trail_actor t),
           audit_row_actor_id = actor_id (trail_actor t),
           audit_row_organization_id = organization_id_for_actor db (actor_id (trail_actor t)),
           audit_row_action = action, audit_row_resource_type = resource_type,
           audit_row_resource_id = Some resource_id, audit_row_request_id = trail_request_id t,
           audit_row_metadata = JObj []\<rparr>
          (db_audit db))
       (\<lambda>rows. Inr (db\<lparr>db_audit := rows\<rparr>))"

definition insert_outbox_event ::
  "rstring \<Rightarrow> trail \<Rightarrow> uuid \<Rightarrow> rstring \<Rightarrow> json \<Rightarrow> database \<Rightarrow> db_error + database" where
  "insert_outbox_event aggregate_type t aggregate_id event_type payload db =
     bind_result
       (insert_row outbox_row_id
          \<lparr>outbox_row_id = outbox_event_uuid (trail_outbox_event_id t),
           outbox_row_aggregate_type = aggregate_type, outbox_row_aggregate_id = aggregate_id,
           outbox_row_event_type = event_type, outbox_row_payload = payload,
           outbox_row_claimed_at = None, outbox_row_published_at = None\<rparr>
          (db_outbox db))
       (\<lambda>rows. Inr (db\<lparr>db_outbox := rows\<rparr>))"

definition event_row ::
  "uuid \<Rightarrow> uuid \<Rightarrow> rstring \<Rightarrow> u64 \<Rightarrow> actor \<Rightarrow> aggregate_event_row" where
  "event_row i agg ty v a =
     \<lparr>event_row_id = i, event_row_aggregate_id = agg, event_row_type = ty, event_row_version = v,
      event_row_actor_type = actor_to_db a, event_row_actor_id = actor_id a\<rparr>"

lemma event_row_simps [simp]:
  "event_row_id (event_row i agg ty v a) = i"
  "event_row_aggregate_id (event_row i agg ty v a) = agg"
  "event_row_type (event_row i agg ty v a) = ty"
  "event_row_version (event_row i agg ty v a) = v"
  "event_row_actor_type (event_row i agg ty v a) = actor_to_db a"
  "event_row_actor_id (event_row i agg ty v a) = actor_id a"
  by (simp_all add: event_row_def)

section \<open>The audit repository\<close>

text \<open>An audit row outside the transactions of the aggregates. \<open>i\<close> is the drawn id.\<close>

definition record_audit_event ::
  "uuid \<Rightarrow> actor \<Rightarrow> rstring \<Rightarrow> rstring \<Rightarrow> uuid option \<Rightarrow> uuid \<Rightarrow> json \<Rightarrow> database \<Rightarrow> db_error + database" where
  "record_audit_event i a action resource_type resource_id request_id metadata db =
     bind_result (insert_row audit_row_id
         \<lparr>audit_row_id = i, audit_row_actor_type = actor_to_db a, audit_row_actor_id = actor_id a,
          audit_row_organization_id = organization_id_for_actor db (actor_id a),
          audit_row_action = action, audit_row_resource_type = resource_type,
          audit_row_resource_id = resource_id, audit_row_request_id = request_id,
          audit_row_metadata = metadata\<rparr> (db_audit db))
       (\<lambda>rows. Inr (db\<lparr>db_audit := rows\<rparr>))"

definition audit_record ::
  "uuid \<Rightarrow> uuid \<Rightarrow> rstring \<Rightarrow> rstring \<Rightarrow> uuid option \<Rightarrow> uuid \<Rightarrow> database \<Rightarrow> db_error + database" where
  "audit_record i reviewer action resource_type resource_id request_id db =
     record_audit_event i (Actor_Reviewer reviewer) action resource_type resource_id request_id (JObj []) db"

record audit_event_filter =
  filter_resource_type :: "rstring option"
  filter_resource_id :: "uuid option"
  filter_action :: "rstring option"
  filter_actor_id :: "uuid option"
  filter_organization_id :: "uuid option"

text \<open>\<open>ORDER BY occurred_at DESC\<close> is the reversed insertion order.\<close>

definition audit_list :: "audit_event_filter \<Rightarrow> nat \<Rightarrow> nat \<Rightarrow> database \<Rightarrow> audit_row list" where
  "audit_list f limit offset db =
     take limit (drop offset (rev (filter (\<lambda>r.
       (filter_resource_type f = None \<or> filter_resource_type f = Some (audit_row_resource_type r)) \<and>
       (filter_resource_id f = None \<or> filter_resource_id f = audit_row_resource_id r) \<and>
       (filter_action f = None \<or> filter_action f = Some (audit_row_action r)) \<and>
       (filter_actor_id f = None \<or> filter_actor_id f = audit_row_actor_id r) \<and>
       (filter_organization_id f = None \<or> filter_organization_id f = audit_row_organization_id r))
     (db_audit db))))"

section \<open>The outbox repository\<close>

record claimed_outbox_event =
  claimed_event_id :: uuid
  claimed_event_aggregate_id :: uuid
  claimed_event_payload :: json

definition mark_claimed :: "nat \<Rightarrow> uuid list \<Rightarrow> outbox_row list \<Rightarrow> outbox_row list" where
  "mark_claimed now ids rows =
     (if ids = [] then rows
      else map (\<lambda>r. if outbox_row_id r \<in> set ids then r\<lparr>outbox_row_claimed_at := Some now\<rparr> else r) rows)"

text \<open>\<open>locked\<close> are the rows that other transactions hold and \<open>SKIP LOCKED\<close> passes over. A negative
  \<open>LIMIT\<close> does not occur; a \<open>nat\<close> stands for it.\<close>

definition claimable :: "rstring \<Rightarrow> uuid set \<Rightarrow> outbox_row \<Rightarrow> bool" where
  "claimable event_type locked r \<longleftrightarrow>
     outbox_row_event_type r = event_type \<and> outbox_row_published_at r = None \<and>
     outbox_row_claimed_at r = None \<and> outbox_row_id r \<notin> locked"

definition claim_unpublished ::
  "nat \<Rightarrow> uuid set \<Rightarrow> rstring \<Rightarrow> nat \<Rightarrow> database \<Rightarrow> database \<times> claimed_outbox_event list" where
  "claim_unpublished now locked event_type limit db =
     (let rows = take limit (filter (claimable event_type locked) (db_outbox db)) in
      (db\<lparr>db_outbox := mark_claimed now (map outbox_row_id rows) (db_outbox db)\<rparr>,
       map (\<lambda>r. \<lparr>claimed_event_id = outbox_row_id r,
                 claimed_event_aggregate_id = outbox_row_aggregate_id r,
                 claimed_event_payload = outbox_row_payload r\<rparr>) rows))"

definition mark_published :: "nat \<Rightarrow> uuid \<Rightarrow> database \<Rightarrow> database" where
  "mark_published now i db =
     db\<lparr>db_outbox := map (\<lambda>r. if outbox_row_id r = i then r\<lparr>outbox_row_published_at := Some now\<rparr> else r)
                       (db_outbox db)\<rparr>"

lemma insert_audit_event_Inr [result_simps]:
  "insert_audit_event ty t action rid db = Inr db' \<longleftrightarrow>
     audit_event_uuid (trail_audit_event_id t) \<notin> audit_row_id ` set (db_audit db) \<and>
     db' = db\<lparr>db_audit := db_audit db @
       [\<lparr>audit_row_id = audit_event_uuid (trail_audit_event_id t),
         audit_row_actor_type = actor_to_db (trail_actor t),
         audit_row_actor_id = actor_id (trail_actor t),
         audit_row_organization_id = organization_id_for_actor db (actor_id (trail_actor t)),
         audit_row_action = action, audit_row_resource_type = ty,
         audit_row_resource_id = Some rid, audit_row_request_id = trail_request_id t,
         audit_row_metadata = JObj []\<rparr>]\<rparr>"
  by (auto simp: insert_audit_event_def bind_result_Inr insert_row_Inr)

lemma insert_outbox_event_Inr [result_simps]:
  "insert_outbox_event ty t agg et p db = Inr db' \<longleftrightarrow>
     outbox_event_uuid (trail_outbox_event_id t) \<notin> outbox_row_id ` set (db_outbox db) \<and>
     db' = db\<lparr>db_outbox := db_outbox db @
       [\<lparr>outbox_row_id = outbox_event_uuid (trail_outbox_event_id t),
         outbox_row_aggregate_type = ty, outbox_row_aggregate_id = agg,
         outbox_row_event_type = et, outbox_row_payload = p,
         outbox_row_claimed_at = None, outbox_row_published_at = None\<rparr>]\<rparr>"
  by (auto simp: insert_outbox_event_def bind_result_Inr insert_row_Inr)

section \<open>Properties\<close>

text \<open>C23: An outbox event is claimed at most once: claiming the same batch again, at any later time and
  before anything else is written, returns only events the first claim left, so no event appears in
  both answers; and what a claim returns was unpublished, unclaimed, of the asked type and not locked.\<close>

theorem outbox_claimed_once:
  assumes "distinct (map outbox_row_id (db_outbox db))"
    and "claim_unpublished now locked ty n db = (db1, es)" and "claim_unpublished now' locked' ty' n' db1 = (db2, es')"
  shows "claimed_event_id ` set es \<inter> claimed_event_id ` set es' = {} \<and>
     length es \<le> n \<and> distinct (map claimed_event_id es) \<and>
     (\<forall>e \<in> set es. \<exists>r \<in> set (db_outbox db). outbox_row_id r = claimed_event_id e \<and>
        outbox_row_event_type r = ty \<and> outbox_row_published_at r = None \<and> outbox_row_claimed_at r = None \<and>
        outbox_row_id r \<notin> locked)"
proof -
  let ?rows = "take n (filter (claimable ty locked) (db_outbox db))"
  have es: "es = map (\<lambda>r. \<lparr>claimed_event_id = outbox_row_id r,
                 claimed_event_aggregate_id = outbox_row_aggregate_id r,
                 claimed_event_payload = outbox_row_payload r\<rparr>) ?rows"
    and db1: "db_outbox db1 = mark_claimed now (map outbox_row_id ?rows) (db_outbox db)"
    using assms(2) by (auto simp: claim_unpublished_def Let_def)
  have ids: "claimed_event_id ` set es = outbox_row_id ` set ?rows" by (simp add: es image_image)
  have used: "outbox_row_claimed_at r \<noteq> None" if "r \<in> set (db_outbox db1)" "outbox_row_id r \<in> outbox_row_id ` set ?rows" for r
  proof -
    have "?rows \<noteq> []"
    proof
      assume "?rows = []"
      with that(2) show False by (simp only: list.set image_empty empty_iff)
    qed
    with that(1) obtain x where "x \<in> set (db_outbox db)"
      "r = (if outbox_row_id x \<in> outbox_row_id ` set ?rows then x\<lparr>outbox_row_claimed_at := Some now\<rparr> else x)"
      by (auto simp: db1 mark_claimed_def simp del: take_eq_Nil)
    with that(2) show ?thesis by (cases "outbox_row_id x \<in> outbox_row_id ` set ?rows") auto
  qed
  have left: "claimed_event_id ` set es' \<subseteq> outbox_row_id ` {r \<in> set (db_outbox db1). outbox_row_claimed_at r = None}"
  proof -
    have "claimed_event_id ` set es' = outbox_row_id ` set (take n' (filter (claimable ty' locked') (db_outbox db1)))"
      using assms(3) by (auto simp: claim_unpublished_def Let_def image_image)
    moreover have "set (take n' (filter (claimable ty' locked') (db_outbox db1))) \<subseteq>
        {r \<in> set (db_outbox db1). outbox_row_claimed_at r = None}"
      using set_take_subset [of n' "filter (claimable ty' locked') (db_outbox db1)"] by (auto simp: claimable_def)
    ultimately show ?thesis by (simp only: image_mono)
  qed
  have "claimed_event_id ` set es \<inter> claimed_event_id ` set es' = {}"
  proof (rule equals0I)
    fix i
    assume i: "i \<in> claimed_event_id ` set es \<inter> claimed_event_id ` set es'"
    then obtain r where r: "r \<in> set (db_outbox db1)" "outbox_row_claimed_at r = None" "i = outbox_row_id r"
      using left by auto
    have "i \<in> outbox_row_id ` set ?rows" using i by (simp only: ids Int_iff)
    then have "outbox_row_claimed_at r \<noteq> None" unfolding r(3) by (rule used [OF r(1)])
    with r(2) show False by simp
  qed
  moreover have "map claimed_event_id es = take n (map outbox_row_id (filter (claimable ty locked) (db_outbox db)))"
    by (simp add: es take_map comp_def)
  then have "distinct (map claimed_event_id es)" using assms(1) by (simp add: distinct_map_filter)
  moreover have "\<exists>r \<in> set (db_outbox db). outbox_row_id r = claimed_event_id e \<and> outbox_row_event_type r = ty \<and>
      outbox_row_published_at r = None \<and> outbox_row_claimed_at r = None \<and> outbox_row_id r \<notin> locked" if "e \<in> set es" for e
    using that by (auto simp: es claimable_def dest!: in_set_takeD)
  ultimately show ?thesis by (simp add: es)
qed

theorem outbox_claimed_once_witness:
  "\<exists>db es. claim_unpublished 5 {} (lit ''ALERT_CREATED'') 10 db = (fst (claim_unpublished 5 {} (lit ''ALERT_CREATED'') 10 db), es) \<and>
     length es = 1 \<and> distinct (map claimed_event_id es)"
proof -
  let ?db = "empty_database\<lparr>db_outbox := [\<lparr>outbox_row_id = 1, outbox_row_aggregate_type = lit ''ALERT'',
    outbox_row_aggregate_id = 2, outbox_row_event_type = lit ''ALERT_CREATED'', outbox_row_payload = JObj [],
    outbox_row_claimed_at = None, outbox_row_published_at = None\<rparr>]\<rparr>"
  let ?r = "claim_unpublished 5 {} (lit ''ALERT_CREATED'') 10 ?db"
  obtain db1 es db2 es' where c: "?r = (db1, es)" "claim_unpublished 6 {} [] 10 db1 = (db2, es')"
    by (metis surj_pair)
  moreover have "length es = 1" using c(1) by (auto simp: claim_unpublished_def claimable_def Let_def)
  moreover have "distinct (map claimed_event_id es)" using outbox_claimed_once [OF _ c] by simp
  ultimately show ?thesis by (intro exI [of _ ?db] exI [of _ es]) simp
qed

end
