(* ===== verification/Organization_Store.thy ===== *)
theory Organization_Store
  imports Store_Base Organization_Model "HOL-Library.List_Lexorder"
begin

text \<open>
  The repositories of organizations and memberships (\<open>crates/infrastructure/src/postgres/organizations.rs\<close>)
  and of reviewers with their revoked sessions (\<open>reviewers.rs\<close>).
\<close>

section \<open>Organizations\<close>

definition parse_incident_types :: "rstring list \<Rightarrow> db_error + incident_type list" where
  "parse_incident_types vs = collect_results (map (\<lambda>v. ok_or DbPanic (incident_type_from_db v)) vs)"

definition parse_alert_visibilities :: "rstring list \<Rightarrow> db_error + alert_visibility list" where
  "parse_alert_visibilities vs = collect_results (map (\<lambda>v. ok_or DbPanic (alert_visibility_from_db v)) vs)"

definition organization_from_row :: "organization_row \<Rightarrow> db_error + organization" where
  "organization_from_row r =
     bind_result (parse_incident_types (organization_row_incident_types r)) (\<lambda>its.
     bind_result (parse_alert_visibilities (organization_row_alert_visibilities r)) (\<lambda>vs.
       Inr (organization_with_contact
         (organization_reconstitute (OrganizationId (organization_row_id r)) (organization_row_name r)
            (organization_row_description r) (organization_row_location r) its vs
            (map_option ConsumerId (organization_row_consumer_id r)) (organization_row_is_active r))
         (organization_row_contact r))))"

text \<open>The columns that the statement does not name take their defaults.\<close>

definition organization_create :: "organization \<Rightarrow> database \<Rightarrow> db_error + database" where
  "organization_create g db =
     (if btrim_blank (organization_name g) then Inl DbError_CheckViolation
      else bind_result (insert_row organization_row_id
         \<lparr>organization_row_id = organization_uuid (organization_id g),
          organization_row_name = organization_name g,
          organization_row_description = organization_description g,
          organization_row_location = organization_location g,
          organization_row_incident_types = [], organization_row_alert_visibilities = [],
          organization_row_consumer_id = None, organization_row_is_active = True,
          organization_row_contact = None\<rparr> (db_organizations db))
       (\<lambda>rows. Inr (db\<lparr>db_organizations := rows\<rparr>)))"

definition organization_find_by_id :: "database \<Rightarrow> organization_id \<Rightarrow> db_error + organization option" where
  "organization_find_by_id db i =
     (case find (\<lambda>r. organization_row_id r = organization_uuid i) (db_organizations db) of
        None \<Rightarrow> Inr None
      | Some r \<Rightarrow> bind_result (organization_from_row r) (\<lambda>g. Inr (Some g)))"

definition organization_list :: "database \<Rightarrow> nat \<Rightarrow> nat \<Rightarrow> db_error + organization list" where
  "organization_list db limit offset =
     collect_results (map organization_from_row (take limit (drop offset (rev (db_organizations db)))))"

text \<open>\<open>UPDATE organizations SET ... WHERE id = $1\<close>.\<close>

definition update_organization ::
  "organization_id \<Rightarrow> (organization_row \<Rightarrow> organization_row) \<Rightarrow> database \<Rightarrow> database" where
  "update_organization i f db =
     db\<lparr>db_organizations :=
        map (\<lambda>r. if organization_row_id r = organization_uuid i then f r else r) (db_organizations db)\<rparr>"

definition organization_set_profile ::
  "organization_id \<Rightarrow> rstring option \<Rightarrow> rstring option \<Rightarrow> database \<Rightarrow> database" where
  "organization_set_profile i description loc db =
     update_organization i (\<lambda>r. r\<lparr>organization_row_description := description,
       organization_row_location := loc\<rparr>) db"

text \<open>\<open>btrim\<close> strips spaces; \<open>NULLIF(btrim(c), '')\<close>.\<close>

definition btrim :: "rstring \<Rightarrow> rstring" where
  "btrim s = rev (dropWhile (\<lambda>c. c = 32) (rev (dropWhile (\<lambda>c. c = 32) s)))"

definition organization_set_profile_audited ::
  "organization_id \<Rightarrow> rstring option \<Rightarrow> rstring option \<Rightarrow> rstring option \<Rightarrow> uuid \<Rightarrow> uuid \<Rightarrow> uuid \<Rightarrow>
   database \<Rightarrow> db_error + database" where
  "organization_set_profile_audited i description loc contact reviewer request_id audit_id db =
     record_audit_event audit_id (Actor_Reviewer reviewer) (lit ''ORGANIZATION_PROFILE_UPDATED'')
       (lit ''ORGANIZATION'') (Some (organization_uuid i)) request_id (JObj [])
       (update_organization i (\<lambda>r. r\<lparr>organization_row_description := description,
          organization_row_location := loc,
          organization_row_contact :=
            (case contact of
               None \<Rightarrow> organization_row_contact r
             | Some c \<Rightarrow> if btrim c = [] then None else Some (btrim c))\<rparr>) db)"

definition organization_set_active :: "organization_id \<Rightarrow> bool \<Rightarrow> database \<Rightarrow> database" where
  "organization_set_active i active db =
     update_organization i (\<lambda>r. r\<lparr>organization_row_is_active := active\<rparr>) db"

definition organization_set_consumer_id ::
  "organization_id \<Rightarrow> consumer_id \<Rightarrow> database \<Rightarrow> db_error + database" where
  "organization_set_consumer_id i c db =
     (if (\<exists>r \<in> set (db_organizations db). organization_row_id r = organization_uuid i) \<and>
         consumer_uuid c \<notin> consumer_row_id ` set (db_consumers db)
      then Inl DbError_ForeignKeyViolation
      else if (\<exists>r \<in> set (db_organizations db). organization_row_id r = organization_uuid i) \<and>
         (\<exists>r \<in> set (db_organizations db). organization_row_id r \<noteq> organization_uuid i \<and>
              organization_row_consumer_id r = Some (consumer_uuid c))
      then Inl DbError_UniqueViolation
      else Inr (update_organization i (\<lambda>r. r\<lparr>organization_row_consumer_id := Some (consumer_uuid c)\<rparr>) db))"

definition organization_find_id_by_consumer :: "database \<Rightarrow> consumer_id \<Rightarrow> organization_id option" where
  "organization_find_id_by_consumer db c =
     map_option (\<lambda>r. OrganizationId (organization_row_id r))
       (find (\<lambda>r. organization_row_consumer_id r = Some (consumer_uuid c)) (db_organizations db))"

definition organization_set_trust_grants ::
  "organization_id \<Rightarrow> incident_type list \<Rightarrow> alert_visibility list \<Rightarrow> database \<Rightarrow> database" where
  "organization_set_trust_grants i its vs db =
     update_organization i (\<lambda>r. r\<lparr>organization_row_incident_types := map incident_type_to_db its,
       organization_row_alert_visibilities := map alert_visibility_to_db vs\<rparr>) db"

section \<open>Memberships\<close>

definition membership_add ::
  "uuid \<Rightarrow> role \<Rightarrow> organization_id option \<Rightarrow> database \<Rightarrow> db_error + database" where
  "membership_add reviewer ro g db =
     (if (ro = Role_PlatformAdmin) \<noteq> (g = None) then Inl DbError_CheckViolation
      else if reviewer \<in> membership_row_reviewer_id ` set (db_memberships db) then Inl DbError_UniqueViolation
      else if reviewer \<notin> reviewer_row_id ` set (db_reviewers db) \<or>
              (\<exists>i. g = Some i \<and> organization_uuid i \<notin> organization_row_id ` set (db_organizations db))
      then Inl DbError_ForeignKeyViolation
      else Inr (db\<lparr>db_memberships := db_memberships db @
         [\<lparr>membership_row_reviewer_id = reviewer, membership_row_role = role_to_db ro,
           membership_row_organization_id = map_option organization_uuid g\<rparr>]\<rparr>))"

definition membership_find :: "database \<Rightarrow> uuid \<Rightarrow> db_error + membership option" where
  "membership_find db reviewer =
     (case find (\<lambda>m. membership_row_reviewer_id m = reviewer) (db_memberships db) of
        None \<Rightarrow> Inr None
      | Some r \<Rightarrow> bind_result (ok_or DbPanic (role_from_db (membership_row_role r))) (\<lambda>ro.
          Inr (Some \<lparr>member_role = ro,
                     member_organization_id = map_option OrganizationId (membership_row_organization_id r)\<rparr>)))"

record membership_record =
  record_reviewer_id :: uuid
  record_email :: rstring
  record_role :: role

text \<open>\<open>ORDER BY r.email\<close>, by code points.\<close>

definition membership_list :: "database \<Rightarrow> organization_id \<Rightarrow> db_error + membership_record list" where
  "membership_list db i =
     collect_results (map (\<lambda>(r, m).
         bind_result (ok_or DbPanic (role_from_db (membership_row_role m))) (\<lambda>ro.
           Inr \<lparr>record_reviewer_id = reviewer_row_id r, record_email = reviewer_row_email r, record_role = ro\<rparr>))
       (sort_key (\<lambda>(r, m). reviewer_row_email r)
          (filter (\<lambda>(r, m). reviewer_row_id r = membership_row_reviewer_id m \<and>
                            membership_row_organization_id m = Some (organization_uuid i))
             (List.product (db_reviewers db) (db_memberships db)))))"

section \<open>Reviewers\<close>

datatype create_reviewer_outcome = CreateReviewer_Created | CreateReviewer_EmailAlreadyRegistered

definition reviewer_count :: "database \<Rightarrow> nat" where
  "reviewer_count db = length (db_reviewers db)"

text \<open>The unique index is on \<open>lower(email)\<close>; any unique violation, the primary key's too, is reported
  as a registered email.\<close>

definition reviewer_create :: "uuid \<Rightarrow> rstring \<Rightarrow> database \<Rightarrow> db_error + database \<times> create_reviewer_outcome" where
  "reviewer_create i email db =
     (if btrim_blank email then Inl DbError_CheckViolation
      else if i \<in> reviewer_row_id ` set (db_reviewers db) \<or>
              to_lowercase email \<in> (\<lambda>r. to_lowercase (reviewer_row_email r)) ` set (db_reviewers db)
      then Inr (db, CreateReviewer_EmailAlreadyRegistered)
      else Inr (db\<lparr>db_reviewers := db_reviewers db @
         [\<lparr>reviewer_row_id = i, reviewer_row_email = email, reviewer_row_sessions_revoked_at = None\<rparr>]\<rparr>,
         CreateReviewer_Created))"

definition reviewer_find_by_email :: "database \<Rightarrow> rstring \<Rightarrow> uuid option" where
  "reviewer_find_by_email db email =
     map_option reviewer_row_id
       (find (\<lambda>r. to_lowercase (reviewer_row_email r) = to_lowercase email) (db_reviewers db))"

definition reviewer_record ::
  "uuid \<Rightarrow> actor \<Rightarrow> rstring \<Rightarrow> uuid option \<Rightarrow> uuid \<Rightarrow> json \<Rightarrow> database \<Rightarrow> db_error + database" where
  "reviewer_record audit_id a action resource_id request_id metadata db =
     record_audit_event audit_id a action (lit ''REVIEWER'') resource_id request_id metadata db"

definition record_registration :: "uuid \<Rightarrow> uuid \<Rightarrow> actor \<Rightarrow> uuid \<Rightarrow> database \<Rightarrow> db_error + database" where
  "record_registration audit_id reviewer a request_id db =
     reviewer_record audit_id a (lit ''REVIEWER_REGISTERED'') (Some reviewer) request_id (JObj []) db"

definition record_login_success :: "uuid \<Rightarrow> uuid \<Rightarrow> uuid \<Rightarrow> database \<Rightarrow> db_error + database" where
  "record_login_success audit_id reviewer request_id db =
     reviewer_record audit_id (Actor_Reviewer reviewer) (lit ''REVIEWER_LOGIN_SUCCEEDED'') (Some reviewer)
       request_id (JObj []) db"

definition record_login_failure ::
  "uuid \<Rightarrow> uuid option \<Rightarrow> rstring \<Rightarrow> uuid \<Rightarrow> database \<Rightarrow> db_error + database" where
  "record_login_failure audit_id reviewer email request_id db =
     reviewer_record audit_id Actor_Automated (lit ''REVIEWER_LOGIN_FAILED'') reviewer request_id
       (JObj [(lit ''email'', JStr email)]) db"

definition record_logout :: "uuid \<Rightarrow> uuid \<Rightarrow> uuid \<Rightarrow> database \<Rightarrow> db_error + database" where
  "record_logout audit_id reviewer request_id db =
     reviewer_record audit_id (Actor_Reviewer reviewer) (lit ''REVIEWER_LOGOUT'') (Some reviewer)
       request_id (JObj []) db"

text \<open>A token's time is in seconds, the database's clock in microseconds: a revocation is compared with
  the start of the second in which the token was issued.\<close>

definition is_session_revoked :: "database \<Rightarrow> uuid \<Rightarrow> int \<Rightarrow> bool" where
  "is_session_revoked db reviewer issued_at =
     (case find (\<lambda>r. reviewer_row_id r = reviewer) (db_reviewers db) of
        None \<Rightarrow> True
      | Some r \<Rightarrow> (case reviewer_row_sessions_revoked_at r of None \<Rightarrow> False | Some t \<Rightarrow> issued_at * 1000000 < int t))"

definition revoke_all_sessions :: "nat \<Rightarrow> uuid \<Rightarrow> database \<Rightarrow> database" where
  "revoke_all_sessions now reviewer db =
     db\<lparr>db_reviewers := map (\<lambda>r. if reviewer_row_id r = reviewer
        then r\<lparr>reviewer_row_sessions_revoked_at := Some now\<rparr> else r) (db_reviewers db)\<rparr>"

section \<open>The directory of members\<close>

definition map_ok :: "('a \<Rightarrow> 'b) \<Rightarrow> 'e + 'a \<Rightarrow> 'e + 'b" where
  "map_ok f r = bind_result r (\<lambda>x. Inr (f x))"

lemma map_ok_Inr: "map_ok f r = Inr y \<longleftrightarrow> (\<exists>x. r = Inr x \<and> y = f x)"
  by (auto simp: map_ok_def bind_result_Inr)

text \<open>What the callers rely on: every row reads back, each reviewer has one membership, a membership has an
  organization exactly if its role needs one, and that organization is stored.\<close>

definition organization_row_ok :: "organization_row \<Rightarrow> bool" where
  "organization_row_ok r \<longleftrightarrow> (\<exists>g. organization_from_row r = Inr g)"

definition membership_row_ok :: "database \<Rightarrow> membership_row \<Rightarrow> bool" where
  "membership_row_ok db m \<longleftrightarrow>
     (\<exists>ro. membership_row_role m = role_to_db ro \<and>
        (ro = Role_PlatformAdmin \<longleftrightarrow> membership_row_organization_id m = None)) \<and>
     (\<forall>i. membership_row_organization_id m = Some i \<longrightarrow> i \<in> organization_row_id ` set (db_organizations db)) \<and>
     membership_row_reviewer_id m \<in> reviewer_row_id ` set (db_reviewers db)"

definition access_ok :: "database \<Rightarrow> bool" where
  "access_ok db \<longleftrightarrow>
     distinct (map organization_row_id (db_organizations db)) \<and>
     distinct (map membership_row_reviewer_id (db_memberships db)) \<and>
     (\<forall>r \<in> set (db_organizations db). organization_row_ok r) \<and>
     (\<forall>m \<in> set (db_memberships db). membership_row_ok db m)"

datatype access_op =
    Access_CreateOrganization organization
  | Access_SetProfile organization_id "rstring option" "rstring option"
  | Access_SetProfileAudited organization_id "rstring option" "rstring option" "rstring option" uuid uuid uuid
  | Access_SetActive organization_id bool
  | Access_SetConsumer organization_id consumer_id
  | Access_SetTrust organization_id "incident_type list" "alert_visibility list"
  | Access_AddMembership uuid role "organization_id option"
  | Access_CreateReviewer uuid rstring
  | Access_Revoke nat uuid
  | Access_Record uuid actor rstring "uuid option" uuid json

fun access_apply :: "database \<Rightarrow> access_op \<Rightarrow> db_error + database \<times> unit" where
  "access_apply db (Access_CreateOrganization g) = map_ok (\<lambda>d. (d, ())) (organization_create g db)"
| "access_apply db (Access_SetProfile i a b) = Inr (organization_set_profile i a b db, ())"
| "access_apply db (Access_SetProfileAudited i a b c u rq k) =
     map_ok (\<lambda>d. (d, ())) (organization_set_profile_audited i a b c u rq k db)"
| "access_apply db (Access_SetActive i b) = Inr (organization_set_active i b db, ())"
| "access_apply db (Access_SetConsumer i c) = map_ok (\<lambda>d. (d, ())) (organization_set_consumer_id i c db)"
| "access_apply db (Access_SetTrust i its vs) = Inr (organization_set_trust_grants i its vs db, ())"
| "access_apply db (Access_AddMembership u ro g) = map_ok (\<lambda>d. (d, ())) (membership_add u ro g db)"
| "access_apply db (Access_CreateReviewer u e) = map_ok (\<lambda>(d, out). (d, ())) (reviewer_create u e db)"
| "access_apply db (Access_Revoke t u) = Inr (revoke_all_sessions t u db, ())"
| "access_apply db (Access_Record k a act u rq meta) = map_ok (\<lambda>d. (d, ())) (reviewer_record k a act u rq meta db)"

lemma update_organization_frame [simp]:
  "db_memberships (update_organization i f db) = db_memberships db"
  "db_reviewers (update_organization i f db) = db_reviewers db"
  "(\<And>r. organization_row_id (f r) = organization_row_id r) \<Longrightarrow>
     map organization_row_id (db_organizations (update_organization i f db)) = map organization_row_id (db_organizations db)"
  by (auto simp: update_organization_def)

lemma update_organization_ok:
  assumes "access_ok db" and "\<And>r. organization_row_id (f r) = organization_row_id r"
    and "\<And>r. organization_row_ok r \<Longrightarrow> organization_row_ok (f r)"
  shows "access_ok (update_organization i f db)"
proof -
  have ids: "map organization_row_id (db_organizations (update_organization i f db)) =
      map organization_row_id (db_organizations db)"
    using assms(2) by simp
  then have "organization_row_id ` set (db_organizations (update_organization i f db)) =
      organization_row_id ` set (db_organizations db)" by (metis list.set_map)
  then have "membership_row_ok (update_organization i f db) m = membership_row_ok db m" for m
    by (simp add: membership_row_ok_def)
  moreover have "\<forall>r \<in> set (db_organizations (update_organization i f db)). organization_row_ok r"
    using assms(1,3) by (auto simp: access_ok_def update_organization_def)
  ultimately show ?thesis using assms(1) ids by (simp add: access_ok_def)
qed

lemma record_audit_frame:
  assumes "record_audit_event i a act ty r rq meta db = Inr db'"
  shows "db_organizations db' = db_organizations db" "db_memberships db' = db_memberships db"
    "db_reviewers db' = db_reviewers db"
  using assms by (auto simp: record_audit_event_def result_simps)

lemma access_ok_cong:
  "db_organizations db' = db_organizations db \<Longrightarrow> db_memberships db' = db_memberships db \<Longrightarrow>
   reviewer_row_id ` set (db_reviewers db) \<subseteq> reviewer_row_id ` set (db_reviewers db') \<Longrightarrow>
   access_ok db \<Longrightarrow> access_ok db'"
  by (auto simp: access_ok_def membership_row_ok_def)

lemma record_audit_ok:
  assumes "access_ok db" and "record_audit_event i a act ty r rq meta db = Inr db'"
  shows "access_ok db'"
  by (rule access_ok_cong [OF record_audit_frame(1,2) [OF assms(2)] _ assms(1)])
     (simp add: record_audit_frame(3) [OF assms(2)])

lemma organization_row_ok_update:
  "organization_row_ok r \<Longrightarrow> organization_row_ok (r\<lparr>organization_row_description := a, organization_row_location := b\<rparr>)"
  "organization_row_ok r \<Longrightarrow> organization_row_ok (r\<lparr>organization_row_description := a, organization_row_location := b,
      organization_row_contact := c\<rparr>)"
  "organization_row_ok r \<Longrightarrow> organization_row_ok (r\<lparr>organization_row_is_active := act\<rparr>)"
  "organization_row_ok r \<Longrightarrow> organization_row_ok (r\<lparr>organization_row_consumer_id := con\<rparr>)"
  by (auto simp: organization_row_ok_def organization_from_row_def bind_result_Inr)

lemma parse_trust [simp]:
  "parse_incident_types (map incident_type_to_db its) = Inr its"
  "parse_alert_visibilities (map alert_visibility_to_db vs) = Inr vs"
  by (simp_all add: parse_incident_types_def parse_alert_visibilities_def collect_results_Inr comp_def
      incident_type_db.from_to alert_visibility_db.from_to)

lemma organization_create_ok:
  assumes "access_ok db" and "organization_create g db = Inr db'"
  shows "access_ok db'"
proof -
  let ?r = "\<lparr>organization_row_id = organization_uuid (organization_id g),
          organization_row_name = organization_name g,
          organization_row_description = organization_description g,
          organization_row_location = organization_location g,
          organization_row_incident_types = [], organization_row_alert_visibilities = [],
          organization_row_consumer_id = None, organization_row_is_active = True,
          organization_row_contact = None\<rparr>"
  have db': "db' = db\<lparr>db_organizations := db_organizations db @ [?r]\<rparr>"
    and new: "organization_row_id ?r \<notin> organization_row_id ` set (db_organizations db)"
    using assms(2) by (auto simp: organization_create_def result_simps split: if_splits)
  have "organization_row_ok ?r"
    using parse_trust(1) [of "[]"] parse_trust(2) [of "[]"]
    by (simp add: organization_row_ok_def organization_from_row_def)
  with assms(1) new show ?thesis unfolding db' by (auto simp: access_ok_def membership_row_ok_def)
qed

lemma membership_add_ok:
  assumes "access_ok db" and "membership_add u ro g db = Inr db'"
  shows "access_ok db'"
proof -
  let ?m = "\<lparr>membership_row_reviewer_id = u, membership_row_role = role_to_db ro,
           membership_row_organization_id = map_option organization_uuid g\<rparr>"
  have db': "db' = db\<lparr>db_memberships := db_memberships db @ [?m]\<rparr>"
    and m: "u \<notin> membership_row_reviewer_id ` set (db_memberships db)" "ro = Role_PlatformAdmin \<longleftrightarrow> g = None"
      "u \<in> reviewer_row_id ` set (db_reviewers db)"
      "\<And>i. g = Some i \<Longrightarrow> organization_uuid i \<in> organization_row_id ` set (db_organizations db)"
    using assms(2) by (auto simp: membership_add_def split: if_splits)
  have "membership_row_ok db ?m" using m by (auto simp: membership_row_ok_def)
  with assms(1) m(1) show ?thesis unfolding db' by (auto simp: access_ok_def membership_row_ok_def)
qed

lemma revoke_reviewer_ids:
  "map reviewer_row_id (db_reviewers (revoke_all_sessions t u db)) = map reviewer_row_id (db_reviewers db)"
  by (simp add: revoke_all_sessions_def)

lemma access_apply_ok:
  assumes "access_ok db" and "access_apply db x = Inr (db', u)"
  shows "access_ok db'"
proof (cases x)
  case (Access_CreateOrganization g)
  with assms show ?thesis by (auto simp: map_ok_Inr intro: organization_create_ok)
next
  case (Access_SetProfile i a b)
  with assms show ?thesis
    by (auto simp: organization_set_profile_def intro!: update_organization_ok organization_row_ok_update)
next
  case (Access_SetProfileAudited i a b c u rq k)
  let ?f = "\<lambda>r. r\<lparr>organization_row_description := a, organization_row_location := b,
      organization_row_contact := (case c of None \<Rightarrow> organization_row_contact r
             | Some c \<Rightarrow> if btrim c = [] then None else Some (btrim c))\<rparr>"
  have "access_ok (update_organization i ?f db)"
    by (intro update_organization_ok [OF assms(1)] organization_row_ok_update) simp_all
  moreover have "record_audit_event k (Actor_Reviewer u) (lit ''ORGANIZATION_PROFILE_UPDATED'') (lit ''ORGANIZATION'')
      (Some (organization_uuid i)) rq (JObj []) (update_organization i ?f db) = Inr db'"
    using assms(2) Access_SetProfileAudited by (auto simp: organization_set_profile_audited_def map_ok_Inr)
  ultimately show ?thesis by (rule record_audit_ok)
next
  case (Access_SetActive i b)
  with assms show ?thesis
    by (auto simp: organization_set_active_def intro!: update_organization_ok organization_row_ok_update)
next
  case (Access_SetConsumer i c)
  with assms show ?thesis
    by (auto simp: organization_set_consumer_id_def map_ok_Inr intro!: update_organization_ok organization_row_ok_update
        split: if_splits)
next
  case (Access_SetTrust i its vs)
  with assms show ?thesis
    by (auto simp: organization_set_trust_grants_def organization_row_ok_def organization_from_row_def bind_result_Inr
        intro!: update_organization_ok)
next
  case (Access_AddMembership u ro g)
  with assms show ?thesis by (auto simp: map_ok_Inr intro: membership_add_ok)
next
  case (Access_CreateReviewer u e)
  with assms show ?thesis
    by (auto simp: reviewer_create_def map_ok_Inr split: if_splits intro: access_ok_cong [of _ db])
next
  case (Access_Revoke t u)
  have "reviewer_row_id ` set (db_reviewers (revoke_all_sessions t u db)) = reviewer_row_id ` set (db_reviewers db)"
    by (simp flip: set_map add: revoke_reviewer_ids)
  moreover have "db' = revoke_all_sessions t u db" using assms(2) Access_Revoke by simp
  ultimately show ?thesis
    using access_ok_cong [of db' db] assms(1) by (simp add: revoke_all_sessions_def)
next
  case (Access_Record k a act u rq meta)
  then have "record_audit_event k a act (lit ''REVIEWER'') u rq meta db = Inr db'"
    using assms(2) by (auto simp: map_ok_Inr reviewer_record_def)
  then show ?thesis by (rule record_audit_ok [OF assms(1)])
qed

lemma access_empty: "access_ok empty_database"
  by (simp add: access_ok_def empty_database_def)

lemma access_run_ok: "access_ok (fst (run_ops access_apply empty_database xs))"
proof (rule run_ops_induct [where P = access_ok])
  show "access_ok empty_database" by (rule access_empty)
qed (auto intro: access_apply_ok)

lemma membership_find_total:
  assumes "access_ok db"
  shows "\<exists>m. membership_find db u = Inr m"
proof (cases "find (\<lambda>m. membership_row_reviewer_id m = u) (db_memberships db)")
  case None
  then show ?thesis by (simp add: membership_find_def)
next
  case (Some r)
  then have "r \<in> set (db_memberships db)" by (auto simp: find_Some_iff)
  with assms have "membership_row_ok db r" by (simp add: access_ok_def)
  then obtain ro where "membership_row_role r = role_to_db ro"
    unfolding membership_row_ok_def by blast
  with Some show ?thesis by (simp add: membership_find_def ok_or_def role_db.from_to)
qed

lemma organization_find_total:
  assumes "access_ok db"
  shows "\<exists>g. organization_find_by_id db i = Inr g"
proof (cases "find (\<lambda>r. organization_row_id r = organization_uuid i) (db_organizations db)")
  case None
  then show ?thesis by (simp add: organization_find_by_id_def)
next
  case (Some r)
  then have "r \<in> set (db_organizations db)" by (auto simp: find_Some_iff)
  with assms have "organization_row_ok r" by (simp add: access_ok_def)
  with Some show ?thesis by (auto simp: organization_find_by_id_def organization_row_ok_def)
qed

lemma membership_find_row:
  assumes "access_ok db" and "membership_find db u = Inr (Some m)"
  shows "(member_role m = Role_PlatformAdmin \<longleftrightarrow> member_organization_id m = None) \<and>
    (\<forall>i. member_organization_id m = Some i \<longrightarrow> organization_uuid i \<in> organization_row_id ` set (db_organizations db))"
proof -
  from assms(2) obtain r where r: "find (\<lambda>m. membership_row_reviewer_id m = u) (db_memberships db) = Some r"
    and m: "role_from_db (membership_row_role r) = Some (member_role m)"
      "member_organization_id m = map_option OrganizationId (membership_row_organization_id r)"
    by (auto simp: membership_find_def result_simps split: option.splits)
  from r have "r \<in> set (db_memberships db)" by (auto simp: find_Some_iff)
  with assms(1) have "membership_row_ok db r" by (simp add: access_ok_def)
  then obtain ro where ro: "membership_row_role r = role_to_db ro"
      "ro = Role_PlatformAdmin \<longleftrightarrow> membership_row_organization_id r = None"
    and stored: "\<forall>i. membership_row_organization_id r = Some i \<longrightarrow> i \<in> organization_row_id ` set (db_organizations db)"
    unfolding membership_row_ok_def by (elim conjE exE) (rule that)
  from m(1) ro(1) have "member_role m = ro" by (simp add: role_db.from_to)
  with m(2) ro(2) stored show ?thesis by (cases "membership_row_organization_id r") auto
qed

lemma organization_found:
  assumes "access_ok db" and "organization_uuid i \<in> organization_row_id ` set (db_organizations db)"
  shows "\<exists>g. organization_find_by_id db i = Inr (Some g)"
proof -
  from assms(2) obtain r where r: "find (\<lambda>r. organization_row_id r = organization_uuid i) (db_organizations db) = Some r"
    by (metis (mono_tags, lifting) find_None_iff imageE option.exhaust)
  then have "r \<in> set (db_organizations db)" by (auto simp: find_Some_iff)
  with assms(1) have "organization_row_ok r" by (simp add: access_ok_def)
  with r show ?thesis by (auto simp: organization_find_by_id_def organization_row_ok_def)
qed

text \<open>C21: whatever the sequence of organization, membership and reviewer operations, refused ones
  included, every stored row decodes: no lookup of a membership or of an organization fails.  A
  membership found has an organization exactly if its role is not the platform administrator's, and
  that organization is found.\<close>

theorem access_directory_consistent:
  "\<exists>m g. membership_find (fst (run_ops access_apply empty_database xs)) u = Inr m \<and>
     organization_find_by_id (fst (run_ops access_apply empty_database xs)) i = Inr g \<and>
     (case m of None \<Rightarrow> True | Some m' \<Rightarrow>
        (case member_organization_id m' of
           None \<Rightarrow> member_role m' = Role_PlatformAdmin
         | Some j \<Rightarrow> member_role m' \<noteq> Role_PlatformAdmin \<and>
             (\<exists>h. organization_find_by_id (fst (run_ops access_apply empty_database xs)) j = Inr (Some h))))"
proof -
  let ?db = "fst (run_ops access_apply empty_database xs)"
  have ok: "access_ok ?db" by (rule access_run_ok)
  obtain m where m: "membership_find ?db u = Inr m" using membership_find_total [OF ok] by blast
  obtain g where g: "organization_find_by_id ?db i = Inr g" using organization_find_total [OF ok] by blast
  have "case m of None \<Rightarrow> True | Some m' \<Rightarrow> (case member_organization_id m' of
           None \<Rightarrow> member_role m' = Role_PlatformAdmin
         | Some j \<Rightarrow> member_role m' \<noteq> Role_PlatformAdmin \<and> (\<exists>h. organization_find_by_id ?db j = Inr (Some h)))"
    using membership_find_row [OF ok, of u] m organization_found [OF ok] by (auto split: option.splits)
  with m g show ?thesis by blast
qed

lemma find_map_key:
  assumes "\<And>r. k (f r) = k r"
  shows "find (\<lambda>r. k r = x) (map f rs) = map_option f (find (\<lambda>r. k r = x) rs)"
  by (induction rs) (simp_all add: assms)

text \<open>C26: revoking a reviewer's sessions refuses exactly the tokens issued in a second that began before
  the revocation, one issued later in the same second included, and concerns no other reviewer.\<close>

theorem session_revocation_exact:
  "is_session_revoked (revoke_all_sessions now u db) v issued_at =
     (if v = u
      then (case find (\<lambda>r. reviewer_row_id r = v) (db_reviewers db) of
              None \<Rightarrow> True | Some _ \<Rightarrow> issued_at * 1000000 < int now)
      else is_session_revoked db v issued_at)"
proof -
  let ?f = "\<lambda>r. if reviewer_row_id r = u then r\<lparr>reviewer_row_sessions_revoked_at := Some now\<rparr> else r"
  have f: "find (\<lambda>r. reviewer_row_id r = v) (map ?f (db_reviewers db)) =
      map_option ?f (find (\<lambda>r. reviewer_row_id r = v) (db_reviewers db))"
    by (rule find_map_key) simp
  show ?thesis
  proof (cases "find (\<lambda>r. reviewer_row_id r = v) (db_reviewers db)")
    case None
    then have "v \<notin> reviewer_row_id ` set (db_reviewers db)" by (auto simp: find_None_iff)
    then show ?thesis
      unfolding is_session_revoked_def revoke_all_sessions_def using None f by auto
  next
    case (Some r)
    then have "r \<in> set (db_reviewers db)" "reviewer_row_id r = v" by (auto simp: find_Some_iff)
    then show ?thesis using Some f by (auto simp: is_session_revoked_def revoke_all_sessions_def)
  qed
qed

end
