(* ===== verification/Access_Api.thy ===== *)
theory Access_Api
  imports Organization_Store Authorization_Model Rate_Limit
begin

text \<open>
  What every HTTP handler of \<open>apps/api/src\<close> starts with: errors (\<open>error.rs\<close>), request ids
  (\<open>request_id.rs\<close>), idempotency keys (\<open>idempotency.rs\<close>), rate limits (\<open>rate_limit.rs\<close>) and their source
  keys (\<open>source_key.rs\<close>), the caller's identity (\<open>reviewer.rs\<close>) and the gate in front of the raw incident
  data (\<open>organization_access.rs\<close>).

  A handler gets the headers as a map from names to values; \<open>None\<close> inside \<open>Some\<close> stands for a value that
  \<open>to_str\<close> refuses. Errors of the connection to the database are not modelled, so an error of a
  repository is a violated constraint or a row that cannot be read back.
\<close>

type_synonym header_map = "rstring \<Rightarrow> rstring option option"

record api_error =
  api_error_status :: nat
  api_error_code :: rstring
  api_error_message :: rstring
  api_error_request_id :: uuid

definition api_error :: "nat \<Rightarrow> string \<Rightarrow> string \<Rightarrow> uuid \<Rightarrow> api_error" where
  "api_error st code message rq =
     \<lparr>api_error_status = st, api_error_code = lit code, api_error_message = lit message,
      api_error_request_id = rq\<rparr>"

definition header_str :: "header_map \<Rightarrow> string \<Rightarrow> rstring option" where
  "header_str headers name = Option.bind (headers (lit name)) (\<lambda>v. v)"

section \<open>Request ids, idempotency keys and sources\<close>

text \<open>\<open>drawn\<close> is the UUID the function draws when the header gives none.\<close>

definition request_id_from_headers :: "(rstring \<Rightarrow> uuid option) \<Rightarrow> uuid \<Rightarrow> header_map \<Rightarrow> uuid" where
  "request_id_from_headers pu drawn headers =
     (case Option.bind (header_str headers ''x-request-id'') (\<lambda>v. pu (trim v)) of
        None \<Rightarrow> drawn
      | Some u \<Rightarrow> u)"

text \<open>The length is that of the UTF-8 text.\<close>

definition idempotency_key_from_headers :: "header_map \<Rightarrow> uuid \<Rightarrow> api_error + rstring option" where
  "idempotency_key_from_headers headers rq =
     (let key = Option.bind (map_option trim (header_str headers ''Idempotency-Key''))
                  (\<lambda>v. if v \<noteq> [] then Some v else None) in
      case key of
        Some k \<Rightarrow>
          if str_len k < 8 \<or> 256 < str_len k
          then Inl (api_error 400 ''INVALID_IDEMPOTENCY_KEY''
                      ''Idempotency-Key must be between 8 and 256 characters.'' rq)
          else Inr key
      | None \<Rightarrow> Inr None)"

text \<open>\<open>split(',').next_back()\<close>: what follows the last comma.\<close>

definition last_hop :: "rstring \<Rightarrow> rstring" where
  "last_hop v = rev (takeWhile (\<lambda>c. c \<noteq> 44) (rev v))"

definition source_key_from_headers :: "header_map \<Rightarrow> rstring" where
  "source_key_from_headers headers =
     (case Option.bind (map_option (\<lambda>v. trim (last_hop v)) (header_str headers ''X-Forwarded-For''))
             (\<lambda>v. if v \<noteq> [] then Some v else None) of
        None \<Rightarrow> lit ''unknown''
      | Some v \<Rightarrow> v)"

text \<open>The deployed limiter is the Postgres one. The request is counted also when it is refused.\<close>

definition enforce_rate_limit ::
  "rate_limit_windows \<Rightarrow> rate_limit_scope \<Rightarrow> rstring \<Rightarrow> nat \<Rightarrow> uuid \<Rightarrow> rate_limit_windows \<times> (api_error + unit)" where
  "enforce_rate_limit limits scope source_key now rq =
     (case pg_record_and_check limits scope source_key now of
        (limits', Inl _) \<Rightarrow> (limits', Inl (api_error 500 ''RATE_LIMIT_CHECK_FAILED''
           ''Could not verify the request rate. Please try again.'' rq))
      | (limits', Inr within_limit) \<Rightarrow> (limits', if within_limit then Inr ()
           else Inl (api_error 429 ''RATE_LIMIT_EXCEEDED'' ''Too many requests. Please try again later.'' rq)))"

section \<open>The caller\<close>

definition invalid_or_expired_session :: "uuid \<Rightarrow> api_error" where
  "invalid_or_expired_session rq =
     api_error 401 ''INVALID_OR_EXPIRED_SESSION'' ''The session token is invalid or has expired.'' rq"

definition strip_prefix :: "rstring \<Rightarrow> rstring \<Rightarrow> rstring option" where
  "strip_prefix p s = (if starts_with s p then Some (drop (length p) s) else None)"

text \<open>The token issuer and the clock are one argument: \<open>verify\<close> answers for the current second. The cast
  to \<open>i64\<close> reads the word as signed. A panic
  of the verification is an error of the handler's task and answered like a failure.\<close>

definition actor_from_headers ::
  "(rstring \<Rightarrow> token_failure + verified_session_token) \<Rightarrow> database \<Rightarrow> header_map \<Rightarrow> uuid \<Rightarrow> api_error + actor" where
  "actor_from_headers verify db headers rq =
     (case headers (lit ''Authorization'') of
        None \<Rightarrow> Inr Actor_Automated
      | Some value \<Rightarrow>
          bind_result (ok_or (api_error 401 ''INVALID_AUTHORIZATION_HEADER''
              ''Authorization must be a Bearer session token.'' rq)
            (Option.bind value (strip_prefix (lit ''Bearer '')))) (\<lambda>token.
          bind_result (map_err (\<lambda>_. invalid_or_expired_session rq) (verify token)) (\<lambda>verified.
            if is_session_revoked db (verified_reviewer_id verified) (sint (verified_issued_at verified))
            then Inl (invalid_or_expired_session rq)
            else Inr (Actor_Reviewer (verified_reviewer_id verified)))))"

section \<open>Platform-only paths\<close>

definition access_denied :: "uuid \<Rightarrow> api_error" where
  "access_denied rq =
     api_error 403 ''NOT_AUTHORIZED'' ''This operation requires platform administrator access.'' rq"

definition api_membership :: "database \<Rightarrow> actor \<Rightarrow> uuid \<Rightarrow> api_error + membership" where
  "api_membership db a rq =
     (case a of
        Actor_Reviewer i \<Rightarrow>
          bind_result (map_err (\<lambda>_. api_error 500 ''AUTHORIZATION_LOOKUP_FAILED''
              ''Could not verify access. Please try again.'' rq) (membership_find db i)) (\<lambda>m.
            ok_or (access_denied rq) m)
      | _ \<Rightarrow> Inl (access_denied rq))"

datatype http_method = GET | HEAD | POST | PUT | PATCH | DELETE | OPTIONS

definition ends_with :: "rstring \<Rightarrow> rstring \<Rightarrow> bool" where
  "ends_with s p \<longleftrightarrow> starts_with (rev s) (rev p)"

definition platform_only :: "rstring \<Rightarrow> http_method \<Rightarrow> bool" where
  "platform_only path m =
     (if m = POST \<and> (path = lit ''/v1/reports'' \<or> path = lit ''/v1/reports/transcribe-audio'') then False
      else if m = POST \<and> starts_with path (lit ''/v1/reports/'') \<and> ends_with path (lit ''/attachments'') then False
      else if m = POST \<and>
         (path = lit ''/v1/cases''
          \<or> (starts_with path (lit ''/v1/cases/'') \<and> ends_with path (lit ''/events''))
          \<or> (starts_with path (lit ''/v1/cases/'') \<and> ends_with path (lit ''/verify''))) then False
      else if m = POST \<and> starts_with path (lit ''/v1/cases/'') \<and> ends_with path (lit ''/alerts'') then False
      else path = lit ''/v1/reports''
        \<or> starts_with path (lit ''/v1/reports/'')
        \<or> starts_with path (lit ''/v1/attachments/'')
        \<or> path = lit ''/v1/cases''
        \<or> starts_with path (lit ''/v1/cases/'')
        \<or> path = lit ''/v1/audit-events''
        \<or> starts_with path (lit ''/v1/deliveries/'')
        \<or> (starts_with path (lit ''/v1/alerts/'') \<and> ends_with path (lit ''/deliveries''))
        \<or> path = lit ''/v1/consumers'')"

text \<open>The middleware: \<open>Inr ()\<close> lets the request through to its handler.\<close>

definition restrict_incident_access ::
  "(rstring \<Rightarrow> token_failure + verified_session_token) \<Rightarrow> database \<Rightarrow> rstring \<Rightarrow> http_method \<Rightarrow> header_map \<Rightarrow>
   uuid \<Rightarrow> api_error + unit" where
  "restrict_incident_access verify db path m headers rq =
     (if platform_only path m
      then bind_result (actor_from_headers verify db headers rq) (\<lambda>a.
           bind_result (api_membership db a rq) (\<lambda>member.
             if member_role member \<noteq> Role_PlatformAdmin then Inl (access_denied rq) else Inr ()))
      else Inr ())"

section \<open>Requests\<close>

text \<open>
  What the program is configured with, and what a request brings: its headers, the UUID drawn when they
  carry no request id, the clock (in the database and of the token issuer) and the source of the UUIDs
  the handler draws.
\<close>

record api_config =
  config_show_uuid :: "uuid \<Rightarrow> rstring"
  config_parse_uuid :: "rstring \<Rightarrow> uuid option"
  config_sha256 :: "rstring \<Rightarrow> bytes"
  config_verify :: "nat \<Rightarrow> rstring \<Rightarrow> token_failure + verified_session_token"

record api_request =
  request_headers :: header_map
  request_drawn_id :: uuid
  request_now :: nat
  request_ids :: "nat \<Rightarrow> uuid"

definition api_request_id :: "api_config \<Rightarrow> api_request \<Rightarrow> uuid" where
  "api_request_id cfg rq = request_id_from_headers (config_parse_uuid cfg) (request_drawn_id rq) (request_headers rq)"

definition api_actor :: "api_config \<Rightarrow> api_request \<Rightarrow> database \<Rightarrow> api_error + actor" where
  "api_actor cfg rq db =
     actor_from_headers (config_verify cfg (request_now rq)) db (request_headers rq) (api_request_id cfg rq)"

text \<open>Answering an error leaves the database as it was read.\<close>

definition answer :: "database \<Rightarrow> api_error + database \<times> 'r \<Rightarrow> database \<times> (api_error + 'r)" where
  "answer db res = (case res of Inl e \<Rightarrow> (db, Inl e) | Inr (db', r) \<Rightarrow> (db', Inr r))"

lemma answer_simps [simp]:
  "answer db (Inl e) = (db, Inl e)"
  "answer db (Inr (db', r)) = (db', Inr r)"
  by (simp_all add: answer_def)

lemma answer_Inr: "answer db res = (db', Inr r) \<longleftrightarrow> res = Inr (db', r)"
  by (cases res) (auto simp: answer_def split: prod.splits)

lemma answer_Inl: "answer db res = (db', Inl e) \<longleftrightarrow> res = Inl e \<and> db' = db"
  by (cases res) (auto simp: answer_def split: prod.splits)

lemma guard_Inr: "(if b then Inl e else r) = Inr y \<longleftrightarrow> \<not> b \<and> r = Inr y"
  by simp

text \<open>A handler that has written something before it fails keeps what it wrote.\<close>

definition finish :: "database \<Rightarrow> api_error + database \<times> (api_error + 'r) \<Rightarrow> database \<times> (api_error + 'r)" where
  "finish db res = (case res of Inl e \<Rightarrow> (db, Inl e) | Inr w \<Rightarrow> w)"

lemma finish_simps [simp]:
  "finish db (Inl e) = (db, Inl e)"
  "finish db (Inr w) = w"
  by (simp_all add: finish_def)

lemma finish_Inr: "finish db res = (db', Inr r) \<longleftrightarrow> res = Inr (db', Inr r)"
  by (cases res) (auto simp: finish_def)

section \<open>Properties\<close>

lemma starts_with_take: "starts_with s p \<longleftrightarrow> take (length p) s = p"
  by (induction s p rule: starts_with.induct) auto

lemma strip_prefix_Some: "strip_prefix p v = Some t \<Longrightarrow> v = p @ t"
proof -
  assume a: "strip_prefix p v = Some t"
  then have "take (length p) v = p" "t = drop (length p) v"
    by (auto simp: strip_prefix_def starts_with_take split: if_splits)
  then show "v = p @ t" using append_take_drop_id [of "length p" v] by simp
qed

lemma actor_from_headers_reviewer:
  assumes "actor_from_headers verify db headers rid = Inr (Actor_Reviewer u)"
  shows "\<exists>token v. headers (lit ''Authorization'') = Some (Some (lit ''Bearer '' @ token)) \<and>
    verify token = Inr v \<and> verified_reviewer_id v = u \<and> \<not> is_session_revoked db u (sint (verified_issued_at v))"
  using assms
  by (auto simp: actor_from_headers_def result_simps bind_eq_Some_conv dest!: strip_prefix_Some
      split: option.splits if_splits)

lemma restrict_incident_access_platform:
  assumes "restrict_incident_access verify db path m headers rid = Inr ()" and "platform_only path m"
  shows "\<exists>u mem. actor_from_headers verify db headers rid = Inr (Actor_Reviewer u) \<and>
    membership_find db u = Inr (Some mem) \<and> member_role mem = Role_PlatformAdmin"
  using assms
  by (auto simp: restrict_incident_access_def api_membership_def result_simps split: if_splits actor.splits)


text \<open>A configuration and a request on which the handlers are exercised.\<close>

definition sample_config :: api_config where
  "sample_config = \<lparr>config_show_uuid = hyphenated, config_parse_uuid = parse_hyphenated, config_sha256 = utf8,
     config_verify = (\<lambda>_ _. Inr \<lparr>verified_reviewer_id = 9, verified_issued_at = 1\<rparr>)\<rparr>"

definition sample_request :: api_request where
  "sample_request = \<lparr>request_headers = (\<lambda>h. if h = lit ''Authorization'' then Some (Some (lit ''Bearer t'')) else None),
     request_drawn_id = 100, request_now = 5, request_ids = (\<lambda>k. of_nat (200 + k))\<rparr>"

lemma sample_actor:
  assumes "db_reviewers db = [\<lparr>reviewer_row_id = 9, reviewer_row_email = lit ''r'', reviewer_row_sessions_revoked_at = None\<rparr>]"
  shows "api_actor sample_config sample_request db = Inr (Actor_Reviewer 9)"
  by (simp add: api_actor_def actor_from_headers_def sample_config_def sample_request_def assms
      is_session_revoked_def strip_prefix_def ok_or_def lit_def invalid_or_expired_session_def)

definition sample_gate_db :: database where
  "sample_gate_db = empty_database\<lparr>
     db_reviewers := [\<lparr>reviewer_row_id = 9, reviewer_row_email = lit ''r'', reviewer_row_sessions_revoked_at = None\<rparr>],
     db_memberships := [\<lparr>membership_row_reviewer_id = 9, membership_row_role = lit ''PLATFORM_ADMIN'',
       membership_row_organization_id = None\<rparr>]\<rparr>"

definition sample_gate_token :: rstring where
  "sample_gate_token = issued_token (session_issue (\<lambda>k m. k @ m) hyphenated (session_issuer_new [1]) 9 40)"


end
