(* ===== verification/Case_Store.thy ===== *)
theory Case_Store
  imports Store_Base
begin

text \<open>
  The case repository (\<open>crates/infrastructure/src/postgres/cases.rs\<close>): reading a case back,
  creating it, linking a report and applying a review under optimistic concurrency, and the
  queries. The refinement lemmas say that a stored case is the aggregate that was written.
\<close>

datatype case_creation_outcome = CaseCreation_Created | CaseCreation_ReportAlreadyLinked

datatype case_link_outcome = CaseLink_Linked | CaseLink_ReportAlreadyLinked | CaseLink_Conflict

datatype case_review_outcome = CaseReview_Applied | CaseReview_Conflict

record case_filter =
  filter_status :: "case_status option"
  filter_incident_type :: "incident_type option"

record case_event_record =
  record_id :: uuid
  record_case_id :: uuid
  record_event_type :: case_event_type
  record_version :: u64
  record_actor_type :: rstring
  record_actor_id :: "uuid option"

section \<open>Reading\<close>

text \<open>\<open>None\<close> inside \<open>Inl DbPanic\<close> stands for the failing \<open>expect\<close> on an unknown label.\<close>

definition case_of_row :: "case_row \<Rightarrow> report_id list \<Rightarrow> db_error + incident_case" where
  "case_of_row r reports =
     bind_result (ok_or DbPanic (incident_type_from_db (case_row_incident_type r))) (\<lambda>it.
     bind_result (ok_or DbPanic (case_status_from_db (case_row_status r))) (\<lambda>st.
       Inr (case_reconstitute (CaseId (case_row_id r)) it st reports (case_row_version r))))"

definition reports_of_case :: "database \<Rightarrow> uuid \<Rightarrow> report_id list" where
  "reports_of_case db i =
     map (ReportId \<circ> snd) (filter (\<lambda>l. fst l = i) (db_case_reports db))"

definition case_find_by_id :: "database \<Rightarrow> case_id \<Rightarrow> db_error + incident_case option" where
  "case_find_by_id db cid =
     (case find (\<lambda>r. case_row_id r = case_uuid cid) (db_cases db) of
        None \<Rightarrow> Inr None
      | Some r \<Rightarrow> bind_result (case_of_row r (reports_of_case db (case_uuid cid))) (\<lambda>c. Inr (Some c)))"

definition case_list ::
  "database \<Rightarrow> case_filter \<Rightarrow> nat \<Rightarrow> nat \<Rightarrow> db_error + incident_case list" where
  "case_list db f limit offset =
     (let rows = take limit (drop offset (rev (sort_key case_row_updated_at
            (filter (\<lambda>r. (case filter_status f of None \<Rightarrow> True
                            | Some s \<Rightarrow> case_row_status r = case_status_to_db s) \<and>
                         (case filter_incident_type f of None \<Rightarrow> True
                            | Some it \<Rightarrow> case_row_incident_type r = incident_type_to_db it))
               (db_cases db)))))
      in collect_results (map (\<lambda>r. case_of_row r (reports_of_case db (case_row_id r))) rows))"

section \<open>Writing\<close>

definition insert_case :: "nat \<Rightarrow> incident_case \<Rightarrow> database \<Rightarrow> db_error + database" where
  "insert_case now c db =
     (if \<not> 0 <s case_version c then Inl DbError_CheckViolation
      else bind_result (insert_row case_row_id
        \<lparr>case_row_id = case_uuid (Case_Model.case_id c),
         case_row_incident_type = incident_type_to_db (case_incident_type c),
         case_row_status = case_status_to_db (case_status c), case_row_version = case_version c,
         case_row_updated_at = now\<rparr> (db_cases db))
        (\<lambda>rows. Inr (db\<lparr>db_cases := rows\<rparr>)))"

text \<open>\<open>case_reports\<close>: the pair is the primary key and the report alone is unique; both columns
  are foreign keys.\<close>

definition insert_case_report_link :: "case_id \<Rightarrow> report_id \<Rightarrow> database \<Rightarrow> db_error + database" where
  "insert_case_report_link cid rid db =
     (if report_uuid rid \<in> snd ` set (db_case_reports db) then Inl DbError_UniqueViolation
      else if case_uuid cid \<notin> case_row_id ` set (db_cases db)
              \<or> report_uuid rid \<notin> fst ` set (db_report_status db)
      then Inl DbError_ForeignKeyViolation
      else Inr (db\<lparr>db_case_reports := db_case_reports db @ [(case_uuid cid, report_uuid rid)]\<rparr>))"

definition mark_report_linked_to_case :: "report_id \<Rightarrow> database \<Rightarrow> database" where
  "mark_report_linked_to_case rid db =
     db\<lparr>db_report_status := map (\<lambda>(i, st). if i = report_uuid rid then (i, lit ''LINKED_TO_CASE'')
                                          else (i, st)) (db_report_status db)\<rparr>"

text \<open>The compare-and-set on \<open>aggregate_version\<close>; the result says whether a row matched.\<close>

definition advance_case_version ::
  "nat \<Rightarrow> case_id \<Rightarrow> case_status option \<Rightarrow> u64 \<Rightarrow> database \<Rightarrow> database \<times> bool" where
  "advance_case_version now cid new_status new_version db =
     (let matches = (\<lambda>r. case_row_id r = case_uuid cid \<and> case_row_version r = new_version - 1);
          update = (\<lambda>r. (case new_status of
               Some s \<Rightarrow> r\<lparr>case_row_status := case_status_to_db s, case_row_version := new_version,
                          case_row_updated_at := now\<rparr>
             | None \<Rightarrow> r\<lparr>case_row_version := new_version, case_row_updated_at := now\<rparr>));
          rows_affected = length (filter matches (db_cases db))
      in (db\<lparr>db_cases := map (\<lambda>r. if matches r then update r else r) (db_cases db)\<rparr>,
          rows_affected = 1))"

definition insert_case_event :: "case_event \<Rightarrow> actor \<Rightarrow> database \<Rightarrow> db_error + database" where
  "insert_case_event ev a db =
     bind_result (insert_aggregate_event
       (event_row (case_event_uuid (case_event_id ev)) (case_uuid (case_event_case_id ev))
          (case_event_type_to_db (case_event_type ev)) (case_event_version ev) a)
       (db_case_events db))
       (\<lambda>rows. Inr (db\<lparr>db_case_events := rows\<rparr>))"

definition write_case_event ::
  "case_id \<Rightarrow> case_event \<Rightarrow> trail \<Rightarrow> json \<Rightarrow> database \<Rightarrow> db_error + database" where
  "write_case_event cid ev t payload db =
     bind_result (insert_case_event ev (trail_actor t) db) (\<lambda>db.
     bind_result (insert_audit_event (lit ''CASE'') t (case_event_type_to_db (case_event_type ev))
                    (case_uuid cid) db) (\<lambda>db.
       insert_outbox_event (lit ''CASE'') t (case_uuid cid)
         (case_event_type_to_db (case_event_type ev)) payload db))"

definition case_repo_create ::
  "(uuid \<Rightarrow> rstring) \<Rightarrow> nat \<Rightarrow> case_creation \<Rightarrow> database \<Rightarrow>
   db_error + database \<times> case_creation_outcome" where
  "case_repo_create su now cr db =
     (case case_report_ids (creation_case cr) of
        [] \<Rightarrow> Inl DbPanic
      | rid # _ \<Rightarrow>
         bind_result (insert_case now (creation_case cr) db) (\<lambda>db1.
         case insert_case_report_link (Case_Model.case_id (creation_case cr)) rid db1 of
           Inl DbError_UniqueViolation \<Rightarrow> Inr (db, CaseCreation_ReportAlreadyLinked)
         | Inl e \<Rightarrow> Inl e
         | Inr db2 \<Rightarrow>
            bind_result (write_case_event (Case_Model.case_id (creation_case cr)) (creation_event cr)
              (creation_trail cr) (case_created_event_payload su cr)
              (mark_report_linked_to_case rid db2)) (\<lambda>db3. Inr (db3, CaseCreation_Created))))"

definition case_repo_link_report ::
  "(uuid \<Rightarrow> rstring) \<Rightarrow> nat \<Rightarrow> incident_case \<Rightarrow> case_report_link \<Rightarrow> database \<Rightarrow>
   db_error + database \<times> case_link_outcome" where
  "case_repo_link_report su now c l db =
     (case insert_case_report_link (Case_Model.case_id c) (link_report_id l) db of
        Inl DbError_UniqueViolation \<Rightarrow> Inr (db, CaseLink_ReportAlreadyLinked)
      | Inl e \<Rightarrow> Inl e
      | Inr db1 \<Rightarrow>
         (case advance_case_version now (Case_Model.case_id c) None (case_version c)
                 (mark_report_linked_to_case (link_report_id l) db1) of
            (db2, False) \<Rightarrow> Inr (db, CaseLink_Conflict)
          | (db2, True) \<Rightarrow>
             bind_result (write_case_event (Case_Model.case_id c) (link_event l) (link_trail l)
               (case_report_linked_event_payload su (Case_Model.case_id c) l) db2)
               (\<lambda>db3. Inr (db3, CaseLink_Linked))))"

definition case_repo_apply_review ::
  "(uuid \<Rightarrow> rstring) \<Rightarrow> nat \<Rightarrow> incident_case \<Rightarrow> case_review \<Rightarrow> database \<Rightarrow>
   db_error + database \<times> case_review_outcome" where
  "case_repo_apply_review su now c r db =
     (case advance_case_version now (Case_Model.case_id c) (Some (case_status c)) (case_version c) db of
        (db1, False) \<Rightarrow> Inr (db, CaseReview_Conflict)
      | (db1, True) \<Rightarrow>
         bind_result (write_case_event (Case_Model.case_id c) (review_event r) (review_trail r)
           (case_status_changed_event_payload su c r) db1)
           (\<lambda>db2. Inr (db2, CaseReview_Applied)))"

text \<open>\<open>list_events\<close> orders by version.\<close>

definition case_list_events :: "database \<Rightarrow> case_id \<Rightarrow> db_error + case_event_record list" where
  "case_list_events db cid =
     collect_results (map (\<lambda>r.
         bind_result (ok_or DbPanic (case_event_type_from_db (event_row_type r))) (\<lambda>ty.
           Inr \<lparr>record_id = event_row_id r, record_case_id = case_uuid cid, record_event_type = ty,
                record_version = event_row_version r, record_actor_type = event_row_actor_type r,
                record_actor_id = event_row_actor_id r\<rparr>))
       (sort_key (\<lambda>r. sint (event_row_version r))
          (filter (\<lambda>r. event_row_aggregate_id r = case_uuid cid) (db_case_events db))))"

section \<open>Store invariant\<close>

text \<open>The case that a row and its links stand for, and what a sound store promises: labels decode,
  ids are unique, and every link points to a stored case.\<close>

definition case_row_ok :: "case_row \<Rightarrow> bool" where
  "case_row_ok r \<longleftrightarrow>
     (\<exists>it st. case_row_incident_type r = incident_type_to_db it \<and> case_row_status r = case_status_to_db st)"

definition case_store_ok :: "database \<Rightarrow> bool" where
  "case_store_ok db \<longleftrightarrow>
     distinct (map case_row_id (db_cases db)) \<and>
     (\<forall>r \<in> set (db_cases db). case_row_ok r) \<and>
     distinct (map snd (db_case_reports db)) \<and>
     fst ` set (db_case_reports db) \<subseteq> case_row_id ` set (db_cases db)"

lemma case_of_row_ok:
  "case_row_ok r \<Longrightarrow> \<exists>c. case_of_row r rs = Inr c \<and> Case_Model.case_id c = CaseId (case_row_id r) \<and>
     case_version c = case_row_version r \<and> case_row_status r = case_status_to_db (case_status c) \<and>
     case_row_incident_type r = incident_type_to_db (case_incident_type c) \<and> case_report_ids c = rs"
  by (auto simp: case_row_ok_def case_of_row_def case_reconstitute_def incident_type_db.from_to
      case_status_db.from_to)

lemma case_of_row_Inr:
  "case_of_row r rs = Inr c \<longleftrightarrow>
     Case_Model.case_id c = CaseId (case_row_id r) \<and> case_version c = case_row_version r \<and>
     case_row_status r = case_status_to_db (case_status c) \<and>
     case_row_incident_type r = incident_type_to_db (case_incident_type c) \<and> case_report_ids c = rs"
  by (cases c)
     (auto simp: case_of_row_def case_reconstitute_def result_simps incident_type_db.from_db_Some_iff
       case_status_db.from_db_Some_iff)

lemma case_find_by_id_Some:
  assumes ok: "case_store_ok db"
  shows "case_find_by_id db cid = Inr (Some c) \<longleftrightarrow>
     (\<exists>r \<in> set (db_cases db). case_row_id r = case_uuid cid \<and>
        case_of_row r (reports_of_case db (case_uuid cid)) = Inr c)"
proof
  assume "case_find_by_id db cid = Inr (Some c)"
  then show "\<exists>r \<in> set (db_cases db). case_row_id r = case_uuid cid \<and>
        case_of_row r (reports_of_case db (case_uuid cid)) = Inr c"
    by (auto simp: case_find_by_id_def result_simps find_Some_iff split: option.splits)
next
  assume "\<exists>r \<in> set (db_cases db). case_row_id r = case_uuid cid \<and>
        case_of_row r (reports_of_case db (case_uuid cid)) = Inr c"
  then obtain r where r: "r \<in> set (db_cases db)" "case_row_id r = case_uuid cid"
    "case_of_row r (reports_of_case db (case_uuid cid)) = Inr c" by blast
  then have "find (\<lambda>x. case_row_id x = case_uuid cid) (db_cases db) = Some r"
    using find_unique_id [of case_row_id "db_cases db" r] ok by (simp add: case_store_ok_def)
  with r show "case_find_by_id db cid = Inr (Some c)"
    by (simp add: case_find_by_id_def)
qed

lemma case_find_by_id_total:
  assumes "case_store_ok db"
  shows "\<exists>oc. case_find_by_id db cid = Inr oc"
proof (cases "find (\<lambda>r. case_row_id r = case_uuid cid) (db_cases db)")
  case (Some r)
  then have "r \<in> set (db_cases db)" by (auto simp: find_Some_iff)
  then have "case_row_ok r" using assms by (auto simp: case_store_ok_def)
  from case_of_row_ok [OF this] obtain c where
    "case_of_row r (reports_of_case db (case_uuid cid)) = Inr c" by blast
  with Some show ?thesis by (simp add: case_find_by_id_def)
qed (simp add: case_find_by_id_def)

section \<open>The store as aggregates\<close>

definition case_lookup :: "database \<Rightarrow> case_id \<Rightarrow> incident_case option" where
  "case_lookup db cid = (case case_find_by_id db cid of Inr oc \<Rightarrow> oc | Inl e \<Rightarrow> None)"

lemma case_lookup_Some:
  assumes "case_store_ok db"
  shows "case_lookup db cid = Some c \<longleftrightarrow>
     (\<exists>r \<in> set (db_cases db). case_row_id r = case_uuid cid \<and>
        case_of_row r (reports_of_case db (case_uuid cid)) = Inr c)"
proof -
  obtain oc where "case_find_by_id db cid = Inr oc"
    using case_find_by_id_total [OF assms] by blast
  then show ?thesis
    using case_find_by_id_Some [OF assms, of cid c] by (simp add: case_lookup_def)
qed

lemma case_lookup_cong:
  "db_cases db' = db_cases db \<Longrightarrow> db_case_reports db' = db_case_reports db \<Longrightarrow>
     case_lookup db' cid = case_lookup db cid"
proof -
  assume eq: "db_cases db' = db_cases db" "db_case_reports db' = db_case_reports db"
  then have "reports_of_case db' = reports_of_case db" by (simp add: fun_eq_iff reports_of_case_def)
  with eq show ?thesis by (simp add: case_lookup_def case_find_by_id_def cong: option.case_cong)
qed

lemma case_store_ok_cong:
  "db_cases db' = db_cases db \<Longrightarrow> db_case_reports db' = db_case_reports db \<Longrightarrow>
     case_store_ok db' = case_store_ok db"
  by (simp add: case_store_ok_def)

lemma mark_report_linked_frame [simp]:
  "db_cases (mark_report_linked_to_case rid db) = db_cases db"
  "db_case_reports (mark_report_linked_to_case rid db) = db_case_reports db"
  by (simp_all add: mark_report_linked_to_case_def)

lemma write_case_event_frame:
  assumes "write_case_event cid ev t p db = Inr db'"
  shows "db_cases db' = db_cases db" and "db_case_reports db' = db_case_reports db"
  using assms by (auto simp: write_case_event_def insert_case_event_def result_simps)

text \<open>Updating a row in place.\<close>

lemma advance_result:
  assumes "case_store_ok db"
  shows "snd (advance_case_version now cid st v db) \<longleftrightarrow>
     (\<exists>r \<in> set (db_cases db). case_row_id r = case_uuid cid \<and> case_row_version r = v - 1)"
  using assms filter_unique_id [of case_row_id "db_cases db" "case_uuid cid" "\<lambda>r. case_row_version r = v - 1"]
  by (auto simp: advance_case_version_def Let_def case_store_ok_def)

lemma advance_reports [simp]:
  "db_case_reports (fst (advance_case_version now cid st v db)) = db_case_reports db"
  by (simp add: advance_case_version_def Let_def)

lemma advance_ok:
  assumes "case_store_ok db"
  shows "case_store_ok (fst (advance_case_version now cid st v db))"
proof -
  have "map case_row_id (db_cases (fst (advance_case_version now cid st v db))) = map case_row_id (db_cases db)"
    by (auto simp: advance_case_version_def Let_def split: option.splits)
  moreover have "\<forall>r \<in> set (db_cases (fst (advance_case_version now cid st v db))). case_row_ok r"
    using assms
    by (auto simp: advance_case_version_def Let_def case_store_ok_def case_row_ok_def split: option.splits)
  ultimately show ?thesis
    using assms by (metis advance_reports case_store_ok_def list.set_map)
qed

lemma advance_lookup:
  assumes ok: "case_store_ok db" and hit: "snd (advance_case_version now cid st v db)"
  shows "\<exists>c. case_lookup db cid = Some c \<and> case_version c + 1 = v \<and>
    case_lookup (fst (advance_case_version now cid st v db)) cid =
      Some (c\<lparr>case_status := (case st of None \<Rightarrow> case_status c | Some s \<Rightarrow> s), case_version := v\<rparr>)"
proof -
  let ?db' = "fst (advance_case_version now cid st v db)"
  obtain r where r: "r \<in> set (db_cases db)" "case_row_id r = case_uuid cid" "case_row_version r = v - 1"
    using hit advance_result [OF ok] by blast
  then obtain c where c: "case_of_row r (reports_of_case db (case_uuid cid)) = Inr c"
    using ok case_of_row_ok by (metis case_store_ok_def)
  let ?r' = "case st of Some s \<Rightarrow> r\<lparr>case_row_status := case_status_to_db s, case_row_version := v, case_row_updated_at := now\<rparr>
       | None \<Rightarrow> r\<lparr>case_row_version := v, case_row_updated_at := now\<rparr>"
  have "?r' \<in> set (db_cases ?db')" "case_row_id ?r' = case_uuid cid"
    using r by (auto simp: advance_case_version_def Let_def image_iff split: option.splits
        intro!: bexI [of _ r])
  moreover have "case_of_row ?r' (reports_of_case ?db' (case_uuid cid)) =
      Inr (c\<lparr>case_status := (case st of None \<Rightarrow> case_status c | Some s \<Rightarrow> s), case_version := v\<rparr>)"
    using c by (auto simp: case_of_row_Inr reports_of_case_def split: option.splits)
  ultimately have "case_lookup ?db' cid =
      Some (c\<lparr>case_status := (case st of None \<Rightarrow> case_status c | Some s \<Rightarrow> s), case_version := v\<rparr>)"
    using case_lookup_Some [OF advance_ok [OF ok]] by blast
  moreover have "case_lookup db cid = Some c"
    using case_lookup_Some [OF ok] r c by blast
  moreover have "case_version c + 1 = v"
    using c r by (simp add: case_of_row_Inr)
  ultimately show ?thesis by blast
qed

lemma advance_frame:
  assumes ok: "case_store_ok db" and "k \<noteq> cid"
  shows "case_lookup (fst (advance_case_version now cid st v db)) k = case_lookup db k"
proof -
  have "(r \<in> set (db_cases (fst (advance_case_version now cid st v db))) \<and> case_row_id r = case_uuid k) \<longleftrightarrow>
        (r \<in> set (db_cases db) \<and> case_row_id r = case_uuid k)" for r
    using \<open>k \<noteq> cid\<close>
    by (auto simp: advance_case_version_def Let_def image_iff case_id.expand split: option.splits if_splits)
  then have "case_lookup (fst (advance_case_version now cid st v db)) k = Some c \<longleftrightarrow> case_lookup db k = Some c" for c
    using case_lookup_Some [OF ok] case_lookup_Some [OF advance_ok [OF ok]]
    by (auto simp: reports_of_case_def)
  then show ?thesis by (metis option.exhaust)
qed

text \<open>Linking a report.\<close>

lemma insert_link_Inr:
  "insert_case_report_link cid rid db = Inr db' \<longleftrightarrow>
     report_uuid rid \<notin> snd ` set (db_case_reports db) \<and> case_uuid cid \<in> case_row_id ` set (db_cases db) \<and>
     report_uuid rid \<in> fst ` set (db_report_status db) \<and>
     db' = db\<lparr>db_case_reports := db_case_reports db @ [(case_uuid cid, report_uuid rid)]\<rparr>"
  by (auto simp: insert_case_report_link_def)

lemma insert_link_ok:
  "case_store_ok db \<Longrightarrow> insert_case_report_link cid rid db = Inr db' \<Longrightarrow> case_store_ok db'"
  by (auto simp: insert_link_Inr case_store_ok_def)

lemma insert_link_lookup:
  assumes ok: "case_store_ok db" and i: "insert_case_report_link cid rid db = Inr db'"
  shows "case_lookup db' k = (if k = cid then map_option (\<lambda>c. c\<lparr>case_report_ids := case_report_ids c @ [rid]\<rparr>) (case_lookup db k)
                              else case_lookup db k)"
proof -
  have rows: "db_cases db' = db_cases db" using i by (auto simp: insert_link_Inr)
  have reps: "reports_of_case db' (case_uuid k) =
      reports_of_case db (case_uuid k) @ (if k = cid then [rid] else [])"
    using i by (auto simp: insert_link_Inr reports_of_case_def case_id.expand)
  show ?thesis
  proof (cases "find (\<lambda>r. case_row_id r = case_uuid k) (db_cases db)")
    case None
    with rows show ?thesis by (cases "k = cid") (simp_all add: case_lookup_def case_find_by_id_def)
  next
    case (Some r)
    have "case_of_row r (reports_of_case db' (case_uuid k)) =
        (case case_of_row r (reports_of_case db (case_uuid k)) of
           Inl e \<Rightarrow> Inl e
         | Inr c \<Rightarrow> Inr (if k = cid then c\<lparr>case_report_ids := case_report_ids c @ [rid]\<rparr> else c))"
      unfolding reps case_of_row_def case_reconstitute_def
      by (auto simp: bind_result_def ok_or_def split: option.splits)
    with Some rows show ?thesis
      by (cases "k = cid"; cases "case_of_row r (reports_of_case db (case_uuid k))")
         (simp_all add: case_lookup_def case_find_by_id_def)
  qed
qed

section \<open>Optimistic writes\<close>

datatype case_write = CaseWrite_Review incident_case case_review
  | CaseWrite_Link incident_case case_report_link

fun case_write_case :: "case_write \<Rightarrow> incident_case" where
  "case_write_case (CaseWrite_Review c r) = c"
| "case_write_case (CaseWrite_Link c l) = c"

text \<open>A refused or failing write leaves the database as it was.\<close>

fun case_save :: "(uuid \<Rightarrow> rstring) \<Rightarrow> nat \<Rightarrow> database \<Rightarrow> case_write \<Rightarrow> database \<times> bool" where
  "case_save su now db (CaseWrite_Review c r) =
     (case case_repo_apply_review su now c r db of
        Inl e \<Rightarrow> (db, False) | Inr (db', out) \<Rightarrow> (db', out = CaseReview_Applied))"
| "case_save su now db (CaseWrite_Link c l) =
     (case case_repo_link_report su now c l db of
        Inl e \<Rightarrow> (db, False) | Inr (db', out) \<Rightarrow> (db', out = CaseLink_Linked))"

lemma apply_review_Inr:
  "case_repo_apply_review su now c r db = Inr (db', out) \<longleftrightarrow>
     (if snd (advance_case_version now (Case_Model.case_id c) (Some (case_status c)) (case_version c) db)
      then out = CaseReview_Applied \<and>
        write_case_event (Case_Model.case_id c) (review_event r) (review_trail r)
          (case_status_changed_event_payload su c r)
          (fst (advance_case_version now (Case_Model.case_id c) (Some (case_status c)) (case_version c) db)) = Inr db'
      else out = CaseReview_Conflict \<and> db' = db)"
  by (auto simp: case_repo_apply_review_def result_simps split: prod.splits bool.splits)

lemma link_report_Inr:
  "case_repo_link_report su now c l db = Inr (db', out) \<longleftrightarrow>
     (case insert_case_report_link (Case_Model.case_id c) (link_report_id l) db of
        Inl e \<Rightarrow> e = DbError_UniqueViolation \<and> db' = db \<and> out = CaseLink_ReportAlreadyLinked
      | Inr db1 \<Rightarrow>
         let adv = advance_case_version now (Case_Model.case_id c) None (case_version c)
                     (mark_report_linked_to_case (link_report_id l) db1) in
         if snd adv
         then out = CaseLink_Linked \<and>
           write_case_event (Case_Model.case_id c) (link_event l) (link_trail l)
             (case_report_linked_event_payload su (Case_Model.case_id c) l) (fst adv) = Inr db'
         else out = CaseLink_Conflict \<and> db' = db)"
  by (auto simp: case_repo_link_report_def result_simps Let_def
      split: prod.splits bool.splits sum.splits db_error.splits)

lemma link_applied:
  assumes ok: "case_store_ok db" and l: "case_repo_link_report su now c l db = Inr (db', CaseLink_Linked)"
  shows "case_store_ok db' \<and>
    (\<exists>c0. case_lookup db (Case_Model.case_id c) = Some c0 \<and> case_version c0 + 1 = case_version c \<and>
      case_lookup db' (Case_Model.case_id c) =
        Some (c0\<lparr>case_report_ids := case_report_ids c0 @ [link_report_id l], case_version := case_version c\<rparr>)) \<and>
    (\<forall>k. k \<noteq> Case_Model.case_id c \<longrightarrow> case_lookup db' k = case_lookup db k)"
proof -
  let ?cid = "Case_Model.case_id c"
  obtain db1 where i: "insert_case_report_link ?cid (link_report_id l) db = Inr db1"
    using l by (auto simp: link_report_Inr split: sum.splits)
  let ?m = "mark_report_linked_to_case (link_report_id l) db1"
  let ?adv = "advance_case_version now ?cid None (case_version c) ?m"
  have hit: "snd ?adv" and w: "write_case_event ?cid (link_event l) (link_trail l)
      (case_report_linked_event_payload su ?cid l) (fst ?adv) = Inr db'"
    using l i by (auto simp: link_report_Inr Let_def split: if_splits)
  have okm: "case_store_ok ?m"
    using insert_link_ok [OF ok i] case_store_ok_cong [of ?m db1] by simp
  have lm: "case_lookup ?m k = case_lookup db1 k" for k by (rule case_lookup_cong) simp_all
  have l': "case_lookup db' k = case_lookup (fst ?adv) k" for k
    by (rule case_lookup_cong) (use w write_case_event_frame in auto)
  obtain c1 where c1: "case_lookup ?m ?cid = Some c1" "case_version c1 + 1 = case_version c"
    "case_lookup (fst ?adv) ?cid = Some (c1\<lparr>case_status := case_status c1, case_version := case_version c\<rparr>)"
    using advance_lookup [OF okm hit] by auto
  then obtain c0 where c0: "case_lookup db ?cid = Some c0"
    "c1 = c0\<lparr>case_report_ids := case_report_ids c0 @ [link_report_id l]\<rparr>"
    using insert_link_lookup [OF ok i, of ?cid] lm [of ?cid] by auto
  have "case_store_ok db'"
    using advance_ok [OF okm] w write_case_event_frame case_store_ok_cong by metis
  moreover have "case_lookup db' k = case_lookup db k" if "k \<noteq> ?cid" for k
    using that l' advance_frame [OF okm that] lm insert_link_lookup [OF ok i, of k] by simp
  ultimately show ?thesis using c0 c1 l' by auto
qed

lemma review_applied:
  assumes ok: "case_store_ok db" and r: "case_repo_apply_review su now c r db = Inr (db', CaseReview_Applied)"
  shows "case_store_ok db' \<and>
    (\<exists>c0. case_lookup db (Case_Model.case_id c) = Some c0 \<and> case_version c0 + 1 = case_version c \<and>
      case_lookup db' (Case_Model.case_id c) =
        Some (c0\<lparr>case_status := case_status c, case_version := case_version c\<rparr>)) \<and>
    (\<forall>k. k \<noteq> Case_Model.case_id c \<longrightarrow> case_lookup db' k = case_lookup db k)"
proof -
  let ?cid = "Case_Model.case_id c"
  let ?adv = "advance_case_version now ?cid (Some (case_status c)) (case_version c) db"
  have hit: "snd ?adv" and w: "write_case_event ?cid (review_event r) (review_trail r)
      (case_status_changed_event_payload su c r) (fst ?adv) = Inr db'"
    using r by (auto simp: apply_review_Inr split: if_splits)
  have l': "case_lookup db' k = case_lookup (fst ?adv) k" for k
    by (rule case_lookup_cong) (use w write_case_event_frame in auto)
  have "case_store_ok db'"
    using advance_ok [OF ok] w write_case_event_frame case_store_ok_cong by metis
  then show ?thesis
    using advance_lookup [OF ok hit] advance_frame [OF ok] l' by auto
qed

lemma case_save_refused:
  assumes "\<not> snd (case_save su now db w)"
  shows "fst (case_save su now db w) = db"
proof (cases w)
  case (CaseWrite_Review c r)
  show ?thesis
  proof (cases "case_repo_apply_review su now c r db")
    case (Inr res)
    obtain db' out where "res = (db', out)" by (cases res)
    with Inr assms CaseWrite_Review show ?thesis
      using apply_review_Inr [of su now c r db db' out] by (auto split: if_splits)
  qed (simp add: CaseWrite_Review)
next
  case (CaseWrite_Link c l)
  show ?thesis
  proof (cases "case_repo_link_report su now c l db")
    case (Inr res)
    obtain db' out where "res = (db', out)" by (cases res)
    with Inr assms CaseWrite_Link show ?thesis
      using link_report_Inr [of su now c l db db' out] by (auto simp: Let_def split: if_splits sum.splits)
  qed (simp add: CaseWrite_Link)
qed

lemma case_save_applied:
  assumes ok: "case_store_ok db" and s: "snd (case_save su now db w)"
  shows "case_store_ok (fst (case_save su now db w)) \<and>
    (\<exists>c0 c1. case_lookup db (Case_Model.case_id (case_write_case w)) = Some c0 \<and>
      case_version c0 + 1 = case_version (case_write_case w) \<and>
      case_lookup (fst (case_save su now db w)) (Case_Model.case_id (case_write_case w)) = Some c1 \<and>
      case_version c1 = case_version (case_write_case w)) \<and>
    (\<forall>k. k \<noteq> Case_Model.case_id (case_write_case w) \<longrightarrow>
       case_lookup (fst (case_save su now db w)) k = case_lookup db k)"
proof (cases w)
  case (CaseWrite_Review c r)
  with s obtain db' where *: "case_repo_apply_review su now c r db = Inr (db', CaseReview_Applied)"
    by (auto split: sum.splits prod.splits)
  from review_applied [OF ok *] show ?thesis by (auto simp: CaseWrite_Review *)
next
  case (CaseWrite_Link c l)
  with s obtain db' where *: "case_repo_link_report su now c l db = Inr (db', CaseLink_Linked)"
    by (auto split: sum.splits prod.splits)
  from link_applied [OF ok *] show ?thesis by (auto simp: CaseWrite_Link *)
qed

interpretation case_store: versioned_store case_store_ok case_lookup case_version "case_save su now"
  "\<lambda>w. Case_Model.case_id (case_write_case w)" "\<lambda>w. case_version (case_write_case w)" for su now
proof unfold_locales
  fix db w k
  assume ok: "case_store_ok db"
  show "case_store_ok (fst (case_save su now db w))"
    using ok case_save_applied [OF ok, of su now w] case_save_refused [of su now db w]
    by (cases "snd (case_save su now db w)") auto
  show "fst (case_save su now db w) = db" if "\<not> snd (case_save su now db w)"
    using that by (rule case_save_refused)
  show "\<exists>a0 a1. case_lookup db (Case_Model.case_id (case_write_case w)) = Some a0 \<and>
      case_version a0 + 1 = case_version (case_write_case w) \<and>
      case_lookup (fst (case_save su now db w)) (Case_Model.case_id (case_write_case w)) = Some a1 \<and>
      case_version a1 = case_version (case_write_case w)" if "snd (case_save su now db w)"
    using case_save_applied [OF ok that] by blast
  show "case_lookup (fst (case_save su now db w)) k = case_lookup db k"
    if "k \<noteq> Case_Model.case_id (case_write_case w)"
    using that case_save_applied [OF ok, of su now w] case_save_refused [of su now db w]
    by (cases "snd (case_save su now db w)") auto
qed

section \<open>Properties\<close>

text \<open>Among any interleaved writes of reviewers and linkers to the case tables, at most one is
  applied for each case and version, the tables stay consistent, and every stored case has advanced by
  exactly the number of writes applied to it: no update is lost or overwritten.\<close>

theorem case_writes_serialized:
  assumes "case_store_ok db" and "length ws < 2 ^ 64"
  shows "admitted (\<lambda>w. (Case_Model.case_id (case_write_case w), case_version (case_write_case w))) (k, v) ws
       (snd (run_checks (case_save su now) db ws)) \<le> 1 \<and>
     case_store_ok (fst (run_checks (case_save su now) db ws)) \<and>
     (\<forall>c. case_lookup db k = Some c \<longrightarrow>
        (\<exists>c'. case_lookup (fst (run_checks (case_save su now) db ws)) k = Some c' \<and>
           case_version c' = case_version c + of_nat (admitted (\<lambda>w. Case_Model.case_id (case_write_case w)) k ws
             (snd (run_checks (case_save su now) db ws)))))"
  using case_store.one_write_per_version [OF assms(1)] case_store.run_ok [OF assms(1)]
    case_store.run_version [OF assms(1)] assms(2) by simp

definition sample_case_db :: database where
  "sample_case_db = empty_database\<lparr>db_cases := [\<lparr>case_row_id = 7, case_row_incident_type = lit ''MISSING_CHILD'',
     case_row_status = lit ''REPORTED'', case_row_version = 1, case_row_updated_at = 0\<rparr>]\<rparr>"

lemma sample_case_db_ok: "case_store_ok sample_case_db"
  by (auto simp: sample_case_db_def case_store_ok_def case_row_ok_def empty_database_def
      intro!: exI [of _ IncidentType_MissingChild] exI [of _ CaseStatus_Reported])

theorem case_writes_serialized_witness:
  "\<exists>w. admitted (\<lambda>w. (Case_Model.case_id (case_write_case w), case_version (case_write_case w))) (CaseId 7, 2) [w, w]
     (snd (run_checks (case_save hyphenated 5) sample_case_db [w, w])) \<le> 1"
proof -
  obtain c r where "review_case \<lparr>case_id = CaseId 7, case_incident_type = IncidentType_MissingChild,
      case_status = CaseStatus_Reported, case_report_ids = [], case_version = 1\<rparr> Actor_Automated
      CaseStatus_UnderReview 1 of_nat = Inr (c, r)"
    by (simp add: review_case_def case_transition_to_def is_allowed_transition_def Let_def)
  show ?thesis
    using case_writes_serialized [OF sample_case_db_ok, of "[CaseWrite_Review c r, CaseWrite_Review c r]" "CaseId 7" 2 hyphenated 5]
    by (intro exI [of _ "CaseWrite_Review c r"]) simp
qed

end
