(* ===== verification/Case_Api.thy ===== *)
theory Case_Api
  imports Access_Api Case_Store
begin

text \<open>
  The case endpoints (\<open>apps/api/src/cases.rs\<close>). A handler maps the database to the new database and
  either an error or the response; a state-changing handler makes one repository write, so an error
  leaves the database alone. A row that cannot be read back is a panic of the program and stands among
  the persistence errors here.
\<close>

definition case_not_found :: "uuid \<Rightarrow> api_error" where
  "case_not_found rq = api_error 404 ''CASE_NOT_FOUND'' ''No case exists with the given id.'' rq"

definition case_persistence_failed :: "uuid \<Rightarrow> api_error" where
  "case_persistence_failed rq =
     api_error 500 ''CASE_PERSISTENCE_FAILED'' ''The case could not be saved. Please try again.'' rq"

definition case_not_authorized :: "uuid \<Rightarrow> api_error" where
  "case_not_authorized rq =
     api_error 403 ''NOT_AUTHORIZED'' ''Only an identified reviewer may view case detail.'' rq"

definition case_modified_concurrently :: "uuid \<Rightarrow> api_error" where
  "case_modified_concurrently rq =
     api_error 409 ''CASE_MODIFIED_CONCURRENTLY'' ''The case changed since it was last read. Reload and retry.'' rq"

definition DEFAULT_LIMIT :: nat where "DEFAULT_LIMIT = 50"

definition MAX_LIMIT :: nat where "MAX_LIMIT = 100"

record case_response =
  response_case_id :: uuid
  response_incident_type :: incident_type
  response_status :: case_status
  response_report_ids :: "uuid list"
  response_version :: u64

definition case_response :: "incident_case \<Rightarrow> case_response" where
  "case_response c =
     \<lparr>response_case_id = case_uuid (Case_Model.case_id c), response_incident_type = case_incident_type c,
      response_status = case_status c, response_report_ids = map report_uuid (case_report_ids c),
      response_version = case_version c\<rparr>"

section \<open>Reading\<close>

record list_cases_query =
  query_status :: "case_status option"
  query_incident_type :: "incident_type option"
  query_limit :: "u32 option"
  query_offset :: "u32 option"

definition page_limit :: "u32 option \<Rightarrow> nat" where
  "page_limit l = min (case l of None \<Rightarrow> DEFAULT_LIMIT | Some n \<Rightarrow> unat n) MAX_LIMIT"

definition page_offset :: "u32 option \<Rightarrow> nat" where
  "page_offset n = (case n of None \<Rightarrow> 0 | Some k \<Rightarrow> unat k)"

definition list_cases ::
  "api_config \<Rightarrow> api_request \<Rightarrow> list_cases_query \<Rightarrow> database \<Rightarrow> api_error + case_response list" where
  "list_cases cfg rq q db =
     (let rid = api_request_id cfg rq in
      bind_result (api_actor cfg rq db) (\<lambda>a.
      bind_result (map_err (\<lambda>_. case_not_authorized rid) (authorize a Capability_ViewCase)) (\<lambda>_.
      bind_result (map_err (\<lambda>_. case_persistence_failed rid)
        (case_list db \<lparr>filter_status = query_status q, filter_incident_type = query_incident_type q\<rparr>
           (page_limit (query_limit q)) (page_offset (query_offset q)))) (\<lambda>cs.
        Inr (map case_response cs)))))"

definition find_case :: "database \<Rightarrow> case_id \<Rightarrow> uuid \<Rightarrow> api_error + incident_case" where
  "find_case db cid rid =
     bind_result (map_err (\<lambda>_. case_persistence_failed rid) (case_find_by_id db cid)) (\<lambda>found.
       ok_or (case_not_found rid) found)"

definition get_case :: "api_config \<Rightarrow> api_request \<Rightarrow> uuid \<Rightarrow> database \<Rightarrow> api_error + case_response" where
  "get_case cfg rq i db =
     (let rid = api_request_id cfg rq in
      bind_result (api_actor cfg rq db) (\<lambda>a.
      bind_result (map_err (\<lambda>_. case_not_authorized rid) (authorize a Capability_ViewCase)) (\<lambda>_.
      bind_result (find_case db (CaseId i) rid) (\<lambda>c.
        Inr (case_response c)))))"

definition list_case_events ::
  "api_config \<Rightarrow> api_request \<Rightarrow> uuid \<Rightarrow> database \<Rightarrow> api_error + case_event_record list" where
  "list_case_events cfg rq i db =
     (let rid = api_request_id cfg rq in
      bind_result (api_actor cfg rq db) (\<lambda>a.
      bind_result (map_err (\<lambda>_. case_not_authorized rid) (authorize a Capability_ViewCase)) (\<lambda>_.
        map_err (\<lambda>_. case_persistence_failed rid) (case_list_events db (CaseId i)))))"

section \<open>Creating and linking\<close>

definition create_case ::
  "api_config \<Rightarrow> api_request \<Rightarrow> uuid \<Rightarrow> incident_type \<Rightarrow> database \<Rightarrow> database \<times> (api_error + nat \<times> case_response)" where
  "create_case cfg rq report it db =
     (let rid = api_request_id cfg rq in
      answer db (
      bind_result (api_actor cfg rq db) (\<lambda>a.
      let creation = create_case_from_report it (ReportId report) a rid (request_ids rq) in
      (case case_repo_create (config_show_uuid cfg) (request_now rq) creation db of
         Inr (db', CaseCreation_Created) \<Rightarrow> Inr (db', 201, case_response (creation_case creation))
       | Inr (_, CaseCreation_ReportAlreadyLinked) \<Rightarrow>
           Inl (api_error 409 ''REPORT_ALREADY_LINKED'' ''This report is already linked to a case.'' rid)
       | Inl _ \<Rightarrow> Inl (case_persistence_failed rid)))))"

definition link_report ::
  "api_config \<Rightarrow> api_request \<Rightarrow> uuid \<Rightarrow> uuid \<Rightarrow> database \<Rightarrow> database \<times> (api_error + case_response)" where
  "link_report cfg rq i report db =
     (let rid = api_request_id cfg rq in
      answer db (
      bind_result (api_actor cfg rq db) (\<lambda>a.
      bind_result (find_case db (CaseId i) rid) (\<lambda>c.
      bind_result (map_err (\<lambda>_. api_error 409 ''REPORT_ALREADY_LINKED''
            ''This report is already linked to this case.'' rid)
          (link_report_to_case c (ReportId report) a rid (request_ids rq))) (\<lambda>(c', link).
      (case case_repo_link_report (config_show_uuid cfg) (request_now rq) c' link db of
         Inr (db', CaseLink_Linked) \<Rightarrow> Inr (db', case_response c')
       | Inr (_, CaseLink_ReportAlreadyLinked) \<Rightarrow>
           Inl (api_error 409 ''REPORT_ALREADY_LINKED'' ''This report is already linked to a case.'' rid)
       | Inr (_, CaseLink_Conflict) \<Rightarrow> Inl (case_modified_concurrently rid)
       | Inl _ \<Rightarrow> Inl (case_persistence_failed rid)))))))"

section \<open>Transitions\<close>

fun case_review_api_error :: "uuid \<Rightarrow> case_review_error \<Rightarrow> api_error" where
  "case_review_api_error rid (CaseReview_NotAuthorized _) =
     api_error 403 ''NOT_AUTHORIZED'' ''Only an identified reviewer may make this change.'' rid"
| "case_review_api_error rid (CaseReview_InvalidTransition _) =
     api_error 409 ''CASE_TRANSITION_NOT_ALLOWED''
       ''The case cannot move to the requested status from its current state.'' rid"

definition transition_case ::
  "api_config \<Rightarrow> api_request \<Rightarrow> uuid \<Rightarrow> actor \<Rightarrow> case_status \<Rightarrow> uuid \<Rightarrow> database \<Rightarrow>
   api_error + database \<times> case_response" where
  "transition_case cfg rq i a to rid db =
     bind_result (find_case db (CaseId i) rid) (\<lambda>c.
     bind_result (map_err (case_review_api_error rid) (review_case c a to rid (request_ids rq))) (\<lambda>(c', review).
     (case case_repo_apply_review (config_show_uuid cfg) (request_now rq) c' review db of
        Inr (db', CaseReview_Applied) \<Rightarrow> Inr (db', case_response c')
      | Inr (_, CaseReview_Conflict) \<Rightarrow> Inl (case_modified_concurrently rid)
      | Inl _ \<Rightarrow> Inl (case_persistence_failed rid))))"

definition create_case_event ::
  "api_config \<Rightarrow> api_request \<Rightarrow> uuid \<Rightarrow> case_status \<Rightarrow> database \<Rightarrow> database \<times> (api_error + case_response)" where
  "create_case_event cfg rq i to db =
     (let rid = api_request_id cfg rq in
      answer db (
      bind_result (api_actor cfg rq db) (\<lambda>a.
        transition_case cfg rq i a to rid db)))"

text \<open>The organization a membership names has to exist: \<open>expect\<close>.\<close>

definition member_organization ::
  "database \<Rightarrow> membership \<Rightarrow> db_error + organization option" where
  "member_organization db m =
     (case member_organization_id m of
        None \<Rightarrow> Inr None
      | Some g \<Rightarrow>
          bind_result (organization_find_by_id db g) (\<lambda>found.
          bind_result (ok_or DbPanic found) (\<lambda>o'. Inr (Some o'))))"

definition authorize_verification_by_organization ::
  "database \<Rightarrow> actor \<Rightarrow> incident_type \<Rightarrow> uuid \<Rightarrow> api_error + unit" where
  "authorize_verification_by_organization db a it rid =
     (case a of
        Actor_Automated \<Rightarrow> Inr ()
      | Actor_Reviewer reviewer \<Rightarrow>
          bind_result (map_err (\<lambda>_. case_persistence_failed rid) (membership_find db reviewer)) (\<lambda>found.
          let m = (case found of
              None \<Rightarrow> \<lparr>member_role = Role_Member, member_organization_id = None\<rparr>
            | Some m \<Rightarrow> m) in
          bind_result (map_err (\<lambda>_. case_persistence_failed rid) (member_organization db m)) (\<lambda>g.
            map_err (\<lambda>_. api_error 403 ''ORGANIZATION_NOT_TRUSTED_FOR_INCIDENT_TYPE''
                ''Your organization is not trusted to verify this incident type.'' rid)
              (authorize_case_verification m g it))))"

definition verify_case ::
  "api_config \<Rightarrow> api_request \<Rightarrow> uuid \<Rightarrow> database \<Rightarrow> database \<times> (api_error + case_response)" where
  "verify_case cfg rq i db =
     (let rid = api_request_id cfg rq in
      answer db (
      bind_result (api_actor cfg rq db) (\<lambda>a.
      bind_result (find_case db (CaseId i) rid) (\<lambda>c.
      bind_result (authorize_verification_by_organization db a (case_incident_type c) rid) (\<lambda>_.
        transition_case cfg rq i a CaseStatus_Verified rid db)))))"

definition resolve_case ::
  "api_config \<Rightarrow> api_request \<Rightarrow> uuid \<Rightarrow> database \<Rightarrow> database \<times> (api_error + case_response)" where
  "resolve_case cfg rq i db =
     (let rid = api_request_id cfg rq in
      answer db (
      bind_result (api_actor cfg rq db) (\<lambda>a.
        transition_case cfg rq i a CaseStatus_Resolved rid db)))"

section \<open>Lemmas\<close>

lemma find_case_Inr [result_simps]:
  "find_case db cid rid = Inr c \<longleftrightarrow> case_find_by_id db cid = Inr (Some c)"
  by (simp add: find_case_def bind_result_Inr map_err_Inr ok_or_Inr)

lemma review_outcome_Inr:
  "(case w of Inr (d, CaseReview_Applied) \<Rightarrow> Inr (d, x) | Inr (_, CaseReview_Conflict) \<Rightarrow> Inl e1 | Inl _ \<Rightarrow> Inl e2) =
     Inr (db', y) \<longleftrightarrow> w = Inr (db', CaseReview_Applied) \<and> y = x"
  by (auto split: sum.splits prod.splits case_review_outcome.splits)

lemma transition_case_Inr:
  "transition_case cfg rq i a to rid db = Inr (db', resp) \<longleftrightarrow>
     (\<exists>c c' r. case_find_by_id db (CaseId i) = Inr (Some c) \<and>
        review_case c a to rid (request_ids rq) = Inr (c', r) \<and>
        case_repo_apply_review (config_show_uuid cfg) (request_now rq) c' r db = Inr (db', CaseReview_Applied) \<and>
        resp = case_response c')"
  unfolding transition_case_def bind_result_Inr map_err_Inr find_case_Inr split_paired_Ex case_prod_conv review_outcome_Inr
  by blast

lemma review_case_effect:
  assumes "review_case c a to rid ids = Inr (c', r)"
  shows "is_allowed_transition (case_status c) to" and "c' = c\<lparr>case_status := to, case_version := case_version c + 1\<rparr>"
    and "to = CaseStatus_UnderReview \<or> (\<exists>u. a = Actor_Reviewer u)"
proof -
  have "authorize_case_transition a to = Inr ()" and "case_transition_to c to (ids 0) = Inr (c', review_event r)"
    using assms by (auto simp: review_case_def result_simps)
  note a = this
  show "is_allowed_transition (case_status c) to" and "c' = c\<lparr>case_status := to, case_version := case_version c + 1\<rparr>"
    using a(2) by (auto simp: case_transition_to_def Let_def split: if_splits option.splits)
  show "to = CaseStatus_UnderReview \<or> (\<exists>u. a = Actor_Reviewer u)"
    using a(1) by (cases a; cases to) auto
qed

text \<open>A transition that is answered with a response is stored as the response says.\<close>

lemma transition_case_stored:
  assumes ok: "case_store_ok db" and t: "transition_case cfg rq i a to rid db = Inr (db', resp)"
  shows "\<exists>c. case_lookup db (CaseId i) = Some c \<and> is_allowed_transition (case_status c) to \<and>
      (to = CaseStatus_UnderReview \<or> (\<exists>u. a = Actor_Reviewer u)) \<and>
      case_lookup db' (CaseId i) = Some (c\<lparr>case_status := to, case_version := case_version c + 1\<rparr>) \<and>
      resp = case_response (c\<lparr>case_status := to, case_version := case_version c + 1\<rparr>) \<and>
      case_store_ok db' \<and> (\<forall>k. k \<noteq> CaseId i \<longrightarrow> case_lookup db' k = case_lookup db k)"
proof -
  obtain c c' r where c: "case_find_by_id db (CaseId i) = Inr (Some c)"
    and rev: "review_case c a to rid (request_ids rq) = Inr (c', r)"
    and w: "case_repo_apply_review (config_show_uuid cfg) (request_now rq) c' r db = Inr (db', CaseReview_Applied)"
    and resp: "resp = case_response c'"
    using t unfolding transition_case_Inr by blast
  note e = review_case_effect [OF rev]
  have look: "case_lookup db (CaseId i) = Some c" by (simp add: case_lookup_def c)
  then have id: "Case_Model.case_id c = CaseId i" using case_lookup_Some [OF ok] by (auto simp: case_of_row_Inr)
  then have id': "Case_Model.case_id c' = CaseId i" using e(2) by simp
  from review_applied [OF ok w] id' look e(1,3) resp show ?thesis unfolding e(2) by auto
qed

lemma api_authorize_Inr:
  assumes "authorize_verification_by_organization db (Actor_Reviewer u) it rid = Inr ()"
  shows "\<exists>m g. membership_find db u \<in> {Inr (Some m), Inr None} \<and>
     (membership_find db u = Inr None \<longrightarrow> m = \<lparr>member_role = Role_Member, member_organization_id = None\<rparr>) \<and>
     member_organization db m = Inr g \<and> authorize_case_verification m g it = Inr ()"
proof -
  obtain found g where f: "membership_find db u = Inr found"
    and g: "member_organization db (case found of
        None \<Rightarrow> \<lparr>member_role = Role_Member, member_organization_id = None\<rparr> | Some m \<Rightarrow> m) = Inr g"
      "authorize_case_verification (case found of
        None \<Rightarrow> \<lparr>member_role = Role_Member, member_organization_id = None\<rparr> | Some m \<Rightarrow> m) g it = Inr ()"
    using assms by (auto simp: authorize_verification_by_organization_def bind_result_Inr map_err_Inr Let_def)
  show ?thesis
    by (rule exI [of _ "case found of None \<Rightarrow> \<lparr>member_role = Role_Member, member_organization_id = None\<rparr> | Some m \<Rightarrow> m"],
        rule exI [of _ g]) (use f g in \<open>cases found; simp\<close>)
qed

lemma member_organization_Some:
  "member_organization db m = Inr (Some g) \<longleftrightarrow>
     (\<exists>i. member_organization_id m = Some i \<and> organization_find_by_id db i = Inr (Some g))"
  by (auto simp: member_organization_def result_simps split: option.splits)

section \<open>A state\<close>

text \<open>A case under review, and a reviewer whose organization is not trusted with anything.\<close>

definition sample_access_db :: database where
  "sample_access_db = empty_database\<lparr>
     db_reviewers := [\<lparr>reviewer_row_id = 9, reviewer_row_email = lit ''r'', reviewer_row_sessions_revoked_at = None\<rparr>],
     db_organizations := [\<lparr>organization_row_id = 3, organization_row_name = lit ''o'',
       organization_row_description = None, organization_row_location = None,
       organization_row_incident_types = [], organization_row_alert_visibilities = [],
       organization_row_consumer_id = None, organization_row_is_active = True, organization_row_contact = None\<rparr>],
     db_memberships := [\<lparr>membership_row_reviewer_id = 9, membership_row_role = lit ''MEMBER'',
       membership_row_organization_id = Some 3\<rparr>],
     db_cases := [\<lparr>case_row_id = 7, case_row_incident_type = lit ''MISSING_CHILD'',
       case_row_status = lit ''UNDER_REVIEW'', case_row_version = 2, case_row_updated_at = 0\<rparr>]\<rparr>"

lemma sample_store_ok: "case_store_ok sample_access_db"
  by (auto simp: sample_access_db_def case_store_ok_def case_row_ok_def empty_database_def
      intro!: exI [of _ IncidentType_MissingChild] exI [of _ CaseStatus_UnderReview])

lemma sample_case_under_review:
  assumes "db_cases db = db_cases sample_access_db" and "db_case_reports db = []"
  shows "case_find_by_id db (CaseId 7) =
  Inr (Some \<lparr>case_id = CaseId 7, case_incident_type = IncidentType_MissingChild,
     case_status = CaseStatus_UnderReview, case_report_ids = [], case_version = 2\<rparr>)"
  by (simp add: case_find_by_id_def assms sample_access_db_def case_of_row_def reports_of_case_def
      ok_or_def incident_type_from_db_def case_status_from_db_def case_reconstitute_def)

lemma sample_transition:
  assumes "db_cases db = db_cases sample_access_db" and "db_case_reports db = []"
    and "db_case_events db = []" and "db_audit db = []" and "db_outbox db = []"
  shows "\<exists>db' resp. transition_case sample_config sample_request 7 (Actor_Reviewer 9) CaseStatus_Verified rid db =
    Inr (db', resp) \<and> response_status resp = CaseStatus_Verified"
  by (simp add: transition_case_def sample_case_under_review [OF assms(1,2)] find_case_def ok_or_def review_case_def
      case_transition_to_def is_allowed_transition_def case_new_event_def case_response_def
      case_repo_apply_review_def advance_case_version_def assms sample_access_db_def write_case_event_def
      insert_case_event_def event_row_def insert_aggregate_event_def insert_row_def insert_audit_event_def
      insert_outbox_event_def Let_def word_sless_alt)

section \<open>Properties\<close>

text \<open>C10: The verification endpoint answers success only to a reviewer who is a platform administrator or
  belongs to an active stored organization that is trusted with the case's incident type, only for a case
  under review; the stored case is then exactly the response, one version later, and no other case is
  touched.\<close>

theorem verified_only_by_trusted:
  assumes "case_store_ok db" and "verify_case cfg rq i db = (db', Inr resp)"
  shows "\<exists>u c m. api_actor cfg rq db = Inr (Actor_Reviewer u) \<and>
    case_lookup db (CaseId i) = Some c \<and> case_status c = CaseStatus_UnderReview \<and>
    case_lookup db' (CaseId i) = Some (c\<lparr>case_status := CaseStatus_Verified, case_version := case_version c + 1\<rparr>) \<and>
    resp = case_response (c\<lparr>case_status := CaseStatus_Verified, case_version := case_version c + 1\<rparr>) \<and>
    (\<forall>k. k \<noteq> CaseId i \<longrightarrow> case_lookup db' k = case_lookup db k) \<and>
    membership_find db u = Inr (Some m) \<and>
    (member_role m = Role_PlatformAdmin \<or>
     (\<exists>k g. member_organization_id m = Some k \<and> organization_find_by_id db k = Inr (Some g) \<and>
        organization_is_active g \<and> case_incident_type c \<in> set (organization_verified_incident_types g)))"
proof -
  obtain a c where a: "api_actor cfg rq db = Inr a"
    and c: "case_find_by_id db (CaseId i) = Inr (Some c)"
    and auth: "authorize_verification_by_organization db a (case_incident_type c) (api_request_id cfg rq) = Inr ()"
    and t: "transition_case cfg rq i a CaseStatus_Verified (api_request_id cfg rq) db = Inr (db', resp)"
    using assms(2) by (auto simp: verify_case_def Let_def answer_Inr bind_result_Inr find_case_Inr)
  have look: "case_lookup db (CaseId i) = Some c" by (simp add: case_lookup_def c)
  from transition_case_stored [OF assms(1) t] look
  have s: "is_allowed_transition (case_status c) CaseStatus_Verified" "\<exists>u. a = Actor_Reviewer u"
    "case_lookup db' (CaseId i) = Some (c\<lparr>case_status := CaseStatus_Verified, case_version := case_version c + 1\<rparr>)"
    "resp = case_response (c\<lparr>case_status := CaseStatus_Verified, case_version := case_version c + 1\<rparr>)"
    "\<forall>k. k \<noteq> CaseId i \<longrightarrow> case_lookup db' k = case_lookup db k"
    by auto
  obtain u where u: "a = Actor_Reviewer u" using s(2) by blast
  obtain m g where m: "membership_find db u \<in> {Inr (Some m), Inr None}"
    "membership_find db u = Inr None \<longrightarrow> m = \<lparr>member_role = Role_Member, member_organization_id = None\<rparr>"
    and g: "member_organization db m = Inr g" and ok: "authorize_case_verification m g (case_incident_type c) = Inr ()"
    using api_authorize_Inr [OF auth [unfolded u]] by blast
  have trust: "member_role m = Role_PlatformAdmin \<or>
      (\<exists>o'. g = Some o' \<and> organization_is_active o' \<and> may_verify o' (case_incident_type c))"
    using ok by (simp add: case_verification.gate_Inr)
  have found: "membership_find db u = Inr (Some m)"
  proof (rule ccontr)
    assume "membership_find db u \<noteq> Inr (Some m)"
    then have "m = \<lparr>member_role = Role_Member, member_organization_id = None\<rparr>" using m by blast
    with g trust show False by (auto simp: member_organization_def)
  qed
  have "case_status c = CaseStatus_UnderReview" using s(1) by (simp add: is_allowed_transition_def)
  moreover have "member_role m = Role_PlatformAdmin \<or>
     (\<exists>k g. member_organization_id m = Some k \<and> organization_find_by_id db k = Inr (Some g) \<and>
        organization_is_active g \<and> case_incident_type c \<in> set (organization_verified_incident_types g))"
    using trust g by (auto simp: member_organization_Some may_verify_def)
  ultimately show ?thesis using a u look s(3-5) found by blast
qed

text \<open>The same state with a platform administrator.\<close>

definition sample_admin_db :: database where
  "sample_admin_db = sample_access_db\<lparr>db_memberships := [\<lparr>membership_row_reviewer_id = 9,
     membership_row_role = lit ''PLATFORM_ADMIN'', membership_row_organization_id = None\<rparr>]\<rparr>"

lemma sample_admin_verifies: "\<exists>db' resp. verify_case sample_config sample_request 7 sample_admin_db = (db', Inr resp) \<and>
  response_status resp = CaseStatus_Verified"
proof -
  have a: "api_actor sample_config sample_request sample_admin_db = Inr (Actor_Reviewer 9)"
    by (rule sample_actor) (simp add: sample_admin_db_def sample_access_db_def)
  have c: "case_find_by_id sample_admin_db (CaseId 7) = Inr (Some \<lparr>case_id = CaseId 7,
     case_incident_type = IncidentType_MissingChild, case_status = CaseStatus_UnderReview, case_report_ids = [],
     case_version = 2\<rparr>)"
    by (rule sample_case_under_review) (simp_all add: sample_admin_db_def sample_access_db_def empty_database_def)
  have m: "membership_find sample_admin_db 9 = Inr (Some \<lparr>member_role = Role_PlatformAdmin, member_organization_id = None\<rparr>)"
    by (simp add: membership_find_def sample_admin_db_def role_from_db_def ok_or_def)
  have t: "\<exists>db' resp. transition_case sample_config sample_request 7 (Actor_Reviewer 9) CaseStatus_Verified rid
      sample_admin_db = Inr (db', resp) \<and> response_status resp = CaseStatus_Verified" for rid
    by (rule sample_transition) (simp_all add: sample_admin_db_def sample_access_db_def empty_database_def)
  obtain db' resp where "transition_case sample_config sample_request 7 (Actor_Reviewer 9) CaseStatus_Verified
      (api_request_id sample_config sample_request) sample_admin_db = Inr (db', resp)"
    "response_status resp = CaseStatus_Verified"
    using t by blast
  then show ?thesis
    by (simp add: verify_case_def a c m find_case_def ok_or_def authorize_verification_by_organization_def
        member_organization_def authorize_case_verification_def Let_def)
qed

theorem verified_only_by_trusted_witness:
  "\<exists>db' resp m. verify_case sample_config sample_request 7 sample_admin_db = (db', Inr resp) \<and>
     response_status resp = CaseStatus_Verified \<and> membership_find sample_admin_db 9 = Inr (Some m)"
proof -
  obtain db' resp where v: "verify_case sample_config sample_request 7 sample_admin_db = (db', Inr resp)"
    and st: "response_status resp = CaseStatus_Verified" using sample_admin_verifies by blast
  have "case_store_ok sample_admin_db"
    using sample_store_ok by (simp add: sample_admin_db_def case_store_ok_def)
  moreover have "api_actor sample_config sample_request sample_admin_db = Inr (Actor_Reviewer 9)"
    by (rule sample_actor) (simp add: sample_admin_db_def sample_access_db_def)
  ultimately show ?thesis using verified_only_by_trusted [OF _ v] v st by fastforce
qed

text \<open>C25: The generic transition endpoint does not ask for that trust: in a state where the verification
  endpoint refuses a reviewer because the organization is not trusted with the incident type, the same
  request to the generic endpoint with the target \<open>VERIFIED\<close> verifies the case.\<close>

theorem generic_transition_skips_trust:
  "\<exists>cfg rq i db db' resp.
     (\<exists>e. verify_case cfg rq i db = (db, Inl e) \<and> api_error_status e = 403 \<and>
        api_error_code e = lit ''ORGANIZATION_NOT_TRUSTED_FOR_INCIDENT_TYPE'') \<and>
     create_case_event cfg rq i CaseStatus_Verified db = (db', Inr resp) \<and>
     response_status resp = CaseStatus_Verified"
proof -
  let ?rid = "api_request_id sample_config sample_request"
  have a: "api_actor sample_config sample_request sample_access_db = Inr (Actor_Reviewer 9)"
    by (rule sample_actor) (simp add: sample_access_db_def)
  have c: "case_find_by_id sample_access_db (CaseId 7) = Inr (Some \<lparr>case_id = CaseId 7,
     case_incident_type = IncidentType_MissingChild, case_status = CaseStatus_UnderReview, case_report_ids = [],
     case_version = 2\<rparr>)"
    by (rule sample_case_under_review) (simp_all add: sample_access_db_def empty_database_def)
  have m: "membership_find sample_access_db 9 =
      Inr (Some \<lparr>member_role = Role_Member, member_organization_id = Some (OrganizationId 3)\<rparr>)"
    by (simp add: membership_find_def sample_access_db_def role_from_db_def ok_or_def)
  obtain g where g: "organization_find_by_id sample_access_db (OrganizationId 3) = Inr (Some g)"
    "organization_verified_incident_types g = []"
    by (simp add: organization_find_by_id_def sample_access_db_def organization_from_row_def parse_incident_types_def
        parse_alert_visibilities_def organization_reconstitute_def organization_with_contact_def)
  have "verify_case sample_config sample_request 7 sample_access_db = (sample_access_db,
      Inl (api_error 403 ''ORGANIZATION_NOT_TRUSTED_FOR_INCIDENT_TYPE''
        ''Your organization is not trusted to verify this incident type.'' ?rid))"
    by (simp add: verify_case_def a c m g find_case_def ok_or_def authorize_verification_by_organization_def
        member_organization_def authorize_case_verification_def may_verify_def Let_def)
  moreover have t: "\<exists>db' resp. transition_case sample_config sample_request 7 (Actor_Reviewer 9) CaseStatus_Verified rid
      sample_access_db = Inr (db', resp) \<and> response_status resp = CaseStatus_Verified" for rid
    by (rule sample_transition) (simp_all add: sample_access_db_def empty_database_def)
  obtain db' resp where "transition_case sample_config sample_request 7 (Actor_Reviewer 9) CaseStatus_Verified
      ?rid sample_access_db = Inr (db', resp)" "response_status resp = CaseStatus_Verified"
    using t by blast
  then have "create_case_event sample_config sample_request 7 CaseStatus_Verified sample_access_db = (db', Inr resp)"
    and "response_status resp = CaseStatus_Verified"
    by (simp_all add: create_case_event_def a Let_def)
  moreover have "api_error_status (api_error st c m r) = st" "api_error_code (api_error st c m r) = lit c"
    for st c m r by (simp_all add: api_error_def)
  ultimately show ?thesis by metis
qed

end
