(* ===== verification/Alert_Store.thy ===== *)
theory Alert_Store
  imports Store_Base
begin

text \<open>
  The alert repository (\<open>crates/infrastructure/src/postgres/alerts.rs\<close>): reading alerts back,
  creating one under an idempotency key, cancelling one under optimistic concurrency. A read that
  meets an unknown label is \<open>DbPanic\<close>, the failing \<open>expect\<close>. The rows of \<open>alert_fields\<close> are read in
  insertion order; the foreign key to \<open>organizations\<close> is not modelled.
\<close>

datatype alert_cancel_outcome = AlertCancel_Cancelled | AlertCancel_Conflict

datatype alert_creation_outcome = AlertCreation_Created | AlertCreation_Duplicate uuid

record alert_filter =
  alert_filter_status :: "alert_status option"
  alert_filter_visibility :: "alert_visibility option"

section \<open>Reading\<close>

definition alert_field_of_row :: "rstring \<times> rstring \<Rightarrow> db_error + alert_field_value" where
  "alert_field_of_row = (\<lambda>(f, v).
     bind_result (ok_or DbPanic (alert_field_from_db f)) (\<lambda>f'.
       Inr \<lparr>field_value_field = f', field_value_value = v\<rparr>))"

definition field_rows_of_alert :: "database \<Rightarrow> uuid \<Rightarrow> (rstring \<times> rstring) list" where
  "field_rows_of_alert db i = map snd (filter (\<lambda>x. fst x = i) (db_alert_fields db))"

text \<open>\<open>policy_version as u32\<close> extends the sign of the \<open>smallint\<close>.\<close>

definition alert_from_row ::
  "alert_row \<Rightarrow> alert_field_value list \<Rightarrow> db_error + alert" where
  "alert_from_row r fvs =
     bind_result (ok_or DbPanic (incident_type_from_db (alert_row_incident_type r))) (\<lambda>it.
     bind_result (ok_or DbPanic (severity_from_db (alert_row_severity r))) (\<lambda>sev.
     bind_result (ok_or DbPanic (alert_visibility_from_db (alert_row_visibility r))) (\<lambda>vis.
     bind_result (ok_or DbPanic (case_event_type_from_db (alert_row_trigger r))) (\<lambda>trig.
     bind_result (map_err (\<lambda>_. DbPanic) (target_geography_new (alert_row_target_geography r))) (\<lambda>geo.
     bind_result (ok_or DbPanic (alert_status_from_db (alert_row_status r))) (\<lambda>st.
       Inr (alert_reconstitute (AlertId (alert_row_id r)) (CaseId (alert_row_case_id r))
              (AlertPolicyId (alert_row_policy_id r)) (scast (alert_row_policy_version r)) it sev vis trig
              geo st fvs (alert_row_version r) (map_option OrganizationId (alert_row_issued_by r)))))))))"

definition alert_find_by_id :: "database \<Rightarrow> alert_id \<Rightarrow> db_error + alert option" where
  "alert_find_by_id db i =
     (case find (\<lambda>r. alert_row_id r = alert_uuid i) (db_alerts db) of
        None \<Rightarrow> Inr None
      | Some r \<Rightarrow>
         bind_result (collect_results (map alert_field_of_row (field_rows_of_alert db (alert_uuid i)))) (\<lambda>fvs.
         bind_result (alert_from_row r fvs) (\<lambda>a. Inr (Some a))))"

text \<open>\<open>ORDER BY created_at DESC\<close> is the reversed insertion order. \<open>None\<close> of the first query's rows
  ends the read before the second query.\<close>

definition alert_repo_list ::
  "database \<Rightarrow> alert_filter \<Rightarrow> nat \<Rightarrow> nat \<Rightarrow> db_error + alert list" where
  "alert_repo_list db f limit offset =
     (let rows = take limit (drop offset (rev
            (filter (\<lambda>r. (case alert_filter_status f of None \<Rightarrow> True
                            | Some s \<Rightarrow> alert_row_status r = alert_status_to_db s) \<and>
                         (case alert_filter_visibility f of None \<Rightarrow> True
                            | Some v \<Rightarrow> alert_row_visibility r = alert_visibility_to_db v))
               (db_alerts db))))
      in if rows = [] then Inr []
         else collect_results (map (\<lambda>r.
           bind_result (collect_results (map alert_field_of_row (field_rows_of_alert db (alert_row_id r))))
             (alert_from_row r)) rows))"

section \<open>Writing\<close>

definition alert_to_row :: "bytes option \<Rightarrow> alert \<Rightarrow> alert_row" where
  "alert_to_row key_hash a =
     \<lparr>alert_row_id = alert_uuid (alert_id a), alert_row_case_id = case_uuid (alert_case_id a),
      alert_row_policy_id = alert_policy_code (alert_policy_id a),
      alert_row_policy_version = ucast (alert_policy_version a),
      alert_row_incident_type = incident_type_to_db (alert_incident_type a),
      alert_row_severity = severity_to_db (alert_severity a),
      alert_row_visibility = alert_visibility_to_db (alert_visibility a),
      alert_row_trigger = case_event_type_to_db (alert_trigger a),
      alert_row_target_geography = target_geography_text (alert_target_geography a),
      alert_row_status = alert_status_to_db (alert_status a), alert_row_version = alert_version a,
      alert_row_key_hash = key_hash,
      alert_row_issued_by = map_option organization_uuid (alert_issued_by_organization_id a)\<rparr>"

definition alert_row_checks :: "alert_row \<Rightarrow> bool" where
  "alert_row_checks r \<longleftrightarrow>
     \<not> btrim_blank (alert_row_policy_id r) \<and> 0 <s alert_row_policy_version r \<and>
     \<not> btrim_blank (alert_row_target_geography r) \<and> 0 <s alert_row_version r"

text \<open>\<open>ON CONFLICT (idempotency_key_hash) WHERE idempotency_key_hash IS NOT NULL DO NOTHING\<close>, then
  the query for the row that holds the key.\<close>

definition insert_alert ::
  "alert \<Rightarrow> bytes option \<Rightarrow> database \<Rightarrow> db_error + database \<times> uuid option" where
  "insert_alert a key_hash db =
     (let r = alert_to_row key_hash a;
          taken = key_hash \<noteq> None \<and> key_hash \<in> alert_row_key_hash ` set (db_alerts db) in
      bind_result
        (if \<not> alert_row_checks r then Inl DbError_CheckViolation
         else if taken then Inr db
         else if alert_row_id r \<in> alert_row_id ` set (db_alerts db) then Inl DbError_UniqueViolation
         else if alert_row_case_id r \<notin> case_row_id ` set (db_cases db) then Inl DbError_ForeignKeyViolation
         else Inr (db\<lparr>db_alerts := db_alerts db @ [r]\<rparr>))
        (\<lambda>db1. case key_hash of
             None \<Rightarrow> Inr (db1, None)
           | Some h \<Rightarrow>
              (let existing = map_option alert_row_id
                     (find (\<lambda>x. alert_row_key_hash x = Some h) (db_alerts db1))
               in if existing \<noteq> Some (alert_uuid (alert_id a)) then Inr (db1, existing)
                  else Inr (db1, None))))"

text \<open>\<open>alert_fields\<close>: the pair is the primary key; a value is not blank and never the reporter's
  identity.\<close>

fun insert_alert_fields :: "alert_id \<Rightarrow> alert_field_value list \<Rightarrow> database \<Rightarrow> db_error + database" where
  "insert_alert_fields i [] db = Inr db"
| "insert_alert_fields i (fv # fvs) db =
     (let f = alert_field_to_db (field_value_field fv) in
      if btrim_blank (field_value_value fv) \<or> f = lit ''REPORTER_IDENTITY'' then Inl DbError_CheckViolation
      else if (alert_uuid i, f) \<in> (\<lambda>(j, g, _). (j, g)) ` set (db_alert_fields db)
      then Inl DbError_UniqueViolation
      else if alert_uuid i \<notin> alert_row_id ` set (db_alerts db) then Inl DbError_ForeignKeyViolation
      else insert_alert_fields i fvs
             (db\<lparr>db_alert_fields := db_alert_fields db @ [(alert_uuid i, f, field_value_value fv)]\<rparr>))"

definition insert_alert_event :: "alert_event \<Rightarrow> actor \<Rightarrow> database \<Rightarrow> db_error + database" where
  "insert_alert_event ev a db =
     bind_result (insert_aggregate_event
       (event_row (alert_event_uuid (alert_event_id ev)) (alert_uuid (alert_event_alert_id ev))
          (alert_event_type_to_db (alert_event_type ev)) (alert_event_version ev) a)
       (db_alert_events db))
       (\<lambda>rows. Inr (db\<lparr>db_alert_events := rows\<rparr>))"

definition write_alert_event ::
  "alert_id \<Rightarrow> alert_event \<Rightarrow> trail \<Rightarrow> json \<Rightarrow> database \<Rightarrow> db_error + database" where
  "write_alert_event i ev t payload db =
     bind_result (insert_alert_event ev (trail_actor t) db) (\<lambda>db.
     bind_result (insert_audit_event (lit ''ALERT'') t (alert_event_type_to_db (alert_event_type ev))
                    (alert_uuid i) db) (\<lambda>db.
       insert_outbox_event (lit ''ALERT'') t (alert_uuid i)
         (alert_event_type_to_db (alert_event_type ev)) payload db))"

definition alert_repo_create ::
  "(uuid \<Rightarrow> rstring) \<Rightarrow> alert_creation \<Rightarrow> database \<Rightarrow>
   db_error + database \<times> alert_creation_outcome" where
  "alert_repo_create su cr db =
     (let a = alert_creation_alert cr in
      bind_result (insert_alert a (alert_creation_key_hash cr) db) (\<lambda>(db1, existing).
      case existing of
        Some i \<Rightarrow> Inr (db, AlertCreation_Duplicate i)
      | None \<Rightarrow>
         bind_result (insert_alert_fields (alert_id a) (alert_fields a) db1) (\<lambda>db2.
         bind_result (write_alert_event (alert_id a) (alert_creation_event cr) (alert_creation_trail cr)
                        (alert_created_event_payload su cr) db2) (\<lambda>db3.
           Inr (db3, AlertCreation_Created)))))"

definition alert_repo_cancel ::
  "(uuid \<Rightarrow> rstring) \<Rightarrow> alert \<Rightarrow> alert_cancellation \<Rightarrow> database \<Rightarrow>
   db_error + database \<times> alert_cancel_outcome" where
  "alert_repo_cancel su a cn db =
     (let matches = (\<lambda>r. alert_row_id r = alert_uuid (alert_id a) \<and> alert_row_version r = alert_version a - 1);
          update = (\<lambda>r. r\<lparr>alert_row_status := alert_status_to_db (alert_status a),
                         alert_row_version := alert_version a\<rparr>);
          rows_affected = length (filter matches (db_alerts db));
          db1 = db\<lparr>db_alerts := map (\<lambda>r. if matches r then update r else r) (db_alerts db)\<rparr>
      in if rows_affected > 0 \<and> \<not> 0 <s alert_version a then Inl DbError_CheckViolation
         else if rows_affected \<noteq> 1 then Inr (db, AlertCancel_Conflict)
         else bind_result (write_alert_event (alert_id a) (cancellation_event cn) (cancellation_trail cn)
                (alert_cancelled_event_payload su a cn) db1) (\<lambda>db2. Inr (db2, AlertCancel_Cancelled)))"

section \<open>Stored alerts are the alerts that were written\<close>

definition field_to_row :: "alert_field_value \<Rightarrow> rstring \<times> rstring" where
  "field_to_row fv = (alert_field_to_db (field_value_field fv), field_value_value fv)"

lemma alert_field_of_row_Inr: "alert_field_of_row x = Inr fv \<longleftrightarrow> x = field_to_row fv"
  by (cases x; cases fv)
     (auto simp: alert_field_of_row_def field_to_row_def result_simps alert_field_db.from_db_Some_iff)

lemma alert_fields_of_rows_Inr:
  "collect_results (map alert_field_of_row xs) = Inr fvs \<longleftrightarrow> xs = map field_to_row fvs"
proof (induction xs arbitrary: fvs)
  case (Cons x xs)
  then show ?case by (cases fvs) (auto simp: bind_result_Inr collect_results_Inr alert_field_of_row_Inr)
qed (auto simp: collect_results_Inr)

lemma alert_from_row_Inr:
  "alert_from_row r fvs = Inr a \<longleftrightarrow>
     alert_id a = AlertId (alert_row_id r) \<and> alert_case_id a = CaseId (alert_row_case_id r) \<and>
     alert_policy_id a = AlertPolicyId (alert_row_policy_id r) \<and>
     alert_policy_version a = scast (alert_row_policy_version r) \<and>
     alert_row_incident_type r = incident_type_to_db (alert_incident_type a) \<and>
     alert_row_severity r = severity_to_db (alert_severity a) \<and>
     alert_row_visibility r = alert_visibility_to_db (alert_visibility a) \<and>
     alert_row_trigger r = case_event_type_to_db (alert_trigger a) \<and>
     target_geography_new (alert_row_target_geography r) = Inr (alert_target_geography a) \<and>
     alert_row_status r = alert_status_to_db (alert_status a) \<and>
     alert_fields a = fvs \<and> alert_version a = alert_row_version r \<and>
     alert_issued_by_organization_id a = map_option OrganizationId (alert_row_issued_by r)"
  by (cases a)
     (auto simp: alert_from_row_def alert_reconstitute_def result_simps incident_type_db.from_db_Some_iff
       severity_db.from_db_Some_iff alert_visibility_db.from_db_Some_iff case_event_type_db.from_db_Some_iff
       alert_status_db.from_db_Some_iff)

definition alert_row_decodes :: "database \<Rightarrow> alert_row \<Rightarrow> alert \<Rightarrow> bool" where
  "alert_row_decodes db r a \<longleftrightarrow>
     field_rows_of_alert db (alert_row_id r) = map field_to_row (alert_fields a) \<and>
     alert_from_row r (alert_fields a) = Inr a"

definition alert_store_ok :: "database \<Rightarrow> bool" where
  "alert_store_ok db \<longleftrightarrow>
     distinct (map alert_row_id (db_alerts db)) \<and>
     (\<forall>r \<in> set (db_alerts db). \<exists>a. alert_row_decodes db r a) \<and>
     fst ` set (db_alert_fields db) \<subseteq> alert_row_id ` set (db_alerts db) \<and>
     distinct (filter (\<lambda>h. h \<noteq> None) (map alert_row_key_hash (db_alerts db)))"

definition alert_lookup :: "database \<Rightarrow> alert_id \<Rightarrow> alert option" where
  "alert_lookup db i = (case alert_find_by_id db i of Inr oa \<Rightarrow> oa | Inl e \<Rightarrow> None)"

lemma alert_find_by_id_row:
  assumes "distinct (map alert_row_id (db_alerts db))"
  shows "alert_find_by_id db i = Inr (Some a) \<longleftrightarrow>
     (\<exists>r \<in> set (db_alerts db). alert_row_id r = alert_uuid i \<and> alert_row_decodes db r a)"
proof
  assume "alert_find_by_id db i = Inr (Some a)"
  then obtain r fvs where "find (\<lambda>r. alert_row_id r = alert_uuid i) (db_alerts db) = Some r"
    "field_rows_of_alert db (alert_uuid i) = map field_to_row fvs" "alert_from_row r fvs = Inr a"
    by (auto simp: alert_find_by_id_def bind_result_Inr alert_fields_of_rows_Inr split: option.splits)
  moreover from this have "alert_fields a = fvs" by (simp add: alert_from_row_Inr)
  ultimately show "\<exists>r \<in> set (db_alerts db). alert_row_id r = alert_uuid i \<and> alert_row_decodes db r a"
    by (auto simp: find_Some_iff alert_row_decodes_def)
next
  assume "\<exists>r \<in> set (db_alerts db). alert_row_id r = alert_uuid i \<and> alert_row_decodes db r a"
  then obtain r where r: "r \<in> set (db_alerts db)" "alert_row_id r = alert_uuid i"
    "field_rows_of_alert db (alert_row_id r) = map field_to_row (alert_fields a)"
    "alert_from_row r (alert_fields a) = Inr a" by (auto simp: alert_row_decodes_def)
  from find_unique_id [OF assms r(1)] r show "alert_find_by_id db i = Inr (Some a)"
    using iffD2 [OF alert_fields_of_rows_Inr r(3)] by (simp add: alert_find_by_id_def)
qed

lemma alert_find_by_id_total:
  assumes "alert_store_ok db"
  shows "alert_find_by_id db i = Inr (alert_lookup db i)"
proof (cases "find (\<lambda>r. alert_row_id r = alert_uuid i) (db_alerts db)")
  case None
  then show ?thesis by (simp add: alert_find_by_id_def alert_lookup_def)
next
  case (Some r)
  then have "r \<in> set (db_alerts db)" "alert_row_id r = alert_uuid i" by (auto simp: find_Some_iff)
  moreover from this obtain a where "alert_row_decodes db r a" using assms by (auto simp: alert_store_ok_def)
  ultimately have "alert_find_by_id db i = Inr (Some a)"
    using alert_find_by_id_row assms unfolding alert_store_ok_def by blast
  then show ?thesis by (simp add: alert_lookup_def)
qed

lemma alert_lookup_Some:
  assumes "alert_store_ok db"
  shows "alert_lookup db i = Some a \<longleftrightarrow>
     (\<exists>r \<in> set (db_alerts db). alert_row_id r = alert_uuid i \<and> alert_row_decodes db r a)"
  using alert_find_by_id_row [of db i a] alert_find_by_id_total [OF assms, of i] assms
  by (auto simp: alert_store_ok_def)

text \<open>What a row keeps of an alert: the policy version fits \<open>smallint\<close> and the geography is the
  trimmed text the constructor made.\<close>

definition alert_storable :: "alert \<Rightarrow> bool" where
  "alert_storable a \<longleftrightarrow>
     alert_policy_version a < 2 ^ 15 \<and>
     target_geography_new (target_geography_text (alert_target_geography a)) = Inr (alert_target_geography a)"

lemma policy_version_roundtrip:
  fixes v :: u32
  assumes "v < 2 ^ 15"
  shows "scast (ucast v :: 16 word) = v"
proof -
  have v: "uint v < 2 ^ 15" using assms by (simp add: word_less_def)
  have "uint (ucast v :: 16 word) = uint v"
    using v by (simp add: unsigned_ucast_eq unsigned_take_bit_eq take_bit_int_eq_self)
  moreover have "- (2 ^ 15) \<le> uint v" by (rule order_trans [OF _ uint_ge_0]) simp
  ultimately have "sint (ucast v :: 16 word) = uint v"
    using v signed_take_bit_int_eq_self [of 15 "uint v"] by (simp add: sint_uint)
  then show ?thesis by (metis word_of_int_uint scast_eq)
qed

lemma alert_from_to_row:
  "alert_storable a \<Longrightarrow> alert_from_row (alert_to_row h a) (alert_fields a) = Inr a"
  by (cases "alert_id a"; cases "alert_case_id a"; cases "alert_policy_id a";
      cases "alert_issued_by_organization_id a")
     (auto simp: alert_from_row_Inr alert_to_row_def alert_storable_def policy_version_roundtrip)

lemma alert_to_row_simps [simp]:
  "alert_row_id (alert_to_row h a) = alert_uuid (alert_id a)"
  "alert_row_key_hash (alert_to_row h a) = h"
  by (simp_all add: alert_to_row_def)

lemma insert_alert_None:
  assumes "insert_alert a h db = Inr (db1, None)"
  shows "db1 = db\<lparr>db_alerts := db_alerts db @ [alert_to_row h a]\<rparr> \<and>
           alert_uuid (alert_id a) \<notin> alert_row_id ` set (db_alerts db) \<and>
           (h = None \<or> h \<notin> alert_row_key_hash ` set (db_alerts db)) \<or>
         db1 = db \<and> alert_uuid (alert_id a) \<in> alert_row_id ` set (db_alerts db)"
proof (cases "h \<noteq> None \<and> h \<in> alert_row_key_hash ` set (db_alerts db)")
  case True
  then obtain k where h: "h = Some k" by auto
  with True have h2: "Some k \<in> alert_row_key_hash ` set (db_alerts db)" by simp
  then obtain r where f: "find (\<lambda>x. alert_row_key_hash x = Some k) (db_alerts db) = Some r"
    by (cases "find (\<lambda>x. alert_row_key_hash x = Some k) (db_alerts db)") (use h2 in \<open>auto simp: find_None_iff\<close>)
  then have "r \<in> set (db_alerts db)" by (auto simp: find_Some_iff)
  then have "alert_row_id r \<in> alert_row_id ` set (db_alerts db)" by simp
  then show ?thesis
    using assms h h2 f by (auto simp: insert_alert_def Let_def bind_result_Inr split: if_splits)
next
  case False
  then show ?thesis
    using assms by (cases h) (auto simp: insert_alert_def Let_def bind_result_Inr split: if_splits)
qed

lemma insert_alert_fields_Inr:
  "insert_alert_fields i fvs db = Inr db' \<Longrightarrow>
     db' = db\<lparr>db_alert_fields := db_alert_fields db @ map (\<lambda>fv. (alert_uuid i, field_to_row fv)) fvs\<rparr> \<and>
     (fvs \<noteq> [] \<longrightarrow> alert_uuid i \<in> alert_row_id ` set (db_alerts db))"
  by (induction i fvs db rule: insert_alert_fields.induct)
     (auto simp: Let_def field_to_row_def split: if_splits)

lemma write_alert_event_frame:
  assumes "write_alert_event i ev t p db = Inr db'"
  shows "db_alerts db' = db_alerts db" and "db_alert_fields db' = db_alert_fields db"
    and "db_deliveries db' = db_deliveries db"
  using assms
  by (auto simp: write_alert_event_def insert_alert_event_def bind_result_Inr insert_aggregate_event_Inr
      insert_audit_event_Inr insert_outbox_event_Inr)

lemma unique_key_row:
  assumes "distinct (filter (\<lambda>h. h \<noteq> None) (map key rows))" and "r \<in> set rows" and "key r = Some h"
  shows "find (\<lambda>x. key x = Some h) rows = Some r"
  using assms
proof (induction rows)
  case (Cons x xs)
  show ?case
  proof (cases "key x = Some h")
    case True
    with Cons.prems(1) have "Some h \<notin> key ` set xs" by auto
    with Cons.prems True have "x = r" by (auto simp: image_iff)
    with True show ?thesis by simp
  next
    case False
    with Cons show ?thesis by (auto split: if_splits)
  qed
qed simp

lemma alert_create_duplicate:
  assumes ok: "alert_store_ok db" and r: "r \<in> set (db_alerts db)" "alert_row_key_hash r = Some h"
    and h: "alert_creation_key_hash cr = Some h"
    and checks: "alert_row_checks (alert_to_row (Some h) (alert_creation_alert cr))"
    and new: "alert_row_id r \<noteq> alert_uuid (alert_id (alert_creation_alert cr))"
  shows "alert_repo_create su cr db = Inr (db, AlertCreation_Duplicate (alert_row_id r))"
proof -
  have "Some h \<in> alert_row_key_hash ` set (db_alerts db)" using r by force
  moreover have "find (\<lambda>x. alert_row_key_hash x = Some h) (db_alerts db) = Some r"
    using ok r by (intro unique_key_row) (simp_all add: alert_store_ok_def)
  ultimately show ?thesis
    using h checks new by (simp add: alert_repo_create_def insert_alert_def Let_def)
qed

lemma alert_row_decodes_cong:
  "field_rows_of_alert db' (alert_row_id r) = field_rows_of_alert db (alert_row_id r) \<Longrightarrow>
     alert_row_decodes db' r a = alert_row_decodes db r a"
  by (simp add: alert_row_decodes_def)

text \<open>The rows that a creation under a new id writes.\<close>

lemma alert_created_rows:
  assumes new: "alert_uuid (alert_id (alert_creation_alert cr)) \<notin> alert_row_id ` set (db_alerts db)"
    and c: "alert_repo_create su cr db = Inr (db', AlertCreation_Created)"
  shows "db_alerts db' = db_alerts db @ [alert_to_row (alert_creation_key_hash cr) (alert_creation_alert cr)]"
    and "db_alert_fields db' = db_alert_fields db @
      map (\<lambda>fv. (alert_uuid (alert_id (alert_creation_alert cr)), field_to_row fv)) (alert_fields (alert_creation_alert cr))"
    and "alert_creation_key_hash cr = None \<or>
      alert_creation_key_hash cr \<notin> alert_row_key_hash ` set (db_alerts db)"
proof -
  let ?a = "alert_creation_alert cr" and ?h = "alert_creation_key_hash cr"
  obtain db1 db2 where i: "insert_alert ?a ?h db = Inr (db1, None)"
    and f: "insert_alert_fields (alert_id ?a) (alert_fields ?a) db1 = Inr db2"
    and w: "write_alert_event (alert_id ?a) (alert_creation_event cr) (alert_creation_trail cr)
        (alert_created_event_payload su cr) db2 = Inr db'"
    using c by (auto simp: alert_repo_create_def Let_def bind_result_Inr split: option.splits)
  have db1: "db1 = db\<lparr>db_alerts := db_alerts db @ [alert_to_row ?h ?a]\<rparr>"
    and "?h = None \<or> ?h \<notin> alert_row_key_hash ` set (db_alerts db)"
    using insert_alert_None [OF i] new by auto
  then show "?h = None \<or> ?h \<notin> alert_row_key_hash ` set (db_alerts db)" by blast
  show "db_alerts db' = db_alerts db @ [alert_to_row ?h ?a]"
    and "db_alert_fields db' = db_alert_fields db @ map (\<lambda>fv. (alert_uuid (alert_id ?a), field_to_row fv)) (alert_fields ?a)"
    using db1 insert_alert_fields_Inr [OF f] write_alert_event_frame [OF w] by auto
qed

lemma alert_create_stored:
  assumes ok: "alert_store_ok db" and st: "alert_storable (alert_creation_alert cr)"
    and fresh: "alert_lookup db (alert_id (alert_creation_alert cr)) = None"
    and c: "alert_repo_create su cr db = Inr (db', AlertCreation_Created)"
  shows "alert_store_ok db'" and "alert_lookup db' (alert_id (alert_creation_alert cr)) = Some (alert_creation_alert cr)"
    and "k \<noteq> alert_id (alert_creation_alert cr) \<Longrightarrow> alert_lookup db' k = alert_lookup db k"
    and "db_alerts db' = db_alerts db @ [alert_to_row (alert_creation_key_hash cr) (alert_creation_alert cr)]"
proof -
  let ?a = "alert_creation_alert cr" and ?h = "alert_creation_key_hash cr"
  let ?i = "alert_uuid (alert_id ?a)" and ?r = "alert_to_row ?h ?a"
  have new: "?i \<notin> alert_row_id ` set (db_alerts db)"
  proof
    assume "?i \<in> alert_row_id ` set (db_alerts db)"
    then obtain r where r: "r \<in> set (db_alerts db)" "alert_row_id r = ?i" by auto
    moreover from r ok obtain a where "alert_row_decodes db r a" by (auto simp: alert_store_ok_def)
    ultimately have "alert_lookup db (alert_id ?a) = Some a" using alert_lookup_Some [OF ok] by blast
    with fresh show False by simp
  qed
  note al = alert_created_rows(1) [OF new c] and fl = alert_created_rows(2) [OF new c]
    and key = alert_created_rows(3) [OF new c]
  show "db_alerts db' = db_alerts db @ [?r]" by (rule al)
  have "filter (\<lambda>x. fst x = ?i) (db_alert_fields db) = []"
    using ok new by (force simp: alert_store_ok_def filter_empty_conv)
  then have own: "field_rows_of_alert db' ?i = map field_to_row (alert_fields ?a)"
    by (simp add: field_rows_of_alert_def fl filter_map comp_def)
  have other: "field_rows_of_alert db' j = field_rows_of_alert db j" if "j \<noteq> ?i" for j
    using that by (simp add: field_rows_of_alert_def fl filter_map comp_def)
  have dec: "alert_row_decodes db' ?r ?a"
    using own alert_from_to_row [OF st, of ?h] by (simp add: alert_row_decodes_def)
  have old: "alert_row_decodes db' r a = alert_row_decodes db r a" if "r \<in> set (db_alerts db)" for r a
    using that new by (intro alert_row_decodes_cong other) force
  have "distinct (map alert_row_id (db_alerts db'))"
    using ok new by (simp add: alert_store_ok_def al)
  moreover have "\<exists>b. alert_row_decodes db' x b" if "x \<in> set (db_alerts db')" for x
    using that ok old dec unfolding al alert_store_ok_def by auto
  moreover have "fst ` set (db_alert_fields db') \<subseteq> alert_row_id ` set (db_alerts db')"
    using ok by (auto simp: alert_store_ok_def al fl)
  moreover have "distinct (filter (\<lambda>h. h \<noteq> None) (map alert_row_key_hash (db_alerts db')))"
    using ok key by (auto simp: alert_store_ok_def al)
  ultimately show ok': "alert_store_ok db'" by (simp add: alert_store_ok_def)
  show "alert_lookup db' (alert_id ?a) = Some ?a"
    using dec al by (subst alert_lookup_Some [OF ok']) (auto intro!: bexI [of _ ?r])
  show "alert_lookup db' k = alert_lookup db k" if "k \<noteq> alert_id ?a"
  proof (rule option_eqI)
    have "alert_uuid k \<noteq> ?i" using that alert_id.expand by blast
    then show "alert_lookup db' k = Some x \<longleftrightarrow> alert_lookup db k = Some x" for x
      using old by (auto simp: alert_lookup_Some [OF ok] alert_lookup_Some [OF ok'] al)
  qed
qed

section \<open>Cancelling under optimistic concurrency\<close>

type_synonym alert_write = "alert \<times> alert_cancellation"

definition alert_save :: "(uuid \<Rightarrow> rstring) \<Rightarrow> database \<Rightarrow> alert_write \<Rightarrow> database \<times> bool" where
  "alert_save su db w =
     (case alert_repo_cancel su (fst w) (snd w) db of
        Inl e \<Rightarrow> (db, False) | Inr (db', out) \<Rightarrow> (db', out = AlertCancel_Cancelled))"

lemma alert_repo_cancel_Inr:
  shows "alert_repo_cancel su a cn db = Inr (db', AlertCancel_Cancelled) \<Longrightarrow>
      (\<exists>r \<in> set (db_alerts db). alert_row_id r = alert_uuid (alert_id a) \<and> alert_row_version r = alert_version a - 1) \<and>
      db_alerts db' = map (\<lambda>r. if alert_row_id r = alert_uuid (alert_id a) \<and> alert_row_version r = alert_version a - 1
        then r\<lparr>alert_row_status := alert_status_to_db (alert_status a), alert_row_version := alert_version a\<rparr>
        else r) (db_alerts db) \<and>
      db_alert_fields db' = db_alert_fields db \<and> db_deliveries db' = db_deliveries db"
    and "alert_repo_cancel su a cn db = Inr (db', AlertCancel_Conflict) \<Longrightarrow> db' = db"
proof -
  assume c: "alert_repo_cancel su a cn db = Inr (db', AlertCancel_Cancelled)"
  let ?u = "\<lambda>r. if alert_row_id r = alert_uuid (alert_id a) \<and> alert_row_version r = alert_version a - 1
        then r\<lparr>alert_row_status := alert_status_to_db (alert_status a), alert_row_version := alert_version a\<rparr>
        else r"
  have hit: "length (filter (\<lambda>r. alert_row_id r = alert_uuid (alert_id a) \<and> alert_row_version r = alert_version a - 1)
      (db_alerts db)) = 1"
    and w: "write_alert_event (alert_id a) (cancellation_event cn) (cancellation_trail cn)
      (alert_cancelled_event_payload su a cn) (db\<lparr>db_alerts := map ?u (db_alerts db)\<rparr>) = Inr db'"
    using c by (auto simp: alert_repo_cancel_def Let_def bind_result_Inr split: if_splits)
  from hit have "filter (\<lambda>r. alert_row_id r = alert_uuid (alert_id a) \<and> alert_row_version r = alert_version a - 1)
      (db_alerts db) \<noteq> []" by (metis list.size(3) zero_neq_one)
  then have "\<exists>r \<in> set (db_alerts db). alert_row_id r = alert_uuid (alert_id a) \<and> alert_row_version r = alert_version a - 1"
    by (simp add: filter_empty_conv)
  then show "(\<exists>r \<in> set (db_alerts db). alert_row_id r = alert_uuid (alert_id a) \<and> alert_row_version r = alert_version a - 1) \<and>
      db_alerts db' = map ?u (db_alerts db) \<and> db_alert_fields db' = db_alert_fields db \<and>
      db_deliveries db' = db_deliveries db"
    using write_alert_event_frame [OF w] by simp
next
  assume "alert_repo_cancel su a cn db = Inr (db', AlertCancel_Conflict)"
  then show "db' = db" by (auto simp: alert_repo_cancel_def Let_def bind_result_Inr split: if_splits)
qed

lemma alert_from_row_update:
  "alert_from_row r fvs = Inr a0 \<Longrightarrow>
     alert_from_row (r\<lparr>alert_row_status := alert_status_to_db s, alert_row_version := v\<rparr>) fvs =
       Inr (a0\<lparr>alert_status := s, alert_version := v\<rparr>)"
  by (simp add: alert_from_row_Inr)

lemma alert_cancelled:
  assumes ok: "alert_store_ok db" and c: "alert_repo_cancel su a cn db = Inr (db', AlertCancel_Cancelled)"
  shows "alert_store_ok db' \<and>
    (\<exists>a0. alert_lookup db (alert_id a) = Some a0 \<and> alert_version a0 + 1 = alert_version a \<and>
      alert_lookup db' (alert_id a) = Some (a0\<lparr>alert_status := alert_status a, alert_version := alert_version a\<rparr>)) \<and>
    (\<forall>k. k \<noteq> alert_id a \<longrightarrow> alert_lookup db' k = alert_lookup db k)"
proof -
  let ?i = "alert_uuid (alert_id a)"
  let ?hit = "\<lambda>r. alert_row_id r = ?i \<and> alert_row_version r = alert_version a - 1"
  let ?new = "\<lambda>r. r\<lparr>alert_row_status := alert_status_to_db (alert_status a), alert_row_version := alert_version a\<rparr>"
  let ?u = "\<lambda>r. if ?hit r then ?new r else r"
  note cr = alert_repo_cancel_Inr(1) [OF c]
  have al: "db_alerts db' = map ?u (db_alerts db)" and fl: "db_alert_fields db' = db_alert_fields db"
    using cr by simp_all
  obtain r where r: "r \<in> set (db_alerts db)" "?hit r" using cr by blast
  have keys: "map alert_row_id (db_alerts db') = map alert_row_id (db_alerts db)"
    "map alert_row_key_hash (db_alerts db') = map alert_row_key_hash (db_alerts db)" by (simp_all add: al)
  have rows: "field_rows_of_alert db' j = field_rows_of_alert db j" for j by (simp add: field_rows_of_alert_def fl)
  have dec: "alert_row_decodes db x a0 \<Longrightarrow> alert_row_decodes db' (?u x)
      (if ?hit x then a0\<lparr>alert_status := alert_status a, alert_version := alert_version a\<rparr> else a0)" for x a0
    by (auto simp: alert_row_decodes_def rows alert_from_row_update)
  have "\<exists>b. alert_row_decodes db' x b" if "x \<in> set (db_alerts db')" for x
  proof -
    from that obtain y where y: "y \<in> set (db_alerts db)" "x = ?u y" unfolding al set_map by blast
    with ok obtain b where "alert_row_decodes db y b" by (auto simp: alert_store_ok_def)
    from dec [OF this] y(2) show ?thesis by blast
  qed
  moreover have "alert_row_id ` set (db_alerts db') = alert_row_id ` set (db_alerts db)"
    using keys(1) by (metis list.set_map)
  ultimately have ok': "alert_store_ok db'"
    using ok keys by (simp add: alert_store_ok_def fl)
  obtain a0 where a0: "alert_row_decodes db r a0" using ok r by (auto simp: alert_store_ok_def)
  then have l0: "alert_lookup db (alert_id a) = Some a0" using r by (auto simp: alert_lookup_Some [OF ok])
  have "alert_lookup db' (alert_id a) = Some (a0\<lparr>alert_status := alert_status a, alert_version := alert_version a\<rparr>)"
    using dec [OF a0] r by (auto simp: alert_lookup_Some [OF ok'] al intro!: bexI [of _ "?new r"] image_eqI [of _ _ r])
  moreover have "alert_version a0 + 1 = alert_version a"
    using a0 r by (simp add: alert_row_decodes_def alert_from_row_Inr)
  moreover have "alert_lookup db' k = alert_lookup db k" if "k \<noteq> alert_id a" for k
  proof (rule option_eqI)
    have "alert_uuid k \<noteq> ?i" using that alert_id.expand by blast
    then show "alert_lookup db' k = Some x \<longleftrightarrow> alert_lookup db k = Some x" for x
      by (auto simp: alert_lookup_Some [OF ok] alert_lookup_Some [OF ok'] al alert_row_decodes_def rows)
  qed
  ultimately show ?thesis using ok' l0 by blast
qed

interpretation alert_store: versioned_store alert_store_ok alert_lookup alert_version "alert_save su"
  "\<lambda>w. alert_id (fst w)" "\<lambda>w. alert_version (fst w)" for su
proof unfold_locales
  fix db and w :: alert_write and k
  assume ok: "alert_store_ok db"
  have refused: "fst (alert_save su db w) = db" if "\<not> snd (alert_save su db w)"
    using that alert_repo_cancel_Inr(2) [of su "fst w" "snd w"]
    by (auto simp: alert_save_def split: sum.splits) (metis (full_types) alert_cancel_outcome.exhaust)
  have applied: "alert_repo_cancel su (fst w) (snd w) db = Inr (fst (alert_save su db w), AlertCancel_Cancelled)"
    if "snd (alert_save su db w)"
    using that by (auto simp: alert_save_def split: sum.splits prod.splits)
  show "fst (alert_save su db w) = db" if "\<not> snd (alert_save su db w)" using refused that .
  show "alert_store_ok (fst (alert_save su db w))"
    using ok refused alert_cancelled [OF ok applied] by (cases "snd (alert_save su db w)") auto
  show "\<exists>a0 a1. alert_lookup db (alert_id (fst w)) = Some a0 \<and> alert_version a0 + 1 = alert_version (fst w) \<and>
      alert_lookup (fst (alert_save su db w)) (alert_id (fst w)) = Some a1 \<and>
      alert_version a1 = alert_version (fst w)" if "snd (alert_save su db w)"
    using alert_cancelled [OF ok applied [OF that]] by fastforce
  show "alert_lookup (fst (alert_save su db w)) k = alert_lookup db k" if "k \<noteq> alert_id (fst w)"
    using that refused alert_cancelled [OF ok applied] by (cases "snd (alert_save su db w)") auto
qed

section \<open>Properties\<close>

text \<open>An alert that is created is read back as it was written, next to the unchanged others, and a
  second creation under the same idempotency key changes nothing and names the stored alert.\<close>

theorem alert_creation_stored_once:
  assumes "alert_store_ok db" and "alert_storable (alert_creation_alert cr)"
    and "alert_lookup db (alert_id (alert_creation_alert cr)) = None"
    and "alert_repo_create su cr db = Inr (db', AlertCreation_Created)"
    and "alert_creation_key_hash cr = Some h" and "alert_creation_key_hash cr' = Some h"
    and "alert_row_checks (alert_to_row (Some h) (alert_creation_alert cr'))"
    and "alert_id (alert_creation_alert cr') \<noteq> alert_id (alert_creation_alert cr)"
  shows "alert_store_ok db' \<and>
     alert_find_by_id db' (alert_id (alert_creation_alert cr)) = Inr (Some (alert_creation_alert cr)) \<and>
     (\<forall>k. k \<noteq> alert_id (alert_creation_alert cr) \<longrightarrow> alert_lookup db' k = alert_lookup db k) \<and>
     alert_repo_create su' cr' db' = Inr (db', AlertCreation_Duplicate (alert_uuid (alert_id (alert_creation_alert cr))))"
proof -
  note st = alert_create_stored [OF assms(1-4)]
  have "alert_to_row (Some h) (alert_creation_alert cr) \<in> set (db_alerts db')"
    using st(4) assms(5) by simp
  moreover have "alert_uuid (alert_id (alert_creation_alert cr)) \<noteq> alert_uuid (alert_id (alert_creation_alert cr'))"
    using assms(8) alert_id.expand by metis
  ultimately have "alert_repo_create su' cr' db' =
      Inr (db', AlertCreation_Duplicate (alert_row_id (alert_to_row (Some h) (alert_creation_alert cr))))"
    by (intro alert_create_duplicate [OF st(1) _ _ assms(6,7)]) simp_all
  then show ?thesis using st(1-3) alert_find_by_id_total [OF st(1)] by simp
qed

definition sample_creation :: "nat \<Rightarrow> alert_creation" where
  "sample_creation n = \<lparr>alert_creation_alert = sample_alert\<lparr>alert_id := AlertId (of_nat n)\<rparr>,
     alert_creation_event = alert_new_event (sample_alert\<lparr>alert_id := AlertId (of_nat n)\<rparr>) AlertEventType_AlertCreated 10,
     alert_creation_trail = \<lparr>trail_actor = Actor_Reviewer 5, trail_audit_event_id = AuditEventId 11,
       trail_outbox_event_id = OutboxEventId 12, trail_request_id = 13\<rparr>,
     alert_creation_key_hash = Some [1]\<rparr>"

definition sample_alert_db :: database where
  "sample_alert_db = empty_database\<lparr>db_cases := [\<lparr>case_row_id = 2, case_row_incident_type = lit ''MISSING_CHILD'',
     case_row_status = lit ''VERIFIED'', case_row_version = 3, case_row_updated_at = 0\<rparr>]\<rparr>"

lemma sample_alert_checks: "alert_row_checks (alert_to_row h (alert_creation_alert (sample_creation n)))"
  by (simp add: alert_row_checks_def alert_to_row_def sample_creation_def sample_alert_def btrim_blank_def lit_def
      word_sless_alt)

lemma sample_creation_succeeds:
  "\<exists>db'. alert_repo_create hyphenated (sample_creation 1) sample_alert_db = Inr (db', AlertCreation_Created)"
proof -
  have "insert_alert (alert_creation_alert (sample_creation 1)) (Some [1]) sample_alert_db =
      Inr (sample_alert_db\<lparr>db_alerts := [alert_to_row (Some [1]) (alert_creation_alert (sample_creation 1))]\<rparr>, None)"
    using sample_alert_checks [of "Some [1]" 1]
    by (simp add: insert_alert_def Let_def sample_alert_db_def empty_database_def)
       (simp add: alert_to_row_def sample_creation_def sample_alert_def)
  then show ?thesis
    by (simp add: alert_repo_create_def sample_creation_def sample_alert_def sample_alert_db_def empty_database_def
        Let_def btrim_blank_def lit_def write_alert_event_def insert_alert_event_def insert_aggregate_event_def
        insert_row_def insert_audit_event_def insert_outbox_event_def word_sless_alt alert_new_event_def)
qed

lemma sample_alert_db_ok: "alert_store_ok sample_alert_db"
  by (simp add: alert_store_ok_def sample_alert_db_def empty_database_def)

lemma sample_creation_storable: "alert_storable (alert_creation_alert (sample_creation n))"
  by (simp add: alert_storable_def sample_creation_def sample_alert_def target_geography_new_def trim_def lit_def
      is_whitespace_def Let_def)

lemma sample_creation_fresh:
  "alert_lookup sample_alert_db (alert_id (alert_creation_alert (sample_creation n))) = None"
  by (simp add: alert_lookup_def alert_find_by_id_def sample_alert_db_def empty_database_def)

theorem alert_creation_stored_once_witness:
  "\<exists>db'. alert_repo_create hyphenated (sample_creation 1) sample_alert_db = Inr (db', AlertCreation_Created) \<and>
     alert_repo_create hyphenated (sample_creation 4) db' = Inr (db', AlertCreation_Duplicate 1)"
proof -
  obtain db' where c: "alert_repo_create hyphenated (sample_creation 1) sample_alert_db = Inr (db', AlertCreation_Created)"
    using sample_creation_succeeds by blast
  have key: "alert_creation_key_hash (sample_creation n) = Some [1]" for n by (simp add: sample_creation_def)
  have "alert_id (alert_creation_alert (sample_creation 4)) \<noteq> alert_id (alert_creation_alert (sample_creation 1))"
    by (simp add: sample_creation_def)
  from alert_creation_stored_once [OF sample_alert_db_ok sample_creation_storable
      sample_creation_fresh c key key sample_alert_checks this, of hyphenated] c
  show ?thesis by (intro exI [of _ db']) (simp add: sample_creation_def)
qed

text \<open>Among any concurrent cancellations, at most one is applied per alert and version, and each
  stored alert advances by exactly the cancellations applied to it.\<close>

lemma alert_cancellations_serialized:
  assumes "alert_store_ok db" and "length ws < 2 ^ 64"
  shows "admitted (\<lambda>w. (alert_id (fst w), alert_version (fst w))) (k, v) ws (snd (run_checks (alert_save su) db ws)) \<le> 1 \<and>
     alert_store_ok (fst (run_checks (alert_save su) db ws)) \<and>
     (\<forall>a. alert_lookup db k = Some a \<longrightarrow>
        (\<exists>a'. alert_lookup (fst (run_checks (alert_save su) db ws)) k = Some a' \<and>
           alert_version a' = alert_version a + of_nat (admitted (\<lambda>w. alert_id (fst w)) k ws
             (snd (run_checks (alert_save su) db ws)))))"
  using alert_store.one_write_per_version [OF assms(1)] alert_store.run_ok [OF assms(1)]
    alert_store.run_version [OF assms(1)] assms(2) by simp

end
