(* ===== verification/Subscription_Store.thy ===== *)
theory Subscription_Store
  imports Store_Base Delivery_Model
begin

text \<open>
  Persistence of subscriptions, delivery preferences and consumers
  (\<open>crates/infrastructure/src/postgres/subscriptions.rs\<close>, \<open>delivery_preferences.rs\<close>,
  \<open>consumers.rs\<close>): the JSON form of rules and channels with its round trip, the queries, and the
  update of a subscription under optimistic concurrency. A failing \<open>expect\<close> is \<open>DbPanic\<close>.
\<close>

section \<open>Rules as JSON\<close>

text \<open>The \<open>serde\<close> form of the program's enums is the label of their database form.\<close>

fun rule_to_json :: "subscription_rule \<Rightarrow> json" where
  "rule_to_json (Rule_IncidentType values) = JObj
     [(lit ''rule'', JStr (lit ''INCIDENT_TYPE'')),
      (lit ''values'', JArr (map (JStr \<circ> incident_type_to_db) values))]"
| "rule_to_json (Rule_Severity operator value) = JObj
     [(lit ''rule'', JStr (lit ''SEVERITY'')),
      (lit ''operator'', JStr (comparison_to_db operator)),
      (lit ''value'', JStr (severity_to_db value))]"
| "rule_to_json (Rule_EventType values) = JObj
     [(lit ''rule'', JStr (lit ''EVENT_TYPE'')),
      (lit ''values'', JArr (map (JStr \<circ> case_event_type_to_db) values))]"
| "rule_to_json (Rule_Geography areas) = JObj
     [(lit ''rule'', JStr (lit ''GEOGRAPHY'')),
      (lit ''areas'', JArr (map (JStr \<circ> geo_area_text) areas))]"
| "rule_to_json (Rule_Visibility values) = JObj
     [(lit ''rule'', JStr (lit ''VISIBILITY'')),
      (lit ''values'', JArr (map (JStr \<circ> alert_visibility_to_db) values))]"

definition rules_to_json :: "subscription_rule list \<Rightarrow> json" where
  "rules_to_json rules = JArr (map rule_to_json rules)"

text \<open>\<open>serde_json::from_value\<close> on a unit variant: the label as a string, or an object that maps it
  to \<open>null\<close>.\<close>

fun json_enum :: "(rstring \<Rightarrow> 'a option) \<Rightarrow> json \<Rightarrow> db_error + 'a" where
  "json_enum from_db (JStr s) = ok_or DbPanic (from_db s)"
| "json_enum from_db (JObj [(k, JNull)]) = ok_or DbPanic (from_db k)"
| "json_enum from_db _ = Inl DbPanic"

definition json_enums :: "(rstring \<Rightarrow> 'a option) \<Rightarrow> json option \<Rightarrow> db_error + 'a list" where
  "json_enums from_db v =
     bind_result (ok_or DbPanic (Option.bind v json_as_array)) (\<lambda>js.
       collect_results (map (json_enum from_db) js))"

definition geo_area_names :: "json \<Rightarrow> db_error + rstring list" where
  "geo_area_names value =
     (case Option.bind (json_get value (lit ''areas'')) json_as_array of
        Some areas \<Rightarrow> collect_results (map (ok_or DbPanic \<circ> json_as_str) areas)
      | None \<Rightarrow>
         bind_result (ok_or DbPanic (Option.bind (json_get value (lit ''area'')) json_as_str))
           (\<lambda>a. Inr [a]))"

definition rule_from_json :: "json \<Rightarrow> db_error + subscription_rule" where
  "rule_from_json value =
     bind_result (ok_or DbPanic (Option.bind (json_get value (lit ''rule'')) json_as_str)) (\<lambda>tag.
       if tag = lit ''INCIDENT_TYPE'' then
         bind_result (json_enums incident_type_from_db (json_get value (lit ''values'')))
           (\<lambda>vs. Inr (Rule_IncidentType vs))
       else if tag = lit ''SEVERITY'' then
         bind_result (ok_or DbPanic (Option.bind (json_get value (lit ''operator'')) json_as_str)) (\<lambda>s.
         bind_result (ok_or DbPanic (comparison_from_db s)) (\<lambda>operator.
         bind_result (ok_or DbPanic (json_get value (lit ''value''))) (\<lambda>v.
         bind_result (json_enum severity_from_db v) (\<lambda>sev.
           Inr (Rule_Severity operator sev)))))
       else if tag = lit ''EVENT_TYPE'' then
         bind_result (json_enums case_event_type_from_db (json_get value (lit ''values'')))
           (\<lambda>vs. Inr (Rule_EventType vs))
       else if tag = lit ''GEOGRAPHY'' then
         bind_result (geo_area_names value) (\<lambda>names.
         bind_result (collect_results (map (map_err (\<lambda>_. DbPanic) \<circ> geo_area_new) names))
           (\<lambda>areas. Inr (Rule_Geography areas)))
       else if tag = lit ''VISIBILITY'' then
         bind_result (json_enums alert_visibility_from_db (json_get value (lit ''values'')))
           (\<lambda>vs. Inr (Rule_Visibility vs))
       else Inl DbPanic)"

definition subscription_from_row :: "subscription_row \<Rightarrow> db_error + subscription" where
  "subscription_from_row r =
     bind_result (ok_or DbPanic (json_as_array (subscription_row_rules r))) (\<lambda>js.
     bind_result (collect_results (map rule_from_json js)) (\<lambda>rules.
     bind_result (map_err (\<lambda>_. DbPanic)
       (subscription_new (SubscriptionId (subscription_row_id r)) (ConsumerId (subscription_row_consumer_id r))
          (subscription_row_version r) rules)) (\<lambda>s.
       Inr (subscription_with_created_at s (subscription_row_created_at r)))))"

section \<open>The subscription repository\<close>

datatype subscription_update_outcome = SubscriptionUpdate_Updated | SubscriptionUpdate_Conflict

definition subscription_row_checks :: "subscription_row \<Rightarrow> bool" where
  "subscription_row_checks r \<longleftrightarrow>
     0 <s subscription_row_version r \<and> (\<exists>js. subscription_row_rules r = JArr js \<and> js \<noteq> [])"

text \<open>\<open>created_at\<close> is the text the database gives to \<open>now()\<close>.\<close>

definition subscription_repo_create :: "rstring \<Rightarrow> subscription \<Rightarrow> database \<Rightarrow> db_error + database" where
  "subscription_repo_create created_at s db =
     (let r = \<lparr>subscription_row_id = subscription_uuid (subscription_id s),
               subscription_row_consumer_id = consumer_uuid (subscription_consumer_id s),
               subscription_row_version = subscription_version s,
               subscription_row_rules = rules_to_json (subscription_rules s),
               subscription_row_created_at = created_at\<rparr> in
      if \<not> subscription_row_checks r then Inl DbError_CheckViolation
      else bind_result (insert_row subscription_row_id r (db_subscriptions db))
             (\<lambda>rows. Inr (db\<lparr>db_subscriptions := rows\<rparr>)))"

definition subscription_find_by_id ::
  "database \<Rightarrow> subscription_id \<Rightarrow> db_error + subscription option" where
  "subscription_find_by_id db i =
     (case find (\<lambda>r. subscription_row_id r = subscription_uuid i) (db_subscriptions db) of
        None \<Rightarrow> Inr None
      | Some r \<Rightarrow> bind_result (subscription_from_row r) (\<lambda>s. Inr (Some s)))"

definition subscription_find_by_consumer ::
  "database \<Rightarrow> consumer_id \<Rightarrow> db_error + subscription list" where
  "subscription_find_by_consumer db c =
     collect_results (map subscription_from_row
       (filter (\<lambda>r. subscription_row_consumer_id r = consumer_uuid c) (db_subscriptions db)))"

definition subscription_list_all :: "database \<Rightarrow> db_error + subscription list" where
  "subscription_list_all db = collect_results (map subscription_from_row (db_subscriptions db))"

definition subscription_list_page :: "database \<Rightarrow> nat \<Rightarrow> nat \<Rightarrow> db_error + subscription list" where
  "subscription_list_page db limit offset =
     collect_results (map subscription_from_row (take limit (drop offset (rev (db_subscriptions db)))))"

text \<open>\<open>audit_id\<close> is the UUID the method draws for its audit row.\<close>

definition subscription_repo_update ::
  "subscription \<Rightarrow> actor \<Rightarrow> uuid \<Rightarrow> uuid \<Rightarrow> database \<Rightarrow>
   db_error + database \<times> subscription_update_outcome" where
  "subscription_repo_update s a request_id audit_id db =
     (let matches = (\<lambda>r. subscription_row_id r = subscription_uuid (subscription_id s) \<and>
                        subscription_row_version r = subscription_version s - 1);
          update = (\<lambda>r. r\<lparr>subscription_row_version := subscription_version s,
                         subscription_row_rules := rules_to_json (subscription_rules s)\<rparr>);
          rows_affected = length (filter matches (db_subscriptions db));
          db1 = db\<lparr>db_subscriptions := map (\<lambda>r. if matches r then update r else r) (db_subscriptions db)\<rparr>
      in if rows_affected > 0 \<and> (\<not> 0 <s subscription_version s \<or> subscription_rules s = [])
         then Inl DbError_CheckViolation
         else if rows_affected \<noteq> 1 then Inr (db, SubscriptionUpdate_Conflict)
         else bind_result (insert_row audit_row_id
             \<lparr>audit_row_id = audit_id, audit_row_actor_type = actor_to_db a,
              audit_row_actor_id = actor_id a,
              audit_row_organization_id = organization_id_for_actor db1 (actor_id a),
              audit_row_action = lit ''SUBSCRIPTION_UPDATED'',
              audit_row_resource_type = lit ''SUBSCRIPTION'',
              audit_row_resource_id = Some (subscription_uuid (subscription_id s)),
              audit_row_request_id = request_id, audit_row_metadata = JObj []\<rparr> (db_audit db1))
           (\<lambda>rows. Inr (db1\<lparr>db_audit := rows\<rparr>, SubscriptionUpdate_Updated)))"

definition subscription_repo_delete :: "subscription_id \<Rightarrow> database \<Rightarrow> database" where
  "subscription_repo_delete i db =
     db\<lparr>db_subscriptions := filter (\<lambda>r. subscription_row_id r \<noteq> subscription_uuid i) (db_subscriptions db)\<rparr>"

section \<open>Delivery preferences\<close>

definition channel_endpoint_to_json :: "channel_endpoint \<Rightarrow> json" where
  "channel_endpoint_to_json e = JObj
     [(lit ''channel'', JStr (channel_type_to_db (endpoint_channel e))),
      (lit ''address'', JStr (endpoint_address e))]"

definition channels_to_json :: "channel_endpoint list \<Rightarrow> json" where
  "channels_to_json es = JArr (map channel_endpoint_to_json es)"

definition channel_endpoint_from_json :: "json \<Rightarrow> db_error + channel_endpoint" where
  "channel_endpoint_from_json value =
     bind_result (ok_or DbPanic (Option.bind (json_get value (lit ''channel'')) json_as_str)) (\<lambda>s.
     bind_result (ok_or DbPanic (channel_type_from_db s)) (\<lambda>ch.
     bind_result (ok_or DbPanic (Option.bind (json_get value (lit ''address'')) json_as_str)) (\<lambda>address.
       map_err (\<lambda>_. DbPanic) (channel_endpoint_new ch address))))"

definition preference_upsert ::
  "consumer_id \<Rightarrow> delivery_preference \<Rightarrow> database \<Rightarrow> db_error + database" where
  "preference_upsert c p db =
     (let r = \<lparr>preference_row_consumer_id = consumer_uuid c,
               preference_row_strategy = delivery_strategy_to_db (preference_strategy p),
               preference_row_channels = channels_to_json (preference_channels p)\<rparr> in
      if preference_channels p = [] then Inl DbError_CheckViolation
      else if consumer_uuid c \<in> preference_row_consumer_id ` set (db_preferences db)
      then Inr (db\<lparr>db_preferences := map (\<lambda>x. if preference_row_consumer_id x = consumer_uuid c then r else x)
                                       (db_preferences db)\<rparr>)
      else Inr (db\<lparr>db_preferences := db_preferences db @ [r]\<rparr>))"

definition preference_from_row :: "preference_row \<Rightarrow> db_error + delivery_preference" where
  "preference_from_row r =
     bind_result (ok_or DbPanic (delivery_strategy_from_db (preference_row_strategy r))) (\<lambda>st.
     bind_result (ok_or DbPanic (json_as_array (preference_row_channels r))) (\<lambda>js.
     bind_result (collect_results (map channel_endpoint_from_json js)) (\<lambda>es.
       map_err (\<lambda>_. DbPanic) (delivery_preference_new st es))))"

definition preference_find_by_consumer ::
  "database \<Rightarrow> consumer_id \<Rightarrow> db_error + delivery_preference option" where
  "preference_find_by_consumer db c =
     (case find (\<lambda>r. preference_row_consumer_id r = consumer_uuid c) (db_preferences db) of
        None \<Rightarrow> Inr None
      | Some r \<Rightarrow> bind_result (preference_from_row r) (\<lambda>p. Inr (Some p)))"

section \<open>Consumers\<close>

definition consumer_insert ::
  "consumer \<Rightarrow> bytes option \<Rightarrow> database \<Rightarrow> db_error + database" where
  "consumer_insert c token_hash db =
     (if btrim_blank (consumer_name c) then Inl DbError_CheckViolation
      else bind_result (insert_row consumer_row_id
        \<lparr>consumer_row_id = consumer_uuid (consumer_id c), consumer_row_name = consumer_name c,
         consumer_row_type = consumer_type_to_db (consumer_type c), consumer_row_token_hash = token_hash,
         consumer_row_locale = consumer_locale c\<rparr> (db_consumers db))
        (\<lambda>rows. Inr (db\<lparr>db_consumers := rows\<rparr>)))"

definition consumer_repo_create :: "consumer \<Rightarrow> database \<Rightarrow> db_error + database" where
  "consumer_repo_create c db = consumer_insert c None db"

definition consumer_create_with_management_token ::
  "consumer \<Rightarrow> bytes \<Rightarrow> database \<Rightarrow> db_error + database" where
  "consumer_create_with_management_token c token_hash db = consumer_insert c (Some token_hash) db"

definition consumer_management_token_hash :: "database \<Rightarrow> consumer_id \<Rightarrow> bytes option" where
  "consumer_management_token_hash db c =
     Option.bind (find (\<lambda>r. consumer_row_id r = consumer_uuid c) (db_consumers db)) consumer_row_token_hash"

definition consumer_from_row :: "consumer_row \<Rightarrow> db_error + consumer" where
  "consumer_from_row r =
     bind_result (ok_or DbPanic (consumer_type_from_db (consumer_row_type r))) (\<lambda>ct.
       Inr (consumer_reconstitute (ConsumerId (consumer_row_id r)) (consumer_row_name r) ct
              (consumer_row_locale r)))"

definition consumer_find_by_id :: "database \<Rightarrow> consumer_id \<Rightarrow> db_error + consumer option" where
  "consumer_find_by_id db c =
     (case find (\<lambda>r. consumer_row_id r = consumer_uuid c) (db_consumers db) of
        None \<Rightarrow> Inr None
      | Some r \<Rightarrow> bind_result (consumer_from_row r) (\<lambda>x. Inr (Some x)))"

definition consumer_list ::
  "database \<Rightarrow> consumer_type option \<Rightarrow> nat \<Rightarrow> nat \<Rightarrow> db_error + consumer list" where
  "consumer_list db ct limit offset =
     collect_results (map consumer_from_row (take limit (drop offset (rev
       (filter (\<lambda>r. case ct of None \<Rightarrow> True | Some t \<Rightarrow> consumer_row_type r = consumer_type_to_db t)
          (db_consumers db))))))"

section \<open>Round trips\<close>

definition geo_area_wf :: "geo_area \<Rightarrow> bool" where
  "geo_area_wf a \<longleftrightarrow> geo_area_new (geo_area_text a) = Inr a"

fun rule_wf :: "subscription_rule \<Rightarrow> bool" where
  "rule_wf (Rule_Geography areas) \<longleftrightarrow> list_all geo_area_wf areas"
| "rule_wf _ \<longleftrightarrow> True"

lemma json_enums_labels:
  assumes "\<And>x. from_db (to_db x) = Some x"
  shows "json_enums from_db (Some (JArr (map (JStr \<circ> to_db) xs))) = Inr xs"
  by (simp add: json_enums_def collect_results_Inr assms)

lemma rule_json: "rule_wf r \<Longrightarrow> rule_from_json (rule_to_json r) = Inr r"
proof (cases r)
  case (Rule_Geography areas)
  assume "rule_wf r"
  with Rule_Geography have "\<forall>a \<in> set areas. geo_area_new (geo_area_text a) = Inr a"
    by (simp add: list_all_iff geo_area_wf_def)
  then have *: "collect_results (map (map_err (\<lambda>_. DbPanic) \<circ> geo_area_new) (map geo_area_text areas)) = Inr areas"
    by (simp add: collect_results_Inr)
  have "geo_area_names (rule_to_json r) = Inr (map geo_area_text areas)"
    by (simp add: Rule_Geography geo_area_names_def collect_results_Inr)
  with * show ?thesis by (simp add: Rule_Geography rule_from_json_def)
qed (simp_all add: rule_from_json_def json_enums_labels incident_type_db.from_to severity_db.from_to
    comparison_db.from_to case_event_type_db.from_to alert_visibility_db.from_to)

lemma legacy_area_json:
  "geo_area_new s = Inr a \<Longrightarrow>
     rule_from_json (JObj [(lit ''rule'', JStr (lit ''GEOGRAPHY'')), (lit ''area'', JStr s)]) =
       Inr (Rule_Geography [a])"
  by (simp add: rule_from_json_def geo_area_names_def collect_results_Inr)

lemma channel_endpoint_json:
  "channel_endpoint_new (endpoint_channel e) (endpoint_address e) = Inr e \<Longrightarrow>
     channel_endpoint_from_json (channel_endpoint_to_json e) = Inr e"
  by (simp add: channel_endpoint_from_json_def channel_endpoint_to_json_def channel_type_db.from_to)

section \<open>The subscription table\<close>

lemma subscription_from_row_Inr:
  "subscription_from_row r = Inr s \<longleftrightarrow>
     subscription_id s = SubscriptionId (subscription_row_id r) \<and>
     subscription_consumer_id s = ConsumerId (subscription_row_consumer_id r) \<and>
     subscription_version s = subscription_row_version r \<and>
     subscription_created_at s = Some (subscription_row_created_at r) \<and> subscription_rules s \<noteq> [] \<and>
     (\<exists>js. subscription_row_rules r = JArr js \<and> map rule_from_json js = map Inr (subscription_rules s))"
  by (cases s; cases "subscription_row_rules r")
     (auto simp: subscription_from_row_def subscription_with_created_at_def result_simps)

definition subscription_store_ok :: "database \<Rightarrow> bool" where
  "subscription_store_ok db \<longleftrightarrow>
     distinct (map subscription_row_id (db_subscriptions db)) \<and>
     (\<forall>r \<in> set (db_subscriptions db). \<exists>s. subscription_from_row r = Inr s)"

definition subscription_lookup :: "database \<Rightarrow> subscription_id \<Rightarrow> subscription option" where
  "subscription_lookup db i =
     row_lookup subscription_row_id subscription_from_row (db_subscriptions db) (subscription_uuid i)"

lemma subscription_find_by_id_lookup:
  assumes "subscription_store_ok db"
  shows "subscription_find_by_id db i = Inr (subscription_lookup db i)"
proof (cases "find (\<lambda>r. subscription_row_id r = subscription_uuid i) (db_subscriptions db)")
  case (Some r)
  then have "r \<in> set (db_subscriptions db)" by (auto simp: find_Some_iff)
  with assms obtain s where "subscription_from_row r = Inr s" by (auto simp: subscription_store_ok_def)
  with Some show ?thesis by (simp add: subscription_find_by_id_def subscription_lookup_def row_lookup_def)
qed (simp add: subscription_find_by_id_def subscription_lookup_def row_lookup_def)

lemma subscription_lookup_Some:
  assumes "subscription_store_ok db"
  shows "subscription_lookup db i = Some s \<longleftrightarrow>
     (\<exists>r \<in> set (db_subscriptions db). subscription_row_id r = subscription_uuid i \<and> subscription_from_row r = Inr s)"
  using assms by (simp add: subscription_lookup_def subscription_store_ok_def row_lookup_Some)

lemma subscription_list_all_lookup:
  assumes ok: "subscription_store_ok db"
  obtains ss where "subscription_list_all db = Inr ss"
    and "\<And>s. s \<in> set ss \<longleftrightarrow> subscription_lookup db (subscription_id s) = Some s"
    and "distinct (map subscription_id ss)"
proof -
  let ?d = "\<lambda>r. the (to_ok (subscription_from_row r))"
  have d: "subscription_from_row r = Inr (?d r)" if "r \<in> set (db_subscriptions db)" for r
    using ok that by (auto simp: subscription_store_ok_def)
  then have l: "subscription_list_all db = Inr (map ?d (db_subscriptions db))"
    by (simp add: subscription_list_all_def collect_results_Inr)
  have i: "subscription_id (?d r) = SubscriptionId (subscription_row_id r)" if "r \<in> set (db_subscriptions db)" for r
    using d [OF that] by (simp only: subscription_from_row_Inr)
  show thesis
  proof (rule that [OF l])
    show "s \<in> set (map ?d (db_subscriptions db)) \<longleftrightarrow> subscription_lookup db (subscription_id s) = Some s" for s
    proof
      assume "s \<in> set (map ?d (db_subscriptions db))"
      then obtain r where "r \<in> set (db_subscriptions db)" "s = ?d r" by auto
      then show "subscription_lookup db (subscription_id s) = Some s"
        using d i by (auto simp: subscription_lookup_Some [OF ok])
    next
      assume "subscription_lookup db (subscription_id s) = Some s"
      then obtain r where "r \<in> set (db_subscriptions db)" "subscription_from_row r = Inr s"
        by (auto simp: subscription_lookup_Some [OF ok])
      then show "s \<in> set (map ?d (db_subscriptions db))" by force
    qed
    have "map subscription_id (map ?d (db_subscriptions db)) = map SubscriptionId (map subscription_row_id (db_subscriptions db))"
      using i by simp
    then show "distinct (map subscription_id (map ?d (db_subscriptions db)))"
      using ok by (simp add: subscription_store_ok_def distinct_map inj_on_def del: map_map)
  qed
qed

text \<open>A write of the update method. Every \<open>GeoArea\<close> of the program comes from its constructor, so
  only well-formed rules are written.\<close>

record subscription_write =
  write_subscription :: subscription
  write_actor :: actor
  write_request_id :: uuid
  write_audit_id :: uuid

definition subscription_save :: "database \<Rightarrow> subscription_write \<Rightarrow> database \<times> bool" where
  "subscription_save db w =
     (if list_all rule_wf (subscription_rules (write_subscription w)) then
        case subscription_repo_update (write_subscription w) (write_actor w) (write_request_id w)
               (write_audit_id w) db of
          Inl e \<Rightarrow> (db, False) | Inr (db', out) \<Rightarrow> (db', out = SubscriptionUpdate_Updated)
      else (db, False))"

lemma subscription_repo_update_Inr:
  shows "subscription_repo_update s a rq au db = Inr (db', SubscriptionUpdate_Updated) \<Longrightarrow>
      subscription_rules s \<noteq> [] \<and>
      (\<exists>r \<in> set (db_subscriptions db). subscription_row_id r = subscription_uuid (subscription_id s) \<and>
         subscription_row_version r = subscription_version s - 1) \<and>
      db_subscriptions db' = map (\<lambda>r. if subscription_row_id r = subscription_uuid (subscription_id s) \<and>
           subscription_row_version r = subscription_version s - 1
         then r\<lparr>subscription_row_version := subscription_version s,
                subscription_row_rules := rules_to_json (subscription_rules s)\<rparr> else r) (db_subscriptions db)"
    and "subscription_repo_update s a rq au db = Inr (db', SubscriptionUpdate_Conflict) \<Longrightarrow> db' = db"
proof -
  assume u: "subscription_repo_update s a rq au db = Inr (db', SubscriptionUpdate_Updated)"
  let ?P = "\<lambda>r. subscription_row_id r = subscription_uuid (subscription_id s) \<and>
         subscription_row_version r = subscription_version s - 1"
  have hit: "length (filter ?P (db_subscriptions db)) = 1"
    and rules: "subscription_rules s \<noteq> []"
    and rows: "db_subscriptions db' = map (\<lambda>r. if ?P r then r\<lparr>subscription_row_version := subscription_version s,
                subscription_row_rules := rules_to_json (subscription_rules s)\<rparr> else r) (db_subscriptions db)"
    using u by (auto simp: subscription_repo_update_def Let_def bind_result_Inr split: if_splits)
  from hit have "filter ?P (db_subscriptions db) \<noteq> []" by (metis list.size(3) zero_neq_one)
  then have "\<exists>r \<in> set (db_subscriptions db). ?P r" by (simp add: filter_empty_conv)
  with rules rows show "subscription_rules s \<noteq> [] \<and> (\<exists>r \<in> set (db_subscriptions db). ?P r) \<and>
      db_subscriptions db' = map (\<lambda>r. if ?P r then r\<lparr>subscription_row_version := subscription_version s,
                subscription_row_rules := rules_to_json (subscription_rules s)\<rparr> else r) (db_subscriptions db)"
    by simp
next
  assume "subscription_repo_update s a rq au db = Inr (db', SubscriptionUpdate_Conflict)"
  then show "db' = db" by (auto simp: subscription_repo_update_def Let_def bind_result_Inr split: if_splits)
qed

lemma subscription_updated:
  assumes ok: "subscription_store_ok db" and wf: "list_all rule_wf (subscription_rules s)"
    and u: "subscription_repo_update s a rq au db = Inr (db', SubscriptionUpdate_Updated)"
  shows "subscription_store_ok db' \<and>
    (\<exists>s0. subscription_lookup db (subscription_id s) = Some s0 \<and> subscription_version s0 + 1 = subscription_version s \<and>
      subscription_lookup db' (subscription_id s) =
        Some (s0\<lparr>subscription_version := subscription_version s, subscription_rules := subscription_rules s\<rparr>)) \<and>
    (\<forall>k. k \<noteq> subscription_id s \<longrightarrow> subscription_lookup db' k = subscription_lookup db k)"
proof -
  let ?i = "subscription_uuid (subscription_id s)"
  let ?hit = "\<lambda>r. subscription_row_version r = subscription_version s - 1"
  let ?new = "\<lambda>r. r\<lparr>subscription_row_version := subscription_version s,
                    subscription_row_rules := rules_to_json (subscription_rules s)\<rparr>"
  note cr = subscription_repo_update_Inr(1) [OF u]
  have rows: "db_subscriptions db' = map (\<lambda>r. if subscription_row_id r = ?i \<and> ?hit r then ?new r else r) (db_subscriptions db)"
    and ne: "subscription_rules s \<noteq> []" using cr by blast+
  obtain r where r: "r \<in> set (db_subscriptions db)" "subscription_row_id r = ?i" "?hit r" using cr by blast
  have dist: "distinct (map subscription_row_id (db_subscriptions db))" using ok by (simp add: subscription_store_ok_def)
  have dec: "subscription_from_row (?new x) =
      Inr (x0\<lparr>subscription_version := subscription_version s, subscription_rules := subscription_rules s\<rparr>)"
    if "subscription_from_row x = Inr x0" for x x0
    using that ne wf by (simp add: subscription_from_row_Inr rules_to_json_def rule_json list_all_iff)
  have ids: "map subscription_row_id (db_subscriptions db') = map subscription_row_id (db_subscriptions db)"
    by (simp add: rows)
  have "\<exists>t. subscription_from_row x = Inr t" if "x \<in> set (db_subscriptions db')" for x
  proof -
    from that obtain y where y: "y \<in> set (db_subscriptions db)"
      "x = (if subscription_row_id y = ?i \<and> ?hit y then ?new y else y)" unfolding rows set_map by blast
    with ok obtain t where "subscription_from_row y = Inr t" by (auto simp: subscription_store_ok_def)
    with dec [OF this] y(2) show ?thesis by (cases "subscription_row_id y = ?i \<and> ?hit y") auto
  qed
  then have ok': "subscription_store_ok db'"
    using ok ids by (simp add: subscription_store_ok_def)
  obtain s0 where s0: "subscription_from_row r = Inr s0" using ok r by (auto simp: subscription_store_ok_def)
  have look: "subscription_lookup db' k = (if subscription_uuid k = ?i
      then Option.bind (find (\<lambda>r. subscription_row_id r = ?i) (db_subscriptions db))
             (\<lambda>r. to_ok (subscription_from_row (if ?hit r then ?new r else r)))
      else subscription_lookup db k)" for k
    using row_lookup_update [OF dist, of ?new subscription_from_row ?i ?hit "subscription_uuid k"]
    by (simp add: subscription_lookup_def rows)
  have "find (\<lambda>x. subscription_row_id x = ?i) (db_subscriptions db) = Some r"
    using find_unique_id [OF dist r(1)] r(2) by simp
  then have "subscription_lookup db (subscription_id s) = Some s0"
    and "subscription_lookup db' (subscription_id s) =
        Some (s0\<lparr>subscription_version := subscription_version s, subscription_rules := subscription_rules s\<rparr>)"
    using s0 dec [OF s0] r(3) look [of "subscription_id s"] by (simp_all add: subscription_lookup_def row_lookup_def)
  moreover have "subscription_version s0 + 1 = subscription_version s"
    using s0 r(3) by (simp add: subscription_from_row_Inr)
  moreover have "subscription_lookup db' k = subscription_lookup db k" if "k \<noteq> subscription_id s" for k
    using look [of k] that subscription_id.expand by auto
  ultimately show ?thesis using ok' by blast
qed

interpretation subscription_store: versioned_store subscription_store_ok subscription_lookup subscription_version
  subscription_save "\<lambda>w. subscription_id (write_subscription w)" "\<lambda>w. subscription_version (write_subscription w)"
proof unfold_locales
  fix db and w :: subscription_write and k
  assume ok: "subscription_store_ok db"
  let ?s = "write_subscription w"
  have refused: "fst (subscription_save db w) = db" if "\<not> snd (subscription_save db w)"
    using that subscription_repo_update_Inr(2) [of ?s "write_actor w" "write_request_id w" "write_audit_id w" db]
    by (auto simp: subscription_save_def split: sum.splits if_splits) (metis (full_types) subscription_update_outcome.exhaust)
  have wf: "list_all rule_wf (subscription_rules ?s)" if "snd (subscription_save db w)"
    using that by (auto simp: subscription_save_def split: if_splits)
  have applied: "subscription_repo_update ?s (write_actor w) (write_request_id w) (write_audit_id w) db =
      Inr (fst (subscription_save db w), SubscriptionUpdate_Updated)" if "snd (subscription_save db w)"
    using that by (auto simp: subscription_save_def split: sum.splits prod.splits if_splits)
  show "fst (subscription_save db w) = db" if "\<not> snd (subscription_save db w)" using refused that .
  show "subscription_store_ok (fst (subscription_save db w))"
    using ok refused subscription_updated [OF ok wf applied] by (cases "snd (subscription_save db w)") auto
  show "\<exists>a0 a1. subscription_lookup db (subscription_id ?s) = Some a0 \<and>
      subscription_version a0 + 1 = subscription_version ?s \<and>
      subscription_lookup (fst (subscription_save db w)) (subscription_id ?s) = Some a1 \<and>
      subscription_version a1 = subscription_version ?s" if "snd (subscription_save db w)"
    using subscription_updated [OF ok wf applied] that by fastforce
  show "subscription_lookup (fst (subscription_save db w)) k = subscription_lookup db k" if "k \<noteq> subscription_id ?s"
    using that refused subscription_updated [OF ok wf applied] by (cases "snd (subscription_save db w)") auto
qed

section \<open>Properties\<close>

text \<open>C27: Rules whose areas come from the constructor survive being stored as JSON, in every variant;
  rows written before several areas were supported are still read.\<close>

theorem subscription_rules_round_trip:
  assumes "list_all rule_wf rules" and "geo_area_new s = Inr a"
  shows "json_as_array (rules_to_json rules) = Some (map rule_to_json rules) \<and>
     collect_results (map rule_from_json (map rule_to_json rules)) = Inr rules \<and>
     rule_from_json (JObj [(lit ''rule'', JStr (lit ''GEOGRAPHY'')), (lit ''area'', JStr s)]) = Inr (Rule_Geography [a])"
  using assms by (auto simp: rules_to_json_def collect_results_Inr rule_json list_all_iff legacy_area_json)

theorem subscription_rules_round_trip_witness:
  "collect_results (map rule_from_json (map rule_to_json
     [Rule_Severity Comparison_GreaterThan Severity_Low, Rule_Geography [GeoArea (lit ''Yaounde'')]])) =
   Inr [Rule_Severity Comparison_GreaterThan Severity_Low, Rule_Geography [GeoArea (lit ''Yaounde'')]]"
proof -
  have "geo_area_new (lit ''Yaounde'') = Inr (GeoArea (lit ''Yaounde''))"
    by (simp add: geo_area_new_def Let_def trim_def lit_def is_whitespace_def)
  from subscription_rules_round_trip [OF _ this, of "[Rule_Severity Comparison_GreaterThan Severity_Low,
      Rule_Geography [GeoArea (lit ''Yaounde'')]]"] this
  show ?thesis by (simp add: geo_area_wf_def)
qed

text \<open>Among any concurrent rule updates, at most one is applied per subscription and version, and
  each stored subscription advances by exactly the updates applied to it.\<close>

lemma subscription_updates_serialized:
  assumes "subscription_store_ok db" and "length ws < 2 ^ 32"
  shows "admitted (\<lambda>w. (subscription_id (write_subscription w), subscription_version (write_subscription w))) (k, v) ws
       (snd (run_checks subscription_save db ws)) \<le> 1 \<and>
     subscription_store_ok (fst (run_checks subscription_save db ws)) \<and>
     (\<forall>s. subscription_lookup db k = Some s \<longrightarrow>
        (\<exists>s'. subscription_lookup (fst (run_checks subscription_save db ws)) k = Some s' \<and>
           subscription_version s' = subscription_version s +
             of_nat (admitted (\<lambda>w. subscription_id (write_subscription w)) k ws (snd (run_checks subscription_save db ws)))))"
  using subscription_store.one_write_per_version [OF assms(1)] subscription_store.run_ok [OF assms(1)]
    subscription_store.run_version [OF assms(1)] assms(2) by simp

definition sample_subscription :: "u32 \<Rightarrow> subscription" where
  "sample_subscription v = \<lparr>subscription_id = SubscriptionId 1, subscription_consumer_id = ConsumerId 2,
     subscription_version = v, subscription_rules = [Rule_Severity Comparison_GreaterThan Severity_Low],
     subscription_created_at = Some (lit ''t'')\<rparr>"

definition sample_subscription_db :: database where
  "sample_subscription_db = empty_database\<lparr>db_subscriptions := [\<lparr>subscription_row_id = 1,
     subscription_row_consumer_id = 2, subscription_row_version = 1,
     subscription_row_rules = rules_to_json [Rule_Severity Comparison_GreaterThan Severity_Low],
     subscription_row_created_at = lit ''t''\<rparr>]\<rparr>"

lemma sample_subscription_decodes:
  "r \<in> set (db_subscriptions sample_subscription_db) \<Longrightarrow> subscription_from_row r = Inr (sample_subscription 1)"
  by (simp add: sample_subscription_db_def subscription_from_row_Inr sample_subscription_def rules_to_json_def
      rule_json [of "Rule_Severity Comparison_GreaterThan Severity_Low", simplified])

end
