(* ===== verification/Alert_Api.thy ===== *)
theory Alert_Api
  imports Case_Api Alert_Store Subscription_Store
begin

text \<open>
  The alert endpoints (\<open>apps/api/src/alerts.rs\<close>): who may issue, read and cancel an alert, the scan that pages
  through the alerts a caller can read, and the handlers.
\<close>

definition alert_not_found :: "uuid \<Rightarrow> api_error" where
  "alert_not_found rid = api_error 404 ''ALERT_NOT_FOUND'' ''No alert exists with the given id.'' rid"

definition alert_persistence_failed :: "uuid \<Rightarrow> api_error" where
  "alert_persistence_failed rid =
     api_error 500 ''ALERT_PERSISTENCE_FAILED'' ''The alert could not be saved. Please try again.'' rid"

record create_alert_request =
  create_alert_policy_id :: rstring
  create_alert_severity :: severity
  create_alert_target_geography :: rstring
  create_alert_fields :: "alert_field_value list"

record alert_response =
  response_alert_id :: uuid
  response_alert_case_id :: uuid
  response_policy_id :: rstring
  response_policy_version :: u32
  response_alert_incident_type :: incident_type
  response_severity :: severity
  response_visibility :: alert_visibility
  response_trigger :: case_event_type
  response_target_geography :: rstring
  response_alert_status :: alert_status
  response_fields :: "alert_field_value list"
  response_alert_version :: u64
  response_can_cancel :: bool

definition alert_response :: "alert \<Rightarrow> alert_response" where
  "alert_response al =
     \<lparr>response_alert_id = alert_uuid (Alert_Model.alert_id al),
      response_alert_case_id = case_uuid (alert_case_id al),
      response_policy_id = alert_policy_code (alert_policy_id al),
      response_policy_version = alert_policy_version al,
      response_alert_incident_type = alert_incident_type al,
      response_severity = alert_severity al,
      response_visibility = Alert_Model.alert_visibility al,
      response_trigger = alert_trigger al,
      response_target_geography = target_geography_text (alert_target_geography al),
      response_alert_status = Alert_Model.alert_status al,
      response_fields = alert_fields al,
      response_alert_version = alert_version al,
      response_can_cancel = False\<rparr>"

section \<open>Who may issue and cancel\<close>

text \<open>A reviewer without a membership counts as a member of no organization.\<close>

definition membership_or_default :: "membership option \<Rightarrow> membership" where
  "membership_or_default found =
     (case found of None \<Rightarrow> \<lparr>member_role = Role_Member, member_organization_id = None\<rparr> | Some m \<Rightarrow> m)"

definition issuing_organization ::
  "database \<Rightarrow> actor \<Rightarrow> alert_visibility \<Rightarrow> uuid \<Rightarrow> api_error + organization_id option" where
  "issuing_organization db a vis rid =
     (case a of
        Actor_Reviewer reviewer \<Rightarrow>
          bind_result (map_err (\<lambda>_. alert_persistence_failed rid) (membership_find db reviewer)) (\<lambda>found.
          let m = membership_or_default found in
          bind_result (map_err (\<lambda>_. alert_persistence_failed rid) (member_organization db m)) (\<lambda>g.
          bind_result (map_err (\<lambda>_. api_error 403 ''ORGANIZATION_NOT_TRUSTED_FOR_ALERT_VISIBILITY''
                ''Your organization is not trusted to issue alerts at this visibility.'' rid)
              (authorize_alert_issuance m g vis)) (\<lambda>_.
            Inr (member_organization_id m))))
      | _ \<Rightarrow> Inl (api_error 403 ''NOT_AUTHORIZED'' ''An authorized reviewer is required to create alerts.'' rid))"

definition authorize_cancellation_by_organization ::
  "database \<Rightarrow> actor \<Rightarrow> organization_id option \<Rightarrow> uuid \<Rightarrow> api_error + unit" where
  "authorize_cancellation_by_organization db a issuer rid =
     (case a of
        Actor_Reviewer reviewer \<Rightarrow>
          bind_result (map_err (\<lambda>_. alert_persistence_failed rid) (membership_find db reviewer)) (\<lambda>found.
            map_err (\<lambda>_. api_error 403 ''NOT_AUTHORIZED''
                ''You may not cancel an alert issued by another organization.'' rid)
              (authorize_alert_cancellation (membership_or_default found) issuer))
      | _ \<Rightarrow> Inr ())"

section \<open>Who may read\<close>

record AlertAccess =
  access_membership :: membership
  access_organization :: "organization option"
  access_subscriptions :: "subscription list"

definition can_read :: "AlertAccess \<Rightarrow> alert \<Rightarrow> bool" where
  "can_read x al \<longleftrightarrow>
     member_role (access_membership x) = Role_PlatformAdmin \<or>
     (member_organization_id (access_membership x) \<noteq> None \<and>
      member_organization_id (access_membership x) = alert_issued_by_organization_id al) \<or>
     list_ex (\<lambda>s. decision_matched (evaluate_subscription s al)) (access_subscriptions x)"

definition can_cancel :: "AlertAccess \<Rightarrow> alert \<Rightarrow> bool" where
  "can_cancel x al \<longleftrightarrow>
     can_read x al \<and>
     authorize_alert_cancellation (access_membership x) (alert_issued_by_organization_id al) = Inr () \<and>
     authorize_alert_issuance (access_membership x) (access_organization x) (Alert_Model.alert_visibility al) = Inr ()"

definition access_response :: "AlertAccess \<Rightarrow> alert \<Rightarrow> alert_response" where
  "access_response x al = (alert_response al)\<lparr>response_can_cancel := can_cancel x al\<rparr>"

definition alert_access :: "database \<Rightarrow> actor \<Rightarrow> uuid \<Rightarrow> api_error + AlertAccess" where
  "alert_access db a rid =
     bind_result (api_membership db a rid) (\<lambda>m.
     bind_result (case member_organization_id m of
           Some i \<Rightarrow> map_err (\<lambda>_. alert_persistence_failed rid) (organization_find_by_id db i)
         | None \<Rightarrow> Inr None) (\<lambda>g.
     let consumer = Option.bind g (\<lambda>o'. if organization_is_active o' then organization_consumer_id o' else None) in
     bind_result (case consumer of
           Some i \<Rightarrow> map_err (\<lambda>_. alert_persistence_failed rid) (subscription_find_by_consumer db i)
         | None \<Rightarrow> Inr []) (\<lambda>ss.
       Inr \<lparr>access_membership = m, access_organization = g, access_subscriptions = ss\<rparr>)))"

definition audit_alert_read ::
  "uuid \<Rightarrow> actor \<Rightarrow> uuid option \<Rightarrow> uuid \<Rightarrow> database \<Rightarrow> api_error + database" where
  "audit_alert_read audit_id a resource_id rid db =
     (case a of
        Actor_Reviewer u \<Rightarrow>
          map_err (\<lambda>_. alert_persistence_failed rid)
            (audit_record audit_id u (lit ''ALERT_VIEWED'') (lit ''ALERT'') resource_id rid db)
      | _ \<Rightarrow> Inl (alert_not_found rid))"

section \<open>Creating\<close>

fun alert_creation_api_error :: "uuid \<Rightarrow> alert_creation_use_case_error \<Rightarrow> api_error" where
  "alert_creation_api_error rid (AlertCreationUseCase_NotAuthorized _) =
     api_error 403 ''NOT_AUTHORIZED'' ''Only an identified reviewer may create an alert with this visibility.'' rid"
| "alert_creation_api_error rid (AlertCreationUseCase_InvalidAlert (AlertCreation_CaseNotVerified _)) =
     api_error 409 ''CASE_NOT_VERIFIED'' ''The requested alert action is not allowed for this case state.'' rid"
| "alert_creation_api_error rid (AlertCreationUseCase_InvalidAlert (AlertCreation_IncidentTypeMismatch _ _)) =
     api_error 409 ''INCIDENT_TYPE_MISMATCH''
       ''The case's incident type does not match the policy's incident type.'' rid"
| "alert_creation_api_error rid (AlertCreationUseCase_InvalidAlert (AlertCreation_FieldNotAllowedByPolicy _)) =
     api_error 400 ''FIELD_NOT_ALLOWED_BY_POLICY'' ''A supplied field is not on this policy's allowlist.'' rid"
| "alert_creation_api_error rid (AlertCreationUseCase_InvalidAlert (AlertCreation_DuplicateField _)) =
     api_error 400 ''DUPLICATE_ALERT_FIELD'' ''A field was supplied more than once.'' rid"

text \<open>A registered policy that cannot be built is a panic.\<close>

definition create_alert ::
  "api_config \<Rightarrow> api_request \<Rightarrow> uuid \<Rightarrow> create_alert_request \<Rightarrow> database \<Rightarrow>
   database \<times> (api_error + nat \<times> alert_response)" where
  "create_alert cfg rq i req db =
     (let rid = api_request_id cfg rq in
      answer db (
      bind_result (api_actor cfg rq db) (\<lambda>a.
      bind_result (idempotency_key_from_headers (request_headers rq) rid) (\<lambda>key.
      bind_result (ok_or (api_error 400 ''UNKNOWN_ALERT_POLICY'' ''No alert policy is registered with this id.'' rid)
        (resolve_policy (create_alert_policy_id req))) (\<lambda>built.
      bind_result (map_err (\<lambda>_. alert_persistence_failed rid) built) (\<lambda>p.
      bind_result (map_err (\<lambda>_. api_error 400 ''INVALID_TARGET_GEOGRAPHY'' ''target_geography cannot be blank.'' rid)
        (target_geography_new (create_alert_target_geography req))) (\<lambda>geo.
      bind_result (issuing_organization db a (policy_visibility p) rid) (\<lambda>issuer.
      bind_result (bind_result (map_err (\<lambda>_. alert_persistence_failed rid) (case_find_by_id db (CaseId i)))
          (ok_or (api_error 404 ''CASE_NOT_FOUND'' ''No case exists with the given id.'' rid))) (\<lambda>c.
      bind_result (map_err (alert_creation_api_error rid)
        (create_alert_from_case (config_sha256 cfg) c p (create_alert_severity req) geo (create_alert_fields req)
           a rid key issuer (request_ids rq))) (\<lambda>creation.
      (case alert_repo_create (config_show_uuid cfg) creation db of
         Inr (db', AlertCreation_Created) \<Rightarrow> Inr (db', 201, alert_response (alert_creation_alert creation))
       | Inr (_, AlertCreation_Duplicate _) \<Rightarrow>
           Inl (api_error 409 ''IDEMPOTENCY_KEY_REUSED'' ''This Idempotency-Key was already used for an alert.'' rid)
       | Inl _ \<Rightarrow> Inl (alert_persistence_failed rid))))))))))))"

section \<open>Reading\<close>

definition find_alert :: "database \<Rightarrow> uuid \<Rightarrow> uuid \<Rightarrow> api_error + alert" where
  "find_alert db i rid =
     bind_result (map_err (\<lambda>_. alert_persistence_failed rid) (alert_find_by_id db (AlertId i)))
       (ok_or (alert_not_found rid))"

definition get_alert ::
  "api_config \<Rightarrow> api_request \<Rightarrow> uuid \<Rightarrow> database \<Rightarrow> database \<times> (api_error + alert_response)" where
  "get_alert cfg rq i db =
     (let rid = api_request_id cfg rq in
      answer db (
      bind_result (api_actor cfg rq db) (\<lambda>a.
      bind_result (map_err (\<lambda>_. api_error 403 ''NOT_AUTHORIZED'' ''Only an identified reviewer may view an alert.'' rid)
        (authorize a Capability_ViewCase)) (\<lambda>_.
      bind_result (find_alert db i rid) (\<lambda>al.
      bind_result (alert_access db a rid) (\<lambda>x.
        if \<not> can_read x al then Inl (alert_not_found rid)
        else bind_result (audit_alert_read (request_ids rq 0) a (Some i) rid db) (\<lambda>db'.
          Inr (db', access_response x al))))))))"

definition ALERT_DEFAULT_LIMIT :: nat where
  "ALERT_DEFAULT_LIMIT = 50"

definition ALERT_MAX_LIMIT :: nat where
  "ALERT_MAX_LIMIT = 100"

record list_alerts_query =
  alerts_query_status :: "alert_status option"
  alerts_query_visibility :: "alert_visibility option"
  alerts_query_limit :: "u32 option"
  alerts_query_offset :: "u32 option"

text \<open>The loop over one batch: the readable alerts are counted, those from \<open>offset\<close> on are collected, and the
  loop is left once \<open>limit\<close> of them are.\<close>

fun scan_batch ::
  "(alert \<Rightarrow> bool) \<Rightarrow> nat \<Rightarrow> nat \<Rightarrow> alert list \<Rightarrow> nat \<times> alert list \<Rightarrow> nat \<times> alert list" where
  "scan_batch readable limit offset [] (matched, selected) = (matched, selected)"
| "scan_batch readable limit offset (al # als) (matched, selected) =
     (if readable al
      then let selected' = (if offset \<le> matched then selected @ [al] else selected) in
           if length selected' = limit then (Suc matched, selected')
           else scan_batch readable limit offset als (Suc matched, selected')
      else scan_batch readable limit offset als (matched, selected))"

text \<open>The loop over the batches of a hundred.\<close>

function scan_alerts ::
  "(alert \<Rightarrow> bool) \<Rightarrow> nat \<Rightarrow> nat \<Rightarrow> alert_filter \<Rightarrow> database \<Rightarrow> nat \<Rightarrow> nat \<Rightarrow> alert list \<Rightarrow>
   db_error + alert list" where
  "scan_alerts readable limit offset f db scan_offset matched selected =
     (case alert_repo_list db f 100 scan_offset of
        Inl e \<Rightarrow> Inl e
      | Inr batch \<Rightarrow>
          let (matched', selected') = scan_batch readable limit offset batch (matched, selected) in
          if length batch < 100 \<or> length selected' = limit then Inr selected'
          else scan_alerts readable limit offset f db (scan_offset + 100) matched' selected')"
  by pat_completeness auto

text \<open>The rows a filter admits, latest first, and the alert of a row.\<close>

definition alert_rows :: "database \<Rightarrow> alert_filter \<Rightarrow> alert_row list" where
  "alert_rows db f =
     rev (filter (\<lambda>r. (case alert_filter_status f of None \<Rightarrow> True
                            | Some s \<Rightarrow> alert_row_status r = alert_status_to_db s) \<and>
                         (case alert_filter_visibility f of None \<Rightarrow> True
                            | Some v \<Rightarrow> alert_row_visibility r = alert_visibility_to_db v))
               (db_alerts db))"

definition alert_of_row :: "database \<Rightarrow> alert_row \<Rightarrow> db_error + alert" where
  "alert_of_row db r =
     bind_result (collect_results (map alert_field_of_row (field_rows_of_alert db (alert_row_id r)))) (alert_from_row r)"

lemma alert_repo_list_rows:
  "alert_repo_list db f n k = collect_results (map (alert_of_row db) (take n (drop k (alert_rows db f))))"
  by (simp add: alert_repo_list_def alert_of_row_def [abs_def] Let_def flip: alert_rows_def)

lemma length_alert_rows: "length (alert_rows db f) \<le> length (db_alerts db)"
  by (simp add: alert_rows_def)

lemma alert_repo_list_length:
  assumes "alert_repo_list db f n k = Inr batch"
  shows "length batch \<le> length (db_alerts db) - k"
proof -
  have "length batch = length (take n (drop k (alert_rows db f)))"
    using assms by (auto simp: alert_repo_list_rows collect_results_Inr dest: map_eq_imp_length_eq)
  then show ?thesis using length_alert_rows [of db f] by simp
qed

termination scan_alerts
proof (relation "measure (\<lambda>(readable, limit, offset, f, db, scan_offset, matched, selected).
    length (db_alerts db) - scan_offset)"; clarsimp)
  fix f :: alert_filter and db scan_offset batch
  assume "alert_repo_list db f 100 scan_offset = Inr batch" and "\<not> length batch < 100"
  then show "length (db_alerts db) - (scan_offset + 100) < length (db_alerts db) - scan_offset"
    using alert_repo_list_length [of db f 100 scan_offset batch] by linarith
qed

declare scan_alerts.simps [simp del]

definition list_alerts ::
  "api_config \<Rightarrow> api_request \<Rightarrow> list_alerts_query \<Rightarrow> database \<Rightarrow> database \<times> (api_error + alert_response list)" where
  "list_alerts cfg rq q db =
     (let rid = api_request_id cfg rq in
      answer db (
      bind_result (api_actor cfg rq db) (\<lambda>a.
      bind_result (map_err (\<lambda>_. api_error 403 ''NOT_AUTHORIZED'' ''Only an identified reviewer may list alerts.'' rid)
        (authorize a Capability_ViewCase)) (\<lambda>_.
      let limit = min (case alerts_query_limit q of None \<Rightarrow> ALERT_DEFAULT_LIMIT | Some n \<Rightarrow> unat n) ALERT_MAX_LIMIT;
          offset = (case alerts_query_offset q of None \<Rightarrow> 0 | Some n \<Rightarrow> unat n);
          f = \<lparr>alert_filter_status = alerts_query_status q, alert_filter_visibility = alerts_query_visibility q\<rparr> in
      bind_result (alert_access db a rid) (\<lambda>x.
      bind_result (map_err (\<lambda>_. alert_persistence_failed rid)
        (if member_role (access_membership x) = Role_PlatformAdmin then alert_repo_list db f limit offset
         else if access_subscriptions x = [] \<or> limit = 0 then Inr []
         else scan_alerts (can_read x) limit offset f db 0 0 [])) (\<lambda>als.
      bind_result (audit_alert_read (request_ids rq 0) a None rid db) (\<lambda>db'.
        Inr (db', map (access_response x) als))))))))"

section \<open>Cancelling\<close>

fun alert_cancellation_api_error :: "uuid \<Rightarrow> alert_cancellation_error \<Rightarrow> api_error" where
  "alert_cancellation_api_error rid (AlertCancellation_NotAuthorized _) =
     api_error 403 ''NOT_AUTHORIZED'' ''Only an identified reviewer may cancel an alert.'' rid"
| "alert_cancellation_api_error rid (AlertCancellation_InvalidTransition _) =
     api_error 409 ''ALERT_ALREADY_CANCELLED'' ''This alert is already cancelled.'' rid"

definition cancel_alert_handler ::
  "api_config \<Rightarrow> api_request \<Rightarrow> uuid \<Rightarrow> database \<Rightarrow> database \<times> (api_error + alert_response)" where
  "cancel_alert_handler cfg rq i db =
     (let rid = api_request_id cfg rq in
      answer db (
      bind_result (api_actor cfg rq db) (\<lambda>a.
      bind_result (find_alert db i rid) (\<lambda>al.
      bind_result (alert_access db a rid) (\<lambda>x.
      if \<not> can_cancel x al
      then Inl (api_error 403 ''NOT_AUTHORIZED'' ''Explicit alert permission is required for this action.'' rid)
      else
      bind_result (authorize_cancellation_by_organization db a (alert_issued_by_organization_id al) rid) (\<lambda>_.
      bind_result (map_err (alert_cancellation_api_error rid) (cancel_alert al a rid (request_ids rq))) (\<lambda>(al', cancellation).
      (case alert_repo_cancel (config_show_uuid cfg) al' cancellation db of
         Inr (db', AlertCancel_Cancelled) \<Rightarrow> Inr (db', access_response x al')
       | Inr (_, AlertCancel_Conflict) \<Rightarrow>
           Inl (api_error 409 ''ALERT_MODIFIED_CONCURRENTLY'' ''The alert changed since it was last read. Reload and retry.'' rid)
       | Inl _ \<Rightarrow> Inl (alert_persistence_failed rid)))))))))"

section \<open>The scan is a page of the readable alerts\<close>

lemma page_full:
  assumes "length (take n (drop k xs)) = n" and "0 < n"
  shows "take n (drop k (xs @ ys)) = take n (drop k xs)"
proof -
  have "n \<le> length xs - k" using assms(1) by (simp add: min_def split: if_splits)
  with assms(2) show ?thesis by simp
qed

lemma scan_batch_page:
  assumes "matched = length xs" and "selected = take limit (drop offset xs)" and "length selected < limit"
    and "scan_batch readable limit offset als (matched, selected) = (matched', selected')"
  shows "selected' = take limit (drop offset (xs @ filter readable als)) \<and>
    (length selected' < limit \<longrightarrow> matched' = length (xs @ filter readable als)) \<and> length selected' \<le> limit"
  using assms
proof (induction als arbitrary: xs matched selected)
  case (Cons al als)
  show ?case
  proof (cases "readable al")
    case False
    then show ?thesis using Cons by simp
  next
    case True
    let ?sel = "if offset \<le> matched then selected @ [al] else selected"
    have short: "length xs - offset < limit"
      using Cons.prems(2,3) by simp
    then have sel: "?sel = take limit (drop offset (xs @ [al]))"
      using Cons.prems(1,2) by simp
    show ?thesis
    proof (cases "length ?sel = limit")
      case True
      have "0 < limit" using Cons.prems(3) by simp
      from True have "length (take limit (drop offset (xs @ [al]))) = limit" by (simp only: sel)
      from page_full [OF this \<open>0 < limit\<close>, of "filter readable als"]
      have "take limit (drop offset (xs @ al # filter readable als)) = ?sel" unfolding sel by simp
      with True Cons.prems(4) \<open>readable al\<close> show ?thesis by (auto simp: Let_def split: if_splits)
    next
      case False
      have "length ?sel \<le> limit" by (subst sel) simp
      with False have "length ?sel < limit" by (rule le_neq_implies_less [rotated])
      moreover have "scan_batch readable limit offset als (Suc matched, ?sel) = (matched', selected')"
        using Cons.prems(4) \<open>readable al\<close> False by (simp add: Let_def split: if_splits)
      moreover have "Suc matched = length (xs @ [al])" using Cons.prems(1) by simp
      moreover have "filter readable (al # als) = [al] @ filter readable als" using \<open>readable al\<close> by simp
      ultimately show ?thesis
        using Cons.IH [OF _ sel, of "Suc matched"] by (metis append.assoc)
    qed
  qed
qed auto

lemma alert_repo_list_slice:
  assumes "alert_repo_list db f (length (db_alerts db)) 0 = Inr all"
  shows "alert_repo_list db f n k = Inr (take n (drop k all))"
  using assms length_alert_rows [of db f]
  by (simp add: alert_repo_list_rows collect_results_Inr flip: take_map drop_map)

lemma scan_alerts_page:
  assumes "alert_repo_list db f (length (db_alerts db)) 0 = Inr all"
    and "matched = length (filter readable (take scan_offset all))"
    and "selected = take limit (drop offset (filter readable (take scan_offset all)))"
    and "length selected < limit"
  shows "scan_alerts readable limit offset f db scan_offset matched selected =
    Inr (take limit (drop offset (filter readable all)))"
  using assms
proof (induction readable limit offset f db scan_offset matched selected rule: scan_alerts.induct)
  case (1 readable limit offset f db scan_offset matched selected)
  let ?batch = "take 100 (drop scan_offset all)"
  obtain matched' selected' where b: "scan_batch readable limit offset ?batch (matched, selected) = (matched', selected')"
    by fastforce
  have page: "alert_repo_list db f 100 scan_offset = Inr ?batch" by (rule alert_repo_list_slice [OF 1(2)])
  have joined: "filter readable (take scan_offset all) @ filter readable ?batch =
      filter readable (take (scan_offset + 100) all)"
    by (simp add: take_add flip: filter_append)
  from scan_batch_page [OF 1(3,4,5) b] have s: "selected' = take limit (drop offset (filter readable (take (scan_offset + 100) all)))"
    and m: "length selected' < limit \<longrightarrow> matched' = length (filter readable (take (scan_offset + 100) all))"
    and le: "length selected' \<le> limit"
    unfolding joined by blast+
  have all: "filter readable all = filter readable (take (scan_offset + 100) all) @ filter readable (drop (scan_offset + 100) all)"
    by (simp flip: filter_append)
  show ?case
  proof (cases "length ?batch < 100 \<or> length selected' = limit")
    case True
    have "selected' = take limit (drop offset (filter readable all))"
    proof (cases "length selected' = limit")
      case True
      have "0 < limit" using 1(5) by simp
      from page_full [OF _ this] True show ?thesis unfolding s all by metis
    next
      case False
      with True have "length all \<le> scan_offset + 100" by auto
      then show ?thesis unfolding s by simp
    qed
    with True page b show ?thesis by (subst scan_alerts.simps) simp
  next
    case False
    with le have lt: "length selected' < limit" by simp
    have "scan_alerts readable limit offset f db (scan_offset + 100) matched' selected' =
      Inr (take limit (drop offset (filter readable all)))"
      using 1(1) [OF page b [symmetric] refl False 1(2)] m lt s by simp
    with False page b show ?thesis by (subst scan_alerts.simps) simp
  qed
qed

section \<open>What a success of a handler means\<close>

text \<open>Only somebody with a stored membership passes a trust gate.\<close>

lemma issuing_organization_Inr:
  assumes "issuing_organization db a vis rid = Inr issuer"
  shows "\<exists>u m. a = Actor_Reviewer u \<and> membership_find db u = Inr (Some m) \<and> issuer = member_organization_id m \<and>
    (member_role m = Role_PlatformAdmin \<or>
     (\<exists>k g. member_organization_id m = Some k \<and> organization_find_by_id db k = Inr (Some g) \<and>
        organization_is_active g \<and> vis \<in> set (organization_verified_alert_visibilities g)))"
proof -
  obtain u found g where a: "a = Actor_Reviewer u" and f: "membership_find db u = Inr found"
    and g: "member_organization db (membership_or_default found) = Inr g"
    and ok: "authorize_alert_issuance (membership_or_default found) g vis = Inr ()"
    and i: "issuer = member_organization_id (membership_or_default found)"
    using assms by (auto simp: issuing_organization_def Let_def result_simps split: actor.splits)
  from ok have trust: "member_role (membership_or_default found) = Role_PlatformAdmin \<or>
      (\<exists>o'. g = Some o' \<and> organization_is_active o' \<and> may_issue_alert o' vis)"
    by (simp add: alert_issuance.gate_Inr)
  obtain m where m: "found = Some m"
    using g trust by (cases found) (auto simp: membership_or_default_def member_organization_def)
  show ?thesis
    using a f g i trust by (auto simp: m membership_or_default_def member_organization_Some may_issue_alert_def)
qed

lemma resolve_policy_version: "resolve_policy pid = Some (Inr p) \<Longrightarrow> policy_version p = 1"
  by (auto simp: resolve_policy_def missing_child_community_v1_def alert_policy_new_Inr split: if_splits)

lemma created_storable:
  assumes "resolve_policy pid = Some (Inr p)" and "target_geography_new t = Inr geo"
    and "create_alert_from_case sha c p sev geo fvs a rq key org ids = Inr cr"
  shows "alert_storable (alert_creation_alert cr)"
proof -
  from target_geography.mk_reparse [OF assms(2)] obtain g where
    "target_geography_new (target_geography_text geo) = Inr g" "target_geography_text g = target_geography_text geo" by blast
  then have "target_geography_new (target_geography_text geo) = Inr geo" using target_geography.expand by metis
  then show ?thesis
    using assms(3) resolve_policy_version [OF assms(1)]
    by (simp add: alert_storable_def create_alert_from_case_Inr alert_create_from_case_Inr)
qed

lemma create_outcome_Inr:
  "(case w of Inr (d, AlertCreation_Created) \<Rightarrow> Inr (d, x) | Inr (_, AlertCreation_Duplicate _) \<Rightarrow> Inl e1 | Inl _ \<Rightarrow> Inl e2) =
     Inr (db', y) \<longleftrightarrow> w = Inr (db', AlertCreation_Created) \<and> y = x"
  by (auto split: sum.splits prod.splits alert_creation_outcome.splits)

lemma cancel_outcome_Inr:
  "(case w of Inr (d, AlertCancel_Cancelled) \<Rightarrow> Inr (d, x) | Inr (_, AlertCancel_Conflict) \<Rightarrow> Inl e1 | Inl _ \<Rightarrow> Inl e2) =
     Inr (db', y) \<longleftrightarrow> w = Inr (db', AlertCancel_Cancelled) \<and> y = x"
  by (auto split: sum.splits prod.splits alert_cancel_outcome.splits)

lemma create_alert_Inr:
  assumes "create_alert cfg rq i req db = (db', Inr (st, resp))"
  shows "\<exists>a key p geo issuer c cr. api_actor cfg rq db = Inr a \<and>
    idempotency_key_from_headers (request_headers rq) (api_request_id cfg rq) = Inr key \<and>
    resolve_policy (create_alert_policy_id req) = Some (Inr p) \<and>
    target_geography_new (create_alert_target_geography req) = Inr geo \<and>
    issuing_organization db a (policy_visibility p) (api_request_id cfg rq) = Inr issuer \<and>
    case_find_by_id db (CaseId i) = Inr (Some c) \<and>
    create_alert_from_case (config_sha256 cfg) c p (create_alert_severity req) geo (create_alert_fields req)
      a (api_request_id cfg rq) key issuer (request_ids rq) = Inr cr \<and>
    alert_repo_create (config_show_uuid cfg) cr db = Inr (db', AlertCreation_Created) \<and>
    st = 201 \<and> resp = alert_response (alert_creation_alert cr)"
  using assms
  unfolding create_alert_def Let_def answer_Inr bind_result_Inr map_err_Inr ok_or_Inr create_outcome_Inr
  by (elim exE conjE) (simp; blast)

lemma find_alert_Inr: "find_alert db i rid = Inr al \<longleftrightarrow> alert_find_by_id db (AlertId i) = Inr (Some al)"
  by (auto simp: find_alert_def bind_result_Inr map_err_Inr ok_or_Inr)

lemma alert_access_Inr:
  assumes "alert_access db a rid = Inr x"
  shows "\<exists>u. a = Actor_Reviewer u \<and> membership_find db u = Inr (Some (access_membership x)) \<and>
    (\<forall>g. access_organization x = Some g \<longrightarrow>
       (\<exists>k. member_organization_id (access_membership x) = Some k \<and> organization_find_by_id db k = Inr (Some g)))"
  using assms
  by (auto simp: alert_access_def api_membership_def Let_def result_simps split: actor.splits option.splits)

lemma cancel_alert_handler_Inr:
  assumes "cancel_alert_handler cfg rq i db = (db', Inr resp)"
  shows "\<exists>a al x al' cn. api_actor cfg rq db = Inr a \<and> alert_find_by_id db (AlertId i) = Inr (Some al) \<and>
    alert_access db a (api_request_id cfg rq) = Inr x \<and> can_cancel x al \<and>
    cancel_alert al a (api_request_id cfg rq) (request_ids rq) = Inr (al', cn) \<and>
    alert_repo_cancel (config_show_uuid cfg) al' cn db = Inr (db', AlertCancel_Cancelled) \<and>
    resp = access_response x al'"
  using assms
  unfolding cancel_alert_handler_def Let_def answer_Inr bind_result_Inr map_err_Inr find_alert_Inr guard_Inr
    split_paired_Ex case_prod_conv cancel_outcome_Inr not_not
  by blast

section \<open>Properties\<close>

text \<open>C12: An alert is created only for a reviewer who is a platform administrator or belongs to an active
  stored organization trusted with the alert's visibility, and only from a stored verified case. What is
  stored afterwards is exactly the alert that the answer shows: it names the reviewer's organization as
  its issuer and carries only fields that the registered policy allows; every other alert is untouched.\<close>

theorem alerts_issued_by_trusted:
  assumes "alert_store_ok db" and "alert_lookup db (AlertId (request_ids rq 0)) = None"
    and "create_alert cfg rq i req db = (db', Inr (st, resp))"
  shows "\<exists>u m p c al. api_actor cfg rq db = Inr (Actor_Reviewer u) \<and> membership_find db u = Inr (Some m) \<and>
    (member_role m = Role_PlatformAdmin \<or>
     (\<exists>k g. member_organization_id m = Some k \<and> organization_find_by_id db k = Inr (Some g) \<and>
        organization_is_active g \<and> Alert_Model.alert_visibility al \<in> set (organization_verified_alert_visibilities g))) \<and>
    case_find_by_id db (CaseId i) = Inr (Some c) \<and> is_verified_or_later (case_status c) \<and>
    resolve_policy (create_alert_policy_id req) = Some (Inr p) \<and>
    (\<forall>fv \<in> set (alert_fields al). allows_field p (field_value_field fv) \<and>
       field_value_field fv \<noteq> AlertField_ReporterIdentity) \<and>
    alert_issued_by_organization_id al = member_organization_id m \<and> resp = alert_response al \<and>
    alert_lookup db' (AlertId (response_alert_id resp)) = Some al \<and> alert_store_ok db' \<and>
    (\<forall>k. k \<noteq> AlertId (response_alert_id resp) \<longrightarrow> alert_lookup db' k = alert_lookup db k)"
proof -
  obtain a key p geo issuer c cr where a: "api_actor cfg rq db = Inr a"
    and p: "resolve_policy (create_alert_policy_id req) = Some (Inr p)"
    and geo: "target_geography_new (create_alert_target_geography req) = Inr geo"
    and issuer: "issuing_organization db a (policy_visibility p) (api_request_id cfg rq) = Inr issuer"
    and c: "case_find_by_id db (CaseId i) = Inr (Some c)"
    and cr: "create_alert_from_case (config_sha256 cfg) c p (create_alert_severity req) geo (create_alert_fields req)
      a (api_request_id cfg rq) key issuer (request_ids rq) = Inr cr"
    and w: "alert_repo_create (config_show_uuid cfg) cr db = Inr (db', AlertCreation_Created)"
    and resp: "resp = alert_response (alert_creation_alert cr)"
    using create_alert_Inr [OF assms(3)] by blast
  let ?al = "alert_creation_alert cr"
  have parts: "Alert_Model.alert_id ?al = AlertId (request_ids rq 0)" "Alert_Model.alert_visibility ?al = policy_visibility p"
    "alert_issued_by_organization_id ?al = issuer" "is_verified_or_later (case_status c)"
    "check_fields p [] (alert_fields ?al) = None"
    using cr by (auto simp: create_alert_from_case_Inr alert_create_from_case_Inr)
  have safe: "policy_safe p" using resolve_policy_safe [OF p] by simp
  have fields: "\<forall>fv \<in> set (alert_fields ?al). allows_field p (field_value_field fv) \<and>
       field_value_field fv \<noteq> AlertField_ReporterIdentity"
    using parts(5) safe by (auto simp: check_fields_None policy_safe_def allows_field_def is_forbidden_def)
  have fresh: "alert_lookup db (Alert_Model.alert_id ?al) = None" using assms(2) parts(1) by simp
  note st = alert_create_stored [OF assms(1) created_storable [OF p geo cr] fresh w]
  have id: "AlertId (response_alert_id resp) = Alert_Model.alert_id ?al" by (simp add: resp alert_response_def)
  obtain u m where u: "a = Actor_Reviewer u" "membership_find db u = Inr (Some m)" "issuer = member_organization_id m"
    and trust: "member_role m = Role_PlatformAdmin \<or>
     (\<exists>k g. member_organization_id m = Some k \<and> organization_find_by_id db k = Inr (Some g) \<and>
        organization_is_active g \<and> policy_visibility p \<in> set (organization_verified_alert_visibilities g))"
    using issuing_organization_Inr [OF issuer] by blast
  show ?thesis
    by (rule exI [of _ u], rule exI [of _ m], rule exI [of _ p], rule exI [of _ c], rule exI [of _ ?al])
      (use a u trust parts(2-4) c p fields resp st(1-3) id in simp)
qed

text \<open>A platform administrator and a verified case.\<close>

definition sample_issue_db :: database where
  "sample_issue_db = sample_admin_db\<lparr>db_cases := [\<lparr>case_row_id = 7, case_row_incident_type = lit ''MISSING_CHILD'',
       case_row_status = lit ''VERIFIED'', case_row_version = 3, case_row_updated_at = 0\<rparr>]\<rparr>"

definition sample_create_request :: create_alert_request where
  "sample_create_request = \<lparr>create_alert_policy_id = lit ''MISSING_CHILD_COMMUNITY'',
     create_alert_severity = Severity_High, create_alert_target_geography = lit ''Douala'',
     create_alert_fields = [\<lparr>field_value_field = AlertField_ApproximateAge, field_value_value = lit ''8''\<rparr>]\<rparr>"

lemma sample_administrator:
  assumes "db_memberships db = db_memberships sample_admin_db"
  shows "membership_find db 9 = Inr (Some \<lparr>member_role = Role_PlatformAdmin, member_organization_id = None\<rparr>)"
  by (simp add: membership_find_def assms sample_admin_db_def role_from_db_def ok_or_def)

lemma sample_creates:
  "\<exists>p cr db'. resolve_policy (lit ''MISSING_CHILD_COMMUNITY'') = Some (Inr p) \<and>
     create_alert_from_case (config_sha256 sample_config) \<lparr>case_id = CaseId 7,
       case_incident_type = IncidentType_MissingChild, case_status = CaseStatus_Verified, case_report_ids = [], case_version = 3\<rparr>
       p Severity_High (TargetGeography (lit ''Douala''))
       [\<lparr>field_value_field = AlertField_ApproximateAge, field_value_value = lit ''8''\<rparr>]
       (Actor_Reviewer 9) rid None None (request_ids sample_request) = Inr cr \<and>
     alert_repo_create (config_show_uuid sample_config) cr sample_issue_db = Inr (db', AlertCreation_Created)"
  by (simp add: resolve_policy_def missing_child_community_v1_def alert_policy_new_def is_forbidden_def
      is_restricted_to_internal_audiences_def create_alert_from_case_def authorize_alert_action_def
      alert_create_from_case_def is_verified_or_later_def allows_field_def Let_def alert_repo_create_def
      insert_alert_def alert_row_checks_def alert_to_row_def sample_issue_db_def sample_admin_db_def
      sample_access_db_def empty_database_def btrim_blank_def lit_def write_alert_event_def insert_alert_event_def
      insert_aggregate_event_def insert_row_def insert_audit_event_def insert_outbox_event_def word_sless_alt
      alert_new_event_def sample_request_def)

lemma sample_issues:
  "\<exists>db' resp. create_alert sample_config sample_request 7 sample_create_request sample_issue_db = (db', Inr (201, resp))"
proof -
  have a: "api_actor sample_config sample_request sample_issue_db = Inr (Actor_Reviewer 9)"
    by (rule sample_actor) (simp add: sample_issue_db_def sample_admin_db_def sample_access_db_def)
  have k: "idempotency_key_from_headers (request_headers sample_request) rid = Inr None" for rid
    by (simp add: idempotency_key_from_headers_def header_str_def sample_request_def lit_def)
  have geo: "target_geography_new (lit ''Douala'') = Inr (TargetGeography (lit ''Douala''))"
    by (simp add: target_geography_new_def trim_def lit_def is_whitespace_def Let_def)
  have m: "membership_find sample_issue_db 9 = Inr (Some \<lparr>member_role = Role_PlatformAdmin, member_organization_id = None\<rparr>)"
    by (rule sample_administrator) (simp add: sample_issue_db_def)
  have c: "case_find_by_id sample_issue_db (CaseId 7) = Inr (Some \<lparr>case_id = CaseId 7,
     case_incident_type = IncidentType_MissingChild, case_status = CaseStatus_Verified, case_report_ids = [], case_version = 3\<rparr>)"
    by (simp add: case_find_by_id_def sample_issue_db_def sample_admin_db_def sample_access_db_def empty_database_def
        case_of_row_def reports_of_case_def ok_or_def incident_type_from_db_def case_status_from_db_def case_reconstitute_def)
  have g: "issuing_organization sample_issue_db (Actor_Reviewer 9) vis rid = Inr None" for vis rid
    by (simp add: issuing_organization_def m membership_or_default_def member_organization_def authorize_alert_issuance_def)
  obtain p cr db' where p: "resolve_policy (lit ''MISSING_CHILD_COMMUNITY'') = Some (Inr p)"
    and cr: "create_alert_from_case (config_sha256 sample_config) \<lparr>case_id = CaseId 7,
       case_incident_type = IncidentType_MissingChild, case_status = CaseStatus_Verified, case_report_ids = [], case_version = 3\<rparr>
       p Severity_High (TargetGeography (lit ''Douala''))
       [\<lparr>field_value_field = AlertField_ApproximateAge, field_value_value = lit ''8''\<rparr>]
       (Actor_Reviewer 9) (api_request_id sample_config sample_request) None None (request_ids sample_request) = Inr cr"
    and w: "alert_repo_create (config_show_uuid sample_config) cr sample_issue_db = Inr (db', AlertCreation_Created)"
    using sample_creates [of "api_request_id sample_config sample_request"] by blast
  show ?thesis by (simp add: create_alert_def a k sample_create_request_def ok_or_def p geo g c cr w)
qed

theorem alerts_issued_by_trusted_witness:
  "\<exists>db' resp al. create_alert sample_config sample_request 7 sample_create_request sample_issue_db = (db', Inr (201, resp)) \<and>
     alert_lookup db' (AlertId (response_alert_id resp)) = Some al \<and> alert_issued_by_organization_id al = None"
proof -
  obtain db' resp where c: "create_alert sample_config sample_request 7 sample_create_request sample_issue_db =
      (db', Inr (201, resp))" using sample_issues by blast
  have ok: "alert_store_ok sample_issue_db"
    "alert_lookup sample_issue_db (AlertId (request_ids sample_request 0)) = None"
    by (simp_all add: alert_store_ok_def alert_lookup_def alert_find_by_id_def sample_issue_db_def sample_admin_db_def
        sample_access_db_def empty_database_def)
  have a: "api_actor sample_config sample_request sample_issue_db = Inr (Actor_Reviewer 9)"
    by (rule sample_actor) (simp add: sample_issue_db_def sample_admin_db_def sample_access_db_def)
  have m: "membership_find sample_issue_db 9 = Inr (Some \<lparr>member_role = Role_PlatformAdmin, member_organization_id = None\<rparr>)"
    by (rule sample_administrator) (simp add: sample_issue_db_def)
  from alerts_issued_by_trusted [OF ok c] obtain al where
    "alert_lookup db' (AlertId (response_alert_id resp)) = Some al" "alert_issued_by_organization_id al = None"
    using a m by auto
  with c show ?thesis by blast
qed

text \<open>C13: An alert is cancelled only by a platform administrator or by a reviewer of an active organization
  that is trusted with its visibility and is its issuer, where it names one. It was active before, is
  cancelled one version later, and nothing else about it or any other alert changes.\<close>

theorem alerts_cancelled_by_issuer:
  assumes "alert_store_ok db" and "cancel_alert_handler cfg rq i db = (db', Inr resp)"
  shows "\<exists>u m al. api_actor cfg rq db = Inr (Actor_Reviewer u) \<and> membership_find db u = Inr (Some m) \<and>
    alert_lookup db (AlertId i) = Some al \<and> Alert_Model.alert_status al = AlertStatus_Active \<and>
    (member_role m = Role_PlatformAdmin \<or>
     alert_issued_by_organization_id al \<in> {None, member_organization_id m} \<and>
     (\<exists>k g. member_organization_id m = Some k \<and> organization_find_by_id db k = Inr (Some g) \<and>
        organization_is_active g \<and> Alert_Model.alert_visibility al \<in> set (organization_verified_alert_visibilities g))) \<and>
    alert_lookup db' (AlertId i) =
      Some (al\<lparr>alert_status := AlertStatus_Cancelled, alert_version := alert_version al + 1\<rparr>) \<and>
    (\<forall>k. k \<noteq> AlertId i \<longrightarrow> alert_lookup db' k = alert_lookup db k) \<and> alert_store_ok db'"
proof -
  obtain a al x al' cn where a: "api_actor cfg rq db = Inr a" and al: "alert_find_by_id db (AlertId i) = Inr (Some al)"
    and x: "alert_access db a (api_request_id cfg rq) = Inr x" and can: "can_cancel x al"
    and cn: "cancel_alert al a (api_request_id cfg rq) (request_ids rq) = Inr (al', cn)"
    and w: "alert_repo_cancel (config_show_uuid cfg) al' cn db = Inr (db', AlertCancel_Cancelled)"
    using cancel_alert_handler_Inr [OF assms(2)] by blast
  have look: "alert_lookup db (AlertId i) = Some al" by (simp add: alert_lookup_def al)
  then have id: "Alert_Model.alert_id al = AlertId i"
    using alert_lookup_Some [OF assms(1)] by (auto simp: alert_row_decodes_def alert_from_row_Inr)
  have c: "Alert_Model.alert_status al = AlertStatus_Active"
    "al' = al\<lparr>alert_status := AlertStatus_Cancelled, alert_version := alert_version al + 1\<rparr>"
    using cn by (simp_all add: cancel_alert_Inr alert_cancel_Inr)
  have id': "Alert_Model.alert_id al' = AlertId i" using c(2) id by simp
  from alert_cancelled [OF assms(1) w] have s: "alert_store_ok db'"
    "alert_lookup db' (AlertId i) = Some (al\<lparr>alert_status := AlertStatus_Cancelled, alert_version := alert_version al + 1\<rparr>)"
    "\<forall>k. k \<noteq> AlertId i \<longrightarrow> alert_lookup db' k = alert_lookup db k"
    unfolding id' using look by (auto simp: c(2))
  from alert_access_Inr [OF x] obtain u where u: "a = Actor_Reviewer u" "membership_find db u = Inr (Some (access_membership x))"
    and org: "\<forall>g. access_organization x = Some g \<longrightarrow>
       (\<exists>k. member_organization_id (access_membership x) = Some k \<and> organization_find_by_id db k = Inr (Some g))" by blast
  have trust: "member_role (access_membership x) = Role_PlatformAdmin \<or>
     alert_issued_by_organization_id al \<in> {None, member_organization_id (access_membership x)} \<and>
     (\<exists>k g. member_organization_id (access_membership x) = Some k \<and> organization_find_by_id db k = Inr (Some g) \<and>
        organization_is_active g \<and> Alert_Model.alert_visibility al \<in> set (organization_verified_alert_visibilities g))"
    using can org unfolding can_cancel_def alert_cancellation.gate_Inr alert_issuance.gate_Inr may_issue_alert_def by blast
  show ?thesis
    by (rule exI [of _ u], rule exI [of _ "access_membership x"], rule exI [of _ al])
      (use a u look c(1) trust s in simp)
qed

text \<open>A platform administrator and one stored alert.\<close>

definition sample_listed_db :: database where
  "sample_listed_db = sample_admin_db\<lparr>db_alerts := [alert_to_row None sample_alert],
     db_alert_fields := map (\<lambda>fv. (1, field_to_row fv)) (alert_fields sample_alert)\<rparr>"

lemma sample_listed_row: "alert_row_decodes sample_listed_db (alert_to_row None sample_alert) sample_alert"
proof -
  have "alert_storable sample_alert"
    by (simp add: alert_storable_def sample_alert_def target_geography_new_def trim_def lit_def is_whitespace_def Let_def)
  then show ?thesis
    by (simp add: alert_row_decodes_def alert_from_to_row field_rows_of_alert_def sample_listed_db_def)
       (simp add: sample_alert_def)
qed

lemma sample_listed_ok: "alert_store_ok sample_listed_db"
  unfolding alert_store_ok_def using sample_listed_row by (auto simp: sample_listed_db_def sample_alert_def)

lemma sample_listed_found: "alert_find_by_id sample_listed_db (AlertId 1) = Inr (Some sample_alert)"
proof -
  have "alert_row_id (alert_to_row None sample_alert) = alert_uuid (AlertId 1)" by (simp add: sample_alert_def)
  moreover have "alert_to_row None sample_alert \<in> set (db_alerts sample_listed_db)" by (simp add: sample_listed_db_def)
  ultimately show ?thesis
    using alert_find_by_id_row [of sample_listed_db "AlertId 1" sample_alert] sample_listed_ok sample_listed_row
    unfolding alert_store_ok_def by blast
qed

lemma sample_listed_actor: "api_actor sample_config sample_request sample_listed_db = Inr (Actor_Reviewer 9)"
  by (rule sample_actor) (simp add: sample_listed_db_def sample_admin_db_def sample_access_db_def)

lemma sample_listed_access:
  "alert_access sample_listed_db (Actor_Reviewer 9) rid =
     Inr \<lparr>access_membership = \<lparr>member_role = Role_PlatformAdmin, member_organization_id = None\<rparr>,
          access_organization = None, access_subscriptions = []\<rparr>"
  by (simp add: alert_access_def api_membership_def sample_administrator sample_listed_db_def ok_or_def)

lemma sample_cancels:
  "\<exists>db' resp. cancel_alert_handler sample_config sample_request 1 sample_listed_db = (db', Inr resp)"
  by (simp add: cancel_alert_handler_def sample_listed_actor sample_listed_found find_alert_def ok_or_def
      sample_listed_access can_cancel_def can_read_def authorize_alert_cancellation_def authorize_alert_issuance_def
      authorize_cancellation_by_organization_def membership_or_default_def Let_def)
    (simp add: sample_administrator sample_listed_db_def cancel_alert_def authorize_cancelling_actor_def alert_cancel_def
      sample_alert_def membership_or_default_def authorize_alert_cancellation_def alert_repo_cancel_def alert_to_row_def
      sample_admin_db_def sample_access_db_def empty_database_def
      write_alert_event_def insert_alert_event_def insert_aggregate_event_def insert_row_def insert_audit_event_def
      insert_outbox_event_def word_sless_alt alert_new_event_def sample_request_def Let_def)

theorem alerts_cancelled_by_issuer_witness:
  "\<exists>db' resp. cancel_alert_handler sample_config sample_request 1 sample_listed_db = (db', Inr resp) \<and>
     alert_lookup db' (AlertId 1) = Some (sample_alert\<lparr>alert_status := AlertStatus_Cancelled, alert_version := 2\<rparr>)"
proof -
  obtain db' resp where c: "cancel_alert_handler sample_config sample_request 1 sample_listed_db = (db', Inr resp)"
    using sample_cancels by blast
  have "alert_lookup sample_listed_db (AlertId 1) = Some sample_alert" by (simp add: alert_lookup_def sample_listed_found)
  with alerts_cancelled_by_issuer [OF sample_listed_ok c] c show ?thesis by (auto simp: sample_alert_def)
qed

text \<open>C14: The listing loop ends and yields, for any limit and offset, exactly the requested page of the
  alerts that the caller may read, latest first: scanning batch by batch skips none and repeats none. Only
  a caller who is no platform administrator and whose organization has no subscription sees nothing,
  alerts of the own organization included.\<close>

theorem listed_alerts_are_the_readable_page:
  assumes "list_alerts cfg rq q db = (db', Inr resp)"
    and "alert_repo_list db \<lparr>alert_filter_status = alerts_query_status q,
           alert_filter_visibility = alerts_query_visibility q\<rparr> (length (db_alerts db)) 0 = Inr all"
  shows "\<exists>u x. api_actor cfg rq db = Inr (Actor_Reviewer u) \<and>
    alert_access db (Actor_Reviewer u) (api_request_id cfg rq) = Inr x \<and>
    resp = map (access_response x)
      (if member_role (access_membership x) = Role_PlatformAdmin \<or> access_subscriptions x \<noteq> []
       then take (min (case alerts_query_limit q of None \<Rightarrow> ALERT_DEFAULT_LIMIT | Some n \<Rightarrow> unat n) ALERT_MAX_LIMIT)
              (drop (case alerts_query_offset q of None \<Rightarrow> 0 | Some n \<Rightarrow> unat n) (filter (can_read x) all))
       else [])"
proof -
  let ?l = "min (case alerts_query_limit q of None \<Rightarrow> ALERT_DEFAULT_LIMIT | Some n \<Rightarrow> unat n) ALERT_MAX_LIMIT"
  let ?o = "case alerts_query_offset q of None \<Rightarrow> 0 | Some n \<Rightarrow> unat n"
  let ?f = "\<lparr>alert_filter_status = alerts_query_status q, alert_filter_visibility = alerts_query_visibility q\<rparr>"
  obtain a x als where a: "api_actor cfg rq db = Inr a" and x: "alert_access db a (api_request_id cfg rq) = Inr x"
    and als: "(if member_role (access_membership x) = Role_PlatformAdmin then alert_repo_list db ?f ?l ?o
         else if access_subscriptions x = [] \<or> ?l = 0 then Inr []
         else scan_alerts (can_read x) ?l ?o ?f db 0 0 []) = Inr als"
    and resp: "resp = map (access_response x) als"
    using assms(1) unfolding list_alerts_def Let_def answer_Inr bind_result_Inr map_err_Inr by blast
  have every: "member_role (access_membership x) = Role_PlatformAdmin \<Longrightarrow> filter (can_read x) all = all"
    by (simp add: can_read_def)
  have "als = (if member_role (access_membership x) = Role_PlatformAdmin \<or> access_subscriptions x \<noteq> []
       then take ?l (drop ?o (filter (can_read x) all)) else [])"
    using als every alert_repo_list_slice [OF assms(2)] scan_alerts_page [OF assms(2), of 0 "can_read x" 0 "[]" ?l ?o]
    by (auto split: if_splits)
  moreover obtain u where "a = Actor_Reviewer u" using alert_access_Inr [OF x] by blast
  ultimately show ?thesis using a x resp by (intro exI [of _ u] exI [of _ x]) simp
qed

lemma sample_listing:
  "alert_repo_list sample_listed_db \<lparr>alert_filter_status = None, alert_filter_visibility = None\<rparr> (Suc n) 0 = Inr [sample_alert]"
proof -
  have "alert_of_row sample_listed_db (alert_to_row None sample_alert) = Inr sample_alert"
    using sample_listed_row alert_fields_of_rows_Inr [of "field_rows_of_alert sample_listed_db 1" "alert_fields sample_alert"]
    by (simp add: alert_of_row_def alert_row_decodes_def) (simp add: sample_alert_def)
  then show ?thesis by (simp add: alert_repo_list_rows alert_rows_def) (simp add: sample_listed_db_def)
qed

theorem listed_alerts_are_the_readable_page_witness:
  "\<exists>db' x. list_alerts sample_config sample_request \<lparr>alerts_query_status = None, alerts_query_visibility = None,
      alerts_query_limit = None, alerts_query_offset = None\<rparr> sample_listed_db = (db', Inr [access_response x sample_alert])"
proof -
  let ?q = "\<lparr>alerts_query_status = None, alerts_query_visibility = None, alerts_query_limit = None, alerts_query_offset = None\<rparr>"
  have audit: "\<exists>db'. audit_alert_read k (Actor_Reviewer 9) None rid sample_listed_db = Inr db'" for k rid
    by (simp add: audit_alert_read_def audit_record_def record_audit_event_def insert_row_def sample_listed_db_def
        sample_admin_db_def sample_access_db_def empty_database_def)
  obtain db' where "audit_alert_read (request_ids sample_request 0) (Actor_Reviewer 9) None
      (api_request_id sample_config sample_request) sample_listed_db = Inr db'" using audit by blast
  then obtain resp where l: "list_alerts sample_config sample_request ?q sample_listed_db = (db', Inr resp)"
    using sample_listing [of 49]
    by (simp add: list_alerts_def sample_listed_actor authorize_def sample_listed_access
        ALERT_DEFAULT_LIMIT_def ALERT_MAX_LIMIT_def Let_def)
  have "alert_repo_list sample_listed_db \<lparr>alert_filter_status = alerts_query_status ?q,
      alert_filter_visibility = alerts_query_visibility ?q\<rparr> (length (db_alerts sample_listed_db)) 0 = Inr [sample_alert]"
    using sample_listing [of 0] by (simp add: sample_listed_db_def)
  from listed_alerts_are_the_readable_page [OF l this] l sample_listed_actor sample_listed_access show ?thesis
    by (auto simp: can_read_def ALERT_DEFAULT_LIMIT_def ALERT_MAX_LIMIT_def)
qed

end
