(* ===== verification/Subscription_Api.thy ===== *)
theory Subscription_Api
  imports Access_Api Subscription_Store "HOL-Library.List_Lexorder" "HOL-Library.Multiset"
begin

text \<open>
  The endpoints with which reviewers manage subscriptions and delivery preferences
  (\<open>apps/api/src/subscriptions.rs\<close>): who may manage a consumer's settings, the decoding of rules, the
  handlers.
\<close>

definition subscription_persistence_failed :: "uuid \<Rightarrow> api_error" where
  "subscription_persistence_failed rid =
     api_error 500 ''SUBSCRIPTION_PERSISTENCE_FAILED'' ''The request could not be saved. Please try again.'' rid"

definition subscription_not_authorized :: "uuid \<Rightarrow> api_error" where
  "subscription_not_authorized rid =
     api_error 403 ''NOT_AUTHORIZED'' ''Only an identified reviewer may manage subscriptions.'' rid"

definition not_authorized_for_consumer :: "uuid \<Rightarrow> api_error" where
  "not_authorized_for_consumer rid =
     api_error 403 ''NOT_AUTHORIZED'' ''You may not manage this organization's notification settings.'' rid"

text \<open>A reviewer without a membership counts as a member of no organization; an organization that is not
  found counts as active.\<close>

definition reviewer_membership :: "database \<Rightarrow> actor \<Rightarrow> uuid \<Rightarrow> api_error + membership" where
  "reviewer_membership db a rid =
     (case a of
        Actor_Reviewer reviewer \<Rightarrow>
          bind_result (map_err (\<lambda>_. subscription_persistence_failed rid) (membership_find db reviewer)) (\<lambda>found.
            Inr (case found of None \<Rightarrow> \<lparr>member_role = Role_Member, member_organization_id = None\<rparr> | Some m \<Rightarrow> m))
      | _ \<Rightarrow> Inl (subscription_not_authorized rid))"

definition authorize_consumer_access :: "database \<Rightarrow> actor \<Rightarrow> consumer_id \<Rightarrow> uuid \<Rightarrow> api_error + unit" where
  "authorize_consumer_access db a consumer rid =
     bind_result (reviewer_membership db a rid) (\<lambda>m.
     let owner = organization_find_id_by_consumer db consumer in
     bind_result (case owner of
          None \<Rightarrow> Inr ()
        | Some i \<Rightarrow>
            bind_result (map_err (\<lambda>_. subscription_persistence_failed rid) (organization_find_by_id db i)) (\<lambda>g.
              let is_active = (case g of None \<Rightarrow> True | Some o' \<Rightarrow> organization_is_active o') in
              if \<not> is_active \<and> member_role m \<noteq> Role_PlatformAdmin then Inl (not_authorized_for_consumer rid)
              else Inr ())) (\<lambda>_.
       map_err (\<lambda>_. not_authorized_for_consumer rid) (authorize_consumer_management m owner)))"

section \<open>Rules\<close>

datatype subscription_rule_input =
    RuleInput_IncidentType "incident_type list"
  | RuleInput_Severity rstring severity
  | RuleInput_EventType "case_event_type list"
  | RuleInput_Geography "rstring list"
  | RuleInput_Visibility "alert_visibility list"

fun to_domain_rule :: "uuid \<Rightarrow> subscription_rule_input \<Rightarrow> api_error + subscription_rule" where
  "to_domain_rule rid (RuleInput_IncidentType values) = Inr (Rule_IncidentType values)"
| "to_domain_rule rid (RuleInput_Severity operator value) =
     bind_result (ok_or (api_error 400 ''INVALID_SEVERITY_OPERATOR''
         ''operator must be one of GREATER_THAN, GREATER_THAN_OR_EQUAL, EQUAL, LESS_THAN_OR_EQUAL, LESS_THAN.'' rid)
       (comparison_from_db operator)) (\<lambda>op. Inr (Rule_Severity op value))"
| "to_domain_rule rid (RuleInput_EventType values) = Inr (Rule_EventType values)"
| "to_domain_rule rid (RuleInput_Geography areas) =
     bind_result (map_err (\<lambda>_. api_error 400 ''INVALID_GEOGRAPHY_AREA'' ''each area must be non-blank.'' rid)
       (collect_results (map geo_area_new areas))) (\<lambda>areas'.
       if areas' = [] then Inl (api_error 400 ''INVALID_GEOGRAPHY_AREA'' ''areas must contain at least one area.'' rid)
       else Inr (Rule_Geography areas'))"
| "to_domain_rule rid (RuleInput_Visibility values) = Inr (Rule_Visibility values)"

datatype subscription_rule_output =
    RuleOutput_IncidentType "incident_type list"
  | RuleOutput_Severity rstring severity
  | RuleOutput_EventType "case_event_type list"
  | RuleOutput_Geography "rstring list"
  | RuleOutput_Visibility "alert_visibility list"

fun rule_output :: "subscription_rule \<Rightarrow> subscription_rule_output" where
  "rule_output (Rule_IncidentType values) = RuleOutput_IncidentType values"
| "rule_output (Rule_Severity operator value) = RuleOutput_Severity (comparison_to_db operator) value"
| "rule_output (Rule_EventType values) = RuleOutput_EventType values"
| "rule_output (Rule_Geography areas) = RuleOutput_Geography (map geo_area_text areas)"
| "rule_output (Rule_Visibility values) = RuleOutput_Visibility values"

record subscription_response =
  response_subscription_id :: uuid
  response_subscription_consumer_id :: uuid
  response_subscription_version :: u32
  response_rules :: "subscription_rule_output list"
  response_created_at :: "rstring option"

definition subscription_response :: "subscription \<Rightarrow> subscription_response" where
  "subscription_response s =
     \<lparr>response_subscription_id = subscription_uuid (subscription_id s),
      response_subscription_consumer_id = consumer_uuid (subscription_consumer_id s),
      response_subscription_version = subscription_version s,
      response_rules = map rule_output (subscription_rules s),
      response_created_at = subscription_created_at s\<rparr>"

section \<open>Subscriptions\<close>

text \<open>What every handler starts with.\<close>

definition managing_reviewer :: "api_config \<Rightarrow> api_request \<Rightarrow> capability \<Rightarrow> database \<Rightarrow> api_error + actor" where
  "managing_reviewer cfg rq cap db =
     bind_result (api_actor cfg rq db) (\<lambda>a.
     bind_result (map_err (\<lambda>_. subscription_not_authorized (api_request_id cfg rq)) (authorize a cap)) (\<lambda>_.
       Inr a))"

text \<open>Draws the subscription's id; \<open>at\<close> is the database's text for the time of the insertion.\<close>

definition create_subscription ::
  "api_config \<Rightarrow> api_request \<Rightarrow> rstring \<Rightarrow> uuid \<Rightarrow> subscription_rule_input list \<Rightarrow> database \<Rightarrow>
   database \<times> (api_error + nat \<times> subscription_response)" where
  "create_subscription cfg rq at consumer inputs db =
     (let rid = api_request_id cfg rq in
      finish db (
      bind_result (managing_reviewer cfg rq Capability_ManageSubscriptions db) (\<lambda>a.
      bind_result (authorize_consumer_access db a (ConsumerId consumer) rid) (\<lambda>_.
      bind_result (collect_results (map (to_domain_rule rid) inputs)) (\<lambda>rules.
      bind_result (map_err (\<lambda>_. api_error 400 ''EMPTY_SUBSCRIPTION_RULES'' ''rules must contain at least one rule.'' rid)
        (subscription_new (SubscriptionId (request_ids rq 0)) (ConsumerId consumer) 1 rules)) (\<lambda>s.
      bind_result (map_err (\<lambda>_. subscription_persistence_failed rid) (subscription_repo_create at s db)) (\<lambda>db'.
        Inr (db',
          bind_result (map_err (\<lambda>_. subscription_persistence_failed rid)
            (bind_result (subscription_find_by_id db' (subscription_id s)) (ok_or DbPanic))) (\<lambda>stored.
            Inr (201, subscription_response stored))))))))))"

text \<open>The first spelling of each area, compared in lower case, in the alphabetical order of the lower case.\<close>

fun distinct_areas :: "rstring list \<Rightarrow> rstring list \<Rightarrow> rstring list" where
  "distinct_areas seen [] = []"
| "distinct_areas seen (a # as) =
     (if to_lowercase a \<in> set seen then distinct_areas seen as
      else a # distinct_areas (to_lowercase a # seen) as)"

definition rule_areas :: "subscription_rule \<Rightarrow> rstring list" where
  "rule_areas r = (case r of Rule_Geography areas \<Rightarrow> map geo_area_text areas | _ \<Rightarrow> [])"

definition list_geography_areas :: "api_config \<Rightarrow> api_request \<Rightarrow> database \<Rightarrow> api_error + rstring list" where
  "list_geography_areas cfg rq db =
     (let rid = api_request_id cfg rq in
      bind_result (managing_reviewer cfg rq Capability_CreateAlert db) (\<lambda>a.
      bind_result (map_err (\<lambda>_. subscription_persistence_failed rid) (subscription_list_all db)) (\<lambda>ss.
        Inr (sort_key to_lowercase
          (distinct_areas [] (concat (map (\<lambda>s. concat (map rule_areas (subscription_rules s))) ss)))))))"

definition SUBSCRIPTION_DEFAULT_LIMIT :: nat where
  "SUBSCRIPTION_DEFAULT_LIMIT = 50"

definition SUBSCRIPTION_MAX_LIMIT :: nat where
  "SUBSCRIPTION_MAX_LIMIT = 100"

definition list_all_subscriptions ::
  "api_config \<Rightarrow> api_request \<Rightarrow> u32 option \<Rightarrow> u32 option \<Rightarrow> database \<Rightarrow> api_error + subscription_response list" where
  "list_all_subscriptions cfg rq limit offset db =
     (let rid = api_request_id cfg rq in
      bind_result (managing_reviewer cfg rq Capability_ManageSubscriptions db) (\<lambda>a.
      bind_result (reviewer_membership db a rid) (\<lambda>m.
      bind_result (map_err (\<lambda>_. subscription_persistence_failed rid)
        (if member_role m = Role_PlatformAdmin
         then subscription_list_page db
                (min (case limit of None \<Rightarrow> SUBSCRIPTION_DEFAULT_LIMIT | Some n \<Rightarrow> unat n) SUBSCRIPTION_MAX_LIMIT)
                (case offset of None \<Rightarrow> 0 | Some n \<Rightarrow> unat n)
         else
           bind_result (case member_organization_id m of
                None \<Rightarrow> Inr None
              | Some i \<Rightarrow> bind_result (organization_find_by_id db i) (\<lambda>g. Inr (Option.bind g organization_consumer_id)))
             (\<lambda>consumer. case consumer of
                None \<Rightarrow> Inr []
              | Some c \<Rightarrow> subscription_find_by_consumer db c))) (\<lambda>ss.
        Inr (map subscription_response ss)))))"

definition list_subscriptions_for_consumer ::
  "api_config \<Rightarrow> api_request \<Rightarrow> uuid \<Rightarrow> database \<Rightarrow> api_error + subscription_response list" where
  "list_subscriptions_for_consumer cfg rq consumer db =
     (let rid = api_request_id cfg rq in
      bind_result (managing_reviewer cfg rq Capability_ManageSubscriptions db) (\<lambda>a.
      bind_result (authorize_consumer_access db a (ConsumerId consumer) rid) (\<lambda>_.
      bind_result (map_err (\<lambda>_. subscription_persistence_failed rid)
        (subscription_find_by_consumer db (ConsumerId consumer))) (\<lambda>ss.
        Inr (map subscription_response ss)))))"

text \<open>The audit row's id is the only one drawn.\<close>

definition update_subscription ::
  "api_config \<Rightarrow> api_request \<Rightarrow> uuid \<Rightarrow> subscription_rule_input list \<Rightarrow> database \<Rightarrow>
   database \<times> (api_error + subscription_response)" where
  "update_subscription cfg rq i inputs db =
     (let rid = api_request_id cfg rq in
      answer db (
      bind_result (managing_reviewer cfg rq Capability_ManageSubscriptions db) (\<lambda>a.
      bind_result (bind_result (map_err (\<lambda>_. subscription_persistence_failed rid)
            (subscription_find_by_id db (SubscriptionId i)))
          (ok_or (api_error 404 ''SUBSCRIPTION_NOT_FOUND'' ''No subscription exists with the given id.'' rid))) (\<lambda>s.
      bind_result (authorize_consumer_access db a (subscription_consumer_id s) rid) (\<lambda>_.
      bind_result (collect_results (map (to_domain_rule rid) inputs)) (\<lambda>rules.
      bind_result (map_err (\<lambda>_. api_error 400 ''EMPTY_SUBSCRIPTION_RULES'' ''rules must contain at least one rule.'' rid)
        (update_rules s rules)) (\<lambda>s'.
      (case subscription_repo_update s' a rid (request_ids rq 0) db of
         Inr (db', SubscriptionUpdate_Updated) \<Rightarrow> Inr (db', subscription_response s')
       | Inr (_, SubscriptionUpdate_Conflict) \<Rightarrow>
           Inl (api_error 409 ''SUBSCRIPTION_MODIFIED_CONCURRENTLY''
             ''The subscription changed since it was last read. Reload and retry.'' rid)
       | Inl _ \<Rightarrow> Inl (subscription_persistence_failed rid)))))))))"

section \<open>Delivery preferences\<close>

record preference_response =
  response_preference_consumer_id :: uuid
  response_strategy :: rstring
  response_channels :: "(rstring \<times> rstring) list"

definition delivery_preference_response :: "consumer_id \<Rightarrow> delivery_preference \<Rightarrow> preference_response" where
  "delivery_preference_response c p =
     \<lparr>response_preference_consumer_id = consumer_uuid c,
      response_strategy = delivery_strategy_to_db (preference_strategy p),
      response_channels = map (\<lambda>e. (channel_type_to_db (endpoint_channel e), endpoint_address e)) (preference_channels p)\<rparr>"

definition endpoint_input :: "uuid \<Rightarrow> rstring \<times> rstring \<Rightarrow> api_error + channel_endpoint" where
  "endpoint_input rid = (\<lambda>(channel, address).
     bind_result (ok_or (api_error 400 ''INVALID_CHANNEL'' ''channel must be one of WHATSAPP, SMS, EMAIL.'' rid)
       (channel_type_from_db channel)) (\<lambda>ch.
       map_err (\<lambda>_. api_error 400 ''INVALID_CHANNEL_ENDPOINT_ADDRESS'' ''address cannot be blank.'' rid)
         (channel_endpoint_new ch address)))"

fun preference_api_error :: "uuid \<Rightarrow> delivery_preference_error \<Rightarrow> api_error" where
  "preference_api_error rid DeliveryPreference_EmptyChannelList =
     api_error 400 ''EMPTY_DELIVERY_CHANNELS'' ''channels must contain at least one channel.'' rid"
| "preference_api_error rid (DeliveryPreference_DuplicateChannel _) =
     api_error 400 ''DUPLICATE_DELIVERY_CHANNEL'' ''each channel may be listed at most once.'' rid"

definition set_delivery_preference ::
  "api_config \<Rightarrow> api_request \<Rightarrow> uuid \<Rightarrow> rstring \<Rightarrow> (rstring \<times> rstring) list \<Rightarrow> database \<Rightarrow>
   database \<times> (api_error + preference_response)" where
  "set_delivery_preference cfg rq consumer strategy inputs db =
     (let rid = api_request_id cfg rq in
      answer db (
      bind_result (managing_reviewer cfg rq Capability_ManageSubscriptions db) (\<lambda>a.
      bind_result (authorize_consumer_access db a (ConsumerId consumer) rid) (\<lambda>_.
      bind_result (ok_or (api_error 400 ''INVALID_DELIVERY_STRATEGY''
            ''strategy must be one of ALL, PRIMARY_FALLBACK, PRIORITY_LIST.'' rid)
          (delivery_strategy_from_db strategy)) (\<lambda>st.
      bind_result (collect_results (map (endpoint_input rid) inputs)) (\<lambda>channels.
      bind_result (map_err (preference_api_error rid) (delivery_preference_new st channels)) (\<lambda>p.
      bind_result (map_err (\<lambda>_. subscription_persistence_failed rid)
          (preference_upsert (ConsumerId consumer) p db)) (\<lambda>db'.
        Inr (db', delivery_preference_response (ConsumerId consumer) p)))))))))"

definition get_delivery_preference ::
  "api_config \<Rightarrow> api_request \<Rightarrow> uuid \<Rightarrow> database \<Rightarrow> api_error + preference_response" where
  "get_delivery_preference cfg rq consumer db =
     (let rid = api_request_id cfg rq in
      bind_result (managing_reviewer cfg rq Capability_ManageSubscriptions db) (\<lambda>a.
      bind_result (authorize_consumer_access db a (ConsumerId consumer) rid) (\<lambda>_.
      bind_result (bind_result (map_err (\<lambda>_. subscription_persistence_failed rid)
            (preference_find_by_consumer db (ConsumerId consumer)))
          (ok_or (api_error 404 ''DELIVERY_PREFERENCE_NOT_FOUND'' ''No delivery preference is set for this consumer.'' rid))) (\<lambda>p.
        Inr (delivery_preference_response (ConsumerId consumer) p)))))"

section \<open>What a success means\<close>

text \<open>Who may change the settings of a consumer: a platform administrator; any reviewer where no
  organization owns the consumer; else a member of the active organization that owns it.\<close>

definition may_manage :: "database \<Rightarrow> uuid \<Rightarrow> consumer_id \<Rightarrow> bool" where
  "may_manage db u consumer \<longleftrightarrow>
     (\<exists>found. membership_find db u = Inr found \<and>
        ((\<exists>m. found = Some m \<and> member_role m = Role_PlatformAdmin) \<or>
         (case organization_find_id_by_consumer db consumer of
            None \<Rightarrow> True
          | Some i \<Rightarrow> (\<exists>m. found = Some m \<and> member_organization_id m = Some i) \<and>
              (\<exists>g. organization_find_by_id db i = Inr g \<and> (\<forall>o'. g = Some o' \<longrightarrow> organization_is_active o')))))"

lemma authorize_consumer_access_Inr:
  assumes "authorize_consumer_access db a consumer rid = Inr ()"
  shows "\<exists>u. a = Actor_Reviewer u \<and> may_manage db u consumer"
proof -
  obtain m where m: "reviewer_membership db a rid = Inr m"
    and org: "(case organization_find_id_by_consumer db consumer of
          None \<Rightarrow> Inr ()
        | Some i \<Rightarrow>
            bind_result (map_err (\<lambda>_. subscription_persistence_failed rid) (organization_find_by_id db i)) (\<lambda>g.
              let is_active = (case g of None \<Rightarrow> True | Some o' \<Rightarrow> organization_is_active o') in
              if \<not> is_active \<and> member_role m \<noteq> Role_PlatformAdmin then Inl (not_authorized_for_consumer rid)
              else Inr ())) = Inr ()"
    and gate: "authorize_consumer_management m (organization_find_id_by_consumer db consumer) = Inr ()"
    using assms by (auto simp: authorize_consumer_access_def Let_def bind_result_Inr map_err_Inr)
  obtain u found where u: "a = Actor_Reviewer u" and found: "membership_find db u = Inr found"
    and m': "m = (case found of None \<Rightarrow> \<lparr>member_role = Role_Member, member_organization_id = None\<rparr> | Some m \<Rightarrow> m)"
    using m by (auto simp: reviewer_membership_def bind_result_Inr map_err_Inr split: actor.splits)
  have g: "member_role m = Role_PlatformAdmin \<or> organization_find_id_by_consumer db consumer = None \<or>
      organization_find_id_by_consumer db consumer = member_organization_id m"
    using gate by (simp add: consumer_management.gate_Inr)
  have "may_manage db u consumer"
  proof (cases "organization_find_id_by_consumer db consumer")
    case None
    then show ?thesis using found by (auto simp: may_manage_def)
  next
    case (Some i)
    then obtain og where og: "organization_find_by_id db i = Inr og"
      "member_role m = Role_PlatformAdmin \<or> (\<forall>o'. og = Some o' \<longrightarrow> organization_is_active o')"
      using org by (auto simp: bind_result_Inr map_err_Inr Let_def split: if_splits option.splits)
    show ?thesis
      using g og found m' Some by (cases found) (auto simp: may_manage_def)
  qed
  with u show ?thesis by blast
qed

lemma managing_reviewer_Inr: "managing_reviewer cfg rq cap db = Inr a \<Longrightarrow> api_actor cfg rq db = Inr a"
  by (auto simp: managing_reviewer_def bind_result_Inr)

lemma update_subscription_outcome_Inr:
  "(case w of Inr (d, SubscriptionUpdate_Updated) \<Rightarrow> Inr (d, x) | Inr (_, SubscriptionUpdate_Conflict) \<Rightarrow> Inl e1 | Inl _ \<Rightarrow> Inl e2) =
     Inr (db', y) \<longleftrightarrow> w = Inr (db', SubscriptionUpdate_Updated) \<and> y = x"
  by (auto split: sum.splits prod.splits subscription_update_outcome.splits)

lemma create_subscription_changes:
  assumes "fst (create_subscription cfg rq at c inputs db) \<noteq> db"
  shows "\<exists>u. api_actor cfg rq db = Inr (Actor_Reviewer u) \<and> may_manage db u (ConsumerId c)"
proof -
  let ?rid = "api_request_id cfg rq"
  obtain a where a: "managing_reviewer cfg rq Capability_ManageSubscriptions db = Inr a"
    using assms by (cases "managing_reviewer cfg rq Capability_ManageSubscriptions db") (auto simp: create_subscription_def Let_def)
  obtain "authorize_consumer_access db a (ConsumerId c) ?rid = Inr ()"
    using assms a by (cases "authorize_consumer_access db a (ConsumerId c) ?rid") (auto simp: create_subscription_def Let_def)
  from authorize_consumer_access_Inr [OF this] managing_reviewer_Inr [OF a] show ?thesis by blast
qed

lemma set_delivery_preference_changes:
  assumes "fst (set_delivery_preference cfg rq c st chs db) \<noteq> db"
  shows "\<exists>u. api_actor cfg rq db = Inr (Actor_Reviewer u) \<and> may_manage db u (ConsumerId c)"
proof -
  let ?rid = "api_request_id cfg rq"
  obtain a where a: "managing_reviewer cfg rq Capability_ManageSubscriptions db = Inr a"
    using assms by (cases "managing_reviewer cfg rq Capability_ManageSubscriptions db") (auto simp: set_delivery_preference_def Let_def)
  obtain "authorize_consumer_access db a (ConsumerId c) ?rid = Inr ()"
    using assms a by (cases "authorize_consumer_access db a (ConsumerId c) ?rid") (auto simp: set_delivery_preference_def Let_def)
  from authorize_consumer_access_Inr [OF this] managing_reviewer_Inr [OF a] show ?thesis by blast
qed

lemma update_subscription_changes:
  assumes "fst (update_subscription cfg rq i inputs db) \<noteq> db"
  shows "\<exists>u s. api_actor cfg rq db = Inr (Actor_Reviewer u) \<and>
    subscription_find_by_id db (SubscriptionId i) = Inr (Some s) \<and> may_manage db u (subscription_consumer_id s)"
proof -
  let ?rid = "api_request_id cfg rq"
  obtain r where "snd (update_subscription cfg rq i inputs db) = Inr r"
    using assms by (cases "snd (update_subscription cfg rq i inputs db)")
      (auto simp: update_subscription_def Let_def answer_def split: sum.splits prod.splits)
  then obtain db' where "update_subscription cfg rq i inputs db = (db', Inr r)" by (metis prod.collapse)
  then obtain a s where a: "managing_reviewer cfg rq Capability_ManageSubscriptions db = Inr a"
    and s: "subscription_find_by_id db (SubscriptionId i) = Inr (Some s)"
    and ok: "authorize_consumer_access db a (subscription_consumer_id s) ?rid = Inr ()"
    unfolding update_subscription_def Let_def answer_Inr bind_result_Inr map_err_Inr ok_or_Inr by auto
  from authorize_consumer_access_Inr [OF ok] managing_reviewer_Inr [OF a] s show ?thesis by blast
qed

section \<open>Properties\<close>

text \<open>C15: Creating or updating a subscription or setting a delivery preference changes the database only for a
  reviewer who may manage the consumer it belongs to: a platform administrator, any reviewer where no
  organization owns the consumer, and else a member of the active organization that owns it.\<close>

theorem consumer_settings_owned:
  "(if fst (create_subscription cfg rq at c inputs db) = db then True else
      \<exists>u. api_actor cfg rq db = Inr (Actor_Reviewer u) \<and> may_manage db u (ConsumerId c)) \<and>
   (if fst (update_subscription cfg rq i inputs db) = db then True else
      \<exists>u s. api_actor cfg rq db = Inr (Actor_Reviewer u) \<and>
        subscription_find_by_id db (SubscriptionId i) = Inr (Some s) \<and> may_manage db u (subscription_consumer_id s)) \<and>
   (if fst (set_delivery_preference cfg rq c st chs db) = db then True else
      \<exists>u. api_actor cfg rq db = Inr (Actor_Reviewer u) \<and> may_manage db u (ConsumerId c))"
  using create_subscription_changes [of cfg rq at c inputs db] update_subscription_changes [of cfg rq i inputs db]
    set_delivery_preference_changes [of cfg rq c st chs db] by auto

text \<open>The areas offered to reviewers.\<close>

lemma distinct_areas_spec:
  "distinct (map to_lowercase (distinct_areas seen as)) \<and>
   to_lowercase ` set (distinct_areas seen as) = to_lowercase ` set as - set seen \<and>
   set (distinct_areas seen as) \<subseteq> set as"
proof (induction seen "as" rule: distinct_areas.induct)
  case (2 seen a as)
  then show ?case by auto
qed simp

text \<open>The areas offered for an alert are, up to upper and lower case, exactly the areas that some stored
  subscription names, each once, in the order of their lower case and in a spelling somebody chose.\<close>

theorem listed_areas_exact:
  assumes "list_geography_areas cfg rq db = Inr areas" and "subscription_list_all db = Inr ss"
  shows "sorted (map to_lowercase areas) \<and> distinct (map to_lowercase areas) \<and>
    set (map to_lowercase areas) = {to_lowercase (geo_area_text g) | g gs s. s \<in> set ss \<and>
        Rule_Geography gs \<in> set (subscription_rules s) \<and> g \<in> set gs} \<and>
    set areas \<subseteq> {geo_area_text g | g gs s. s \<in> set ss \<and> Rule_Geography gs \<in> set (subscription_rules s) \<and> g \<in> set gs}"
proof -
  let ?all = "concat (map (\<lambda>s. concat (map rule_areas (subscription_rules s))) ss)"
  have a: "areas = sort_key to_lowercase (distinct_areas [] ?all)"
    using assms by (auto simp: list_geography_areas_def Let_def bind_result_Inr map_err_Inr)
  have all: "set ?all = {geo_area_text g | g gs s. s \<in> set ss \<and> Rule_Geography gs \<in> set (subscription_rules s) \<and> g \<in> set gs}"
    by (force simp: rule_areas_def split: subscription_rule.splits)
  have "set (map to_lowercase areas) = to_lowercase ` set ?all" "set areas \<subseteq> set ?all"
    using distinct_areas_spec [of "[]" ?all] by (auto simp: a)
  moreover have "mset (map to_lowercase areas) = mset (map to_lowercase (distinct_areas [] ?all))" by (simp add: a)
  then have "distinct (map to_lowercase areas)"
    using distinct_areas_spec [of "[]" ?all] mset_eq_imp_distinct_iff by blast
  ultimately show ?thesis unfolding all by (auto simp: a)
qed

definition sample_area_rules :: "subscription_rule list" where
  "sample_area_rules = [Rule_Geography [GeoArea (lit ''Yaounde''), GeoArea (lit ''Douala'')], Rule_Geography [GeoArea (lit ''DOUALA'')]]"

definition sample_area_db :: database where
  "sample_area_db = empty_database\<lparr>
     db_reviewers := [\<lparr>reviewer_row_id = 9, reviewer_row_email = lit ''r'', reviewer_row_sessions_revoked_at = None\<rparr>],
     db_subscriptions := [\<lparr>subscription_row_id = 1, subscription_row_consumer_id = 2, subscription_row_version = 1,
       subscription_row_rules = rules_to_json sample_area_rules, subscription_row_created_at = lit ''t''\<rparr>]\<rparr>"

lemma sample_area_listed:
  "subscription_list_all sample_area_db = Inr [\<lparr>subscription_id = SubscriptionId 1, subscription_consumer_id = ConsumerId 2,
     subscription_version = 1, subscription_rules = sample_area_rules, subscription_created_at = Some (lit ''t'')\<rparr>]"
proof -
  have "list_all rule_wf sample_area_rules"
    by (simp add: sample_area_rules_def geo_area_wf_def geo_area_new_def trim_def lit_def is_whitespace_def Let_def)
  then have "collect_results (map rule_from_json (map rule_to_json sample_area_rules)) = Inr sample_area_rules"
    by (simp add: collect_results_Inr list_all_iff rule_json)
  then show ?thesis
    by (simp add: subscription_list_all_def sample_area_db_def subscription_from_row_def rules_to_json_def ok_or_def
        subscription_new_def subscription_with_created_at_def del: map_map)
      (simp add: sample_area_rules_def)
qed

theorem listed_areas_exact_witness:
  "\<exists>areas. list_geography_areas sample_config sample_request sample_area_db = Inr areas \<and>
     distinct (map to_lowercase areas)"
proof -
  have a: "api_actor sample_config sample_request sample_area_db = Inr (Actor_Reviewer 9)"
    by (rule sample_actor) (simp add: sample_area_db_def)
  obtain areas where l: "list_geography_areas sample_config sample_request sample_area_db = Inr areas"
    by (simp add: list_geography_areas_def managing_reviewer_def a authorize_def sample_area_listed Let_def)
  from listed_areas_exact [OF l sample_area_listed] l show ?thesis by blast
qed

end
