(* ===== verification/Citizen_Api.thy ===== *)
theory Citizen_Api
  imports Subscription_Api Citizen_Subscription
begin

text \<open>
  The self-service endpoints of citizens (\<open>apps/api/src/citizen_subscriptions.rs\<close>): creation behind a rate
  limit, and reading, updating and cancelling with the management token. \<open>sj\<close> is the JSON printer.
\<close>

definition citizen_not_found :: "uuid \<Rightarrow> api_error" where
  "citizen_not_found rid = api_error 404 ''CITIZEN_SUBSCRIPTION_NOT_FOUND''
     ''No citizen subscription exists with that id and management token.'' rid"

fun citizen_invalid_request :: "uuid \<Rightarrow> citizen_subscription_error \<Rightarrow> api_error" where
  "citizen_invalid_request rid CitizenSubscription_EmptyIncidentTypes =
     api_error 400 ''EMPTY_INCIDENT_TYPES'' ''At least one incident type is required.'' rid"
| "citizen_invalid_request rid CitizenSubscription_InvalidGeography =
     api_error 400 ''INVALID_GEOGRAPHY_AREA'' ''geography cannot be blank.'' rid"
| "citizen_invalid_request rid CitizenSubscription_InvalidPushSubscription =
     api_error 400 ''INVALID_PUSH_SUBSCRIPTION'' ''push_subscription is invalid.'' rid"
| "citizen_invalid_request rid CitizenSubscription_Panic = subscription_persistence_failed rid"

record push_subscription_input =
  push_endpoint :: rstring
  push_key_p256dh :: rstring
  push_key_auth :: rstring

definition push_json :: "push_subscription_input \<Rightarrow> json" where
  "push_json p = JObj
     [(lit ''endpoint'', JStr (push_endpoint p)),
      (lit ''keys'', JObj [(lit ''p256dh'', JStr (push_key_p256dh p)), (lit ''auth'', JStr (push_key_auth p))])]"

record create_citizen_request =
  citizen_incident_types :: "incident_type list"
  citizen_minimum_severity :: severity
  citizen_geography :: "rstring list"
  citizen_push_subscription :: push_subscription_input
  citizen_locale :: "rstring option"

record create_citizen_response =
  created_consumer_id :: uuid
  created_subscription_id :: uuid
  created_management_token :: rstring

section \<open>Creation\<close>

text \<open>Three separate writes: an error of a later one leaves the earlier ones in place.\<close>

definition create_citizen_subscription ::
  "(json \<Rightarrow> rstring) \<Rightarrow> api_config \<Rightarrow> api_request \<Rightarrow> rstring \<Rightarrow> create_citizen_request \<Rightarrow>
   database \<times> rate_limit_windows \<Rightarrow> (database \<times> rate_limit_windows) \<times> (api_error + nat \<times> create_citizen_response)" where
  "create_citizen_subscription sj cfg rq at req s =
     (let rid = api_request_id cfg rq; (db, limits) = s in
      case enforce_rate_limit limits Scope_CitizenSubscriptionCreation (source_key_from_headers (request_headers rq))
             (request_now rq) rid of
        (limits', Inl e) \<Rightarrow> ((db, limits'), Inl e)
      | (limits', Inr _) \<Rightarrow>
     (case prepare_citizen_subscription (config_show_uuid cfg) (config_sha256 cfg)
             \<lparr>request_incident_types = citizen_incident_types req,
              request_minimum_severity = citizen_minimum_severity req,
              request_geography = citizen_geography req,
              request_push_subscription_json = sj (push_json (citizen_push_subscription req)),
              request_locale = citizen_locale req\<rparr> (request_ids rq) of
        Inl e \<Rightarrow> ((db, limits'), Inl (citizen_invalid_request rid e))
      | Inr p \<Rightarrow>
     (case consumer_create_with_management_token (prepared_consumer p) (prepared_management_token_hash p) db of
        Inl _ \<Rightarrow> ((db, limits'), Inl (subscription_persistence_failed rid))
      | Inr db1 \<Rightarrow>
     (case preference_upsert (consumer_id (prepared_consumer p)) (prepared_delivery_preference p) db1 of
        Inl _ \<Rightarrow> ((db1, limits'), Inl (subscription_persistence_failed rid))
      | Inr db2 \<Rightarrow>
     (case subscription_repo_create at (prepared_subscription p) db2 of
        Inl _ \<Rightarrow> ((db2, limits'), Inl (subscription_persistence_failed rid))
      | Inr db3 \<Rightarrow>
          ((db3, limits'), Inr (201,
             \<lparr>created_consumer_id = consumer_uuid (consumer_id (prepared_consumer p)),
              created_subscription_id = subscription_uuid (subscription_id (prepared_subscription p)),
              created_management_token = prepared_management_token p\<rparr>)))))))"

section \<open>Management\<close>

definition presented_token :: "header_map \<Rightarrow> rstring option" where
  "presented_token headers =
     Option.bind (map_option trim (header_str headers ''Management-Token'')) (\<lambda>v. if v \<noteq> [] then Some v else None)"

definition authorize_citizen_subscription ::
  "api_config \<Rightarrow> database \<Rightarrow> subscription_id \<Rightarrow> header_map \<Rightarrow> uuid \<Rightarrow> api_error + subscription" where
  "authorize_citizen_subscription cfg db i headers rid =
     bind_result (bind_result (map_err (\<lambda>_. subscription_persistence_failed rid) (subscription_find_by_id db i))
        (ok_or (citizen_not_found rid))) (\<lambda>s.
     bind_result (ok_or (citizen_not_found rid) (presented_token headers)) (\<lambda>token.
     bind_result (ok_or (citizen_not_found rid) (consumer_management_token_hash db (subscription_consumer_id s))) (\<lambda>stored.
       if verify_management_token (config_sha256 cfg) token stored then Inr s
       else Inl (citizen_not_found rid))))"

record citizen_rules_response =
  rules_incident_types :: "incident_type list"
  rules_minimum_severity :: severity
  rules_geography :: "rstring list"

fun rules_response_step :: "subscription_rule \<Rightarrow> citizen_rules_response \<Rightarrow> citizen_rules_response" where
  "rules_response_step (Rule_IncidentType values) r = r\<lparr>rules_incident_types := values\<rparr>"
| "rules_response_step (Rule_Severity _ value) r = r\<lparr>rules_minimum_severity := value\<rparr>"
| "rules_response_step (Rule_Geography areas) r = r\<lparr>rules_geography := map geo_area_text areas\<rparr>"
| "rules_response_step (Rule_EventType _) r = r"
| "rules_response_step (Rule_Visibility _) r = r"

definition rules_response :: "subscription \<Rightarrow> citizen_rules_response" where
  "rules_response s = fold rules_response_step (subscription_rules s)
     \<lparr>rules_incident_types = [], rules_minimum_severity = Severity_Low, rules_geography = []\<rparr>"

definition get_citizen_subscription ::
  "api_config \<Rightarrow> api_request \<Rightarrow> uuid \<Rightarrow> database \<Rightarrow> api_error + citizen_rules_response" where
  "get_citizen_subscription cfg rq i db =
     bind_result (authorize_citizen_subscription cfg db (SubscriptionId i) (request_headers rq) (api_request_id cfg rq)) (\<lambda>s.
       Inr (rules_response s))"

record update_citizen_request =
  update_incident_types :: "incident_type list"
  update_minimum_severity :: severity
  update_geography :: "rstring list"
  update_push_subscription :: "push_subscription_input option"

text \<open>The rules are written before the push subscription is looked at. Draws the audit row's id.\<close>

definition update_citizen_subscription ::
  "(json \<Rightarrow> rstring) \<Rightarrow> api_config \<Rightarrow> api_request \<Rightarrow> uuid \<Rightarrow> update_citizen_request \<Rightarrow> database \<Rightarrow>
   database \<times> (api_error + citizen_rules_response)" where
  "update_citizen_subscription sj cfg rq i req db =
     (let rid = api_request_id cfg rq in
      finish db (
      bind_result (authorize_citizen_subscription cfg db (SubscriptionId i) (request_headers rq) rid) (\<lambda>s.
      if update_incident_types req = []
      then Inl (citizen_invalid_request rid CitizenSubscription_EmptyIncidentTypes)
      else
      let geo_areas = List.map_filter (\<lambda>area. to_ok (geo_area_new area)) (update_geography req) in
      if geo_areas = [] then Inl (citizen_invalid_request rid CitizenSubscription_InvalidGeography)
      else
      let rules =
            [Rule_IncidentType (update_incident_types req),
             Rule_Severity Comparison_GreaterThanOrEqual (update_minimum_severity req),
             Rule_Geography geo_areas,
             Rule_Visibility citizen_alert_visibilities] in
      bind_result (map_err (\<lambda>_. subscription_persistence_failed rid) (update_rules s rules)) (\<lambda>s'.
      bind_result (map_err (\<lambda>_. subscription_persistence_failed rid)
          (subscription_repo_update s' Actor_Automated rid (request_ids rq 0) db)) (\<lambda>(db1, outcome).
      if outcome = SubscriptionUpdate_Conflict
      then Inl (api_error 409 ''SUBSCRIPTION_VERSION_CONFLICT''
             ''This subscription changed since it was last read. Please retry.'' rid)
      else
      Inr (case update_push_subscription req of
        None \<Rightarrow> (db1, Inr (rules_response s'))
      | Some p \<Rightarrow>
         (case channel_endpoint_new ChannelType_Push (sj (push_json p)) of
            Inl _ \<Rightarrow> (db1, Inl (citizen_invalid_request rid CitizenSubscription_InvalidPushSubscription))
          | Inr e \<Rightarrow>
         (case delivery_preference_new DeliveryStrategy_All [e] of
            Inl _ \<Rightarrow> (db1, Inl (subscription_persistence_failed rid))
          | Inr preference \<Rightarrow>
         (case preference_upsert (subscription_consumer_id s') preference db1 of
            Inl _ \<Rightarrow> (db1, Inl (subscription_persistence_failed rid))
          | Inr db2 \<Rightarrow> (db2, Inr (rules_response s')))))))))))"

definition cancel_citizen_subscription ::
  "api_config \<Rightarrow> api_request \<Rightarrow> uuid \<Rightarrow> database \<Rightarrow> database \<times> (api_error + nat)" where
  "cancel_citizen_subscription cfg rq i db =
     answer db (
     bind_result (authorize_citizen_subscription cfg db (SubscriptionId i) (request_headers rq) (api_request_id cfg rq)) (\<lambda>s.
       Inr (subscription_repo_delete (subscription_id s) db, 204)))"

section \<open>The token\<close>

lemma authorize_citizen_iff:
  "authorize_citizen_subscription cfg db i headers rid = Inr s \<longleftrightarrow>
     subscription_find_by_id db i = Inr (Some s) \<and>
     (\<exists>token. presented_token headers = Some token \<and>
        consumer_management_token_hash db (subscription_consumer_id s) = Some (config_sha256 cfg token))"
  by (auto simp: authorize_citizen_subscription_def bind_result_Inr map_err_Inr ok_or_Inr guard_Inr
      verify_management_token_def constant_time_eq_iff hash_management_token_def)

lemma authorize_citizen_refused:
  assumes "subscription_find_by_id db i = Inr found" and "authorize_citizen_subscription cfg db i headers rid = Inl e"
  shows "e = citizen_not_found rid"
  using assms
  by (auto simp: authorize_citizen_subscription_def bind_result_Inl map_err_Inl ok_or_def split: option.splits if_splits)



section \<open>What citizens are notified of\<close>

text \<open>The rules of a citizen's request, stored by either endpoint.\<close>

definition citizen_rule_list :: "incident_type list \<Rightarrow> severity \<Rightarrow> rstring list \<Rightarrow> subscription_rule list" where
  "citizen_rule_list its sev names =
     [Rule_IncidentType its, Rule_Severity Comparison_GreaterThanOrEqual sev, Rule_Geography (citizen_areas names),
      Rule_Visibility citizen_alert_visibilities]"

lemma citizen_rule_list_wf: "list_all rule_wf (citizen_rule_list its sev names)"
  by (auto simp: citizen_rule_list_def citizen_areas_def list_all_iff geo_area_wf_def geo_area_new_simps trim_Nil_iff
      simp flip: trim_Nil_iff)

lemma citizen_rule_list_matches:
  "subscription_rules s = citizen_rule_list its sev names \<Longrightarrow>
   decision_matched (evaluate_subscription s al) \<longleftrightarrow>
     alert_incident_type al \<in> set its \<and> sev \<le> alert_severity al \<and>
     list_ex (\<lambda>area. matches_target area (alert_target_geography al)) (citizen_areas names) \<and>
     Alert_Model.alert_visibility al \<in> {AlertVisibility_Community, AlertVisibility_Public}"
  by (auto simp: evaluate_subscription_def evaluate_rule_def citizen_rule_list_def citizen_alert_visibilities_def Let_def)

lemma subscription_created:
  assumes ok: "subscription_store_ok db" and wf: "list_all rule_wf (subscription_rules s)"
    and c: "subscription_repo_create at s db = Inr db'"
  shows "subscription_lookup db' (subscription_id s) = Some (s\<lparr>subscription_created_at := Some at\<rparr>)"
proof -
  let ?r = "\<lparr>subscription_row_id = subscription_uuid (subscription_id s),
               subscription_row_consumer_id = consumer_uuid (subscription_consumer_id s),
               subscription_row_version = subscription_version s,
               subscription_row_rules = rules_to_json (subscription_rules s),
               subscription_row_created_at = at\<rparr>"
  have db': "db' = db\<lparr>db_subscriptions := db_subscriptions db @ [?r]\<rparr>"
    and fresh: "subscription_uuid (subscription_id s) \<notin> subscription_row_id ` set (db_subscriptions db)"
    and ne: "subscription_rules s \<noteq> []"
    using c by (auto simp: subscription_repo_create_def Let_def bind_result_Inr insert_row_Inr subscription_row_checks_def
        rules_to_json_def split: if_splits)
  have "subscription_from_row ?r = Inr (s\<lparr>subscription_created_at := Some at\<rparr>)"
    using ne wf by (cases "subscription_id s"; cases "subscription_consumer_id s")
      (simp add: subscription_from_row_Inr rules_to_json_def list_all_iff rule_json)
  with fresh show ?thesis
    unfolding subscription_lookup_def db' by (simp add: row_lookup_append)
qed

lemma update_citizen_Inr:
  assumes "update_citizen_subscription sj cfg rq i req db = (db', Inr resp)"
  shows "\<exists>s s' db1. subscription_find_by_id db (SubscriptionId i) = Inr (Some s) \<and>
    s' = s\<lparr>subscription_rules := citizen_rule_list (update_incident_types req) (update_minimum_severity req)
             (update_geography req), subscription_version := subscription_version s + 1\<rparr> \<and>
    subscription_repo_update s' Actor_Automated (api_request_id cfg rq) (request_ids rq 0) db =
      Inr (db1, SubscriptionUpdate_Updated) \<and>
    db_subscriptions db' = db_subscriptions db1 \<and> resp = rules_response s'"
proof -
  obtain s where a: "authorize_citizen_subscription cfg db (SubscriptionId i) (request_headers rq) (api_request_id cfg rq) = Inr s"
    using assms by (auto simp: update_citizen_subscription_def Let_def finish_Inr bind_result_Inr)
  let ?s' = "s\<lparr>subscription_rules := citizen_rule_list (update_incident_types req) (update_minimum_severity req)
             (update_geography req), subscription_version := subscription_version s + 1\<rparr>"
  have u: "update_rules s (citizen_rule_list its sev names) =
      Inr (s\<lparr>subscription_rules := citizen_rule_list its sev names, subscription_version := subscription_version s + 1\<rparr>)"
    for its sev names by (simp add: update_rules_def citizen_rule_list_def)
  obtain db1 out where w: "subscription_repo_update ?s' Actor_Automated (api_request_id cfg rq) (request_ids rq 0) db = Inr (db1, out)"
    "out \<noteq> SubscriptionUpdate_Conflict"
    and rest: "db_subscriptions db' = db_subscriptions db1" "resp = rules_response ?s'"
    using assms
    by (auto simp: update_citizen_subscription_def Let_def a citizen_areas_filter u [unfolded citizen_rule_list_def]
        citizen_rule_list_def finish_Inr bind_result_Inr map_err_Inr preference_upsert_def
        split: if_splits option.splits sum.splits)
  have "out = SubscriptionUpdate_Updated" using w(2) by (cases out) simp_all
  with w(1) a rest show ?thesis by (auto simp: authorize_citizen_iff)
qed

lemma consumer_insert_frame: "consumer_insert c h db = Inr db' \<Longrightarrow> db_subscriptions db' = db_subscriptions db"
  by (auto simp: consumer_insert_def bind_result_Inr split: if_splits)

lemma preference_upsert_frame: "preference_upsert c p db = Inr db' \<Longrightarrow> db_subscriptions db' = db_subscriptions db"
  by (auto simp: preference_upsert_def Let_def split: if_splits)

lemma create_citizen_Inr:
  assumes "create_citizen_subscription sj cfg rq at req (db, limits) = ((db', limits'), Inr (st, resp))"
  shows "\<exists>s db2. db_subscriptions db2 = db_subscriptions db \<and> subscription_repo_create at s db2 = Inr db' \<and>
    subscription_rules s = citizen_rule_list (citizen_incident_types req) (citizen_minimum_severity req) (citizen_geography req) \<and>
    created_subscription_id resp = subscription_uuid (subscription_id s)"
proof -
  obtain p db1 db2 where p: "prepare_citizen_subscription (config_show_uuid cfg) (config_sha256 cfg)
             \<lparr>request_incident_types = citizen_incident_types req,
              request_minimum_severity = citizen_minimum_severity req,
              request_geography = citizen_geography req,
              request_push_subscription_json = sj (push_json (citizen_push_subscription req)),
              request_locale = citizen_locale req\<rparr> (request_ids rq) = Inr p"
    and w: "consumer_create_with_management_token (prepared_consumer p) (prepared_management_token_hash p) db = Inr db1"
      "preference_upsert (consumer_id (prepared_consumer p)) (prepared_delivery_preference p) db1 = Inr db2"
      "subscription_repo_create at (prepared_subscription p) db2 = Inr db'"
    and resp: "created_subscription_id resp = subscription_uuid (subscription_id (prepared_subscription p))"
    using assms by (auto simp: create_citizen_subscription_def Let_def split: prod.splits sum.splits)
  have "subscription_rules (prepared_subscription p) =
      citizen_rule_list (citizen_incident_types req) (citizen_minimum_severity req) (citizen_geography req)"
    using p by (auto simp: prepare_citizen_subscription_eq citizen_rules_def citizen_rule_list_def split: if_splits)
  moreover have "db_subscriptions db2 = db_subscriptions db"
    using w(1,2) preference_upsert_frame consumer_insert_frame
    unfolding consumer_create_with_management_token_def by metis
  ultimately show ?thesis using w(3) resp by blast
qed

text \<open>The rules that a successful request leaves in the stored subscription.\<close>

lemma citizen_created_rules:
  assumes ok: "subscription_store_ok db"
    and c: "create_citizen_subscription sj cfg rq at req (db, limits) = ((db', limits'), Inr (st, resp))"
  shows "\<exists>s. subscription_lookup db' (SubscriptionId (created_subscription_id resp)) = Some s \<and>
    subscription_rules s =
      citizen_rule_list (citizen_incident_types req) (citizen_minimum_severity req) (citizen_geography req)"
proof -
  obtain s db2 where s: "db_subscriptions db2 = db_subscriptions db" "subscription_repo_create at s db2 = Inr db'"
    and rules: "subscription_rules s =
      citizen_rule_list (citizen_incident_types req) (citizen_minimum_severity req) (citizen_geography req)"
    and id: "created_subscription_id resp = subscription_uuid (subscription_id s)"
    using create_citizen_Inr [OF c] by blast
  have "subscription_store_ok db2" using ok s(1) by (simp add: subscription_store_ok_def)
  from subscription_created [OF this _ s(2)] rules citizen_rule_list_wf id
  show ?thesis by simp
qed

lemma citizen_updated_rules:
  assumes ok: "subscription_store_ok db"
    and c: "update_citizen_subscription sj cfg rq i ureq db = (db', Inr resp)"
  shows "\<exists>s. subscription_lookup db' (SubscriptionId i) = Some s \<and>
    subscription_rules s =
      citizen_rule_list (update_incident_types ureq) (update_minimum_severity ureq) (update_geography ureq)"
proof -
  obtain s s' db1 where s: "subscription_find_by_id db (SubscriptionId i) = Inr (Some s)"
    and s': "s' = s\<lparr>subscription_rules := citizen_rule_list (update_incident_types ureq) (update_minimum_severity ureq)
         (update_geography ureq), subscription_version := subscription_version s + 1\<rparr>"
    and w: "subscription_repo_update s' Actor_Automated (api_request_id cfg rq) (request_ids rq 0) db =
      Inr (db1, SubscriptionUpdate_Updated)"
    and subs: "db_subscriptions db' = db_subscriptions db1"
    using update_citizen_Inr [OF c] by blast
  have "subscription_lookup db (SubscriptionId i) = Some s"
    using s subscription_find_by_id_lookup [OF ok] by simp
  then have id: "subscription_id s = SubscriptionId i"
    using subscription_lookup_Some [OF ok] by (auto simp: subscription_from_row_Inr)
  have "list_all rule_wf (subscription_rules s')" by (simp add: s' citizen_rule_list_wf)
  from subscription_updated [OF ok this w] id show ?thesis
    by (auto simp: s' subscription_lookup_def subs)
qed

text \<open>C17: What the self-service endpoints store for a citizen, on creation or update, matches exactly the alerts of
  the requested incident types, of at least the requested severity, in a requested area, and of community
  or public visibility: a citizen can never subscribe to internal or partner alerts.\<close>

theorem citizens_only_get_public_alerts:
  assumes "subscription_store_ok db"
  shows "(case create_citizen_subscription sj cfg rq at req (db, limits) of
       ((db', _), Inr (_, resp)) \<Rightarrow>
         (\<exists>s. subscription_lookup db' (SubscriptionId (created_subscription_id resp)) = Some s \<and>
            (\<forall>al. decision_matched (evaluate_subscription s al) =
               (alert_incident_type al \<in> set (citizen_incident_types req) \<and>
                citizen_minimum_severity req \<le> alert_severity al \<and>
                list_ex (\<lambda>area. matches_target area (alert_target_geography al)) (citizen_areas (citizen_geography req)) \<and>
                Alert_Model.alert_visibility al \<in> {AlertVisibility_Community, AlertVisibility_Public})))
     | (_, Inl _) \<Rightarrow> True) \<and>
    (case update_citizen_subscription sj cfg rq i ureq db of
       (db', Inr _) \<Rightarrow>
         (\<exists>s. subscription_lookup db' (SubscriptionId i) = Some s \<and>
            (\<forall>al. decision_matched (evaluate_subscription s al) =
               (alert_incident_type al \<in> set (update_incident_types ureq) \<and>
                update_minimum_severity ureq \<le> alert_severity al \<and>
                list_ex (\<lambda>area. matches_target area (alert_target_geography al)) (citizen_areas (update_geography ureq)) \<and>
                Alert_Model.alert_visibility al \<in> {AlertVisibility_Community, AlertVisibility_Public})))
     | (_, Inl _) \<Rightarrow> True)"
    (is "?create \<and> ?update")
proof
  show ?create
  proof (cases "create_citizen_subscription sj cfg rq at req (db, limits)")
    case (Pair w r)
    then show ?thesis
      using citizen_created_rules [OF assms, of sj cfg rq at req limits "fst w" "snd w"] citizen_rule_list_matches
      by (cases w; cases r) fastforce+
  qed
next
  show ?update
  proof (cases "update_citizen_subscription sj cfg rq i ureq db")
    case (Pair db' r)
    then show ?thesis
      using citizen_updated_rules [OF assms, of sj cfg rq i ureq db'] citizen_rule_list_matches
      by (cases r) fastforce+
  qed
qed

definition sample_citizen_request :: create_citizen_request where
  "sample_citizen_request = \<lparr>citizen_incident_types = [IncidentType_MissingChild], citizen_minimum_severity = Severity_High,
     citizen_geography = [lit ''Douala''],
     citizen_push_subscription = \<lparr>push_endpoint = lit ''e'', push_key_p256dh = lit ''p'', push_key_auth = lit ''a''\<rparr>,
     citizen_locale = None\<rparr>"

theorem citizens_only_get_public_alerts_witness:
  "\<exists>db' limits' resp s. create_citizen_subscription (\<lambda>_. lit ''x'') sample_config sample_request (lit ''t'') sample_citizen_request
       (empty_database, \<lambda>_. None) = ((db', limits'), Inr (201, resp)) \<and>
     subscription_lookup db' (SubscriptionId (created_subscription_id resp)) = Some s \<and>
     (\<forall>al. decision_matched (evaluate_subscription s al) \<longrightarrow> Alert_Model.alert_visibility al \<noteq> AlertVisibility_Internal)"
proof -
  let ?create = "create_citizen_subscription (\<lambda>_. lit ''x'') sample_config sample_request (lit ''t'') sample_citizen_request
       (empty_database, \<lambda>_. None)"
  have "\<exists>db' limits' resp. ?create = ((db', limits'), Inr (201, resp))"
    by (simp add: create_citizen_subscription_def enforce_rate_limit_def pg_record_and_check_def Let_def
        prepare_citizen_subscription_eq sample_citizen_request_def is_blank_def lit_def trim_def is_whitespace_def
        consumer_create_with_management_token_def consumer_insert_def consumer_with_locale_def insert_row_def
        citizen_consumer_name_def btrim_blank_def preference_upsert_def subscription_repo_create_def
        subscription_row_checks_def rules_to_json_def citizen_rules_def word_sless_alt empty_database_def)
  then obtain db' limits' resp where c: "?create = ((db', limits'), Inr (201, resp))" by blast
  have "subscription_store_ok empty_database" by (simp add: subscription_store_ok_def empty_database_def)
  from citizens_only_get_public_alerts [OF this, where sj = "\<lambda>_. lit ''x''" and cfg = sample_config and rq = sample_request
      and at = "lit ''t''" and req = sample_citizen_request and limits = "\<lambda>_. None" and i = 0
      and ureq = "\<lparr>update_incident_types = [], update_minimum_severity = Severity_Low, update_geography = [],
        update_push_subscription = None\<rparr>", THEN conjunct1] c
  obtain s where "subscription_lookup db' (SubscriptionId (created_subscription_id resp)) = Some s"
    "\<forall>al. decision_matched (evaluate_subscription s al) \<longrightarrow>
       Alert_Model.alert_visibility al \<in> {AlertVisibility_Community, AlertVisibility_Public}" by auto
  with c show ?thesis by (intro exI [of _ db'] exI [of _ limits'] exI [of _ resp] exI [of _ s]) auto
qed

end
