(* ===== verification/Delivery_Store.thy ===== *)
theory Delivery_Store
  imports Store_Base
begin

text \<open>
  The delivery repository (\<open>crates/infrastructure/src/postgres/deliveries.rs\<close>): the JSON of the
  matched subscriptions, reading rows back, planning, the claim that starts attempts, and the two
  transition writers with their compare-and-set. \<open>show_uuid\<close> and \<open>parse_uuid\<close> are the text form of
  a UUID and its parser; times are in seconds.
\<close>

section \<open>Rows\<close>

definition matched_subscription_to_json :: "(uuid \<Rightarrow> rstring) \<Rightarrow> matched_subscription \<Rightarrow> json" where
  "matched_subscription_to_json su m = JObj
     [(lit ''subscription_id'', uuid_json su (subscription_uuid (matched_subscription_id m))),
      (lit ''subscription_version'', JNum (unat (matched_subscription_version m)))]"

definition matched_subscriptions_to_json :: "(uuid \<Rightarrow> rstring) \<Rightarrow> matched_subscription list \<Rightarrow> json" where
  "matched_subscriptions_to_json su ms = JArr (map (matched_subscription_to_json su) ms)"

definition matched_subscription_from_json ::
  "(rstring \<Rightarrow> uuid option) \<Rightarrow> json \<Rightarrow> db_error + matched_subscription" where
  "matched_subscription_from_json pu value =
     bind_result (ok_or DbPanic (Option.bind (json_get value (lit ''subscription_id'')) json_as_str)) (\<lambda>s.
     bind_result (ok_or DbPanic (pu s)) (\<lambda>u.
     bind_result (ok_or DbPanic (Option.bind (json_get value (lit ''subscription_version'')) json_as_u64)) (\<lambda>n.
       Inr \<lparr>matched_subscription_id = SubscriptionId u, matched_subscription_version = of_nat n\<rparr>)))"

lemma matched_subscription_json:
  "uuid_text su pu \<Longrightarrow>
     matched_subscription_from_json pu (matched_subscription_to_json su m) = Inr m"
  by (cases m; cases "matched_subscription_id m")
     (simp add: matched_subscription_from_json_def matched_subscription_to_json_def uuid_json_def uuid_text_def)

lemma matched_subscriptions_json:
  assumes "uuid_text su pu"
  shows "collect_results (map (matched_subscription_from_json pu)
           (map (matched_subscription_to_json su) ms)) = Inr ms"
  by (simp add: collect_results_Inr matched_subscription_json [OF assms] comp_def)

definition delivery_from_row ::
  "(uuid \<Rightarrow> rstring) \<Rightarrow> (rstring \<Rightarrow> uuid option) \<Rightarrow> delivery_row \<Rightarrow> db_error + delivery" where
  "delivery_from_row su pu r =
     bind_result (ok_or DbPanic (channel_type_from_db (delivery_row_channel r))) (\<lambda>ch.
     bind_result (ok_or DbPanic (json_as_array (delivery_row_matching r))) (\<lambda>js.
     bind_result (collect_results (map (matched_subscription_from_json pu) js)) (\<lambda>ms.
     bind_result (map_err (\<lambda>_. DbPanic) (retry_policy_new (delivery_row_max_attempts r))) (\<lambda>rp.
     bind_result (ok_or DbPanic (delivery_status_from_db (delivery_row_status r))) (\<lambda>st.
       Inr (delivery_reconstitute su (DeliveryId (delivery_row_id r)) (AlertId (delivery_row_alert_id r))
              (ConsumerId (delivery_row_consumer_id r)) ch (delivery_row_endpoint_address r)
              (ucast (delivery_row_tier r)) ms rp st (delivery_row_attempt_count r)
              (delivery_row_version r)))))))"

definition delivery_to_row :: "(uuid \<Rightarrow> rstring) \<Rightarrow> bytes \<Rightarrow> nat option \<Rightarrow> delivery \<Rightarrow> delivery_row" where
  "delivery_to_row su key_hash next_at d =
     \<lparr>delivery_row_id = delivery_uuid (delivery_id d),
      delivery_row_alert_id = alert_uuid (delivery_alert_id d),
      delivery_row_consumer_id = consumer_uuid (delivery_consumer_id d),
      delivery_row_channel = channel_type_to_db (delivery_channel d),
      delivery_row_endpoint_address = delivery_endpoint_address d,
      delivery_row_tier = ucast (delivery_tier d), delivery_row_key_hash = key_hash,
      delivery_row_matching = matched_subscriptions_to_json su (delivery_matching_subscriptions d),
      delivery_row_status = delivery_status_to_db (delivery_status d),
      delivery_row_attempt_count = delivery_attempt_count d,
      delivery_row_max_attempts = delivery_max_attempts d,
      delivery_row_version = delivery_version d, delivery_row_next_attempt_at = next_at\<rparr>"

section \<open>Reading\<close>

definition delivery_find_by_id ::
  "(uuid \<Rightarrow> rstring) \<Rightarrow> (rstring \<Rightarrow> uuid option) \<Rightarrow> database \<Rightarrow> delivery_id \<Rightarrow> db_error + delivery option" where
  "delivery_find_by_id su pu db i =
     (case find (\<lambda>r. delivery_row_id r = delivery_uuid i) (db_deliveries db) of
        None \<Rightarrow> Inr None
      | Some r \<Rightarrow> bind_result (delivery_from_row su pu r) (\<lambda>d. Inr (Some d)))"

definition delivery_find_by_alert_id ::
  "(uuid \<Rightarrow> rstring) \<Rightarrow> (rstring \<Rightarrow> uuid option) \<Rightarrow> database \<Rightarrow> alert_id \<Rightarrow> db_error + delivery list" where
  "delivery_find_by_alert_id su pu db a =
     collect_results (map (delivery_from_row su pu)
       (filter (\<lambda>r. delivery_row_alert_id r = alert_uuid a) (db_deliveries db)))"

definition attempt_of_row :: "delivery_id \<Rightarrow> attempt_row \<Rightarrow> db_error + delivery_attempt" where
  "attempt_of_row i r =
     bind_result
       (if attempt_row_outcome r = lit ''SENT''
        then Inr (AttemptOutcome_Sent (attempt_row_provider_message_id r))
        else if attempt_row_outcome r = lit ''FAILED''
        then bind_result (ok_or DbPanic (attempt_row_retryable r)) (\<lambda>b.
             bind_result (ok_or DbPanic (attempt_row_failure_reason r)) (\<lambda>s.
               Inr (AttemptOutcome_Failed b s)))
        else Inl DbPanic)
       (\<lambda>out. Inr \<lparr>attempt_id = DeliveryAttemptId (attempt_row_id r), attempt_delivery_id = i,
                  attempt_number = attempt_row_number r, attempt_outcome = out\<rparr>)"

definition delivery_find_attempts :: "database \<Rightarrow> delivery_id \<Rightarrow> db_error + delivery_attempt list" where
  "delivery_find_attempts db i =
     collect_results (map (attempt_of_row i)
       (sort_key (\<lambda>r. sint (attempt_row_number r))
          (filter (\<lambda>r. attempt_row_delivery_id r = delivery_uuid i) (db_attempts db))))"

text \<open>\<open>ORDER BY attempt_number DESC LIMIT 1\<close>.\<close>

definition delivery_find_by_provider_message_id ::
  "(uuid \<Rightarrow> rstring) \<Rightarrow> (rstring \<Rightarrow> uuid option) \<Rightarrow> database \<Rightarrow> rstring \<Rightarrow> db_error + delivery option" where
  "delivery_find_by_provider_message_id su pu db pid =
     (case rev (sort_key (\<lambda>r. sint (attempt_row_number r))
             (filter (\<lambda>r. attempt_row_provider_message_id r = Some pid \<and> attempt_row_outcome r = lit ''SENT'')
                (db_attempts db))) of
        [] \<Rightarrow> Inr None
      | r # _ \<Rightarrow> delivery_find_by_id su pu db (DeliveryId (attempt_row_delivery_id r)))"

section \<open>Writing\<close>

text \<open>The \<open>CHECK\<close> constraints of the table; \<open>btrim\<close> strips spaces.\<close>

definition delivery_row_checks :: "delivery_row \<Rightarrow> bool" where
  "delivery_row_checks r \<longleftrightarrow>
     \<not> btrim_blank (delivery_row_endpoint_address r) \<and>
     0 \<le>s delivery_row_tier r \<and> 0 \<le>s delivery_row_attempt_count r \<and>
     0 <s delivery_row_max_attempts r \<and> 0 <s delivery_row_version r"

definition insert_delivery ::
  "(uuid \<Rightarrow> rstring) \<Rightarrow> planned_delivery \<Rightarrow> database \<Rightarrow> db_error + database \<times> bool" where
  "insert_delivery su item db =
     (let r = delivery_to_row su (planned_key_hash item) None (planned_delivery item) in
      if \<not> delivery_row_checks r then Inl DbError_CheckViolation
      else if delivery_row_key_hash r \<in> delivery_row_key_hash ` set (db_deliveries db) then Inr (db, False)
      else if delivery_row_id r \<in> delivery_row_id ` set (db_deliveries db) then Inl DbError_UniqueViolation
      else if delivery_row_alert_id r \<notin> alert_row_id ` set (db_alerts db) then Inl DbError_ForeignKeyViolation
      else Inr (db\<lparr>db_deliveries := db_deliveries db @ [r]\<rparr>, True))"

definition advance_row :: "nat \<Rightarrow> delivery \<Rightarrow> delivery_row \<Rightarrow> delivery_row" where
  "advance_row now d r =
     r\<lparr>delivery_row_status := delivery_status_to_db (delivery_status d),
       delivery_row_attempt_count := delivery_attempt_count d,
       delivery_row_version := delivery_version d,
       delivery_row_next_attempt_at := map_option (\<lambda>b. now + unat b) (retry_backoff d)\<rparr>"

definition advance_matches :: "delivery \<Rightarrow> delivery_row \<Rightarrow> bool" where
  "advance_matches d r \<longleftrightarrow>
     delivery_row_id r = delivery_uuid (delivery_id d) \<and> delivery_row_version r = delivery_version d - 1"

definition advance_delivery :: "nat \<Rightarrow> delivery \<Rightarrow> database \<Rightarrow> db_error + database \<times> bool" where
  "advance_delivery now d db =
     (if \<exists>r \<in> set (db_deliveries db). advance_matches d r \<and> \<not> delivery_row_checks (advance_row now d r)
      then Inl DbError_CheckViolation
      else Inr (db\<lparr>db_deliveries :=
                    map (\<lambda>r. if advance_matches d r then advance_row now d r else r) (db_deliveries db)\<rparr>,
                length (filter (advance_matches d) (db_deliveries db)) = 1))"

definition attempt_to_row :: "delivery_attempt \<Rightarrow> attempt_row" where
  "attempt_to_row a =
     (let (out, pid, retryable, reason) =
        (case attempt_outcome a of
           AttemptOutcome_Sent p \<Rightarrow> (lit ''SENT'', p, None, None)
         | AttemptOutcome_Failed b s \<Rightarrow> (lit ''FAILED'', None, Some b, Some s))
      in \<lparr>attempt_row_id = delivery_attempt_uuid (attempt_id a),
          attempt_row_delivery_id = delivery_uuid (attempt_delivery_id a),
          attempt_row_number = attempt_number a, attempt_row_outcome = out,
          attempt_row_provider_message_id = pid, attempt_row_retryable = retryable,
          attempt_row_failure_reason = reason\<rparr>)"

definition insert_delivery_attempt :: "delivery_attempt \<Rightarrow> database \<Rightarrow> db_error + database" where
  "insert_delivery_attempt a db =
     (if \<not> 0 <s attempt_number a then Inl DbError_CheckViolation
      else if attempt_row_id (attempt_to_row a) \<in> attempt_row_id ` set (db_attempts db)
      then Inl DbError_UniqueViolation
      else bind_result
        (insert_row (\<lambda>r. (attempt_row_delivery_id r, attempt_row_number r)) (attempt_to_row a) (db_attempts db))
        (\<lambda>rows. Inr (db\<lparr>db_attempts := rows\<rparr>)))"

definition insert_delivery_event ::
  "delivery_id \<Rightarrow> delivery_event \<Rightarrow> actor \<Rightarrow> database \<Rightarrow> db_error + database" where
  "insert_delivery_event i ev a db =
     bind_result (insert_aggregate_event
       (event_row (delivery_event_uuid (delivery_event_id ev)) (delivery_uuid i)
          (delivery_event_type_to_db (delivery_event_type ev)) (delivery_event_version ev) a)
       (db_delivery_events db))
       (\<lambda>rows. Inr (db\<lparr>db_delivery_events := rows\<rparr>))"

text \<open>The three inserts that every writer makes after the row itself.\<close>

definition write_delivery_event ::
  "delivery_id \<Rightarrow> delivery_event \<Rightarrow> trail \<Rightarrow> json \<Rightarrow> database \<Rightarrow> db_error + database" where
  "write_delivery_event i ev t payload db =
     bind_result (insert_delivery_event i ev (trail_actor t) db) (\<lambda>db.
     bind_result (insert_audit_event (lit ''DELIVERY'') t (delivery_event_type_to_db (delivery_event_type ev))
                    (delivery_uuid i) db) (\<lambda>db.
       insert_outbox_event (lit ''DELIVERY'') t (delivery_uuid i)
         (delivery_event_type_to_db (delivery_event_type ev)) payload db))"

text \<open>One transaction per planned delivery; an error ends the loop and keeps what was committed.\<close>

definition create_one ::
  "(uuid \<Rightarrow> rstring) \<Rightarrow> planned_delivery \<Rightarrow> database \<Rightarrow> db_error + database" where
  "create_one su item db =
     bind_result (insert_delivery su item db) (\<lambda>(db1, inserted).
       if \<not> inserted then Inr db
       else write_delivery_event (delivery_id (planned_delivery item)) (planned_event item)
              (planned_trail item) (delivery_requested_event_payload su item) db1)"

fun create_planned ::
  "(uuid \<Rightarrow> rstring) \<Rightarrow> planned_delivery list \<Rightarrow> database \<Rightarrow> database \<times> (db_error + unit)" where
  "create_planned su [] db = (db, Inr ())"
| "create_planned su (item # items) db =
     (case create_one su item db of
        Inl e \<Rightarrow> (db, Inl e)
      | Inr db' \<Rightarrow> create_planned su items db')"

section \<open>Claiming\<close>

definition tier_ready :: "delivery_row list \<Rightarrow> delivery_row \<Rightarrow> bool" where
  "tier_ready rows r \<longleftrightarrow>
     delivery_row_tier r = 0 \<or>
     \<not> list_ex (\<lambda>lower. delivery_row_alert_id lower = delivery_row_alert_id r \<and>
                      delivery_row_consumer_id lower = delivery_row_consumer_id r \<and>
                      delivery_row_tier lower <s delivery_row_tier r \<and>
                      delivery_row_status lower \<noteq> lit ''FAILED_PERMANENTLY'') rows"

definition claim_ready :: "nat \<Rightarrow> delivery_row list \<Rightarrow> delivery_row \<Rightarrow> bool" where
  "claim_ready now rows r \<longleftrightarrow>
     delivery_row_status r \<in> {lit ''QUEUED'', lit ''RETRYING''} \<and>
     (case delivery_row_next_attempt_at r of None \<Rightarrow> True | Some t \<Rightarrow> t \<le> now) \<and>
     tier_ready rows r"

fun claim_rows ::
  "(uuid \<Rightarrow> rstring) \<Rightarrow> (rstring \<Rightarrow> uuid option) \<Rightarrow> nat \<Rightarrow> (nat \<Rightarrow> uuid) \<Rightarrow> nat \<Rightarrow> delivery_row list \<Rightarrow>
   database \<Rightarrow> db_error + database \<times> delivery list" where
  "claim_rows su pu now ids k [] db = Inr (db, [])"
| "claim_rows su pu now ids k (r # rs) db =
     bind_result (delivery_from_row su pu r) (\<lambda>d.
     bind_result (map_err (\<lambda>_. DbPanic)
       (start_delivery_attempt d Actor_Automated (ids (4 * k)) (\<lambda>i. ids (4 * k + 1 + i)))) (\<lambda>(d', t).
     bind_result (advance_delivery now d' db) (\<lambda>(db1, advanced).
     if \<not> advanced then Inl DbPanic
     else
     bind_result (write_delivery_event (delivery_id d') (transition_event t) (transition_trail t)
       (delivery_transition_event_payload su d' t) db1) (\<lambda>db2.
     bind_result (claim_rows su pu now ids (k + 1) rs db2) (\<lambda>(db3, ds).
       Inr (db3, d' # ds))))))"

text \<open>\<open>locked\<close>: rows other transactions hold, passed over by \<open>SKIP LOCKED\<close>.\<close>

definition claim_next ::
  "(uuid \<Rightarrow> rstring) \<Rightarrow> (rstring \<Rightarrow> uuid option) \<Rightarrow> nat \<Rightarrow> uuid set \<Rightarrow> (nat \<Rightarrow> uuid) \<Rightarrow> nat \<Rightarrow> database \<Rightarrow>
   db_error + database \<times> delivery list" where
  "claim_next su pu now locked ids limit db =
     claim_rows su pu now ids 0
       (take limit (filter (\<lambda>r. claim_ready now (db_deliveries db) r \<and> delivery_row_id r \<notin> locked)
          (db_deliveries db))) db"

section \<open>Transitions\<close>

datatype delivery_transition_outcome = DeliveryTransition_Applied | DeliveryTransition_Conflict

definition delivery_apply_transition ::
  "(uuid \<Rightarrow> rstring) \<Rightarrow> nat \<Rightarrow> delivery \<Rightarrow> delivery_transition \<Rightarrow> database \<Rightarrow>
   db_error + database \<times> delivery_transition_outcome" where
  "delivery_apply_transition su now d t db =
     bind_result (advance_delivery now d db) (\<lambda>(db1, advanced).
       if \<not> advanced then Inr (db, DeliveryTransition_Conflict)
       else bind_result (write_delivery_event (delivery_id d) (transition_event t) (transition_trail t)
              (delivery_transition_event_payload su d t) db1)
              (\<lambda>db2. Inr (db2, DeliveryTransition_Applied)))"

definition delivery_apply_attempt_transition ::
  "(uuid \<Rightarrow> rstring) \<Rightarrow> nat \<Rightarrow> delivery \<Rightarrow> delivery_attempt_transition \<Rightarrow> database \<Rightarrow>
   db_error + database \<times> delivery_transition_outcome" where
  "delivery_apply_attempt_transition su now d t db =
     bind_result (advance_delivery now d db) (\<lambda>(db1, advanced).
       if \<not> advanced then Inr (db, DeliveryTransition_Conflict)
       else bind_result (insert_delivery_attempt (attempt_transition_attempt t) db1) (\<lambda>db2.
            bind_result (write_delivery_event (delivery_id d) (attempt_transition_event t)
              (attempt_transition_trail t) (delivery_attempt_event_payload su d t) db2)
              (\<lambda>db3. Inr (db3, DeliveryTransition_Applied))))"

end
