(* ===== verification/Delivery_Store_Lemmas.thy ===== *)
theory Delivery_Store_Lemmas
  imports Delivery_Store
begin

text \<open>
  The delivery repository read as a map from ids to aggregates: decoding of rows, what the
  compare-and-set does to the map, and the repository as an optimistic store.
\<close>

section \<open>Decoding\<close>

lemma delivery_from_row_Inr:
  "delivery_from_row su pu r = Inr d \<longleftrightarrow>
     delivery_id d = DeliveryId (delivery_row_id r) \<and>
     delivery_alert_id d = AlertId (delivery_row_alert_id r) \<and>
     delivery_consumer_id d = ConsumerId (delivery_row_consumer_id r) \<and>
     delivery_row_channel r = channel_type_to_db (delivery_channel d) \<and>
     delivery_endpoint_address d = delivery_row_endpoint_address r \<and>
     delivery_tier d = ucast (delivery_row_tier r) \<and>
     delivery_key d = delivery_idempotency_key su (delivery_consumer_id d) (delivery_alert_id d)
       (delivery_channel d) (delivery_endpoint_address d) \<and>
     (\<exists>js. delivery_row_matching r = JArr js \<and>
        map (matched_subscription_from_json pu) js = map Inr (delivery_matching_subscriptions d)) \<and>
     delivery_row_max_attempts r \<noteq> 0 \<and> delivery_retry_policy d = RetryPolicy (delivery_row_max_attempts r) \<and>
     delivery_row_status r = delivery_status_to_db (delivery_status d) \<and>
     delivery_attempt_count d = delivery_row_attempt_count r \<and>
     delivery_version d = delivery_row_version r"
proof -
  have arr: "json_as_array j = Some js \<longleftrightarrow> j = JArr js" for j js by (cases j) auto
  show ?thesis
    by (cases d)
       (auto simp: delivery_from_row_def result_simps arr retry_policy_new_def delivery_reconstitute_def
         channel_type_db.from_db_Some_iff delivery_status_db.from_db_Some_iff)
qed

lemma tier_roundtrip: "ucast (ucast (t :: u8) :: 16 word) = t"
  by (rule bit_word_eqI) (simp add: bit_ucast_iff)

lemma delivery_from_to_row:
  assumes "uuid_text su pu" and "delivery_max_attempts d \<noteq> 0"
    and "delivery_key d = delivery_idempotency_key su (delivery_consumer_id d) (delivery_alert_id d)
       (delivery_channel d) (delivery_endpoint_address d)"
  shows "delivery_from_row su pu (delivery_to_row su h na d) = Inr d"
  using assms
  by (auto simp: delivery_from_row_Inr delivery_to_row_def matched_subscriptions_to_json_def tier_roundtrip
      matched_subscription_json comp_def delivery_max_attempts_def)

lemma delivery_from_row_advance:
  "delivery_from_row su pu r = Inr d0 \<Longrightarrow>
     delivery_from_row su pu (advance_row now d r) =
       Inr (d0\<lparr>delivery_status := delivery_status d, delivery_attempt_count := delivery_attempt_count d,
               delivery_version := delivery_version d\<rparr>)"
  by (auto simp: delivery_from_row_Inr advance_row_def)

section \<open>Signed comparisons\<close>

lemma zero_sless_iff: "0 <s (v :: 'a::len word) \<longleftrightarrow> 0 < unat v \<and> unat v < 2 ^ (LENGTH('a) - 1)"
proof -
  let ?n = "LENGTH('a) - Suc 0"
  have n: "LENGTH('a) = Suc ?n" by simp
  have lt: "uint v < 2 * 2 ^ ?n"
  proof -
    have "(2 :: int) ^ LENGTH('a) = 2 * 2 ^ ?n" by (metis n power_Suc)
    then show ?thesis using unsigned_less [of v, where ?'a = int] by simp
  qed
  have bit: "bit (uint v) ?n \<longleftrightarrow> 2 ^ ?n \<le> uint v"
  proof
    assume b: "bit (uint v) ?n"
    show "2 ^ ?n \<le> uint v"
    proof (rule ccontr)
      assume "\<not> ?thesis"
      then have "uint v div 2 ^ ?n = 0" by (simp add: div_pos_pos_trivial)
      with b show False by (simp add: bit_iff_odd)
    qed
  next
    assume "2 ^ ?n \<le> uint v"
    then have "uint v div 2 ^ ?n = 1"
      using lt by (intro int_div_pos_eq [where r = "uint v - 2 ^ ?n"]) auto
    then show "bit (uint v) ?n" by (simp add: bit_iff_odd)
  qed
  have u: "uint v < 2 ^ ?n \<longleftrightarrow> unat v < 2 ^ ?n"
    using of_nat_less_iff [of "unat v" "2 ^ ?n", where 'a = int]
    by (simp only: of_nat_power of_nat_numeral uint_nat)
  have p: "0 < uint v \<longleftrightarrow> 0 < unat v"
    by (simp only: uint_nat of_nat_0_less_iff)
  show ?thesis
  proof (cases "bit (uint v) ?n")
    case True
    then have "sint v < 0" by (simp add: sint_uint)
    with True bit u show ?thesis by (auto simp: word_sless_alt)
  next
    case False
    then have "sint v = uint v"
      by (simp add: sint_uint signed_take_bit_eq_take_bit_add take_bit_int_eq_self_iff lt)
    with False bit u p show ?thesis by (auto simp: word_sless_alt)
  qed
qed

lemma zero_sle_iff: "0 \<le>s (v :: 'a::len word) \<longleftrightarrow> v = 0 \<or> 0 <s v"
proof -
  have "sint v = 0 \<longleftrightarrow> v = 0" by (rule signed_eq_0_iff)
  then show ?thesis by (auto simp: word_sle_eq word_sless_alt order_le_less)
qed

lemma tier_sless: "(ucast (a :: u8) :: 16 word) <s ucast b \<longleftrightarrow> a < b"
proof -
  have "sint (ucast (c :: u8) :: 16 word) = uint c" for c
  proof -
    have "uint c < 256" using unsigned_less [of c, where ?'a = int] by simp
    moreover have "- 32768 \<le> uint c" by (rule order_trans [of _ 0]) simp_all
    moreover have "uint (ucast c :: 16 word) = uint c" by (simp add: uint_up_ucast is_up)
    ultimately show ?thesis
      by (simp add: sint_uint signed_take_bit_int_eq_self_iff)
  qed
  then show ?thesis by (simp add: word_sless_alt word_less_def)
qed

section \<open>The repository as a map\<close>

definition delivery_lookup ::
  "(uuid \<Rightarrow> rstring) \<Rightarrow> (rstring \<Rightarrow> uuid option) \<Rightarrow> database \<Rightarrow> delivery_id \<Rightarrow> delivery option" where
  "delivery_lookup su pu db i =
     row_lookup delivery_row_id (delivery_from_row su pu) (db_deliveries db) (delivery_uuid i)"

text \<open>Unique ids, and every row passes its checks and decodes to a well-formed aggregate.\<close>

definition delivery_rows_ok ::
  "(uuid \<Rightarrow> rstring) \<Rightarrow> (rstring \<Rightarrow> uuid option) \<Rightarrow> delivery_row list \<Rightarrow> bool" where
  "delivery_rows_ok su pu rows \<longleftrightarrow>
     distinct (map delivery_row_id rows) \<and>
     (\<forall>r \<in> set rows. delivery_row_checks r \<and>
        (\<exists>d. delivery_from_row su pu r = Inr d \<and> delivery_wf d \<and> delivery_row_tier r = ucast (delivery_tier d)))"

lemma delivery_lookup_Some:
  assumes "delivery_rows_ok su pu (db_deliveries db)"
  shows "delivery_lookup su pu db i = Some d \<longleftrightarrow>
     (\<exists>r \<in> set (db_deliveries db). delivery_row_id r = delivery_uuid i \<and> delivery_from_row su pu r = Inr d)"
  using assms by (simp add: delivery_lookup_def delivery_rows_ok_def row_lookup_Some)

lemma delivery_lookup_wf:
  assumes ok: "delivery_rows_ok su pu (db_deliveries db)" and l: "delivery_lookup su pu db i = Some d"
  shows "delivery_wf d" and "delivery_id d = i"
proof -
  obtain r where r: "r \<in> set (db_deliveries db)" "delivery_row_id r = delivery_uuid i"
    "delivery_from_row su pu r = Inr d"
    using l delivery_lookup_Some [OF ok] by blast
  moreover obtain d' where "delivery_from_row su pu r = Inr d'" "delivery_wf d'"
    using ok r(1) by (auto simp: delivery_rows_ok_def)
  ultimately show "delivery_wf d" by simp
  show "delivery_id d = i" using r by (simp add: delivery_from_row_Inr)
qed

lemma delivery_find_by_id_lookup:
  assumes ok: "delivery_rows_ok su pu (db_deliveries db)"
  shows "delivery_find_by_id su pu db i = Inr (delivery_lookup su pu db i)"
proof (cases "find (\<lambda>r. delivery_row_id r = delivery_uuid i) (db_deliveries db)")
  case None
  then show ?thesis by (simp add: delivery_find_by_id_def delivery_lookup_def row_lookup_def)
next
  case (Some r)
  then have "r \<in> set (db_deliveries db)" by (auto simp: find_Some_iff)
  then obtain d where "delivery_from_row su pu r = Inr d" using ok by (auto simp: delivery_rows_ok_def)
  with Some show ?thesis by (simp add: delivery_find_by_id_def delivery_lookup_def row_lookup_def)
qed

section \<open>The compare-and-set\<close>

lemma advance_row_id [simp]: "delivery_row_id (advance_row now d r) = delivery_row_id r"
  by (simp add: advance_row_def)

text \<open>An aggregate whose counters fit is written without violating a check.\<close>

lemma advance_row_checks:
  assumes r: "delivery_row_checks r" and d0: "delivery_from_row su pu r = Inr d0"
    and wf: "delivery_wf d" and m: "delivery_retry_policy d = delivery_retry_policy d0"
  shows "delivery_row_checks (advance_row now d r)"
proof -
  have max: "delivery_row_max_attempts r = delivery_max_attempts d"
    using d0 m by (auto simp: delivery_from_row_Inr delivery_max_attempts_def)
  have "unat (delivery_max_attempts d) < 2 ^ 31"
    using r max by (simp add: delivery_row_checks_def zero_sless_iff)
  moreover have "unat (delivery_attempt_count d) \<le> unat (delivery_max_attempts d)"
    using wf by (simp add: delivery_wf_def word_le_nat_alt)
  ultimately have "0 \<le>s delivery_attempt_count d"
    by (simp add: zero_sle_iff zero_sless_iff unat_gt_0)
  moreover have "0 <s delivery_version d"
  proof -
    have "0 < unat (delivery_version d)"
    proof (cases "delivery_status d = DeliveryStatus_Sending")
      case True
      then show ?thesis using wf by (auto simp: delivery_wf_def unat_gt_0)
    next
      case False
      then have "0 < version_offset (delivery_status d)" by (cases "delivery_status d") simp_all
      then show ?thesis using wf by (simp add: delivery_wf_def)
    qed
    with delivery_wf_version_small [OF wf] show ?thesis by (simp add: zero_sless_iff)
  qed
  ultimately show ?thesis
    using r by (simp add: delivery_row_checks_def advance_row_def)
qed

lemma advance_delivery_hit:
  assumes ok: "delivery_rows_ok su pu (db_deliveries db)"
  shows "advance_delivery now d db = Inr (db', True) \<Longrightarrow>
     \<exists>d0. delivery_lookup su pu db (delivery_id d) = Some d0 \<and> delivery_version d0 + 1 = delivery_version d \<and>
        delivery_lookup su pu db' (delivery_id d) =
          Some (d0\<lparr>delivery_status := delivery_status d, delivery_attempt_count := delivery_attempt_count d,
                  delivery_version := delivery_version d\<rparr>) \<and>
        (\<forall>k. k \<noteq> delivery_id d \<longrightarrow> delivery_lookup su pu db' k = delivery_lookup su pu db k)"
    and "advance_delivery now d db = Inr (db', False) \<Longrightarrow> db' = db"
proof -
  let ?rows = "db_deliveries db"
  let ?u = "delivery_uuid (delivery_id d)"
  let ?P = "\<lambda>r. delivery_row_version r = delivery_version d - 1"
  have dist: "distinct (map delivery_row_id ?rows)" using ok by (simp add: delivery_rows_ok_def)
  have matches: "advance_matches d = (\<lambda>r. delivery_row_id r = ?u \<and> ?P r)"
    by (auto simp: advance_matches_def fun_eq_iff)
  have len: "length (filter (advance_matches d) ?rows) = 1 \<longleftrightarrow> (\<exists>r \<in> set ?rows. delivery_row_id r = ?u \<and> ?P r)"
    unfolding matches using filter_unique_id [OF dist, of ?u ?P] by simp
  {
    assume "advance_delivery now d db = Inr (db', True)"
    then have db': "db' = db\<lparr>db_deliveries := map (\<lambda>r. if delivery_row_id r = ?u \<and> ?P r then advance_row now d r else r) ?rows\<rparr>"
      and "\<exists>r \<in> set ?rows. delivery_row_id r = ?u \<and> ?P r"
      using len by (auto simp: advance_delivery_def matches split: if_splits)
    then obtain r where r: "r \<in> set ?rows" "delivery_row_id r = ?u" "?P r" by blast
    obtain d0 where d0: "delivery_from_row su pu r = Inr d0" using ok r(1) by (auto simp: delivery_rows_ok_def)
    have f: "find (\<lambda>x. delivery_row_id x = ?u) ?rows = Some r"
      using find_unique_id [OF dist r(1)] r(2) by simp
    have "delivery_lookup su pu db (delivery_id d) = Some d0"
      using d0 f by (simp add: delivery_lookup_def row_lookup_def)
    moreover have "delivery_version d0 + 1 = delivery_version d"
      using d0 r(3) by (simp add: delivery_from_row_Inr)
    moreover have "delivery_lookup su pu db' k =
        (if k = delivery_id d then Some (d0\<lparr>delivery_status := delivery_status d,
            delivery_attempt_count := delivery_attempt_count d, delivery_version := delivery_version d\<rparr>)
         else delivery_lookup su pu db k)" for k
      using f r(3) d0 row_lookup_update [OF dist, of "advance_row now d" "delivery_from_row su pu" ?u ?P "delivery_uuid k"]
      by (auto simp: delivery_lookup_def db' delivery_from_row_advance delivery_id.expand)
    ultimately show "\<exists>d0. delivery_lookup su pu db (delivery_id d) = Some d0 \<and> delivery_version d0 + 1 = delivery_version d \<and>
        delivery_lookup su pu db' (delivery_id d) =
          Some (d0\<lparr>delivery_status := delivery_status d, delivery_attempt_count := delivery_attempt_count d,
                  delivery_version := delivery_version d\<rparr>) \<and>
        (\<forall>k. k \<noteq> delivery_id d \<longrightarrow> delivery_lookup su pu db' k = delivery_lookup su pu db k)" by simp
  }
  {
    assume "advance_delivery now d db = Inr (db', False)"
    then have db': "db' = db\<lparr>db_deliveries := map (\<lambda>r. if advance_matches d r then advance_row now d r else r) ?rows\<rparr>"
      and "\<not> (\<exists>r \<in> set ?rows. advance_matches d r)"
      using len by (auto simp: advance_delivery_def matches split: if_splits)
    then have "map (\<lambda>r. if advance_matches d r then advance_row now d r else r) ?rows = ?rows"
      by (intro map_idI) auto
    with db' show "db' = db" by simp
  }
qed

end
