(* ===== verification/Delivery_Invariants.thy ===== *)
theory Delivery_Invariants
  imports Delivery_Store_Lemmas
begin

text \<open>
  The invariant of the delivery tables: the event and attempt tables are the gap-free histories of the
  rows, and a copy of a delivery in memory is never newer than its row and equal to it when the versions
  agree. Each write of the repository keeps it: committing a domain operation on a held copy, planning
  and claiming.
\<close>

section \<open>Histories in the tables\<close>

definition event_numbers :: "database \<Rightarrow> delivery_id \<Rightarrow> nat list" where
  "event_numbers db i =
     map (unat \<circ> event_row_version)
       (filter (\<lambda>e. event_row_aggregate_id e = delivery_uuid i) (db_delivery_events db))"

definition attempt_numbers :: "database \<Rightarrow> delivery_id \<Rightarrow> nat list" where
  "attempt_numbers db i =
     map (unat \<circ> attempt_row_number)
       (filter (\<lambda>r. attempt_row_delivery_id r = delivery_uuid i) (db_attempts db))"

definition expected_attempts :: "delivery \<Rightarrow> nat list" where
  "expected_attempts d =
     [1..<(if delivery_status d = DeliveryStatus_Sending then unat (delivery_attempt_count d)
           else Suc (unat (delivery_attempt_count d)))]"

definition history_matches :: "database \<Rightarrow> delivery \<Rightarrow> bool" where
  "history_matches db d \<longleftrightarrow>
     event_numbers db (delivery_id d) = [1..<Suc (unat (delivery_version d))] \<and>
     attempt_numbers db (delivery_id d) = expected_attempts d"

definition store_inv ::
  "(uuid \<Rightarrow> rstring) \<Rightarrow> (rstring \<Rightarrow> uuid option) \<Rightarrow> database \<Rightarrow> bool" where
  "store_inv su pu db \<longleftrightarrow>
     delivery_rows_ok su pu (db_deliveries db) \<and>
     (\<forall>i d. delivery_lookup su pu db i = Some d \<longrightarrow> history_matches db d) \<and>
     event_row_aggregate_id ` set (db_delivery_events db) \<subseteq> delivery_row_id ` set (db_deliveries db) \<and>
     attempt_row_delivery_id ` set (db_attempts db) \<subseteq> delivery_row_id ` set (db_deliveries db)"

definition held_ok ::
  "(uuid \<Rightarrow> rstring) \<Rightarrow> (rstring \<Rightarrow> uuid option) \<Rightarrow> database \<Rightarrow> delivery \<Rightarrow> bool" where
  "held_ok su pu db h \<longleftrightarrow>
     (\<exists>d. delivery_lookup su pu db (delivery_id h) = Some d \<and>
          unat (delivery_version h) \<le> unat (delivery_version d) \<and>
          (delivery_version h = delivery_version d \<longrightarrow> h = d))"

lemma row_lookup_None: "k \<notin> key ` set rows \<Longrightarrow> row_lookup key decode rows k = None"
  by (induction rows) (auto simp: row_lookup_def)

lemma held_ok_current: "delivery_lookup su pu db (delivery_id d) = Some d \<Longrightarrow> held_ok su pu db d"
  by (simp add: held_ok_def)

lemma delivery_lookup_cong:
  "db_deliveries db' = db_deliveries db \<Longrightarrow> delivery_lookup su pu db' = delivery_lookup su pu db"
  by (simp add: delivery_lookup_def fun_eq_iff)

section \<open>Frames of the inserts\<close>

lemma write_delivery_event_Inr:
  assumes "write_delivery_event i ev t p db = Inr db'"
  shows "db_deliveries db' = db_deliveries db" and "db_attempts db' = db_attempts db"
    and "db_alerts db' = db_alerts db"
    and "\<exists>r. db_delivery_events db' = db_delivery_events db @ [r] \<and>
           event_row_aggregate_id r = delivery_uuid i \<and> event_row_version r = delivery_event_version ev"
  using assms by (auto simp: write_delivery_event_def insert_delivery_event_def result_simps)

lemma insert_delivery_attempt_Inr:
  assumes "insert_delivery_attempt a db = Inr db'"
  shows "db_deliveries db' = db_deliveries db" and "db_delivery_events db' = db_delivery_events db"
    and "db_alerts db' = db_alerts db"
    and "\<exists>r. db_attempts db' = db_attempts db @ [r] \<and>
           attempt_row_delivery_id r = delivery_uuid (attempt_delivery_id a) \<and>
           attempt_row_number r = attempt_number a"
  using assms
  by (auto simp: insert_delivery_attempt_def result_simps attempt_to_row_def Let_def
      split: if_splits prod.splits)

lemma advance_delivery_frame:
  assumes "advance_delivery now d db = Inr (db', b)"
  shows "db_attempts db' = db_attempts db" and "db_delivery_events db' = db_delivery_events db"
    and "db_alerts db' = db_alerts db"
    and "map delivery_row_id (db_deliveries db') = map delivery_row_id (db_deliveries db)"
  using assms by (auto simp: advance_delivery_def split: if_splits)

section \<open>Committing an operation\<close>

text \<open>What a domain operation on a held copy changes, seen from the tables.\<close>

lemma apply_summary:
  assumes "delivery_wf h" and "delivery_apply h x = Inr (h', ev, att)"
  shows "h' = h\<lparr>delivery_status := delivery_status h', delivery_attempt_count := delivery_attempt_count h',
               delivery_version := delivery_version h + 1\<rparr>"
    and "delivery_event_version ev = delivery_version h + 1"
    and "unat (delivery_version h + 1) = unat (delivery_version h) + 1"
    and "delivery_wf h'"
    and "case att of
           None \<Rightarrow> expected_attempts h' = expected_attempts h
         | Some a \<Rightarrow> expected_attempts h' = expected_attempts h @ [unat (attempt_number a)] \<and>
                     attempt_delivery_id a = delivery_id h"
proof -
  have lt: "unat (delivery_attempt_count h + 1) = unat (delivery_attempt_count h) + 1"
    if "delivery_status h = DeliveryStatus_Queued \<or> delivery_status h = DeliveryStatus_Retrying"
    using assms(1) that by (intro unat_plus_one_less [of _ "delivery_max_attempts h"]) (auto simp: delivery_wf_def)
  have pos: "0 < unat (delivery_attempt_count h)" if "delivery_status h = DeliveryStatus_Sending"
    using assms(1) that by (auto simp: delivery_wf_def unat_gt_0)
  show "h' = h\<lparr>delivery_status := delivery_status h', delivery_attempt_count := delivery_attempt_count h',
               delivery_version := delivery_version h + 1\<rparr>"
    using assms(2) by (cases x) (auto simp: result_simps)
  show "delivery_event_version ev = delivery_version h + 1"
    using assms(2) by (cases x) (auto simp: result_simps)
  show "unat (delivery_version h + 1) = unat (delivery_version h) + 1"
    by (rule delivery_version_Suc [OF assms(1)])
  show "delivery_wf h'" by (rule delivery_apply_wf [OF assms])
  show "case att of
           None \<Rightarrow> expected_attempts h' = expected_attempts h
         | Some a \<Rightarrow> expected_attempts h' = expected_attempts h @ [unat (attempt_number a)] \<and>
                     attempt_delivery_id a = delivery_id h"
  proof (cases x)
    case (DeliveryOp_Start e)
    then have "start_attempt h e = Inr (h', ev)" and "att = None"
      using assms(2) by (auto simp: bind_result_Inr)
    then show ?thesis using lt by (auto simp: start_attempt_Inr expected_attempts_def simp del: upt_Suc)
  next
    case (DeliveryOp_Success m a e)
    then obtain y where "record_success h m a e = Inr (h', ev, y)" and "att = Some y"
      using assms(2) by (auto simp: bind_result_Inr)
    then show ?thesis using pos by (auto simp: record_success_Inr expected_attempts_def)
  next
    case (DeliveryOp_Delivered e)
    then have "record_delivered h e = Inr (h', ev)" and "att = None"
      using assms(2) by (auto simp: bind_result_Inr)
    then show ?thesis by (auto simp: record_delivered_Inr expected_attempts_def simp del: upt_Suc)
  next
    case (DeliveryOp_Failure b m a e)
    then obtain y where "record_failure h b m a e = Inr (h', ev, y)" and "att = Some y"
      using assms(2) by (auto simp: bind_result_Inr)
    note f = this
    have st: "delivery_status h = DeliveryStatus_Sending"
      and st': "delivery_status h' \<noteq> DeliveryStatus_Sending"
      and n: "delivery_attempt_count h' = delivery_attempt_count h"
      and y: "attempt_number y = delivery_attempt_count h" "attempt_delivery_id y = delivery_id h"
      using f(1) by (simp_all add: record_failure_Inr)
    have "1 \<le> unat (delivery_attempt_count h)" using pos [OF st] by linarith
    then have "expected_attempts h' = expected_attempts h @ [unat (attempt_number y)]"
      unfolding expected_attempts_def st n y using st' by simp
    with f(2) y(2) show ?thesis by simp
  qed
qed

lemma delivery_apply_version:
  "delivery_apply h x = Inr (h', ev, att) \<Longrightarrow> delivery_version h' = delivery_version h + 1"
  using delivery_machine.op_version [of h x h' "(ev, att)"] by simp

lemma held_is_current:
  assumes inv: "store_inv su pu db" and h: "held_ok su pu db h"
    and l: "delivery_lookup su pu db (delivery_id h) = Some d0" "delivery_version d0 + 1 = delivery_version h + 1"
  shows "d0 = h"
  using h l by (auto simp: held_ok_def)

lemma lookup_wf:
  "store_inv su pu db \<Longrightarrow> delivery_lookup su pu db i = Some d \<Longrightarrow> delivery_wf d \<and> delivery_id d = i"
  using delivery_lookup_wf unfolding store_inv_def by metis

text \<open>The compare-and-set of a copy that is the stored delivery leaves well-formed rows.\<close>

lemma advance_rows_ok:
  assumes rows: "delivery_rows_ok su pu (db_deliveries db)" and cur: "delivery_lookup su pu db (delivery_id h) = Some h"
    and op: "delivery_apply h x = Inr (h', ev, att)" and adv: "advance_delivery now h' db = Inr (db1, True)"
  shows "delivery_rows_ok su pu (db_deliveries db1)"
  unfolding delivery_rows_ok_def
proof (intro conjI ballI)
  have ids: "delivery_id h' = delivery_id h" using delivery_apply_frame(1) [OF op] .
  have ver: "delivery_version h' = delivery_version h + 1" by (rule delivery_apply_version [OF op])
  note sum = apply_summary [OF delivery_lookup_wf(1) [OF rows cur] op]
  show "distinct (map delivery_row_id (db_deliveries db1))"
    using rows advance_delivery_frame(4) [OF adv] by (simp add: delivery_rows_ok_def)
  fix r' assume "r' \<in> set (db_deliveries db1)"
  then obtain r where r: "r \<in> set (db_deliveries db)"
    and r': "r' = (if advance_matches h' r then advance_row now h' r else r)"
    using adv by (auto simp: advance_delivery_def split: if_splits)
  obtain d where d: "delivery_from_row su pu r = Inr d" "delivery_wf d" "delivery_row_checks r"
    "delivery_row_tier r = ucast (delivery_tier d)"
    using rows r by (auto simp: delivery_rows_ok_def)
  show "delivery_row_checks r'"
    using adv r d(3) unfolding r' by (auto simp: advance_delivery_def split: if_splits)
  show "\<exists>d. delivery_from_row su pu r' = Inr d \<and> delivery_wf d \<and> delivery_row_tier r' = ucast (delivery_tier d)"
  proof (cases "advance_matches h' r")
    case True
    then have "delivery_lookup su pu db (delivery_id h) = Some d"
      using delivery_lookup_Some [OF rows] r d(1) ids by (auto simp: advance_matches_def)
    then have "d = h" using cur by simp
    then show ?thesis
      using delivery_from_row_advance [OF d(1), of now h'] True r' sum(1,4) ver d(4) delivery_apply_frame(6) [OF op]
      by (simp add: advance_row_def)
  next
    case False
    with d r' show ?thesis by auto
  qed
qed

text \<open>A write that touches one delivery keeps the invariant when that delivery matches its history.\<close>

lemma store_inv_write:
  assumes inv: "store_inv su pu db" and rows: "delivery_rows_ok su pu (db_deliveries db')"
    and x: "delivery_lookup su pu db' j = Some x" "history_matches db' x"
    and other: "\<And>k. k \<noteq> j \<Longrightarrow> delivery_lookup su pu db' k = delivery_lookup su pu db k"
    and evs: "\<And>k. k \<noteq> j \<Longrightarrow> event_numbers db' k = event_numbers db k"
    and atts: "\<And>k. k \<noteq> j \<Longrightarrow> attempt_numbers db' k = attempt_numbers db k"
    and ids: "event_row_aggregate_id ` set (db_delivery_events db') \<subseteq> delivery_row_id ` set (db_deliveries db')"
      "attempt_row_delivery_id ` set (db_attempts db') \<subseteq> delivery_row_id ` set (db_deliveries db')"
  shows "store_inv su pu db'"
proof -
  have "history_matches db' d" if l: "delivery_lookup su pu db' i = Some d" for i d
  proof (cases "i = j")
    case True
    with l x show ?thesis by simp
  next
    case False
    then have "delivery_lookup su pu db i = Some d" using l other by simp
    moreover from this have "delivery_id d = i" using lookup_wf [OF inv] by blast
    ultimately show ?thesis
      using inv evs [OF False] atts [OF False] by (auto simp: history_matches_def store_inv_def)
  qed
  then show ?thesis using rows ids by (auto simp: store_inv_def)
qed

text \<open>The rows, then the logs, after the row, the attempt and the event of an operation have been written.\<close>

lemma commit_rows:
  assumes inv: "store_inv su pu db" and h: "held_ok su pu db h"
    and op: "delivery_apply h x = Inr (h', ev, att)"
    and adv: "advance_delivery now h' db = Inr (db1, True)"
    and ins: "case att of None \<Rightarrow> db2 = db1 | Some a \<Rightarrow> insert_delivery_attempt a db1 = Inr db2"
    and ev: "write_delivery_event (delivery_id h') ev t p db2 = Inr db'"
  shows "delivery_lookup su pu db (delivery_id h) = Some h"
    and "delivery_lookup su pu db' (delivery_id h) = Some h'"
    and "k \<noteq> delivery_id h \<Longrightarrow> delivery_lookup su pu db' k = delivery_lookup su pu db k"
    and "delivery_rows_ok su pu (db_deliveries db')"
    and "delivery_row_id ` set (db_deliveries db') = delivery_row_id ` set (db_deliveries db)"
proof -
  have rows: "delivery_rows_ok su pu (db_deliveries db)" using inv by (simp add: store_inv_def)
  have ids: "delivery_id h' = delivery_id h" using delivery_apply_frame(1) [OF op] .
  have ver: "delivery_version h' = delivery_version h + 1" by (rule delivery_apply_version [OF op])
  obtain d0 where d0: "delivery_lookup su pu db (delivery_id h') = Some d0"
    "delivery_version d0 + 1 = delivery_version h'"
    "delivery_lookup su pu db1 (delivery_id h') = Some (d0\<lparr>delivery_status := delivery_status h',
       delivery_attempt_count := delivery_attempt_count h', delivery_version := delivery_version h'\<rparr>)"
    "\<And>k. k \<noteq> delivery_id h' \<Longrightarrow> delivery_lookup su pu db1 k = delivery_lookup su pu db k"
    using advance_delivery_hit(1) [OF rows adv] by blast
  have "d0 = h" using held_is_current [OF inv h] d0(1,2) ids ver by simp
  then show cur: "delivery_lookup su pu db (delivery_id h) = Some h" using d0(1) ids by simp
  then have wf: "delivery_wf h" using lookup_wf [OF inv] by blast
  have rows': "db_deliveries db' = db_deliveries db1"
    using ins insert_delivery_attempt_Inr(1) [of _ db1 db2] write_delivery_event_Inr(1) [OF ev]
    by (auto split: option.splits)
  have look': "delivery_lookup su pu db' = delivery_lookup su pu db1" by (rule delivery_lookup_cong [OF rows'])
  show "delivery_lookup su pu db' (delivery_id h) = Some h'"
    using d0(3) \<open>d0 = h\<close> ids ver apply_summary(1) [OF wf op] look' by simp
  show "delivery_lookup su pu db' k = delivery_lookup su pu db k" if "k \<noteq> delivery_id h" for k
    using d0(4) ids look' that by simp
  show "delivery_rows_ok su pu (db_deliveries db')"
    unfolding rows' by (rule advance_rows_ok [OF rows cur op adv])
  show "delivery_row_id ` set (db_deliveries db') = delivery_row_id ` set (db_deliveries db)"
    using advance_delivery_frame(4) [OF adv] rows' by (metis list.set_map)
qed

lemma commit_logs:
  assumes wf: "delivery_wf h" and op: "delivery_apply h x = Inr (h', ev, att)"
    and adv: "advance_delivery now h' db = Inr (db1, b)"
    and ins: "case att of None \<Rightarrow> db2 = db1 | Some a \<Rightarrow> insert_delivery_attempt a db1 = Inr db2"
    and ev: "write_delivery_event (delivery_id h') ev t p db2 = Inr db'"
  shows "event_numbers db' i =
      event_numbers db i @ (if i = delivery_id h then [unat (delivery_version h')] else [])"
    and "attempt_numbers db' i = attempt_numbers db i @
      (case att of Some a \<Rightarrow> if i = delivery_id h then [unat (attempt_number a)] else [] | None \<Rightarrow> [])"
    and "event_row_aggregate_id ` set (db_delivery_events db') =
      insert (delivery_uuid (delivery_id h)) (event_row_aggregate_id ` set (db_delivery_events db))"
    and "attempt_row_delivery_id ` set (db_attempts db') \<subseteq>
      insert (delivery_uuid (delivery_id h)) (attempt_row_delivery_id ` set (db_attempts db))"
proof -
  note sum = apply_summary [OF wf op]
  have ids: "delivery_id h' = delivery_id h" using delivery_apply_frame(1) [OF op] .
  have "delivery_event_version ev = delivery_version h'"
    using sum(2) delivery_apply_version [OF op] by simp
  moreover have "db_delivery_events db2 = db_delivery_events db"
    using ins insert_delivery_attempt_Inr(2) [of _ db1 db2] advance_delivery_frame(2) [OF adv]
    by (auto split: option.splits)
  ultimately obtain r where r: "db_delivery_events db' = db_delivery_events db @ [r]"
    "event_row_aggregate_id r = delivery_uuid (delivery_id h)" "event_row_version r = delivery_version h'"
    using write_delivery_event_Inr(4) [OF ev] ids by auto
  show "event_numbers db' i =
      event_numbers db i @ (if i = delivery_id h then [unat (delivery_version h')] else [])"
    using r by (auto simp: event_numbers_def delivery_id.expand)
  show "event_row_aggregate_id ` set (db_delivery_events db') =
      insert (delivery_uuid (delivery_id h)) (event_row_aggregate_id ` set (db_delivery_events db))"
    using r by simp
  have a: "db_attempts db' = db_attempts db2" "db_attempts db1 = db_attempts db"
    using write_delivery_event_Inr(2) [OF ev] advance_delivery_frame(1) [OF adv] .
  show "attempt_numbers db' i = attempt_numbers db i @
      (case att of Some a \<Rightarrow> if i = delivery_id h then [unat (attempt_number a)] else [] | None \<Rightarrow> [])"
    using ins a sum(5) insert_delivery_attempt_Inr(4) [of _ db1 db2]
    by (cases att) (fastforce simp: attempt_numbers_def delivery_id.expand)+
  show "attempt_row_delivery_id ` set (db_attempts db') \<subseteq>
      insert (delivery_uuid (delivery_id h)) (attempt_row_delivery_id ` set (db_attempts db))"
    using ins a sum(5) insert_delivery_attempt_Inr(4) [of _ db1 db2] by (cases att) fastforce+
qed

text \<open>A committed operation keeps the invariant.\<close>

lemma commit:
  assumes inv: "store_inv su pu db" and h: "held_ok su pu db h"
    and op: "delivery_apply h x = Inr (h', ev, att)"
    and adv: "advance_delivery now h' db = Inr (db1, True)"
    and ins: "case att of None \<Rightarrow> db2 = db1 | Some a \<Rightarrow> insert_delivery_attempt a db1 = Inr db2"
    and ev: "write_delivery_event (delivery_id h') ev t p db2 = Inr db'"
  shows "store_inv su pu db'" and "delivery_lookup su pu db (delivery_id h) = Some h"
    and "delivery_lookup su pu db' (delivery_id h) = Some h'"
    and "k \<noteq> delivery_id h \<Longrightarrow> delivery_lookup su pu db' k = delivery_lookup su pu db k"
    and "unat (delivery_version h') = unat (delivery_version h) + 1"
proof -
  note rows = commit_rows [OF assms]
  have wf: "delivery_wf h" using rows(1) lookup_wf [OF inv] by blast
  note logs = commit_logs [OF wf op adv ins ev] and sum = apply_summary [OF wf op]
  show version: "unat (delivery_version h') = unat (delivery_version h) + 1"
    using sum(3) delivery_apply_version [OF op] by simp
  show "delivery_lookup su pu db (delivery_id h) = Some h" "delivery_lookup su pu db' (delivery_id h) = Some h'"
    "k \<noteq> delivery_id h \<Longrightarrow> delivery_lookup su pu db' k = delivery_lookup su pu db k"
    using rows(1-3) by simp_all
  have "history_matches db h" using inv rows(1) by (auto simp: store_inv_def)
  then have hist: "history_matches db' h'"
    using logs(1,2) [of "delivery_id h"] version sum(5) delivery_apply_frame(1) [OF op]
    by (auto simp: history_matches_def split: option.splits)
  have hid: "delivery_uuid (delivery_id h) \<in> delivery_row_id ` set (db_deliveries db)"
    using delivery_lookup_Some [OF conjunct1 [OF inv [unfolded store_inv_def]], of "delivery_id h" h] rows(1)
    by force
  show "store_inv su pu db'"
  proof (rule store_inv_write [OF inv rows(4,2) hist rows(3)])
    show "event_numbers db' k = event_numbers db k" "attempt_numbers db' k = attempt_numbers db k"
      if "k \<noteq> delivery_id h" for k
      using logs(1,2) [of k] that by (simp_all split: option.splits)
    show "event_row_aggregate_id ` set (db_delivery_events db') \<subseteq> delivery_row_id ` set (db_deliveries db')"
      using inv hid unfolding logs(3) rows(5) store_inv_def by simp
    show "attempt_row_delivery_id ` set (db_attempts db') \<subseteq> delivery_row_id ` set (db_deliveries db')"
      unfolding rows(5) using inv hid by (intro subset_trans [OF logs(4)]) (simp add: store_inv_def)
  qed
qed

section \<open>Planning\<close>

text \<open>An item as \<open>plan_deliveries\<close> produces it.\<close>

definition planned_ok :: "(uuid \<Rightarrow> rstring) \<Rightarrow> planned_delivery \<Rightarrow> bool" where
  "planned_ok su item \<longleftrightarrow>
     (\<exists>aid c ep t ms rp i e. 0 < retry_max_attempts rp \<and>
        (planned_delivery item, planned_event item) = plan_one su aid c ep t ms rp i e)"

lemma planned_ok_use_case:
  assumes "0 < retry_max_attempts rp"
    and "item \<in> set (plan_deliveries_use_case su sha al ms prefs rp a rq ids tids)"
  shows "planned_ok su item"
proof -
  obtain k d ev where item: "planned_delivery item = d" "planned_event item = ev"
    and "(k, d, ev) \<in> set (enumerate 0 (plan_deliveries su al ms prefs rp ids))"
    using assms(2) by (auto simp: plan_deliveries_use_case_def)
  then have "(d, ev) \<in> set (plan_deliveries su al ms prefs rp ids)"
    by (auto simp: in_set_enumerate_eq) (metis nth_mem)
  then obtain i x where "(d, ev) = plan_target su (Alert_Model.alert_id al) rp ids (2 * i) x"
    by (auto simp: plan_deliveries_spec)
  moreover obtain c ms' t ep where "x = (c, ms', t, ep)" by (cases x)
  ultimately have "(planned_delivery item, planned_event item) =
      plan_one su (Alert_Model.alert_id al) c ep t ms' rp (ids (2 * i)) (ids (2 * i + 1))"
    using item by simp
  with assms(1) show ?thesis unfolding planned_ok_def by blast
qed

lemma planned_delivery_facts:
  assumes "uuid_text su pu" and "planned_ok su item"
  shows "delivery_wf (planned_delivery item)"
    and "delivery_from_row su pu (delivery_to_row su (planned_key_hash item) None (planned_delivery item)) =
      Inr (planned_delivery item)"
    and "delivery_version (planned_delivery item) = 1" and "delivery_event_version (planned_event item) = 1"
    and "expected_attempts (planned_delivery item) = []"
proof -
  obtain aid cid ep t ms rp u e where rp: "0 < retry_max_attempts rp"
    and one: "(planned_delivery item, planned_event item) = plan_one su aid cid ep t ms rp u e"
    using assms(2) by (auto simp: planned_ok_def)
  then have d: "planned_delivery item = fst (plan_one su aid cid ep t ms rp u e)"
    and ev: "planned_event item = snd (plan_one su aid cid ep t ms rp u e)"
    by (metis fst_conv, metis snd_conv)
  show wf: "delivery_wf (planned_delivery item)" unfolding d using rp by (rule plan_one_wf)
  show "delivery_from_row su pu (delivery_to_row su (planned_key_hash item) None (planned_delivery item)) =
      Inr (planned_delivery item)"
    using assms(1) wf by (intro delivery_from_to_row) (auto simp: d plan_one_simps delivery_wf_def)
  show "delivery_version (planned_delivery item) = 1" "delivery_event_version (planned_event item) = 1"
    by (simp_all add: d ev plan_one_simps)
  show "expected_attempts (planned_delivery item) = []" by (simp add: d plan_one_simps expected_attempts_def)
qed

lemma create_one_new:
  fixes item :: planned_delivery and su :: "uuid \<Rightarrow> rstring"
  defines "d \<equiv> planned_delivery item"
  defines "r \<equiv> delivery_to_row su (planned_key_hash item) None d"
  assumes c: "create_one su item db = Inr db'" "db' \<noteq> db" and dec: "delivery_from_row su pu r = Inr d"
  shows "db_deliveries db' = db_deliveries db @ [r]" and "delivery_row_checks r"
    and "delivery_uuid (delivery_id d) \<notin> delivery_row_id ` set (db_deliveries db)"
    and "planned_key_hash item \<notin> delivery_row_key_hash ` set (db_deliveries db)"
    and "\<exists>e. db_delivery_events db' = db_delivery_events db @ [e] \<and>
      event_row_aggregate_id e = delivery_uuid (delivery_id d) \<and>
      event_row_version e = delivery_event_version (planned_event item)"
    and "db_attempts db' = db_attempts db"
    and "delivery_lookup su pu db' i = (if i = delivery_id d then Some d else delivery_lookup su pu db i)"
proof -
  have rid: "delivery_row_id r = delivery_uuid (delivery_id d)" and key: "delivery_row_key_hash r = planned_key_hash item"
    by (simp_all add: r_def delivery_to_row_def)
  obtain db1 where db1: "db1 = db\<lparr>db_deliveries := db_deliveries db @ [r]\<rparr>"
    and new: "delivery_row_checks r" "delivery_row_id r \<notin> delivery_row_id ` set (db_deliveries db)"
      "delivery_row_key_hash r \<notin> delivery_row_key_hash ` set (db_deliveries db)"
    and w: "write_delivery_event (delivery_id d) (planned_event item) (planned_trail item)
              (delivery_requested_event_payload su item) db1 = Inr db'"
    using c unfolding r_def d_def
    by (auto simp: create_one_def insert_delivery_def Let_def result_simps split: if_splits)
  show rows': "db_deliveries db' = db_deliveries db @ [r]" using write_delivery_event_Inr(1) [OF w] db1 by simp
  show "delivery_row_checks r" "delivery_uuid (delivery_id d) \<notin> delivery_row_id ` set (db_deliveries db)"
    "planned_key_hash item \<notin> delivery_row_key_hash ` set (db_deliveries db)"
    using new rid key by simp_all
  show "\<exists>e. db_delivery_events db' = db_delivery_events db @ [e] \<and>
      event_row_aggregate_id e = delivery_uuid (delivery_id d) \<and>
      event_row_version e = delivery_event_version (planned_event item)" "db_attempts db' = db_attempts db"
    using write_delivery_event_Inr(2,4) [OF w] db1 by auto
  show "delivery_lookup su pu db' i = (if i = delivery_id d then Some d else delivery_lookup su pu db i)"
  proof (cases "delivery_uuid i \<in> delivery_row_id ` set (db_deliveries db)")
    case True
    then have "i \<noteq> delivery_id d" using new(2) rid by auto
    with True show ?thesis by (simp add: delivery_lookup_def rows' row_lookup_append)
  next
    case False
    then have "delivery_lookup su pu db i = None" by (simp add: delivery_lookup_def row_lookup_None)
    with False dec rid show ?thesis
      by (auto simp: delivery_lookup_def rows' row_lookup_append delivery_id.expand)
  qed
qed

lemma create_one_keeps:
  assumes inv: "store_inv su pu db" and uu: "uuid_text su pu" and p: "planned_ok su item"
    and c: "create_one su item db = Inr db'" and ne: "db' \<noteq> db"
  shows "store_inv su pu db'"
proof -
  let ?d = "planned_delivery item"
  note facts = planned_delivery_facts [OF uu p]
  note new = create_one_new [OF c ne facts(2)]
  obtain e where e: "db_delivery_events db' = db_delivery_events db @ [e]"
    "event_row_aggregate_id e = delivery_uuid (delivery_id ?d)" "event_row_version e = 1"
    using new(5) facts(4) by auto
  have evs: "event_numbers db' i = event_numbers db i @ (if i = delivery_id ?d then [1] else [])" for i
    using e by (auto simp: event_numbers_def delivery_id.expand)
  have atts: "attempt_numbers db' i = attempt_numbers db i" for i
    using new(6) by (simp add: attempt_numbers_def)
  have "event_numbers db (delivery_id ?d) = []" and "attempt_numbers db (delivery_id ?d) = []"
    using inv new(3) unfolding store_inv_def event_numbers_def attempt_numbers_def
    by (force simp: filter_empty_conv)+
  then have hist: "history_matches db' ?d" using evs atts facts(3,5) by (simp add: history_matches_def)
  have rows: "delivery_rows_ok su pu (db_deliveries db')"
    using inv new(1-3) facts(1,2)
    by (auto simp: delivery_rows_ok_def store_inv_def) (simp_all add: delivery_to_row_def)
  have rid: "delivery_row_id (delivery_to_row su (planned_key_hash item) None ?d) = delivery_uuid (delivery_id ?d)"
    by (simp add: delivery_to_row_def)
  show ?thesis
    by (rule store_inv_write [OF inv rows _ hist, of "delivery_id ?d"])
      (use new(1,6,7) evs atts e inv rid in \<open>auto simp: store_inv_def\<close>)
qed

lemma create_one_inv:
  assumes inv: "store_inv su pu db" and uu: "uuid_text su pu" and p: "planned_ok su item"
    and c: "create_one su item db = Inr db'"
  shows "store_inv su pu db'"
    and "delivery_lookup su pu db i = Some d \<Longrightarrow> delivery_lookup su pu db' i = Some d"
    and "db' = db \<or> (db_deliveries db' = db_deliveries db @
           [delivery_to_row su (planned_key_hash item) None (planned_delivery item)] \<and>
         planned_key_hash item \<notin> delivery_row_key_hash ` set (db_deliveries db) \<and>
         delivery_lookup su pu db' (delivery_id (planned_delivery item)) = Some (planned_delivery item))"
proof -
  note new = create_one_new [OF c _ planned_delivery_facts(2) [OF uu p]]
  show "store_inv su pu db'" using create_one_keeps [OF assms] inv by (cases "db' = db") auto
  show "delivery_lookup su pu db' i = Some d" if l: "delivery_lookup su pu db i = Some d"
  proof (cases "db' = db")
    case False
    have "delivery_lookup su pu db (delivery_id (planned_delivery item)) = None"
      using new(3) [OF False] by (simp add: delivery_lookup_def row_lookup_None)
    then show ?thesis using l new(7) [OF False, of i] by auto
  qed (use l in simp)
  show "db' = db \<or> (db_deliveries db' = db_deliveries db @
           [delivery_to_row su (planned_key_hash item) None (planned_delivery item)] \<and>
         planned_key_hash item \<notin> delivery_row_key_hash ` set (db_deliveries db) \<and>
         delivery_lookup su pu db' (delivery_id (planned_delivery item)) = Some (planned_delivery item))"
    using new(1,4,7) by auto
qed

section \<open>Progress of the store\<close>

text \<open>Rows only move forward: the version grows, the status follows the allowed transitions and
  everything else is fixed.\<close>

definition delivery_successor :: "delivery \<Rightarrow> delivery \<Rightarrow> bool" where
  "delivery_successor d d' \<longleftrightarrow>
     unat (delivery_version d) < unat (delivery_version d') \<and>
     unat (delivery_attempt_count d) \<le> unat (delivery_attempt_count d') \<and>
     delivery_allowed\<^sup>+\<^sup>+ (delivery_status d) (delivery_status d') \<and>
     d' = d\<lparr>delivery_status := delivery_status d', delivery_attempt_count := delivery_attempt_count d',
            delivery_version := delivery_version d'\<rparr>"

lemma delivery_successor_trans:
  assumes "delivery_successor a b" and "delivery_successor b c"
  shows "delivery_successor a c"
proof -
  have "c = b\<lparr>delivery_status := delivery_status c, delivery_attempt_count := delivery_attempt_count c,
            delivery_version := delivery_version c\<rparr>"
    and "b = a\<lparr>delivery_status := delivery_status b, delivery_attempt_count := delivery_attempt_count b,
            delivery_version := delivery_version b\<rparr>"
    using assms by (simp_all add: delivery_successor_def)
  then have "c = a\<lparr>delivery_status := delivery_status c, delivery_attempt_count := delivery_attempt_count c,
            delivery_version := delivery_version c\<rparr>"
    by (cases a; cases b; cases c) simp
  then show ?thesis
    using assms unfolding delivery_successor_def by (meson less_trans order_trans tranclp_trans)
qed

lemma delivery_update_frame:
  assumes "d' = d\<lparr>delivery_status := st, delivery_attempt_count := n, delivery_version := v\<rparr>"
  shows "delivery_alert_id d' = delivery_alert_id d" "delivery_consumer_id d' = delivery_consumer_id d"
    "delivery_tier d' = delivery_tier d" "delivery_retry_policy d' = delivery_retry_policy d"
    "delivery_channel d' = delivery_channel d"
    "delivery_endpoint_address d' = delivery_endpoint_address d"
  by (simp_all add: assms)

lemma delivery_apply_attempts:
  assumes "delivery_wf h" and "delivery_apply h x = Inr (h', ev, att)"
  shows "unat (delivery_attempt_count h') =
    unat (delivery_attempt_count h) + (if delivery_status h' = DeliveryStatus_Sending then 1 else 0)"
proof (cases x)
  case (DeliveryOp_Start e)
  then have s: "start_attempt h e = Inr (h', ev)" using assms(2) by (auto simp: bind_result_Inr)
  then have "unat (delivery_attempt_count h + 1) = unat (delivery_attempt_count h) + 1"
    using assms(1)
    by (intro unat_plus_one_less [of _ "delivery_max_attempts h"]) (auto simp: start_attempt_Inr delivery_wf_def)
  with s show ?thesis by (simp add: start_attempt_Inr)
qed (use assms(2) in \<open>auto simp: result_simps split: if_splits\<close>)

lemma delivery_apply_successor:
  assumes "delivery_wf h" and "delivery_apply h x = Inr (h', ev, att)"
  shows "delivery_successor h h'"
proof -
  have "delivery_allowed (delivery_status h) (delivery_status h')"
    using assms(2) by (cases x) (auto simp: result_simps delivery_allowed_def split: if_splits)
  then have "delivery_allowed\<^sup>+\<^sup>+ (delivery_status h) (delivery_status h')" by (rule tranclp.r_into_trancl)
  moreover have "unat (delivery_version h) < unat (delivery_version h')"
    using delivery_apply_version [OF assms(2)] apply_summary(3) [OF assms] by simp
  moreover have "unat (delivery_attempt_count h) \<le> unat (delivery_attempt_count h')"
    using delivery_apply_attempts [OF assms] by simp
  moreover have "h' = h\<lparr>delivery_status := delivery_status h', delivery_attempt_count := delivery_attempt_count h',
      delivery_version := delivery_version h'\<rparr>"
    using apply_summary(1) [OF assms] unfolding delivery_apply_version [OF assms(2)] .
  ultimately show ?thesis unfolding delivery_successor_def by blast
qed

definition advances ::
  "(uuid \<Rightarrow> rstring) \<Rightarrow> (rstring \<Rightarrow> uuid option) \<Rightarrow> database \<Rightarrow> database \<Rightarrow> bool" where
  "advances su pu db db' \<longleftrightarrow>
     (\<forall>i d. delivery_lookup su pu db i = Some d \<longrightarrow>
        (\<exists>d'. delivery_lookup su pu db' i = Some d' \<and>
              (d' = d \<or> delivery_successor d d')))"

lemma advances_refl: "advances su pu db db"
  by (simp add: advances_def)

lemma advances_trans:
  assumes ab: "advances su pu a b" and bc: "advances su pu b c"
  shows "advances su pu a c"
  unfolding advances_def
proof (intro allI impI)
  fix i d assume "delivery_lookup su pu a i = Some d"
  then obtain d1 where 1: "delivery_lookup su pu b i = Some d1" "d1 = d \<or> delivery_successor d d1"
    using ab unfolding advances_def by blast
  then obtain d2 where "delivery_lookup su pu c i = Some d2" "d2 = d1 \<or> delivery_successor d1 d2"
    using bc unfolding advances_def by blast
  with 1 show "\<exists>d'. delivery_lookup su pu c i = Some d' \<and> (d' = d \<or> delivery_successor d d')"
    using delivery_successor_trans by blast
qed

lemma held_ok_mono:
  assumes a: "advances su pu db db'" and h: "held_ok su pu db h"
  shows "held_ok su pu db' h"
proof -
  obtain d where d: "delivery_lookup su pu db (delivery_id h) = Some d"
    "unat (delivery_version h) \<le> unat (delivery_version d)" "delivery_version h = delivery_version d \<longrightarrow> h = d"
    using h by (auto simp: held_ok_def)
  then obtain d' where d': "delivery_lookup su pu db' (delivery_id h) = Some d'"
    "d' = d \<or> unat (delivery_version d) < unat (delivery_version d')"
    using a unfolding advances_def delivery_successor_def by blast
  show ?thesis unfolding held_ok_def using d d' by (intro exI [of _ d']) auto
qed

lemma commit_advances:
  assumes "store_inv su pu db" and "held_ok su pu db h"
    and "delivery_apply h x = Inr (h', ev, att)" and "advance_delivery now h' db = Inr (db1, True)"
    and "case att of None \<Rightarrow> db2 = db1 | Some a \<Rightarrow> insert_delivery_attempt a db1 = Inr db2"
    and "write_delivery_event (delivery_id h') ev t p db2 = Inr db'"
  shows "advances su pu db db'"
  unfolding advances_def
proof (intro allI impI)
  fix i d
  assume "delivery_lookup su pu db i = Some d"
  moreover have "delivery_successor h h'"
    using lookup_wf [OF assms(1) commit(2) [OF assms]] delivery_apply_successor [OF _ assms(3)] by blast
  ultimately show "\<exists>d'. delivery_lookup su pu db' i = Some d' \<and> (d' = d \<or> delivery_successor d d')"
    using commit(2-4) [OF assms] by (cases "i = delivery_id h") auto
qed

section \<open>Claiming\<close>

lemma start_delivery_attempt_apply:
  "start_delivery_attempt d a rq ids = Inr (d', t) \<Longrightarrow>
     delivery_apply d (DeliveryOp_Start (ids 0)) = Inr (d', transition_event t, None) \<and>
     delivery_status d \<in> {DeliveryStatus_Queued, DeliveryStatus_Retrying} \<and>
     delivery_status d' = DeliveryStatus_Sending"
  by (auto simp: result_simps)

lemma row_is_current:
  assumes "store_inv su pu db" and "r \<in> set (db_deliveries db)" and "delivery_from_row su pu r = Inr d"
  shows "delivery_lookup su pu db (delivery_id d) = Some d" and "delivery_uuid (delivery_id d) = delivery_row_id r"
  using assms delivery_lookup_Some [of su pu db "delivery_id d" d]
  by (auto simp: store_inv_def delivery_from_row_Inr)

text \<open>One step of the claim: the first row advances, the others are still the stored ones.\<close>

lemma claim_rows_step:
  assumes inv: "store_inv su pu db" and dist: "distinct (map delivery_row_id (r # rs))"
    and sub: "set (r # rs) \<subseteq> set (db_deliveries db)" and d: "delivery_from_row su pu r = Inr d"
    and st: "start_delivery_attempt d a rq ids = Inr (d', t)" and adv: "advance_delivery now d' db = Inr (db1, True)"
    and w: "write_delivery_event (delivery_id d') (transition_event t) tr p db1 = Inr db2"
  shows "store_inv su pu db2" and "advances su pu db db2" and "set rs \<subseteq> set (db_deliveries db2)"
    and "delivery_lookup su pu db2 (delivery_id d) = Some d'"
    and "k \<noteq> delivery_id d \<Longrightarrow> delivery_lookup su pu db2 k = delivery_lookup su pu db k"
    and "unat (delivery_attempt_count d') = Suc (unat (delivery_attempt_count d))"
proof -
  note op = start_delivery_attempt_apply [OF st]
  have cur: "delivery_lookup su pu db (delivery_id d) = Some d" "delivery_uuid (delivery_id d) = delivery_row_id r"
    using row_is_current [OF inv _ d] sub by auto
  have same: "delivery_id d' = delivery_id d" using delivery_apply_frame(1) op by blast
  have none: "case None of None \<Rightarrow> db1 = db1 | Some x \<Rightarrow> insert_delivery_attempt x db1 = Inr db1" by simp
  note c = commit [OF inv held_ok_current [OF cur(1)] conjunct1 [OF op] adv none w]
  show "store_inv su pu db2" and "delivery_lookup su pu db2 (delivery_id d) = Some d'"
    and "k \<noteq> delivery_id d \<Longrightarrow> delivery_lookup su pu db2 k = delivery_lookup su pu db k"
    using c(1,3,4) by simp_all
  show "advances su pu db db2"
    by (rule commit_advances [OF inv held_ok_current [OF cur(1)] conjunct1 [OF op] adv none w])
  show "unat (delivery_attempt_count d') = Suc (unat (delivery_attempt_count d))"
    using delivery_apply_attempts [OF conjunct1 [OF lookup_wf [OF inv cur(1)]] conjunct1 [OF op]] op by simp
  have rows2: "db_deliveries db2 =
      map (\<lambda>r. if advance_matches d' r then advance_row now d' r else r) (db_deliveries db)"
    using adv write_delivery_event_Inr(1) [OF w] by (auto simp: advance_delivery_def split: if_splits)
  show "set rs \<subseteq> set (db_deliveries db2)"
  proof
    fix r' assume r': "r' \<in> set rs"
    then have "delivery_row_id r' \<noteq> delivery_row_id r" using dist by (auto simp: image_iff)
    then have "\<not> advance_matches d' r'" using cur(2) same by (simp add: advance_matches_def)
    with r' sub show "r' \<in> set (db_deliveries db2)" unfolding rows2 by (auto intro!: image_eqI [of _ _ r'])
  qed
qed

lemma claim_rows_inv:
  assumes "store_inv su pu db" and "distinct (map delivery_row_id rows)"
    and "set rows \<subseteq> set (db_deliveries db)" and "claim_rows su pu now ids k rows db = Inr (db', ds)"
  shows "store_inv su pu db' \<and> advances su pu db db' \<and>
    map (\<lambda>d. delivery_uuid (delivery_id d)) ds = map delivery_row_id rows \<and>
    (\<forall>d \<in> set ds. delivery_lookup su pu db' (delivery_id d) = Some d \<and> delivery_status d = DeliveryStatus_Sending) \<and>
    (\<forall>d \<in> set ds. \<exists>d0. delivery_lookup su pu db (delivery_id d) = Some d0 \<and>
       unat (delivery_attempt_count d) = Suc (unat (delivery_attempt_count d0))) \<and>
    (\<forall>i. delivery_uuid i \<notin> delivery_row_id ` set rows \<longrightarrow> delivery_lookup su pu db' i = delivery_lookup su pu db i)"
  using assms
proof (induction rows arbitrary: k db db' ds)
  case Nil
  then show ?case by (simp add: advances_refl)
next
  case (Cons r rs)
  obtain d d' t db1 db2 ds' where d: "delivery_from_row su pu r = Inr d"
    and st: "start_delivery_attempt d Actor_Automated (ids (4 * k)) (\<lambda>i. ids (4 * k + 1 + i)) = Inr (d', t)"
    and adv: "advance_delivery now d' db = Inr (db1, True)"
    and w: "write_delivery_event (delivery_id d') (transition_event t) (transition_trail t)
       (delivery_transition_event_payload su d' t) db1 = Inr db2"
    and rec: "claim_rows su pu now ids (k + 1) rs db2 = Inr (db', ds')" and ds: "ds = d' # ds'"
    using Cons.prems(4) by (auto simp: bind_result_Inr map_err_Inr split: if_splits)
  note op = start_delivery_attempt_apply [OF st]
  have cur: "delivery_lookup su pu db (delivery_id d) = Some d" "delivery_uuid (delivery_id d) = delivery_row_id r"
    using row_is_current [OF Cons.prems(1) _ d] Cons.prems(3) by auto
  have same: "delivery_id d' = delivery_id d" using delivery_apply_frame(1) op by blast
  note c = claim_rows_step [OF Cons.prems(1-3) d st adv w]
  have fresh: "delivery_uuid (delivery_id d) \<notin> delivery_row_id ` set rs" using Cons.prems(2) cur(2) by simp
  have ih: "store_inv su pu db'" "advances su pu db2 db'"
    "map (\<lambda>d. delivery_uuid (delivery_id d)) ds' = map delivery_row_id rs"
    "\<forall>d \<in> set ds'. delivery_lookup su pu db' (delivery_id d) = Some d \<and> delivery_status d = DeliveryStatus_Sending"
    "\<forall>d \<in> set ds'. \<exists>d0. delivery_lookup su pu db2 (delivery_id d) = Some d0 \<and>
       unat (delivery_attempt_count d) = Suc (unat (delivery_attempt_count d0))"
    "\<And>i. delivery_uuid i \<notin> delivery_row_id ` set rs \<Longrightarrow> delivery_lookup su pu db' i = delivery_lookup su pu db2 i"
    using Cons.IH [OF c(1) _ c(3) rec] Cons.prems(2) by auto
  have ne: "delivery_id e \<noteq> delivery_id d" if "e \<in> set ds'" for e
    using that ih(3) fresh by (metis (no_types, lifting) image_eqI list.set_map)
  have "\<forall>e \<in> set ds'. \<exists>d0. delivery_lookup su pu db (delivery_id e) = Some d0 \<and>
       unat (delivery_attempt_count e) = Suc (unat (delivery_attempt_count d0))"
    using ih(5) c(5) [OF ne] by simp
  moreover have "delivery_lookup su pu db' (delivery_id d') = Some d'"
    using ih(6) [OF fresh] c(4) same by simp
  moreover have "delivery_lookup su pu db' i = delivery_lookup su pu db i"
    if "delivery_uuid i \<notin> delivery_row_id ` set (r # rs)" for i
  proof -
    have "i \<noteq> delivery_id d" using that cur(2) by auto
    with that show ?thesis using ih(6) [of i] c(5) [of i] by simp
  qed
  ultimately show ?case
    using ih(1-4) advances_trans [OF c(2) ih(2)] ds same cur op c(6) by auto
qed

text \<open>A claimable row is found again by the compare-and-set, which updates it.\<close>

lemma claim_row_advances:
  assumes inv: "store_inv su pu db" and r: "r \<in> set (db_deliveries db)" and d: "delivery_from_row su pu r = Inr d"
    and st: "start_delivery_attempt d a rq ids = Inr (d', t)"
  obtains db1 where "advance_delivery now d' db = Inr (db1, True)"
proof -
  have rows: "delivery_rows_ok su pu (db_deliveries db)" using inv by (simp add: store_inv_def)
  then have wf: "delivery_wf d" and checks: "delivery_row_checks r"
    and dist: "distinct (map delivery_row_id (db_deliveries db))"
    using r d by (auto simp: delivery_rows_ok_def)
  note op = conjunct1 [OF start_delivery_attempt_apply [OF st]]
  have fr: "delivery_id d' = delivery_id d" "delivery_retry_policy d' = delivery_retry_policy d"
    using delivery_apply_frame(1,8) [OF op] by simp_all
  have hit: "advance_matches d' r"
    using row_is_current(2) [OF inv r d] fr delivery_apply_version [OF op] d
    by (simp add: advance_matches_def delivery_from_row_Inr)
  have uniq: "r' = r" if "r' \<in> set (db_deliveries db)" "advance_matches d' r'" for r'
    using dist r that hit inj_onD [of delivery_row_id "set (db_deliveries db)" r' r]
    by (simp add: advance_matches_def distinct_map)
  have "advance_matches d' = (\<lambda>x. delivery_row_id x = delivery_uuid (delivery_id d') \<and>
      delivery_row_version x = delivery_version d' - 1)"
    by (auto simp: advance_matches_def fun_eq_iff)
  then have "length (filter (advance_matches d') (db_deliveries db)) = 1"
    using filter_unique_id [OF dist] r hit by (auto simp: advance_matches_def)
  moreover have "\<not> (\<exists>x \<in> set (db_deliveries db). advance_matches d' x \<and> \<not> delivery_row_checks (advance_row now d' x))"
    using uniq advance_row_checks [OF checks d apply_summary(4) [OF wf op] fr(2)] by blast
  ultimately show thesis using that by (simp add: advance_delivery_def)
qed

lemma claim_rows_no_panic:
  assumes "store_inv su pu db" and "distinct (map delivery_row_id rows)"
    and "set rows \<subseteq> set (db_deliveries db)"
    and "\<forall>r \<in> set rows. delivery_row_status r \<in> {lit ''QUEUED'', lit ''RETRYING''}"
  shows "claim_rows su pu now ids k rows db \<noteq> Inl DbPanic"
  using assms
proof (induction rows arbitrary: k db)
  case (Cons r rs)
  have r: "r \<in> set (db_deliveries db)" using Cons.prems(3) by simp
  then obtain d where d: "delivery_from_row su pu r = Inr d"
    using Cons.prems(1) by (auto simp: store_inv_def delivery_rows_ok_def)
  have "delivery_status d \<in> {DeliveryStatus_Queued, DeliveryStatus_Retrying}"
    using Cons.prems(4) d by (cases "delivery_status d") (auto simp: delivery_from_row_Inr)
  then obtain d' t where st: "start_delivery_attempt d Actor_Automated (ids (4 * k)) (\<lambda>i. ids (4 * k + 1 + i)) = Inr (d', t)"
    by (auto simp: start_delivery_attempt_def start_attempt_def Let_def)
  obtain db1 where adv: "advance_delivery now d' db = Inr (db1, True)"
    by (rule claim_row_advances [OF Cons.prems(1) r d st])
  show ?case
  proof (cases "write_delivery_event (delivery_id d') (transition_event t) (transition_trail t)
       (delivery_transition_event_payload su d' t) db1")
    case (Inl e)
    then have "e \<noteq> DbPanic"
      by (auto simp: write_delivery_event_def insert_delivery_event_def insert_aggregate_event_def
          insert_row_def insert_audit_event_def insert_outbox_event_def bind_result_Inl split: if_splits)
    with Inl d st adv show ?thesis by simp
  next
    case (Inr db2)
    note c = claim_rows_step [OF Cons.prems(1-3) d st adv Inr]
    have "claim_rows su pu now ids (k + 1) rs db2 \<noteq> Inl DbPanic"
      using Cons.IH [OF c(1) _ c(3)] Cons.prems(2,4) by auto
    with d st adv Inr show ?thesis by (auto simp: bind_result_Inl)
  qed
qed simp

text \<open>The rows that a claim takes.\<close>

lemma claim_next_rows:
  assumes inv: "store_inv su pu db" and c: "claim_next su pu now locked ids limit db = Inr (db', ds)"
  obtains rows where "distinct (map delivery_row_id rows)" and "set rows \<subseteq> set (db_deliveries db)"
    and "\<forall>r \<in> set rows. claim_ready now (db_deliveries db) r"
    and "claim_rows su pu now ids 0 rows db = Inr (db', ds)"
proof
  let ?rows = "take limit (filter (\<lambda>r. claim_ready now (db_deliveries db) r \<and> delivery_row_id r \<notin> locked) (db_deliveries db))"
  have "distinct (map delivery_row_id (db_deliveries db))"
    using inv by (simp add: store_inv_def delivery_rows_ok_def)
  then show "distinct (map delivery_row_id ?rows)" by (simp add: distinct_map_filter flip: take_map)
  show "set ?rows \<subseteq> set (db_deliveries db)" and "\<forall>r \<in> set ?rows. claim_ready now (db_deliveries db) r"
    by (auto dest: in_set_takeD)
  show "claim_rows su pu now ids 0 ?rows db = Inr (db', ds)" using c by (simp add: claim_next_def)
qed

lemma claim_next_inv:
  assumes "store_inv su pu db" and "claim_next su pu now locked ids limit db = Inr (db', ds)"
  shows "store_inv su pu db'" and "advances su pu db db'"
    and "\<forall>d \<in> set ds. delivery_lookup su pu db' (delivery_id d) = Some d \<and> delivery_status d = DeliveryStatus_Sending"
    and "\<forall>d \<in> set ds. \<exists>d0. delivery_lookup su pu db (delivery_id d) = Some d0 \<and>
       unat (delivery_attempt_count d) = Suc (unat (delivery_attempt_count d0))"
    and "distinct (map delivery_id ds)"
proof -
  obtain rows where rows: "distinct (map delivery_row_id rows)" "set rows \<subseteq> set (db_deliveries db)"
    "claim_rows su pu now ids 0 rows db = Inr (db', ds)"
    by (rule claim_next_rows [OF assms])
  note c = claim_rows_inv [OF assms(1) rows]
  then show "store_inv su pu db'" and "advances su pu db db'"
    and "\<forall>d \<in> set ds. delivery_lookup su pu db' (delivery_id d) = Some d \<and> delivery_status d = DeliveryStatus_Sending"
    and "\<forall>d \<in> set ds. \<exists>d0. delivery_lookup su pu db (delivery_id d) = Some d0 \<and>
       unat (delivery_attempt_count d) = Suc (unat (delivery_attempt_count d0))"
    by blast+
  have "distinct (map delivery_uuid (map delivery_id ds))" using c rows(1) by (simp add: comp_def)
  then show "distinct (map delivery_id ds)" by (rule distinct_map [THEN iffD1, THEN conjunct1])
qed

end
