(* ===== verification/Delivery_System.thy ===== *)
theory Delivery_System
  imports Delivery_Invariants
begin

text \<open>
  The delivery tables under concurrent workers, planners and webhook handlers. Each process holds copies
  of deliveries in memory and changes the database only through the repository; steps of different
  processes interleave freely and a process can stop at any point. Reachable states satisfy the
  invariant, and rows only move forward.
\<close>

section \<open>The system\<close>

text \<open>The database and the copies that workers and webhook handlers hold in memory.\<close>

record delivery_system =
  sys_db :: database
  sys_held :: "delivery list"

text \<open>
  \<open>Plan\<close>: \<open>create_planned\<close> commits one item. \<open>Claim\<close>: a worker claims a batch. \<open>Load\<close>: a webhook
  handler reads a delivery. \<open>Settle\<close>, \<open>Fail\<close>, \<open>Confirm\<close>: a held copy is updated by the domain and
  written back; the copy is gone afterwards, whatever the outcome. \<open>Lost\<close>: a process stops.
  \<open>Other\<close>: another part of the program changes other tables.
\<close>

inductive delivery_step ::
  "(uuid \<Rightarrow> rstring) \<Rightarrow> (rstring \<Rightarrow> uuid option) \<Rightarrow> delivery_system \<Rightarrow> delivery_system \<Rightarrow> bool"
  for su pu where
  Plan: "planned_ok su item \<Longrightarrow> create_one su item db = Inr db' \<Longrightarrow>
    delivery_step su pu \<lparr>sys_db = db, sys_held = hs\<rparr> \<lparr>sys_db = db', sys_held = hs\<rparr>"
| Claim: "claim_next su pu now locked ids limit db = Inr (db', ds) \<Longrightarrow>
    delivery_step su pu \<lparr>sys_db = db, sys_held = hs\<rparr> \<lparr>sys_db = db', sys_held = hs @ ds\<rparr>"
| Load: "delivery_find_by_id su pu db i = Inr (Some d) \<Longrightarrow>
    delivery_step su pu \<lparr>sys_db = db, sys_held = hs\<rparr> \<lparr>sys_db = db, sys_held = hs @ [d]\<rparr>"
| Settle: "h \<in> set hs \<Longrightarrow> record_delivery_success h pid a rq ids = Inr (h', t) \<Longrightarrow>
    delivery_apply_attempt_transition su now h' t db = Inr (db', out) \<Longrightarrow>
    delivery_step su pu \<lparr>sys_db = db, sys_held = hs\<rparr> \<lparr>sys_db = db', sys_held = remove1 h hs\<rparr>"
| Fail: "h \<in> set hs \<Longrightarrow> record_delivery_failure h b s a rq ids = Inr (h', t) \<Longrightarrow>
    delivery_apply_attempt_transition su now h' t db = Inr (db', out) \<Longrightarrow>
    delivery_step su pu \<lparr>sys_db = db, sys_held = hs\<rparr> \<lparr>sys_db = db', sys_held = remove1 h hs\<rparr>"
| Confirm: "h \<in> set hs \<Longrightarrow> record_delivery_delivered h a rq ids = Inr (h', t2) \<Longrightarrow>
    delivery_apply_transition su now h' t2 db = Inr (db', out) \<Longrightarrow>
    delivery_step su pu \<lparr>sys_db = db, sys_held = hs\<rparr> \<lparr>sys_db = db', sys_held = remove1 h hs\<rparr>"
| Lost: "delivery_step su pu \<lparr>sys_db = db, sys_held = hs\<rparr> \<lparr>sys_db = db, sys_held = remove1 h hs\<rparr>"
| Other: "db_deliveries db' = db_deliveries db \<Longrightarrow> db_attempts db' = db_attempts db \<Longrightarrow>
    db_delivery_events db' = db_delivery_events db \<Longrightarrow>
    delivery_step su pu \<lparr>sys_db = db, sys_held = hs\<rparr> \<lparr>sys_db = db', sys_held = hs\<rparr>"

inductive_cases delivery_stepE: "delivery_step su pu s s'"

inductive delivery_reachable ::
  "(uuid \<Rightarrow> rstring) \<Rightarrow> (rstring \<Rightarrow> uuid option) \<Rightarrow> delivery_system \<Rightarrow> bool"
  for su pu where
  init: "delivery_reachable su pu \<lparr>sys_db = empty_database, sys_held = []\<rparr>"
| step: "delivery_reachable su pu s \<Longrightarrow> delivery_step su pu s s' \<Longrightarrow> delivery_reachable su pu s'"

definition system_inv ::
  "(uuid \<Rightarrow> rstring) \<Rightarrow> (rstring \<Rightarrow> uuid option) \<Rightarrow> delivery_system \<Rightarrow> bool" where
  "system_inv su pu s \<longleftrightarrow>
     store_inv su pu (sys_db s) \<and> (\<forall>h \<in> set (sys_held s). held_ok su pu (sys_db s) h)"

lemma apply_attempt_transition_Inr:
  assumes "delivery_apply_attempt_transition su now d t db = Inr (db', out)"
  shows "(out = DeliveryTransition_Conflict \<and> db' = db) \<or>
    (out = DeliveryTransition_Applied \<and>
     (\<exists>db1 db2. advance_delivery now d db = Inr (db1, True) \<and>
        insert_delivery_attempt (attempt_transition_attempt t) db1 = Inr db2 \<and>
        write_delivery_event (delivery_id d) (attempt_transition_event t) (attempt_transition_trail t)
          (delivery_attempt_event_payload su d t) db2 = Inr db'))"
  using assms by (auto simp: delivery_apply_attempt_transition_def bind_result_Inr split: if_splits)

lemma apply_transition_Inr:
  assumes "delivery_apply_transition su now d t db = Inr (db', out)"
  shows "(out = DeliveryTransition_Conflict \<and> db' = db) \<or>
    (out = DeliveryTransition_Applied \<and>
     (\<exists>db1. advance_delivery now d db = Inr (db1, True) \<and>
        write_delivery_event (delivery_id d) (transition_event t) (transition_trail t)
          (delivery_transition_event_payload su d t) db1 = Inr db'))"
  using assms by (auto simp: delivery_apply_transition_def bind_result_Inr split: if_splits)

text \<open>Writing a held copy back keeps the store sound and moves it forward.\<close>

lemma write_back_attempt:
  assumes "store_inv su pu db" and "held_ok su pu db h"
    and op: "delivery_apply h x = Inr (h', attempt_transition_event t, Some (attempt_transition_attempt t))"
    and w: "delivery_apply_attempt_transition su now h' t db = Inr (db', out)"
  shows "store_inv su pu db' \<and> advances su pu db db'"
  using apply_attempt_transition_Inr [OF w]
proof
  assume "out = DeliveryTransition_Conflict \<and> db' = db"
  then show ?thesis using assms(1) advances_refl by simp
next
  assume "out = DeliveryTransition_Applied \<and>
     (\<exists>db1 db2. advance_delivery now h' db = Inr (db1, True) \<and>
        insert_delivery_attempt (attempt_transition_attempt t) db1 = Inr db2 \<and>
        write_delivery_event (delivery_id h') (attempt_transition_event t) (attempt_transition_trail t)
          (delivery_attempt_event_payload su h' t) db2 = Inr db')"
  then obtain db1 db2 where *: "advance_delivery now h' db = Inr (db1, True)"
    "insert_delivery_attempt (attempt_transition_attempt t) db1 = Inr db2"
    "write_delivery_event (delivery_id h') (attempt_transition_event t) (attempt_transition_trail t)
          (delivery_attempt_event_payload su h' t) db2 = Inr db'" by blast
  have ins: "case Some (attempt_transition_attempt t) of None \<Rightarrow> db2 = db1
      | Some a \<Rightarrow> insert_delivery_attempt a db1 = Inr db2" using *(2) by simp
  show ?thesis
    using commit(1) [OF assms(1,2) op *(1) ins *(3)] commit_advances [OF assms(1,2) op *(1) ins *(3)] by simp
qed

lemma write_back:
  assumes "store_inv su pu db" and "held_ok su pu db h"
    and op: "delivery_apply h x = Inr (h', transition_event t, None)"
    and w: "delivery_apply_transition su now h' t db = Inr (db', out)"
  shows "store_inv su pu db' \<and> advances su pu db db'"
  using apply_transition_Inr [OF w]
proof
  assume "out = DeliveryTransition_Conflict \<and> db' = db"
  then show ?thesis using assms(1) advances_refl by simp
next
  assume "out = DeliveryTransition_Applied \<and>
     (\<exists>db1. advance_delivery now h' db = Inr (db1, True) \<and>
        write_delivery_event (delivery_id h') (transition_event t) (transition_trail t)
          (delivery_transition_event_payload su h' t) db1 = Inr db')"
  then obtain db1 where *: "advance_delivery now h' db = Inr (db1, True)"
    "write_delivery_event (delivery_id h') (transition_event t) (transition_trail t)
          (delivery_transition_event_payload su h' t) db1 = Inr db'" by blast
  have ins: "case None of None \<Rightarrow> db1 = db1 | Some a \<Rightarrow> insert_delivery_attempt a db1 = Inr db1" by simp
  show ?thesis
    using commit(1) [OF assms(1,2) op *(1) ins *(2)] commit_advances [OF assms(1,2) op *(1) ins *(2)] by simp
qed

lemma system_inv_forward:
  assumes "system_inv su pu \<lparr>sys_db = db, sys_held = hs\<rparr>" and "store_inv su pu db' \<and> advances su pu db db'"
    and "set hs' \<subseteq> set hs"
  shows "system_inv su pu \<lparr>sys_db = db', sys_held = hs'\<rparr>"
  using assms held_ok_mono unfolding system_inv_def by auto

lemma delivery_step_inv:
  assumes uu: "uuid_text su pu" and inv: "system_inv su pu s" and step: "delivery_step su pu s s'"
  shows "system_inv su pu s'"
  using step inv
proof cases
  case (Plan item db db' hs)
  then have "store_inv su pu db" using inv by (simp add: system_inv_def)
  from create_one_inv [OF this uu Plan(3,4)] have "store_inv su pu db' \<and> advances su pu db db'"
    by (auto simp: advances_def)
  then show ?thesis using system_inv_forward [of su pu db hs db' hs] inv Plan by simp
next
  case (Claim now locked ids limit db db' ds hs)
  then have s: "store_inv su pu db" using inv by (simp add: system_inv_def)
  note c = claim_next_inv [OF s Claim(3)]
  have "system_inv su pu \<lparr>sys_db = db', sys_held = hs\<rparr>"
    using system_inv_forward [of su pu db hs db' hs] inv Claim(1) c by simp
  then show ?thesis using Claim(2) c(3) held_ok_current by (auto simp: system_inv_def)
next
  case (Load db i d hs)
  then have s: "store_inv su pu db" using inv by (simp add: system_inv_def)
  then have "delivery_lookup su pu db i = Some d"
    using Load(3) delivery_find_by_id_lookup [of su pu db i] by (simp add: store_inv_def)
  then have "held_ok su pu db d" using lookup_wf [OF s] held_ok_current by metis
  then show ?thesis using inv Load by (auto simp: system_inv_def)
next
  case (Settle h hs pid a rq ids h' t now db db' out)
  then have s: "store_inv su pu db" "held_ok su pu db h" using inv by (simp_all add: system_inv_def)
  have op: "delivery_apply h (DeliveryOp_Success pid (ids 0) (ids 1)) =
      Inr (h', attempt_transition_event t, Some (attempt_transition_attempt t))"
    using Settle(4) by (simp add: record_delivery_success_Inr)
  from write_back_attempt [OF s op Settle(5)] show ?thesis
    using system_inv_forward [of su pu db hs db' "remove1 h hs"] inv Settle(1,2) set_remove1_subset by metis
next
  case (Fail h hs b r a rq ids h' t now db db' out)
  then have s: "store_inv su pu db" "held_ok su pu db h" using inv by (simp_all add: system_inv_def)
  have op: "delivery_apply h (DeliveryOp_Failure b r (ids 0) (ids 1)) =
      Inr (h', attempt_transition_event t, Some (attempt_transition_attempt t))"
    using Fail(4) by (simp add: record_delivery_failure_Inr)
  from write_back_attempt [OF s op Fail(5)] show ?thesis
    using system_inv_forward [of su pu db hs db' "remove1 h hs"] inv Fail(1,2) set_remove1_subset by metis
next
  case (Confirm h hs a rq ids h' t now db db' out)
  then have s: "store_inv su pu db" "held_ok su pu db h" using inv by (simp_all add: system_inv_def)
  have op: "delivery_apply h (DeliveryOp_Delivered (ids 0)) = Inr (h', transition_event t, None)"
    using Confirm(4) by (simp add: record_delivery_delivered_Inr)
  from write_back [OF s op Confirm(5)] show ?thesis
    using system_inv_forward [of su pu db hs db' "remove1 h hs"] inv Confirm(1,2) set_remove1_subset by metis
next
  case (Lost db hs h)
  then show ?thesis using inv by (auto simp: system_inv_def dest: notin_set_remove1)
next
  case (Other db' db hs)
  then have look: "delivery_lookup su pu db' = delivery_lookup su pu db" by (intro delivery_lookup_cong)
  then have "store_inv su pu db' \<and> advances su pu db db'"
    using inv Other advances_refl [of su pu db]
    by (simp add: system_inv_def store_inv_def history_matches_def event_numbers_def attempt_numbers_def advances_def)
  then show ?thesis using system_inv_forward [of su pu db hs db' hs] inv Other(1,2) by simp
qed

lemma reachable_inv:
  assumes "uuid_text su pu" and "delivery_reachable su pu s"
  shows "system_inv su pu s"
  using assms(2)
proof induction
  case init
  then show ?case
    by (simp add: system_inv_def store_inv_def empty_database_def delivery_rows_ok_def delivery_lookup_def
        row_lookup_def)
next
  case (step s s')
  then show ?case using delivery_step_inv [OF assms(1)] by blast
qed

section \<open>Tiers\<close>

text \<open>A claimed delivery comes from a ready row, a row that is not ready keeps its delivery, and the lower
  tiers of a ready row have failed.\<close>

lemma claimed_from_ready:
  assumes inv: "store_inv su pu db" and c: "claim_next su pu now locked ids limit db = Inr (db', ds)"
    and d: "d \<in> set ds"
  obtains r d0 where "claim_ready now (db_deliveries db) r" and "r \<in> set (db_deliveries db)"
    and "delivery_from_row su pu r = Inr d0" and "delivery_alert_id d = delivery_alert_id d0"
    and "delivery_consumer_id d = delivery_consumer_id d0" and "delivery_tier d = delivery_tier d0"
proof -
  obtain rs where rs: "distinct (map delivery_row_id rs)" "set rs \<subseteq> set (db_deliveries db)"
    "\<forall>r \<in> set rs. claim_ready now (db_deliveries db) r" "claim_rows su pu now ids 0 rs db = Inr (db', ds)"
    by (rule claim_next_rows [OF inv c])
  have rows: "delivery_rows_ok su pu (db_deliveries db)" using inv by (simp add: store_inv_def)
  note cr = claim_rows_inv [OF inv rs(1,2,4)]
  then have "delivery_uuid (delivery_id d) \<in> set (map delivery_row_id rs)"
    using d by (metis (no_types, lifting) image_eqI list.set_map)
  then obtain r where "r \<in> set rs" "delivery_row_id r = delivery_uuid (delivery_id d)" by auto
  with rs(2,3) have r: "claim_ready now (db_deliveries db) r" "r \<in> set (db_deliveries db)"
    "delivery_row_id r = delivery_uuid (delivery_id d)" by auto
  then obtain d0 where d0: "delivery_from_row su pu r = Inr d0" using rows by (auto simp: delivery_rows_ok_def)
  then have "delivery_lookup su pu db (delivery_id d) = Some d0" using delivery_lookup_Some [OF rows] r by blast
  moreover have "delivery_lookup su pu db' (delivery_id d) = Some d" using cr d by blast
  ultimately have "d = d0 \<or> delivery_successor d0 d" using cr unfolding advances_def by fastforce
  then have "delivery_alert_id d = delivery_alert_id d0" "delivery_consumer_id d = delivery_consumer_id d0"
    "delivery_tier d = delivery_tier d0"
    using delivery_update_frame(1-3) [where d' = d and d = d0 and st = "delivery_status d"
        and n = "delivery_attempt_count d" and v = "delivery_version d"]
    unfolding delivery_successor_def by blast+
  with r d0 show thesis by (intro that)
qed

lemma unready_unclaimed:
  assumes inv: "store_inv su pu db" and c: "claim_next su pu now locked ids limit db = Inr (db', ds)"
    and rl: "rl \<in> set (db_deliveries db)" "delivery_row_id rl = delivery_uuid i"
    and unready: "\<not> claim_ready now (db_deliveries db) rl"
  shows "delivery_lookup su pu db' i = delivery_lookup su pu db i"
proof -
  obtain rs where rs: "distinct (map delivery_row_id rs)" "set rs \<subseteq> set (db_deliveries db)"
    "\<forall>r \<in> set rs. claim_ready now (db_deliveries db) r" "claim_rows su pu now ids 0 rs db = Inr (db', ds)"
    by (rule claim_next_rows [OF inv c])
  have keys: "distinct (map delivery_row_id (db_deliveries db))"
    using inv by (simp add: store_inv_def delivery_rows_ok_def)
  have "delivery_uuid i \<notin> delivery_row_id ` set rs"
  proof
    assume "delivery_uuid i \<in> delivery_row_id ` set rs"
    then obtain x where x: "x \<in> set rs" "delivery_row_id x = delivery_row_id rl" using rl(2) by auto
    then have "x = rl" using rs(2) rl(1) keys by (metis distinct_map inj_onD subsetD)
    with x(1) rs(3) unready show False by blast
  qed
  with claim_rows_inv [OF inv rs(1,2,4)] show ?thesis by blast
qed

lemma claim_ready_lower_failed:
  assumes rows: "delivery_rows_ok su pu (db_deliveries db)" and ready: "claim_ready now (db_deliveries db) r"
    and r: "r \<in> set (db_deliveries db)" "delivery_from_row su pu r = Inr d"
    and rl: "rl \<in> set (db_deliveries db)" "delivery_from_row su pu rl = Inr l"
    and same: "delivery_alert_id l = delivery_alert_id d" "delivery_consumer_id l = delivery_consumer_id d"
    and tier: "delivery_tier l < delivery_tier d"
  shows "delivery_row_status rl = lit ''FAILED_PERMANENTLY''"
proof -
  have tiers: "delivery_row_tier r = ucast (delivery_tier d)" "delivery_row_tier rl = ucast (delivery_tier l)"
    using rows r rl by (auto simp: delivery_rows_ok_def)
  have "delivery_row_alert_id rl = delivery_row_alert_id r" "delivery_row_consumer_id rl = delivery_row_consumer_id r"
    "delivery_row_tier rl <s delivery_row_tier r"
    using r(2) rl(2) tiers same tier by (auto simp: delivery_from_row_Inr tier_sless)
  moreover have "delivery_row_tier r \<noteq> 0"
  proof
    assume "delivery_row_tier r = 0"
    then have "delivery_tier d = 0" using tiers(1) by (metis tier_roundtrip ucast_0)
    with tier show False by simp
  qed
  ultimately show ?thesis using ready rl(1) by (auto simp: claim_ready_def tier_ready_def list_ex_iff)
qed

text \<open>A claimed fallback has only permanently failed deliveries before it.\<close>

lemma claim_next_tiers:
  assumes inv: "store_inv su pu db" and c: "claim_next su pu now locked ids limit db = Inr (db', ds)"
    and d: "d \<in> set ds" and l: "delivery_lookup su pu db i = Some l"
    and same: "delivery_alert_id l = delivery_alert_id d" "delivery_consumer_id l = delivery_consumer_id d"
    and tier: "delivery_tier l < delivery_tier d"
  shows "delivery_status l = DeliveryStatus_FailedPermanently" and "delivery_lookup su pu db' i = Some l"
proof -
  have rows: "delivery_rows_ok su pu (db_deliveries db)" using inv by (simp add: store_inv_def)
  obtain r d0 where r: "claim_ready now (db_deliveries db) r" "r \<in> set (db_deliveries db)"
    "delivery_from_row su pu r = Inr d0" and eq: "delivery_alert_id d = delivery_alert_id d0"
    "delivery_consumer_id d = delivery_consumer_id d0" "delivery_tier d = delivery_tier d0"
    by (rule claimed_from_ready [OF inv c d])
  obtain rl where rl: "rl \<in> set (db_deliveries db)" "delivery_row_id rl = delivery_uuid i"
    "delivery_from_row su pu rl = Inr l"
    using l delivery_lookup_Some [OF rows] by blast
  have failed: "delivery_row_status rl = lit ''FAILED_PERMANENTLY''"
    using claim_ready_lower_failed [OF rows r rl(1,3)] same tier eq by simp
  then show "delivery_status l = DeliveryStatus_FailedPermanently"
    using rl(3) by (cases "delivery_status l") (auto simp: delivery_from_row_Inr)
  have "\<not> claim_ready now (db_deliveries db) rl" using failed by (simp add: claim_ready_def)
  then show "delivery_lookup su pu db' i = Some l" using unready_unclaimed [OF inv c rl(1,2)] l by simp
qed

lemma failed_is_final:
  "delivery_successor d d' \<Longrightarrow> \<not> delivery_status_is_terminal (delivery_status d)"
proof -
  assume "delivery_successor d d'"
  then obtain z where "delivery_allowed (delivery_status d) z"
    unfolding delivery_successor_def using tranclpD by metis
  then show ?thesis by (auto simp: delivery_allowed_def delivery_status_is_terminal_def)
qed

lemma delivery_step_advances:
  assumes uu: "uuid_text su pu" and inv: "system_inv su pu s" and step: "delivery_step su pu s s'"
  shows "advances su pu (sys_db s) (sys_db s')"
  using step
proof cases
  case (Plan item db db' hs)
  then have "store_inv su pu db" using inv by (simp add: system_inv_def)
  from create_one_inv(2) [OF this uu Plan(3,4)] Plan show ?thesis by (auto simp: advances_def)
next
  case (Claim now locked ids limit db db' ds hs)
  then have "store_inv su pu db" using inv by (simp add: system_inv_def)
  from claim_next_inv(2) [OF this Claim(3)] Claim show ?thesis by simp
next
  case (Settle h hs pid a rq ids h' t now db db' out)
  then have s: "store_inv su pu db" "held_ok su pu db h" using inv by (simp_all add: system_inv_def)
  have op: "delivery_apply h (DeliveryOp_Success pid (ids 0) (ids 1)) =
      Inr (h', attempt_transition_event t, Some (attempt_transition_attempt t))"
    using Settle(4) by (simp add: record_delivery_success_Inr)
  from write_back_attempt [OF s op Settle(5)] Settle show ?thesis by simp
next
  case (Fail h hs b r a rq ids h' t now db db' out)
  then have s: "store_inv su pu db" "held_ok su pu db h" using inv by (simp_all add: system_inv_def)
  have op: "delivery_apply h (DeliveryOp_Failure b r (ids 0) (ids 1)) =
      Inr (h', attempt_transition_event t, Some (attempt_transition_attempt t))"
    using Fail(4) by (simp add: record_delivery_failure_Inr)
  from write_back_attempt [OF s op Fail(5)] Fail show ?thesis by simp
next
  case (Confirm h hs a rq ids h' t now db db' out)
  then have s: "store_inv su pu db" "held_ok su pu db h" using inv by (simp_all add: system_inv_def)
  have op: "delivery_apply h (DeliveryOp_Delivered (ids 0)) = Inr (h', transition_event t, None)"
    using Confirm(4) by (simp add: record_delivery_delivered_Inr)
  from write_back [OF s op Confirm(5)] Confirm show ?thesis by simp
next
  case (Other db' db hs)
  then have "delivery_lookup su pu db' = delivery_lookup su pu db" by (intro delivery_lookup_cong)
  with Other show ?thesis by (simp add: advances_def)
qed (simp_all add: advances_refl)

text \<open>Runs of the system from any sound state.\<close>

lemma delivery_run_advances:
  assumes "uuid_text su pu" and "(delivery_step su pu)\<^sup>*\<^sup>* s s'" and "system_inv su pu s"
  shows "advances su pu (sys_db s) (sys_db s') \<and> system_inv su pu s'"
  using assms(2)
proof (induction rule: rtranclp_induct)
  case base
  then show ?case using assms(3) advances_refl by simp
next
  case (step s1 s2)
  then show ?case
    using delivery_step_advances [OF assms(1)] delivery_step_inv [OF assms(1)] advances_trans by blast
qed

section \<open>A run of the system\<close>

text \<open>An alert with one delivery in each of two tiers: the first is claimed and fails for good.\<close>

definition sample_run_db :: database where
  "sample_run_db = empty_database\<lparr>db_alerts := [\<lparr>alert_row_id = 1, alert_row_case_id = 2,
     alert_row_policy_id = [], alert_row_policy_version = 1, alert_row_incident_type = [],
     alert_row_severity = [], alert_row_visibility = [], alert_row_trigger = [],
     alert_row_target_geography = [], alert_row_status = [], alert_row_version = 1,
     alert_row_key_hash = None, alert_row_issued_by = None\<rparr>]\<rparr>"

definition sample_plan :: "u8 \<Rightarrow> uuid \<Rightarrow> planned_delivery" where
  "sample_plan t i =
     (let (d, ev) = plan_one hyphenated (AlertId 1) (ConsumerId 2)
            \<lparr>endpoint_channel = ChannelType_Sms, endpoint_address = [65 + unat t]\<rparr> t [] (RetryPolicy 1) i (i + 1)
      in \<lparr>planned_delivery = d, planned_event = ev, planned_key_hash = [ucast t],
          planned_trail = new_trail Actor_Automated 0 (i + 2) (i + 3)\<rparr>)"

definition sample_planned_db :: database where
  "sample_planned_db = projr (bind_result (create_one hyphenated (sample_plan 0 10) sample_run_db)
     (create_one hyphenated (sample_plan 1 20)))"

definition sample_claimed :: "database \<times> delivery list" where
  "sample_claimed = projr (claim_next hyphenated parse_hyphenated 5 {} (\<lambda>i. of_nat (30 + i)) 1 sample_planned_db)"

definition sample_failure :: "delivery \<times> delivery_attempt_transition" where
  "sample_failure = projr (record_delivery_failure (hd (snd sample_claimed)) False [] Actor_Automated 0
     (\<lambda>i. of_nat (40 + i)))"

definition sample_failed_db :: database where
  "sample_failed_db = fst (projr (delivery_apply_attempt_transition hyphenated 6 (fst sample_failure)
     (snd sample_failure) (fst sample_claimed)))"

lemma sample_plan_ok: "planned_ok hyphenated (sample_plan t i)"
  unfolding planned_ok_def sample_plan_def
  by (intro exI [of _ "AlertId 1"] exI [of _ "ConsumerId 2"]
      exI [of _ "\<lparr>endpoint_channel = ChannelType_Sms, endpoint_address = [65 + unat t]\<rparr>"] exI [of _ t]
      exI [of _ "[]"] exI [of _ "RetryPolicy 1"] exI [of _ i] exI [of _ "i + 1"])
    (simp add: Let_def split: prod.split)

lemmas sample_run_simps = sample_run_db_def sample_plan_def plan_one_def create_one_def insert_delivery_def
  delivery_to_row_def delivery_row_checks_def btrim_blank_def empty_database_def write_delivery_event_def
  insert_delivery_event_def insert_aggregate_event_def event_row_def insert_row_def insert_audit_event_def
  insert_outbox_event_def new_trail_def delivery_new_event_def Let_def bind_result_def delivery_max_attempts_def
  word_sless_alt word_sle_eq

lemmas sample_claim_simps = sample_run_simps sample_planned_db_def claim_next_def claim_ready_def tier_ready_def
  ok_or_def map_err_def channel_type_from_db_def matched_subscriptions_to_json_def retry_policy_new_def
  delivery_status_from_db_def delivery_from_row_def delivery_reconstitute_def start_delivery_attempt_def start_attempt_def
  advance_delivery_def advance_matches_def advance_row_def retry_backoff_def

lemma sample_run_defined:
  "\<not> isl (bind_result (create_one hyphenated (sample_plan 0 10) sample_run_db) (create_one hyphenated (sample_plan 1 20)))"
  by (simp add: sample_run_simps)

lemma sample_claim_defined:
  "\<not> isl (claim_next hyphenated parse_hyphenated 5 {} (\<lambda>i. of_nat (30 + i)) 1 sample_planned_db) \<and>
   length (snd sample_claimed) = 1"
  by (simp add: sample_claim_simps sample_claimed_def)

lemmas sample_failure_simps = sample_claim_simps sample_claimed_def sample_failure_def record_delivery_failure_def
  record_failure_def delivery_apply_attempt_transition_def insert_delivery_attempt_def attempt_to_row_def

lemma sample_failure_defined:
  "\<not> isl (record_delivery_failure (hd (snd sample_claimed)) False [] Actor_Automated 0 (\<lambda>i. of_nat (40 + i))) \<and>
   \<not> isl (delivery_apply_attempt_transition hyphenated 6 (fst sample_failure) (snd sample_failure) (fst sample_claimed))"
  by (simp add: sample_failure_simps)

lemma sample_reachable:
  "delivery_reachable hyphenated parse_hyphenated \<lparr>sys_db = sample_planned_db, sys_held = []\<rparr> \<and>
   (\<exists>hs. (delivery_step hyphenated parse_hyphenated)\<^sup>*\<^sup>* \<lparr>sys_db = sample_planned_db, sys_held = []\<rparr>
         \<lparr>sys_db = sample_failed_db, sys_held = hs\<rparr> \<and>
      delivery_reachable hyphenated parse_hyphenated \<lparr>sys_db = sample_failed_db, sys_held = hs\<rparr>)"
proof -
  let ?step = "delivery_step hyphenated parse_hyphenated" and ?reach = "delivery_reachable hyphenated parse_hyphenated"
  have "?step \<lparr>sys_db = empty_database, sys_held = []\<rparr> \<lparr>sys_db = sample_run_db, sys_held = []\<rparr>"
    by (rule delivery_step.Other) (simp_all add: sample_run_db_def)
  then have 0: "?reach \<lparr>sys_db = sample_run_db, sys_held = []\<rparr>"
    by (rule delivery_reachable.step [OF delivery_reachable.init])
  obtain db1 where c: "create_one hyphenated (sample_plan 0 10) sample_run_db = Inr db1"
    "create_one hyphenated (sample_plan 1 20) db1 = Inr sample_planned_db"
    using sample_run_defined unfolding sample_planned_db_def
    by (cases "create_one hyphenated (sample_plan 0 10) sample_run_db") auto
  have 1: "?reach \<lparr>sys_db = sample_planned_db, sys_held = []\<rparr>"
    by (rule delivery_reachable.step [OF delivery_reachable.step
          [OF 0 delivery_step.Plan [OF sample_plan_ok c(1)]] delivery_step.Plan [OF sample_plan_ok c(2)]])
  obtain d where d: "snd sample_claimed = [d]"
    using sample_claim_defined by (cases "snd sample_claimed") auto
  have "claim_next hyphenated parse_hyphenated 5 {} (\<lambda>i. of_nat (30 + i)) 1 sample_planned_db = Inr sample_claimed"
    unfolding sample_claimed_def by (rule sum.collapse(2) [symmetric]) (use sample_claim_defined in blast)
  moreover have "sample_claimed = (fst sample_claimed, [d])" by (simp add: prod_eq_iff d)
  ultimately have cl: "claim_next hyphenated parse_hyphenated 5 {} (\<lambda>i. of_nat (30 + i)) 1 sample_planned_db =
      Inr (fst sample_claimed, [d])" by (rule trans [OF _ arg_cong [where f = Inr]])
  have 2: "?step \<lparr>sys_db = sample_planned_db, sys_held = []\<rparr> \<lparr>sys_db = fst sample_claimed, sys_held = [d]\<rparr>"
    using delivery_step.Claim [OF cl, of "[]"] by simp
  have f: "record_delivery_failure d False [] Actor_Automated 0 (\<lambda>i. of_nat (40 + i)) =
      Inr (fst sample_failure, snd sample_failure)"
    using sum.collapse(2) [OF conjunct1 [OF sample_failure_defined]] unfolding sample_failure_def d by simp
  obtain out where w: "delivery_apply_attempt_transition hyphenated 6 (fst sample_failure) (snd sample_failure)
      (fst sample_claimed) = Inr (sample_failed_db, out)"
    using sample_failure_defined unfolding sample_failed_db_def by (metis isl_def prod.collapse sum.collapse(2))
  have 3: "?step \<lparr>sys_db = fst sample_claimed, sys_held = [d]\<rparr> \<lparr>sys_db = sample_failed_db, sys_held = remove1 d [d]\<rparr>"
    by (rule delivery_step.Fail [OF _ f w]) simp
  have "?step\<^sup>*\<^sup>* \<lparr>sys_db = sample_planned_db, sys_held = []\<rparr> \<lparr>sys_db = sample_failed_db, sys_held = remove1 d [d]\<rparr>"
    using 2 3 by (rule converse_rtranclp_into_rtranclp [OF _ r_into_rtranclp])
  with 1 delivery_reachable.step [OF delivery_reachable.step [OF 1 2] 3] show ?thesis by blast
qed

lemma sample_queued:
  "\<exists>d. delivery_lookup hyphenated parse_hyphenated sample_planned_db (DeliveryId 10) = Some d \<and>
       delivery_status d = DeliveryStatus_Queued"
  by (simp add: sample_claim_simps delivery_lookup_def row_lookup_def)

lemma sample_outcome:
  "case (delivery_lookup hyphenated parse_hyphenated sample_failed_db (DeliveryId 10),
         claim_next hyphenated parse_hyphenated 7 {} (\<lambda>i. of_nat (50 + i)) 10 sample_failed_db) of
      (Some l, Inr (_, [d])) \<Rightarrow> delivery_id d = DeliveryId 20 \<and>
        delivery_alert_id l = delivery_alert_id d \<and> delivery_consumer_id l = delivery_consumer_id d \<and>
        delivery_tier l < delivery_tier d
    | _ \<Rightarrow> False"
  by (simp add: sample_failure_simps sample_failed_db_def delivery_lookup_def row_lookup_def)

lemma sample_outcomeE:
  obtains l db' d where "delivery_lookup hyphenated parse_hyphenated sample_failed_db (DeliveryId 10) = Some l"
    and "claim_next hyphenated parse_hyphenated 7 {} (\<lambda>i. of_nat (50 + i)) 10 sample_failed_db = Inr (db', [d])"
    and "delivery_id d = DeliveryId 20" and "delivery_alert_id l = delivery_alert_id d"
    and "delivery_consumer_id l = delivery_consumer_id d" and "delivery_tier l < delivery_tier d"
  using sample_outcome by (auto split: option.splits sum.splits prod.splits list.splits)

text \<open>C1: In every state that workers, planners and webhook handlers can reach, in any interleaving and
  with processes lost at any point, every stored delivery is well-formed, its event rows are exactly
  the versions 1 to its version and its attempt rows exactly the finished attempts 1 to its count, and
  any copy a process holds that shows the stored version is the stored delivery.\<close>

theorem deliveries_always_consistent:
  assumes "uuid_text su pu" and "delivery_reachable su pu s"
    and "delivery_lookup su pu (sys_db s) i = Some d"
  shows "delivery_wf d \<and> delivery_id d = i \<and>
     event_numbers (sys_db s) i = [1..<Suc (unat (delivery_version d))] \<and>
     attempt_numbers (sys_db s) i =
       [1..<(if delivery_status d = DeliveryStatus_Sending then unat (delivery_attempt_count d)
             else Suc (unat (delivery_attempt_count d)))] \<and>
     (\<forall>h \<in> set (sys_held s). delivery_id h = i \<longrightarrow>
        delivery_version h \<le> delivery_version d \<and> (delivery_version h = delivery_version d \<longrightarrow> h = d))"
proof -
  have inv: "store_inv su pu (sys_db s)" and held: "\<forall>h \<in> set (sys_held s). held_ok su pu (sys_db s) h"
    using reachable_inv [OF assms(1,2)] by (simp_all add: system_inv_def)
  have d: "delivery_wf d" "delivery_id d = i" using lookup_wf [OF inv assms(3)] by simp_all
  have "history_matches (sys_db s) d" using inv assms(3) unfolding store_inv_def by blast
  then have n: "event_numbers (sys_db s) i = [1..<Suc (unat (delivery_version d))]"
    "attempt_numbers (sys_db s) i = expected_attempts d"
    unfolding history_matches_def d(2) by blast+
  have h: "delivery_version h \<le> delivery_version d \<and> (delivery_version h = delivery_version d \<longrightarrow> h = d)"
    if "h \<in> set (sys_held s)" "delivery_id h = i" for h
  proof -
    have "held_ok su pu (sys_db s) h" using held that(1) by blast
    then obtain x where "delivery_lookup su pu (sys_db s) (delivery_id h) = Some x"
      "unat (delivery_version h) \<le> unat (delivery_version x)" "delivery_version h = delivery_version x \<longrightarrow> h = x"
      unfolding held_ok_def by blast
    moreover from this(1) have "x = d" using assms(3) that(2) by simp
    ultimately show ?thesis by (simp add: word_le_nat_alt)
  qed
  show ?thesis
    using d n(1) n(2) [unfolded expected_attempts_def] h by blast
qed

theorem deliveries_always_consistent_witness:
  "\<exists>d. delivery_lookup hyphenated parse_hyphenated sample_failed_db (DeliveryId 10) = Some d \<and> delivery_wf d \<and>
     event_numbers sample_failed_db (DeliveryId 10) = [1..<Suc (unat (delivery_version d))]"
proof -
  obtain hs where "delivery_reachable hyphenated parse_hyphenated \<lparr>sys_db = sample_failed_db, sys_held = hs\<rparr>"
    using sample_reachable by blast
  moreover obtain d where "delivery_lookup hyphenated parse_hyphenated sample_failed_db (DeliveryId 10) = Some d"
    by (rule sample_outcomeE)
  ultimately show ?thesis using deliveries_always_consistent [OF hyphenated_text] by fastforce
qed

text \<open>C2: Along any run from a reachable state no delivery disappears, its identity, address, policy
  and matched subscriptions never change, its version and attempt count never go back, its status only follows the
  allowed transitions, and once it is delivered or has failed permanently it never changes again.\<close>

theorem deliveries_only_move_forward:
  assumes "uuid_text su pu" and "delivery_reachable su pu s" and "(delivery_step su pu)\<^sup>*\<^sup>* s s'"
    and "delivery_lookup su pu (sys_db s) i = Some d"
  shows "\<exists>d'. delivery_lookup su pu (sys_db s') i = Some d' \<and>
     delivery_version d \<le> delivery_version d' \<and> delivery_attempt_count d \<le> delivery_attempt_count d' \<and>
     delivery_allowed\<^sup>*\<^sup>* (delivery_status d) (delivery_status d') \<and>
     d' = d\<lparr>delivery_status := delivery_status d', delivery_attempt_count := delivery_attempt_count d',
            delivery_version := delivery_version d'\<rparr> \<and>
     (delivery_status_is_terminal (delivery_status d) \<longrightarrow> d' = d)"
proof -
  have "advances su pu (sys_db s) (sys_db s')"
    using delivery_run_advances [OF assms(1,3) reachable_inv [OF assms(1,2)]] by blast
  then obtain d' where d': "delivery_lookup su pu (sys_db s') i = Some d'" and "d' = d \<or> delivery_successor d d'"
    using assms(4) unfolding advances_def by blast
  then consider "d' = d" | "delivery_successor d d'" "d' \<noteq> d" by blast
  then show ?thesis
  proof cases
    case 1
    with d' show ?thesis by simp
  next
    case 2
    note x = 2(1) [unfolded delivery_successor_def]
    have "delivery_version d \<le> delivery_version d'" using conjunct1 [OF x] by (simp add: word_le_nat_alt)
    moreover have "delivery_allowed\<^sup>*\<^sup>* (delivery_status d) (delivery_status d')"
      using conjunct1 [OF conjunct2 [OF conjunct2 [OF x]]] by (rule tranclp_into_rtranclp)
    moreover have "delivery_attempt_count d \<le> delivery_attempt_count d'"
      using conjunct1 [OF conjunct2 [OF x]] by (simp add: word_le_nat_alt)
    ultimately show ?thesis
      using d' conjunct2 [OF conjunct2 [OF conjunct2 [OF x]]] failed_is_final [OF 2(1)] by blast
  qed
qed

theorem deliveries_only_move_forward_witness:
  "\<exists>d'. delivery_lookup hyphenated parse_hyphenated sample_failed_db (DeliveryId 10) = Some d' \<and>
     delivery_allowed\<^sup>*\<^sup>* DeliveryStatus_Queued (delivery_status d')"
proof -
  obtain hs where "delivery_reachable hyphenated parse_hyphenated \<lparr>sys_db = sample_planned_db, sys_held = []\<rparr>"
    and "(delivery_step hyphenated parse_hyphenated)\<^sup>*\<^sup>* \<lparr>sys_db = sample_planned_db, sys_held = []\<rparr>
         \<lparr>sys_db = sample_failed_db, sys_held = hs\<rparr>"
    using sample_reachable by blast
  moreover obtain d where "delivery_lookup hyphenated parse_hyphenated sample_planned_db (DeliveryId 10) = Some d"
    and "delivery_status d = DeliveryStatus_Queued"
    using sample_queued by blast
  ultimately show ?thesis using deliveries_only_move_forward [OF hyphenated_text] by fastforce
qed



text \<open>C24: Claiming a batch in a reachable state never panics: every row is read back, every claimed
  delivery can start its attempt and every row is at the version that was read.\<close>

theorem claiming_never_panics:
  assumes "uuid_text su pu" and "delivery_reachable su pu s"
  shows "claim_next su pu now locked ids limit (sys_db s) \<noteq> Inl DbPanic"
proof -
  have inv: "store_inv su pu (sys_db s)" using reachable_inv [OF assms] by (simp add: system_inv_def)
  let ?rows = "take limit (filter (\<lambda>r. claim_ready now (db_deliveries (sys_db s)) r \<and>
      delivery_row_id r \<notin> locked) (db_deliveries (sys_db s)))"
  have "distinct (map delivery_row_id (db_deliveries (sys_db s)))"
    using inv by (simp add: store_inv_def delivery_rows_ok_def)
  then have "distinct (map delivery_row_id ?rows)"
    by (simp add: distinct_map_filter flip: take_map)
  moreover have "set ?rows \<subseteq> set (db_deliveries (sys_db s))" by (auto dest: in_set_takeD)
  moreover have "\<forall>r \<in> set ?rows. delivery_row_status r \<in> {lit ''QUEUED'', lit ''RETRYING''}"
    by (auto simp: claim_ready_def dest!: in_set_takeD)
  ultimately show ?thesis
    unfolding claim_next_def by (rule claim_rows_no_panic [OF inv])
qed

theorem claiming_never_panics_witness:
  "claim_next hyphenated parse_hyphenated 7 {} (\<lambda>i. of_nat (50 + i)) 10 sample_failed_db \<noteq> Inl DbPanic"
proof -
  obtain hs where "delivery_reachable hyphenated parse_hyphenated \<lparr>sys_db = sample_failed_db, sys_held = hs\<rparr>"
    using sample_reachable by blast
  from claiming_never_panics [OF hyphenated_text this] show ?thesis by simp
qed

end
