(* ===== verification/Webhook_Api.thy ===== *)
theory Webhook_Api
  imports Access_Api Delivery_System
begin

text \<open>
  The provider callback endpoint (\<open>apps/api/src/webhooks.rs\<close>). Its state is the database and the table of
  the replay guard, which commits before the delivery is read. The header pairs are those whose values
  are strings.
\<close>

definition webhook_persistence_failed :: "uuid \<Rightarrow> api_error" where
  "webhook_persistence_failed rid =
     api_error 500 ''WEBHOOK_PERSISTENCE_FAILED'' ''The webhook event could not be recorded. Please retry.'' rid"

definition to_ascii_uppercase :: "rstring \<Rightarrow> rstring" where
  "to_ascii_uppercase s = map (\<lambda>c. if 97 \<le> c \<and> c \<le> 122 then c - 32 else c) s"

text \<open>The table refuses a blank event id.\<close>

definition replay_record_if_new :: "replay_rows \<Rightarrow> channel_type \<times> rstring \<Rightarrow> db_error + replay_rows \<times> bool" where
  "replay_record_if_new rows k =
     (if btrim_blank (snd k) then Inl DbError_CheckViolation else Inr (pg_record_if_new rows k))"

record webhook_call =
  call_channel_segment :: rstring
  call_provider :: rstring
  call_header_pairs :: "(rstring \<times> rstring) list"
  call_body :: bytes

text \<open>What happens once the event is known to be new.\<close>

definition apply_new_event ::
  "api_config \<Rightarrow> api_request \<Rightarrow> webhook_event \<Rightarrow> uuid \<Rightarrow> database \<Rightarrow> database \<times> (api_error + nat)" where
  "apply_new_event cfg rq event rid db =
     (let su = config_show_uuid cfg; pu = config_parse_uuid cfg in
      case delivery_find_by_provider_message_id su pu db (webhook_provider_message_id event) of
        Inl _ \<Rightarrow> (db, Inl (webhook_persistence_failed rid))
      | Inr None \<Rightarrow> (db, Inr 200)
      | Inr (Some d) \<Rightarrow>
     (case apply_webhook_event d event Actor_Automated rid (request_ids rq) of
        Inl _ \<Rightarrow> (db, Inr 200)
      | Inr (d', applied) \<Rightarrow>
     (case (case applied of
              WebhookApplied_Delivered t \<Rightarrow> delivery_apply_transition su (request_now rq) d' t db
            | WebhookApplied_Failed t \<Rightarrow> delivery_apply_attempt_transition su (request_now rq) d' t db) of
        Inl _ \<Rightarrow> (db, Inl (webhook_persistence_failed rid))
      | Inr (db', _) \<Rightarrow> (db', Inr 200))))"

definition receive_webhook ::
  "(bytes \<Rightarrow> bytes \<Rightarrow> bytes) \<Rightarrow> (bytes \<Rightarrow> rstring + json) \<Rightarrow> verifier_registry \<Rightarrow> api_config \<Rightarrow>
   api_request \<Rightarrow> webhook_call \<Rightarrow> database \<times> replay_rows \<Rightarrow> (database \<times> replay_rows) \<times> (api_error + nat)" where
  "receive_webhook hmac pj verifiers cfg rq call s =
     (let rid = api_request_id cfg rq; (db, replay) = s in
      case channel_type_from_db (to_ascii_uppercase (call_channel_segment call)) of
        None \<Rightarrow> (s, Inl (api_error 404 ''UNKNOWN_WEBHOOK_CHANNEL'' ''No channel is registered with this name.'' rid))
      | Some channel \<Rightarrow>
     (case verifier_registry_get verifiers channel (call_provider call) of
        None \<Rightarrow> (s, Inl (api_error 404 ''UNKNOWN_WEBHOOK_PROVIDER''
                   ''No webhook provider is registered for this channel.'' rid))
      | Some verifier \<Rightarrow>
     (case verify_and_parse hmac pj verifier (call_header_pairs call) (call_body call) of
        Inl _ \<Rightarrow> (s, Inl (api_error 401 ''WEBHOOK_VERIFICATION_FAILED''
                   ''The webhook signature or payload could not be verified.'' rid))
      | Inr event \<Rightarrow>
     (case replay_record_if_new replay (channel, webhook_provider_event_id event) of
        Inl _ \<Rightarrow> (s, Inl (webhook_persistence_failed rid))
      | Inr (replay', is_new) \<Rightarrow>
          if \<not> is_new then ((db, replay'), Inr 200)
          else (case apply_new_event cfg rq event rid db of (db', r) \<Rightarrow> ((db', replay'), r))))))"

section \<open>Lemmas\<close>

text \<open>A call that passes verification, as its channel and event.\<close>

definition verified_call ::
  "(bytes \<Rightarrow> bytes \<Rightarrow> bytes) \<Rightarrow> (bytes \<Rightarrow> rstring + json) \<Rightarrow> verifier_registry \<Rightarrow> webhook_call \<Rightarrow>
   (channel_type \<times> webhook_event) option" where
  "verified_call hmac pj verifiers call =
     (case channel_type_from_db (to_ascii_uppercase (call_channel_segment call)) of
        None \<Rightarrow> None
      | Some channel \<Rightarrow>
     (case verifier_registry_get verifiers channel (call_provider call) of
        None \<Rightarrow> None
      | Some verifier \<Rightarrow>
     (case verify_and_parse hmac pj verifier (call_header_pairs call) (call_body call) of
        Inl _ \<Rightarrow> None
      | Inr event \<Rightarrow> Some (channel, event))))"

lemma unverified_call:
  "verified_call hmac pj verifiers call = None \<Longrightarrow>
     fst (receive_webhook hmac pj verifiers cfg rq call s) = s \<and> isl (snd (receive_webhook hmac pj verifiers cfg rq call s))"
  by (auto simp: verified_call_def receive_webhook_def Let_def split: option.splits sum.splits prod.splits)

lemma verified_call_Some:
  assumes "verified_call hmac pj verifiers call = Some (channel, event)"
  shows "receive_webhook hmac pj verifiers cfg rq call (db, replay) =
     (case replay_record_if_new replay (channel, webhook_provider_event_id event) of
        Inl _ \<Rightarrow> ((db, replay), Inl (webhook_persistence_failed (api_request_id cfg rq)))
      | Inr (replay', is_new) \<Rightarrow>
          if \<not> is_new then ((db, replay'), Inr 200)
          else (case apply_new_event cfg rq event (api_request_id cfg rq) db of (db', r) \<Rightarrow> ((db', replay'), r)))"
  using assms by (auto simp: verified_call_def receive_webhook_def Let_def split: option.splits sum.splits)

lemma verified_call_verifier:
  assumes "verified_call hmac pj verifiers call = Some (channel, event)"
  obtains w where "verifier_registry_get verifiers channel (call_provider call) = Some w"
    and "verify_and_parse hmac pj w (call_header_pairs call) (call_body call) = Inr event"
  using assms by (auto simp: verified_call_def split: option.splits sum.splits)

lemma delivery_find_by_provider_message_id_find:
  "delivery_find_by_provider_message_id su pu db pid = Inr (Some d) \<Longrightarrow>
   \<exists>i. delivery_find_by_id su pu db i = Inr (Some d)"
  by (auto simp: delivery_find_by_provider_message_id_def split: list.splits)

text \<open>The effect on the deliveries is loading one and settling it, or nothing.\<close>

lemma apply_new_event_steps:
  assumes "apply_new_event cfg rq event rid db = (db', r)"
  shows "\<exists>hs'. (delivery_step (config_show_uuid cfg) (config_parse_uuid cfg))\<^sup>*\<^sup>*
     \<lparr>sys_db = db, sys_held = hs\<rparr> \<lparr>sys_db = db', sys_held = hs'\<rparr>"
proof (cases "db' = db")
  case True
  then show ?thesis by (intro exI [of _ hs]) simp
next
  case False
  let ?su = "config_show_uuid cfg" and ?pu = "config_parse_uuid cfg"
  obtain d d' applied where f: "delivery_find_by_provider_message_id ?su ?pu db (webhook_provider_message_id event) = Inr (Some d)"
    and ap: "apply_webhook_event d event Actor_Automated rid (request_ids rq) = Inr (d', applied)"
    and w: "\<exists>out. (case applied of
              WebhookApplied_Delivered t \<Rightarrow> delivery_apply_transition ?su (request_now rq) d' t db
            | WebhookApplied_Failed t \<Rightarrow> delivery_apply_attempt_transition ?su (request_now rq) d' t db) = Inr (db', out)"
    using assms False by (auto simp: apply_new_event_def Let_def split: sum.splits option.splits prod.splits)
  obtain i where "delivery_find_by_id ?su ?pu db i = Inr (Some d)"
    using delivery_find_by_provider_message_id_find [OF f] by blast
  then have load: "delivery_step ?su ?pu \<lparr>sys_db = db, sys_held = hs\<rparr> \<lparr>sys_db = db, sys_held = hs @ [d]\<rparr>"
    by (rule delivery_step.Load)
  have "delivery_step ?su ?pu \<lparr>sys_db = db, sys_held = hs @ [d]\<rparr> \<lparr>sys_db = db', sys_held = remove1 d (hs @ [d])\<rparr>"
  proof (cases applied)
    case (WebhookApplied_Delivered t)
    then have "record_delivery_delivered d Actor_Automated rid (request_ids rq) = Inr (d', t)"
      using ap by (auto simp: apply_webhook_event_def bind_result_Inr split: provider_delivery_status.splits)
    moreover obtain out where "delivery_apply_transition ?su (request_now rq) d' t db = Inr (db', out)"
      using w WebhookApplied_Delivered by auto
    ultimately show ?thesis by (intro delivery_step.Confirm) auto
  next
    case (WebhookApplied_Failed t)
    then obtain b s where "record_delivery_failure d b s Actor_Automated rid (request_ids rq) = Inr (d', t)"
      using ap by (auto simp: apply_webhook_event_def bind_result_Inr split: provider_delivery_status.splits)
    moreover obtain out where "delivery_apply_attempt_transition ?su (request_now rq) d' t db = Inr (db', out)"
      using w WebhookApplied_Failed by auto
    ultimately show ?thesis by (intro delivery_step.Fail) auto
  qed
  then show ?thesis
    by (intro exI [of _ "remove1 d (hs @ [d])"] converse_rtranclp_into_rtranclp [where r = "delivery_step ?su ?pu", OF load])
      (rule r_into_rtranclp)
qed

lemma pg_record_again: "fst (pg_record_if_new (fst (pg_record_if_new rows k)) k) = fst (pg_record_if_new rows k)"
  "\<not> snd (pg_record_if_new (fst (pg_record_if_new rows k)) k)"
  by (auto simp: pg_record_if_new_def Let_def)

section \<open>Properties\<close>




text \<open>A callback of a sandbox provider whose MAC is the key.\<close>

definition sample_call :: webhook_call where
  "sample_call = \<lparr>call_channel_segment = lit ''sms'', call_provider = lit ''p'',
     call_header_pairs = [(signature_header, hex_encode [1])], call_body = [2]\<rparr>"

definition sample_payload :: "bytes \<Rightarrow> rstring + json" where
  "sample_payload = (\<lambda>_. Inr (JObj [(lit ''event_id'', JStr (lit ''e'')), (lit ''message_id'', JStr (lit ''m'')),
                     (lit ''status'', JStr (lit ''DELIVERED''))]))"

definition sample_verifiers :: verifier_registry where
  "sample_verifiers = verifier_registry_register (\<lambda>_. None) (lit ''p'')
     \<lparr>verifier_channel_type = ChannelType_Sms, verifier_secret = [1]\<rparr>"

lemma sample_verified_call: "\<exists>event. verified_call (\<lambda>k m. k) sample_payload sample_verifiers sample_call =
    Some (ChannelType_Sms, event) \<and> webhook_provider_event_id event = lit ''e''"
proof -
  have "case verified_call (\<lambda>k m. k) sample_payload sample_verifiers sample_call of
      None \<Rightarrow> False | Some (channel, event) \<Rightarrow> channel = ChannelType_Sms \<and> webhook_provider_event_id event = lit ''e''"
    by code_simp
  then show ?thesis by (auto split: option.splits)
qed


end
