(* ===== verification/Worker_Model.thy ===== *)
theory Worker_Model
  imports Delivery_System Alert_Store Subscription_Store "HOL-Library.Multiset" "HOL-Library.Sublist"
begin

text \<open>
  The worker (\<open>apps/worker/src\<close>): \<open>subscription_matching.rs\<close> turns new alerts into planned deliveries,
  \<open>dispatch.rs\<close> claims deliveries and sends them, \<open>main.rs\<close> runs one after the other.

  What was committed before an error stays, so every function returns the database next to its
  result. A dispatch also returns what it sent: the delivery and the message. Ids are drawn from
  \<open>draws\<close>, one source per event or delivery; \<open>locked\<close> are the rows other workers hold. The answers
  of the providers are those of the registry's adapters.
\<close>

section \<open>Matching new alerts\<close>

definition ALERT_CREATED_EVENT_TYPE :: rstring where
  "ALERT_CREATED_EVENT_TYPE = lit ''ALERT_CREATED''"

text \<open>The preferences of the matched consumers that have one.\<close>

fun load_preferences ::
  "database \<Rightarrow> consumer_match list \<Rightarrow> db_error + (consumer_id \<Rightarrow> delivery_preference option)" where
  "load_preferences db [] = Inr (\<lambda>_. None)"
| "load_preferences db (m # ms) =
     bind_result (preference_find_by_consumer db (match_consumer_id m)) (\<lambda>found.
     bind_result (load_preferences db ms) (\<lambda>prefs.
       Inr (case found of
              None \<Rightarrow> prefs
            | Some p \<Rightarrow> prefs(match_consumer_id m \<mapsto> p))))"

definition match_and_plan ::
  "(uuid \<Rightarrow> rstring) \<Rightarrow> (rstring \<Rightarrow> bytes) \<Rightarrow> uuid \<times> (nat \<Rightarrow> uuid) \<times> (nat \<Rightarrow> uuid) \<Rightarrow> alert_id \<Rightarrow>
   database \<Rightarrow> database \<times> (db_error + unit)" where
  "match_and_plan su sha draw aid db =
     (case alert_find_by_id db aid of
        Inl e \<Rightarrow> (db, Inl e)
      | Inr None \<Rightarrow> (db, Inr ())
      | Inr (Some al) \<Rightarrow>
     (case subscription_list_all db of
        Inl e \<Rightarrow> (db, Inl e)
      | Inr all_subscriptions \<Rightarrow>
     (let consumer_matches = deduplicate_by_consumer (evaluate_subscriptions all_subscriptions al) in
      if consumer_matches = [] then (db, Inr ())
      else case load_preferences db consumer_matches of
        Inl e \<Rightarrow> (db, Inl e)
      | Inr preferences \<Rightarrow>
          (case draw of (request_id, ids, trail_ids) \<Rightarrow>
             create_planned su (plan_deliveries_use_case su sha al consumer_matches preferences
               retry_policy_standard Actor_Automated request_id ids trail_ids) db))))"

fun match_events ::
  "(uuid \<Rightarrow> rstring) \<Rightarrow> (rstring \<Rightarrow> bytes) \<Rightarrow> nat \<Rightarrow> (nat \<Rightarrow> uuid \<times> (nat \<Rightarrow> uuid) \<times> (nat \<Rightarrow> uuid)) \<Rightarrow>
   claimed_outbox_event list \<Rightarrow> database \<Rightarrow> database \<times> (db_error + unit)" where
  "match_events su sha now draws [] db = (db, Inr ())"
| "match_events su sha now draws (e # es) db =
     (case match_and_plan su sha (draws 0) (AlertId (claimed_event_aggregate_id e)) db of
        (db1, Inl err) \<Rightarrow> (db1, Inl err)
      | (db1, Inr _) \<Rightarrow>
          match_events su sha now (\<lambda>k. draws (Suc k)) es (mark_published now (claimed_event_id e) db1))"

definition match_batch ::
  "(uuid \<Rightarrow> rstring) \<Rightarrow> (rstring \<Rightarrow> bytes) \<Rightarrow> nat \<Rightarrow> uuid set \<Rightarrow>
   (nat \<Rightarrow> uuid \<times> (nat \<Rightarrow> uuid) \<times> (nat \<Rightarrow> uuid)) \<Rightarrow> nat \<Rightarrow> database \<Rightarrow> database \<times> (db_error + nat)" where
  "match_batch su sha now locked draws batch_size db =
     (case claim_unpublished now locked ALERT_CREATED_EVENT_TYPE batch_size db of
        (db1, claimed) \<Rightarrow>
     (case match_events su sha now draws claimed db1 of
        (db2, Inl err) \<Rightarrow> (db2, Inl err)
      | (db2, Inr _) \<Rightarrow> (db2, Inr (length claimed))))"

section \<open>Dispatching\<close>

type_synonym sent_message = "delivery_id \<times> outbound_message"

definition dispatch_fail ::
  "(uuid \<Rightarrow> rstring) \<Rightarrow> nat \<Rightarrow> uuid \<Rightarrow> (nat \<Rightarrow> uuid) \<Rightarrow> delivery \<Rightarrow> bool \<Rightarrow> rstring \<Rightarrow> database \<Rightarrow>
   database \<times> (db_error + unit)" where
  "dispatch_fail su now operation_id ids d retryable reason db =
     (case record_delivery_failure d retryable reason Actor_Automated operation_id ids of
        Inl _ \<Rightarrow> (db, Inl DbPanic)
      | Inr (d', t) \<Rightarrow>
     (case delivery_apply_attempt_transition su now d' t db of
        Inl e \<Rightarrow> (db, Inl e)
      | Inr (db', _) \<Rightarrow> (db', Inr ())))"

definition dispatch_sent ::
  "(uuid \<Rightarrow> rstring) \<Rightarrow> nat \<Rightarrow> uuid \<Rightarrow> (nat \<Rightarrow> uuid) \<Rightarrow> delivery \<Rightarrow> rstring option \<Rightarrow> database \<Rightarrow>
   database \<times> (db_error + unit)" where
  "dispatch_sent su now operation_id ids d provider_message_id db =
     (case record_delivery_success d provider_message_id Actor_Automated operation_id ids of
        Inl _ \<Rightarrow> (db, Inl DbPanic)
      | Inr (d', t) \<Rightarrow>
     (case delivery_apply_attempt_transition su now d' t db of
        Inl e \<Rightarrow> (db, Inl e)
      | Inr (db', _) \<Rightarrow> (db', Inr ())))"

definition dispatch_one ::
  "(uuid \<Rightarrow> rstring) \<Rightarrow> nat \<Rightarrow> channel_registry \<Rightarrow> nat \<Rightarrow> uuid \<times> (nat \<Rightarrow> uuid) \<Rightarrow> delivery \<Rightarrow> database \<Rightarrow>
   database \<times> sent_message list \<times> (db_error + unit)" where
  "dispatch_one su now registry call draw d db =
     (case draw of (operation_id, ids) \<Rightarrow>
      case registry_get registry (delivery_channel d) of
        None \<Rightarrow>
          (case dispatch_fail su now operation_id ids d False
             (lit ''no channel registered for this delivery'' @ [39] @ lit ''s channel type'') db of (db', r) \<Rightarrow> (db', [], r))
      | Some adapter \<Rightarrow>
     (case alert_find_by_id db (delivery_alert_id d) of
        Inl e \<Rightarrow> (db, [], Inl e)
      | Inr None \<Rightarrow>
          (case dispatch_fail su now operation_id ids d False (lit ''alert no longer exists'') db of
             (db', r) \<Rightarrow> (db', [], r))
      | Inr (Some al) \<Rightarrow>
     (case consumer_find_by_id db (delivery_consumer_id d) of
        Inl e \<Rightarrow> (db, [], Inl e)
      | Inr recipient \<Rightarrow>
     (let message = build_outbound_message al d (Option.bind recipient consumer_locale) in
      case (case adapter_send adapter call message of
          Inr outcome \<Rightarrow> dispatch_sent su now operation_id ids d (outcome_provider_message_id outcome) db
        | Inl err \<Rightarrow> dispatch_fail su now operation_id ids d (channel_error_retryable err)
                       (channel_error_message err) db) of
        (db', r) \<Rightarrow> (db', [(delivery_id d, message)], r)))))"

fun dispatch_all ::
  "(uuid \<Rightarrow> rstring) \<Rightarrow> nat \<Rightarrow> channel_registry \<Rightarrow> nat \<Rightarrow> (nat \<Rightarrow> uuid \<times> (nat \<Rightarrow> uuid)) \<Rightarrow>
   delivery list \<Rightarrow> database \<Rightarrow> database \<times> sent_message list \<times> (db_error + unit)" where
  "dispatch_all su now registry call draws [] db = (db, [], Inr ())"
| "dispatch_all su now registry call draws (d # ds) db =
     (case dispatch_one su now registry call (draws 0) d db of
        (db1, sent, Inl e) \<Rightarrow> (db1, sent, Inl e)
      | (db1, sent, Inr _) \<Rightarrow>
     (case dispatch_all su now registry (Suc call) (\<lambda>k. draws (Suc k)) ds db1 of
        (db2, sent', r) \<Rightarrow> (db2, sent @ sent', r)))"

definition dispatch_batch ::
  "(uuid \<Rightarrow> rstring) \<Rightarrow> (rstring \<Rightarrow> uuid option) \<Rightarrow> nat \<Rightarrow> uuid set \<Rightarrow> channel_registry \<Rightarrow>
   (nat \<Rightarrow> uuid) \<Rightarrow> (nat \<Rightarrow> uuid \<times> (nat \<Rightarrow> uuid)) \<Rightarrow> nat \<Rightarrow> database \<Rightarrow>
   database \<times> sent_message list \<times> (db_error + nat)" where
  "dispatch_batch su pu now locked registry claim_ids draws batch_size db =
     (case claim_next su pu now locked claim_ids batch_size db of
        Inl e \<Rightarrow> (db, [], Inl e)
      | Inr (db1, claimed) \<Rightarrow>
     (case dispatch_all su now registry 0 draws claimed db1 of
        (db2, sent, Inl e) \<Rightarrow> (db2, sent, Inl e)
      | (db2, sent, Inr _) \<Rightarrow> (db2, sent, Inr (length claimed))))"

section \<open>A cycle\<close>

definition BATCH_SIZE :: nat where
  "BATCH_SIZE = 10"

text \<open>What a cycle draws, and what it finds locked.\<close>

record cycle_draws =
  cycle_events :: "nat \<Rightarrow> uuid \<times> (nat \<Rightarrow> uuid) \<times> (nat \<Rightarrow> uuid)"
  cycle_claims :: "nat \<Rightarrow> uuid"
  cycle_dispatches :: "nat \<Rightarrow> uuid \<times> (nat \<Rightarrow> uuid)"
  cycle_locked_events :: "uuid set"
  cycle_locked_deliveries :: "uuid set"

definition process_cycle ::
  "(uuid \<Rightarrow> rstring) \<Rightarrow> (rstring \<Rightarrow> uuid option) \<Rightarrow> (rstring \<Rightarrow> bytes) \<Rightarrow> nat \<Rightarrow> channel_registry \<Rightarrow>
   cycle_draws \<Rightarrow> database \<Rightarrow> database \<times> sent_message list \<times> (db_error + nat)" where
  "process_cycle su pu sha now registry c db =
     (case match_batch su sha now (cycle_locked_events c) (cycle_events c) BATCH_SIZE db of
        (db1, Inl e) \<Rightarrow> (db1, [], Inl e)
      | (db1, Inr matched) \<Rightarrow>
     (case dispatch_batch su pu now (cycle_locked_deliveries c) registry (cycle_claims c)
             (cycle_dispatches c) BATCH_SIZE db1 of
        (db2, sent, Inl e) \<Rightarrow> (db2, sent, Inl e)
      | (db2, sent, Inr dispatched) \<Rightarrow> (db2, sent, Inr (matched + dispatched))))"

section \<open>A cycle is a run of the delivery system\<close>

lemma step_Other:
  "db_deliveries db' = db_deliveries db \<Longrightarrow> db_attempts db' = db_attempts db \<Longrightarrow>
   db_delivery_events db' = db_delivery_events db \<Longrightarrow>
   (delivery_step su pu)\<^sup>*\<^sup>* \<lparr>sys_db = db, sys_held = hs\<rparr> \<lparr>sys_db = db', sys_held = hs\<rparr>"
  by (rule r_into_rtranclp) (rule delivery_step.Other)

lemma create_planned_steps:
  assumes "\<forall>item \<in> set items. planned_ok su item" and "create_planned su items db = (db', r)"
  shows "(delivery_step su pu)\<^sup>*\<^sup>* \<lparr>sys_db = db, sys_held = hs\<rparr> \<lparr>sys_db = db', sys_held = hs\<rparr>"
  using assms
proof (induction items arbitrary: db)
  case (Cons item items)
  show ?case
  proof (cases "create_one su item db")
    case (Inr db1)
    then have "delivery_step su pu \<lparr>sys_db = db, sys_held = hs\<rparr> \<lparr>sys_db = db1, sys_held = hs\<rparr>"
      using Cons.prems(1) by (intro delivery_step.Plan) simp_all
    moreover have "(delivery_step su pu)\<^sup>*\<^sup>* \<lparr>sys_db = db1, sys_held = hs\<rparr> \<lparr>sys_db = db', sys_held = hs\<rparr>"
      using Cons Inr by simp
    ultimately show ?thesis by (rule converse_rtranclp_into_rtranclp)
  qed (use Cons.prems in simp)
qed simp

lemma match_and_plan_steps:
  assumes "match_and_plan su sha draw aid db = (db', r)"
  shows "(delivery_step su pu)\<^sup>*\<^sup>* \<lparr>sys_db = db, sys_held = hs\<rparr> \<lparr>sys_db = db', sys_held = hs\<rparr>"
proof (cases "db' = db")
  case False
  then obtain al ms prefs rq ids tids
    where "create_planned su (plan_deliveries_use_case su sha al ms prefs retry_policy_standard
      Actor_Automated rq ids tids) db = (db', r)"
    using assms by (auto simp: match_and_plan_def Let_def split: sum.splits option.splits if_splits prod.splits)
  then show ?thesis
    by (rule create_planned_steps [rotated])
      (auto intro!: planned_ok_use_case simp: retry_policy_standard_def)
qed simp

lemma match_events_steps:
  assumes "match_events su sha now draws es db = (db', r)"
  shows "(delivery_step su pu)\<^sup>*\<^sup>* \<lparr>sys_db = db, sys_held = hs\<rparr> \<lparr>sys_db = db', sys_held = hs\<rparr>"
  using assms
proof (induction es arbitrary: draws db)
  case (Cons e es)
  obtain db1 q where m: "match_and_plan su sha (draws 0) (AlertId (claimed_event_aggregate_id e)) db = (db1, q)"
    by (metis surj_pair)
  note s = match_and_plan_steps [OF m, of pu hs]
  show ?case
  proof (cases q)
    case (Inl err)
    with s m Cons.prems show ?thesis by simp
  next
    case (Inr u)
    have "(delivery_step su pu)\<^sup>*\<^sup>* \<lparr>sys_db = db1, sys_held = hs\<rparr>
        \<lparr>sys_db = mark_published now (claimed_event_id e) db1, sys_held = hs\<rparr>"
      by (rule step_Other) (simp_all add: mark_published_def)
    from rtranclp_trans [OF s this] Cons m Inr show ?thesis by (simp add: rtranclp_trans)
  qed
qed simp

lemma match_batch_steps:
  assumes "match_batch su sha now locked draws n db = (db', r)"
  shows "(delivery_step su pu)\<^sup>*\<^sup>* \<lparr>sys_db = db, sys_held = hs\<rparr> \<lparr>sys_db = db', sys_held = hs\<rparr>"
proof -
  obtain db1 es where c: "claim_unpublished now locked ALERT_CREATED_EVENT_TYPE n db = (db1, es)"
    by (metis surj_pair)
  then have "(delivery_step su pu)\<^sup>*\<^sup>* \<lparr>sys_db = db, sys_held = hs\<rparr> \<lparr>sys_db = db1, sys_held = hs\<rparr>"
    by (intro step_Other) (auto simp: claim_unpublished_def Let_def)
  moreover obtain q where "match_events su sha now draws es db1 = (db', q)"
    using assms c by (auto simp: match_batch_def split: prod.splits sum.splits)
  ultimately show ?thesis using match_events_steps by (metis rtranclp_trans)
qed

text \<open>A dispatch uses up the held copy it is given, or leaves everything as it is.\<close>

lemma dispatch_fail_steps:
  assumes "d \<in> set hs" and "dispatch_fail su now rq ids d b s db = (db', r)"
  shows "db' = db \<and> isl r \<or>
    delivery_step su pu \<lparr>sys_db = db, sys_held = hs\<rparr> \<lparr>sys_db = db', sys_held = remove1 d hs\<rparr>"
  using assms delivery_step.Fail [OF assms(1), of b s Actor_Automated rq ids]
  by (auto simp: dispatch_fail_def split: sum.splits prod.splits)

lemma dispatch_sent_steps:
  assumes "d \<in> set hs" and "dispatch_sent su now rq ids d pid db = (db', r)"
  shows "db' = db \<and> isl r \<or>
    delivery_step su pu \<lparr>sys_db = db, sys_held = hs\<rparr> \<lparr>sys_db = db', sys_held = remove1 d hs\<rparr>"
  using assms delivery_step.Settle [OF assms(1), of pid Actor_Automated rq ids]
  by (auto simp: dispatch_sent_def split: sum.splits prod.splits)

lemma dispatch_one_cases:
  assumes "dispatch_one su now registry k draw d db = (db', sent, r)"
  obtains "db' = db" "isl r" "sent = []"
  | rq ids b s where "dispatch_fail su now rq ids d b s db = (db', r)"
  | rq ids pid where "dispatch_sent su now rq ids d pid db = (db', r)"
  using assms
  by (auto simp: dispatch_one_def Let_def split: prod.splits option.splits sum.splits)

lemma dispatch_one_steps:
  assumes "d \<in> set hs" and "dispatch_one su now registry k draw d db = (db', sent, r)"
  shows "db' = db \<and> isl r \<or>
    delivery_step su pu \<lparr>sys_db = db, sys_held = hs\<rparr> \<lparr>sys_db = db', sys_held = remove1 d hs\<rparr>"
  using assms(2)
proof (cases rule: dispatch_one_cases)
  case 1
  then show ?thesis by simp
next
  case (2 rq ids b s)
  then show ?thesis by (rule dispatch_fail_steps [OF assms(1)])
next
  case (3 rq ids pid)
  then show ?thesis by (rule dispatch_sent_steps [OF assms(1)])
qed

lemma dispatch_all_steps:
  assumes "mset hs = M + mset ds" and "dispatch_all su now registry k draws ds db = (db', sent, r)"
  shows "\<exists>hs'. (delivery_step su pu)\<^sup>*\<^sup>* \<lparr>sys_db = db, sys_held = hs\<rparr> \<lparr>sys_db = db', sys_held = hs'\<rparr> \<and>
    M \<subseteq># mset hs'"
  using assms
proof (induction ds arbitrary: hs k draws db sent)
  case Nil
  then show ?case by (intro exI [of _ hs]) simp
next
  case (Cons d ds)
  obtain db1 s1 r1 where o: "dispatch_one su now registry k (draws 0) d db = (db1, s1, r1)"
    by (metis surj_pair)
  have "d \<in> set hs" using arg_cong [OF Cons.prems(1), of set_mset] by simp
  from dispatch_one_steps [OF this o, of pu] show ?case
  proof
    assume "db1 = db \<and> isl r1"
    then have "db' = db" using o Cons.prems(2) by (cases r1) auto
    then show ?thesis using Cons.prems(1) by (intro exI [of _ hs]) simp
  next
    let ?s1 = "\<lparr>sys_db = db1, sys_held = remove1 d hs\<rparr>"
    assume step: "delivery_step su pu \<lparr>sys_db = db, sys_held = hs\<rparr> ?s1"
    have m: "mset (remove1 d hs) = M + mset ds" using Cons.prems(1) by simp
    show ?thesis
    proof (cases r1)
      case (Inl e)
      then have "db' = db1" using o Cons.prems(2) by simp
      with step m show ?thesis by (intro exI [of _ "remove1 d hs"]) simp
    next
      case (Inr u)
      then obtain s2 where "dispatch_all su now registry (Suc k) (\<lambda>k. draws (Suc k)) ds db1 = (db', s2, r)"
        using o Cons.prems(2) by (auto split: prod.splits)
      from Cons.IH [OF m this] obtain hs' where
        "(delivery_step su pu)\<^sup>*\<^sup>* ?s1 \<lparr>sys_db = db', sys_held = hs'\<rparr>" "M \<subseteq># mset hs'" by blast
      then show ?thesis using converse_rtranclp_into_rtranclp [where r = "delivery_step su pu", OF step] by blast
    qed
  qed
qed

text \<open>Only claimed deliveries are sent, each at most once, to their own address.\<close>

lemma dispatch_one_sent:
  assumes "dispatch_one su now registry k draw d db = (db', sent, r)"
  shows "sent = [] \<or> (\<exists>m. sent = [(delivery_id d, m)] \<and> message_endpoint_address m = delivery_endpoint_address d)"
  using assms
  by (auto simp: dispatch_one_def Let_def build_outbound_message_def split: prod.splits option.splits sum.splits)

lemma dispatch_all_sent:
  assumes "dispatch_all su now registry k draws ds db = (db', sent, r)"
  shows "subseq (map (\<lambda>(i, m). (i, message_endpoint_address m)) sent)
    (map (\<lambda>d. (delivery_id d, delivery_endpoint_address d)) ds)"
  using assms
proof (induction ds arbitrary: k draws db sent)
  case (Cons d ds)
  obtain db1 s1 r1 where o: "dispatch_one su now registry k (draws 0) d db = (db1, s1, r1)"
    by (metis surj_pair)
  let ?f = "\<lambda>(i, m). (i, message_endpoint_address m)"
  have s1: "map ?f s1 = [] \<or> map ?f s1 = [(delivery_id d, delivery_endpoint_address d)]"
    using dispatch_one_sent [OF o] by auto
  show ?case
  proof (cases r1)
    case (Inl e)
    with o Cons.prems s1 show ?thesis by auto
  next
    case (Inr u)
    then obtain s2 where "dispatch_all su now registry (Suc k) (\<lambda>k. draws (Suc k)) ds db1 = (db', s2, r)"
      and s: "sent = s1 @ s2"
      using o Cons.prems by (auto split: prod.splits)
    with Cons.IH s1 show ?thesis by auto
  qed
qed simp

lemma dispatch_batch_cases:
  assumes "dispatch_batch su pu now locked registry cids draws n db = (db', sent, r)"
  obtains "db' = db" "sent = []"
  | db1 ds q where "claim_next su pu now locked cids n db = Inr (db1, ds)"
      "dispatch_all su now registry 0 draws ds db1 = (db', sent, q)"
  using assms by (auto simp: dispatch_batch_def split: sum.splits prod.splits)

lemma process_cycle_cases:
  assumes "process_cycle su pu sha now registry c db = (db', sent, r)"
  obtains db1 q where "match_batch su sha now (cycle_locked_events c) (cycle_events c) BATCH_SIZE db = (db1, q)"
    and "db' = db1 \<and> sent = [] \<or>
      (\<exists>q'. dispatch_batch su pu now (cycle_locked_deliveries c) registry (cycle_claims c)
         (cycle_dispatches c) BATCH_SIZE db1 = (db', sent, q'))"
proof -
  obtain db1 q where m: "match_batch su sha now (cycle_locked_events c) (cycle_events c) BATCH_SIZE db = (db1, q)"
    by (metis surj_pair)
  show thesis
    by (rule that [OF m]) (use assms m in \<open>auto simp: process_cycle_def split: sum.splits prod.splits\<close>)
qed

lemma dispatch_batch_steps:
  assumes "dispatch_batch su pu now locked registry cids draws n db = (db', sent, r)"
  shows "\<exists>hs'. (delivery_step su pu)\<^sup>*\<^sup>* \<lparr>sys_db = db, sys_held = hs\<rparr> \<lparr>sys_db = db', sys_held = hs'\<rparr> \<and>
    mset hs \<subseteq># mset hs'"
  using assms
proof (cases rule: dispatch_batch_cases)
  case 1
  then show ?thesis by (intro exI [of _ hs]) simp
next
  case (2 db1 ds q)
  note step = delivery_step.Claim [OF 2(1), of hs]
  have "mset (hs @ ds) = mset hs + mset ds" by simp
  from dispatch_all_steps [OF this 2(2)] show ?thesis
    using converse_rtranclp_into_rtranclp [where r = "delivery_step su pu", OF step] by blast
qed

lemma process_cycle_steps:
  assumes "process_cycle su pu sha now registry c db = (db', sent, r)"
  shows "\<exists>hs'. (delivery_step su pu)\<^sup>*\<^sup>* \<lparr>sys_db = db, sys_held = hs\<rparr> \<lparr>sys_db = db', sys_held = hs'\<rparr> \<and>
    mset hs \<subseteq># mset hs'"
proof -
  obtain db1 q where m: "match_batch su sha now (cycle_locked_events c) (cycle_events c) BATCH_SIZE db = (db1, q)"
    and d: "db' = db1 \<and> sent = [] \<or>
      (\<exists>q'. dispatch_batch su pu now (cycle_locked_deliveries c) registry (cycle_claims c)
         (cycle_dispatches c) BATCH_SIZE db1 = (db', sent, q'))"
    using assms by (rule process_cycle_cases)
  note s = match_batch_steps [OF m, of pu hs]
  from d show ?thesis
  proof
    assume "db' = db1 \<and> sent = []"
    with s show ?thesis by (intro exI [of _ hs]) simp
  next
    assume "\<exists>q'. dispatch_batch su pu now (cycle_locked_deliveries c) registry (cycle_claims c)
         (cycle_dispatches c) BATCH_SIZE db1 = (db', sent, q')"
    then obtain hs' where "(delivery_step su pu)\<^sup>*\<^sup>* \<lparr>sys_db = db1, sys_held = hs\<rparr> \<lparr>sys_db = db', sys_held = hs'\<rparr>"
      "mset hs \<subseteq># mset hs'"
      using dispatch_batch_steps [of su pu now _ registry _ _ _ db1 db' sent _ hs] by blast
    with rtranclp_trans [OF s] show ?thesis by blast
  qed
qed

section \<open>What is sent\<close>

definition sends_of :: "delivery_id \<Rightarrow> sent_message list \<Rightarrow> nat" where
  "sends_of i log = length (filter (\<lambda>(j, m). j = i) log)"

text \<open>The attempts of a delivery that is stored, 0 for one that is not.\<close>

definition attempts_in ::
  "(uuid \<Rightarrow> rstring) \<Rightarrow> (rstring \<Rightarrow> uuid option) \<Rightarrow> database \<Rightarrow> delivery_id \<Rightarrow> nat" where
  "attempts_in su pu db i =
     (case delivery_lookup su pu db i of None \<Rightarrow> 0 | Some d \<Rightarrow> unat (delivery_attempt_count d))"

lemma sends_of_append [simp]: "sends_of i (a @ b) = sends_of i a + sends_of i b"
  by (simp add: sends_of_def)

lemma sends_of_Nil [simp]: "sends_of i [] = 0"
  by (simp add: sends_of_def)

lemma advances_attempts:
  assumes "advances su pu db db'"
  shows "attempts_in su pu db i \<le> attempts_in su pu db' i"
proof (cases "delivery_lookup su pu db i")
  case (Some d)
  then obtain d' where "delivery_lookup su pu db' i = Some d'" and "d' = d \<or> delivery_successor d d'"
    using assms unfolding advances_def by blast
  with Some show ?thesis unfolding attempts_in_def delivery_successor_def by auto
qed (simp add: attempts_in_def)

lemma advances_address:
  assumes "advances su pu db db'" and "delivery_lookup su pu db i = Some d"
  obtains d' where "delivery_lookup su pu db' i = Some d'"
    and "delivery_endpoint_address d' = delivery_endpoint_address d"
proof -
  obtain d' where d': "delivery_lookup su pu db' i = Some d'" and "d' = d \<or> delivery_successor d d'"
    using assms unfolding advances_def by blast
  then have "delivery_endpoint_address d' = delivery_endpoint_address d"
    using delivery_update_frame(6) unfolding delivery_successor_def by blast
  with d' show thesis by (rule that)
qed

lemma sends_of_fst: "sends_of i log = count_list (map fst log) i"
  by (induction log) (auto simp: sends_of_def)

lemma count_list_subseq: "subseq xs ys \<Longrightarrow> count_list xs i \<le> count_list ys i"
  by (induction rule: list_emb.induct) auto

lemma distinct_count_list: "distinct xs \<Longrightarrow> count_list xs i = (if i \<in> set xs then 1 else 0)"
  by (induction xs) auto

lemma subseq_set_subset: "subseq xs ys \<Longrightarrow> set xs \<subseteq> set ys"
  by (induction rule: list_emb.induct) auto

lemma claim_next_attempts:
  assumes "store_inv su pu db" and "claim_next su pu now locked ids n db = Inr (db1, ds)"
    and "i \<in> set (map delivery_id ds)"
  shows "attempts_in su pu db1 i = Suc (attempts_in su pu db i)"
proof -
  obtain d where d: "d \<in> set ds" "i = delivery_id d" using assms(3) by auto
  have "delivery_lookup su pu db1 i = Some d" using claim_next_inv(3) [OF assms(1,2)] d by blast
  moreover obtain d0 where "delivery_lookup su pu db i = Some d0"
    "unat (delivery_attempt_count d) = Suc (unat (delivery_attempt_count d0))"
    using claim_next_inv(4) [OF assms(1,2)] d by blast
  ultimately show ?thesis by (simp add: attempts_in_def)
qed

text \<open>A batch sends at most one message per claimed delivery, and claiming counted the attempt.\<close>

lemma dispatch_batch_sent:
  assumes inv: "system_inv su pu \<lparr>sys_db = db, sys_held = hs\<rparr>" and uu: "uuid_text su pu"
    and b: "dispatch_batch su pu now locked registry cids draws n db = (db', sent, r)"
  shows "attempts_in su pu db i + sends_of i sent \<le> attempts_in su pu db' i"
    and "(i, m) \<in> set sent \<Longrightarrow> \<exists>d. delivery_lookup su pu db' i = Some d \<and>
           message_endpoint_address m = delivery_endpoint_address d"
proof -
  have s: "store_inv su pu db" using inv by (simp add: system_inv_def)
  have "attempts_in su pu db i + sends_of i sent \<le> attempts_in su pu db' i \<and>
    ((i, m) \<in> set sent \<longrightarrow> (\<exists>d. delivery_lookup su pu db' i = Some d \<and>
           message_endpoint_address m = delivery_endpoint_address d))"
    using b
  proof (cases rule: dispatch_batch_cases)
    case 1
    then show ?thesis by simp
  next
    case (2 db1 ds q)
    note c = claim_next_inv [OF s 2(1)]
    have inv1: "system_inv su pu \<lparr>sys_db = db1, sys_held = ds\<rparr>"
      using c(1,3) held_ok_current by (auto simp: system_inv_def)
    have "mset ds = {#} + mset ds" by simp
    from dispatch_all_steps [OF this 2(2), of pu] obtain hs' where
      "(delivery_step su pu)\<^sup>*\<^sup>* \<lparr>sys_db = db1, sys_held = ds\<rparr> \<lparr>sys_db = db', sys_held = hs'\<rparr>" by blast
    from delivery_run_advances [OF uu this inv1] have adv: "advances su pu db1 db'" by simp
    note sub = dispatch_all_sent [OF 2(2)]
    let ?ids = "map delivery_id ds"
    have ids: "subseq (map fst sent) ?ids"
      using subseq_map [OF sub, of fst] by (simp add: comp_def case_prod_unfold)
    have "sends_of i sent \<le> count_list ?ids i"
      using count_list_subseq [OF ids, of i] by (simp add: sends_of_fst)
    moreover have "count_list ?ids i \<le> (if i \<in> set ?ids then 1 else 0)"
      using claim_next_inv(5) [OF s 2(1)] by (simp add: distinct_count_list)
    ultimately have le: "sends_of i sent \<le> (if i \<in> set ?ids then 1 else 0)" by simp
    have "attempts_in su pu db i + (if i \<in> set ?ids then 1 else 0) \<le> attempts_in su pu db1 i"
      using claim_next_attempts [OF s 2(1)] advances_attempts [OF c(2)] by simp
    then have "attempts_in su pu db i + sends_of i sent \<le> attempts_in su pu db' i"
      using le advances_attempts [OF adv, of i] by simp
    moreover have "\<exists>d. delivery_lookup su pu db' i = Some d \<and>
        message_endpoint_address m = delivery_endpoint_address d" if "(i, m) \<in> set sent"
    proof -
      have "(i, message_endpoint_address m) \<in> set (map (\<lambda>d. (delivery_id d, delivery_endpoint_address d)) ds)"
        using that subseq_set_subset [OF sub] by force
      then obtain d where "d \<in> set ds" "i = delivery_id d" "message_endpoint_address m = delivery_endpoint_address d"
        by auto
      moreover from this c(3) have "delivery_lookup su pu db1 i = Some d" by blast
      ultimately show ?thesis using advances_address [OF adv] by metis
    qed
    ultimately show ?thesis by blast
  qed
  then show "attempts_in su pu db i + sends_of i sent \<le> attempts_in su pu db' i"
    and "(i, m) \<in> set sent \<Longrightarrow> \<exists>d. delivery_lookup su pu db' i = Some d \<and>
           message_endpoint_address m = delivery_endpoint_address d" by blast+
qed

text \<open>
  A worker that runs cycles, with whatever providers answer, while other workers, planners and webhook
  handlers take steps between them; the log is what this worker has sent.
\<close>

inductive worker_run ::
  "(uuid \<Rightarrow> rstring) \<Rightarrow> (rstring \<Rightarrow> uuid option) \<Rightarrow> (rstring \<Rightarrow> bytes) \<Rightarrow> delivery_system \<Rightarrow> sent_message list \<Rightarrow> bool"
  for su pu sha where
  start: "worker_run su pu sha \<lparr>sys_db = empty_database, sys_held = []\<rparr> []"
| cycle: "worker_run su pu sha s log \<Longrightarrow>
    process_cycle su pu sha now registry c (sys_db s) = (db', sent, r) \<Longrightarrow>
    worker_run su pu sha \<lparr>sys_db = db', sys_held = sys_held s\<rparr> (log @ sent)"
| elsewhere: "worker_run su pu sha s log \<Longrightarrow> delivery_step su pu s s' \<Longrightarrow> worker_run su pu sha s' log"

definition addressed ::
  "(uuid \<Rightarrow> rstring) \<Rightarrow> (rstring \<Rightarrow> uuid option) \<Rightarrow> database \<Rightarrow> sent_message \<Rightarrow> bool" where
  "addressed su pu db x \<longleftrightarrow> (\<exists>d. delivery_lookup su pu db (fst x) = Some d \<and>
     message_endpoint_address (snd x) = delivery_endpoint_address d)"

lemma addressed_mono:
  assumes "advances su pu db db'" and "addressed su pu db x"
  shows "addressed su pu db' x"
proof -
  obtain d where "delivery_lookup su pu db (fst x) = Some d"
    and "message_endpoint_address (snd x) = delivery_endpoint_address d"
    using assms(2) by (auto simp: addressed_def)
  with advances_address [OF assms(1)] show ?thesis unfolding addressed_def by metis
qed

lemma process_cycle_sent:
  assumes inv: "system_inv su pu \<lparr>sys_db = db, sys_held = hs\<rparr>" and uu: "uuid_text su pu"
    and c: "process_cycle su pu sha now registry c db = (db', sent, r)"
  shows "system_inv su pu \<lparr>sys_db = db', sys_held = hs\<rparr>" and "advances su pu db db'"
    and "attempts_in su pu db i + sends_of i sent \<le> attempts_in su pu db' i"
    and "x \<in> set sent \<Longrightarrow> addressed su pu db' x"
proof -
  obtain hs' where "(delivery_step su pu)\<^sup>*\<^sup>* \<lparr>sys_db = db, sys_held = hs\<rparr> \<lparr>sys_db = db', sys_held = hs'\<rparr>"
    using process_cycle_steps [OF c] by blast
  from delivery_run_advances [OF uu this inv]
  have a: "store_inv su pu db'" "advances su pu db db'" by (simp_all add: system_inv_def)
  then show "advances su pu db db'" and "system_inv su pu \<lparr>sys_db = db', sys_held = hs\<rparr>"
    using system_inv_forward [OF inv, of db' hs] by simp_all
  obtain db1 q where m: "match_batch su sha now (cycle_locked_events c) (cycle_events c) BATCH_SIZE db = (db1, q)"
    and d: "db' = db1 \<and> sent = [] \<or>
      (\<exists>q'. dispatch_batch su pu now (cycle_locked_deliveries c) registry (cycle_claims c)
         (cycle_dispatches c) BATCH_SIZE db1 = (db', sent, q'))"
    using c by (rule process_cycle_cases)
  from delivery_run_advances [OF uu match_batch_steps [OF m] inv]
  have inv1: "system_inv su pu \<lparr>sys_db = db1, sys_held = hs\<rparr>" and a1: "advances su pu db db1" by simp_all
  note le = advances_attempts [OF a1, of i]
  have "attempts_in su pu db i + sends_of i sent \<le> attempts_in su pu db' i \<and>
    (x \<in> set sent \<longrightarrow> addressed su pu db' x)"
    using d
  proof
    assume "db' = db1 \<and> sent = []"
    with le show ?thesis by simp
  next
    assume "\<exists>q'. dispatch_batch su pu now (cycle_locked_deliveries c) registry (cycle_claims c)
         (cycle_dispatches c) BATCH_SIZE db1 = (db', sent, q')"
    then obtain q' where b: "dispatch_batch su pu now (cycle_locked_deliveries c) registry (cycle_claims c)
         (cycle_dispatches c) BATCH_SIZE db1 = (db', sent, q')" by blast
    note s = dispatch_batch_sent [OF inv1 uu b]
    have "addressed su pu db' x" if "x \<in> set sent"
      using s(2) [of "fst x" "snd x"] that unfolding addressed_def prod.collapse by blast
    with s(1) [of i] le show ?thesis by simp
  qed
  then show "attempts_in su pu db i + sends_of i sent \<le> attempts_in su pu db' i"
    and "x \<in> set sent \<Longrightarrow> addressed su pu db' x" by blast+
qed

lemma worker_run_inv:
  assumes "uuid_text su pu" and "worker_run su pu sha s log"
  shows "system_inv su pu s \<and> sends_of i log \<le> attempts_in su pu (sys_db s) i \<and>
    (\<forall>x \<in> set log. addressed su pu (sys_db s) x)"
  using assms(2)
proof induction
  case start
  from reachable_inv [OF assms(1) delivery_reachable.init] show ?case by simp
next
  case (cycle s log now registry c db' sent r)
  then have inv: "system_inv su pu \<lparr>sys_db = sys_db s, sys_held = sys_held s\<rparr>" by (cases s) simp
  note p = process_cycle_sent [OF inv assms(1) cycle.hyps(2)]
  have "sends_of i (log @ sent) \<le> attempts_in su pu db' i" using p(3) [of i] cycle.IH by simp
  moreover have "\<forall>x \<in> set (log @ sent). addressed su pu db' x"
    using p(4) cycle.IH addressed_mono [OF p(2)] by auto
  ultimately show ?case using p(1) by simp
next
  case (elsewhere s log s')
  then have inv: "system_inv su pu s" by blast
  note a = delivery_step_advances [OF assms(1) inv elsewhere.hyps(2)]
  from elsewhere.IH delivery_step_inv [OF assms(1) inv elsewhere.hyps(2)] advances_attempts [OF a, of i]
    addressed_mono [OF a]
  show ?case by auto
qed

lemma worker_run_reachable:
  "delivery_reachable su pu s \<Longrightarrow> worker_run su pu sha s []"
  by (induction rule: delivery_reachable.induct) (auto intro: worker_run.intros)

section \<open>Matching an alert again\<close>

text \<open>What planning one item leaves alone, and what it makes sure of.\<close>

lemma write_delivery_event_tables:
  assumes "write_delivery_event i ev t p db = Inr db'"
  shows "db_alerts db' = db_alerts db" "db_alert_fields db' = db_alert_fields db"
    "db_subscriptions db' = db_subscriptions db" "db_preferences db' = db_preferences db"
    "db_deliveries db' = db_deliveries db"
  using assms by (auto simp: write_delivery_event_def insert_delivery_event_def result_simps)

definition planned_row :: "(uuid \<Rightarrow> rstring) \<Rightarrow> planned_delivery \<Rightarrow> delivery_row" where
  "planned_row su item = delivery_to_row su (planned_key_hash item) None (planned_delivery item)"

lemma create_one_effect:
  assumes "create_one su item db = Inr db'"
  shows "db_alerts db' = db_alerts db" "db_alert_fields db' = db_alert_fields db"
    "db_subscriptions db' = db_subscriptions db" "db_preferences db' = db_preferences db"
    "\<exists>rows. db_deliveries db' = db_deliveries db @ rows \<and> set rows \<subseteq> {planned_row su item}"
    "delivery_row_checks (planned_row su item)"
    "planned_key_hash item \<in> delivery_row_key_hash ` set (db_deliveries db')"
proof -
  obtain db1 b where i: "insert_delivery su item db = Inr (db1, b)"
    and w: "b \<Longrightarrow> write_delivery_event (delivery_id (planned_delivery item)) (planned_event item)
              (planned_trail item) (delivery_requested_event_payload su item) db1 = Inr db'"
      "\<not> b \<Longrightarrow> db' = db"
    using assms by (auto simp: create_one_def bind_result_Inr split: if_splits)
  have k: "delivery_row_key_hash (planned_row su item) = planned_key_hash item"
    by (simp add: planned_row_def delivery_to_row_def)
  note i' = i [unfolded insert_delivery_def Let_def planned_row_def [symmetric] k]
  show "delivery_row_checks (planned_row su item)" using i' by (auto split: if_splits)
  have "(db_alerts db' = db_alerts db \<and> db_alert_fields db' = db_alert_fields db \<and>
      db_subscriptions db' = db_subscriptions db \<and> db_preferences db' = db_preferences db) \<and>
    (\<exists>rows. db_deliveries db' = db_deliveries db @ rows \<and> set rows \<subseteq> {planned_row su item}) \<and>
    planned_key_hash item \<in> delivery_row_key_hash ` set (db_deliveries db')"
  proof (cases b)
    case True
    then have "db1 = db\<lparr>db_deliveries := db_deliveries db @ [planned_row su item]\<rparr>"
      using i' by (auto split: if_splits)
    with write_delivery_event_tables [OF w(1) [OF True]] k show ?thesis by simp
  next
    case False
    with i' w(2) show ?thesis by (auto split: if_splits)
  qed
  then show "db_alerts db' = db_alerts db" "db_alert_fields db' = db_alert_fields db"
    "db_subscriptions db' = db_subscriptions db" "db_preferences db' = db_preferences db"
    "\<exists>rows. db_deliveries db' = db_deliveries db @ rows \<and> set rows \<subseteq> {planned_row su item}"
    "planned_key_hash item \<in> delivery_row_key_hash ` set (db_deliveries db')"
    by blast+
qed

lemma create_planned_effect:
  assumes "create_planned su items db = (db', r)"
  shows "db_alerts db' = db_alerts db \<and> db_alert_fields db' = db_alert_fields db \<and>
    db_subscriptions db' = db_subscriptions db \<and> db_preferences db' = db_preferences db \<and>
    (\<exists>rows. db_deliveries db' = db_deliveries db @ rows \<and> set rows \<subseteq> planned_row su ` set items) \<and>
    (r = Inr () \<longrightarrow> (\<forall>item \<in> set items. delivery_row_checks (planned_row su item) \<and>
       planned_key_hash item \<in> delivery_row_key_hash ` set (db_deliveries db')))"
  using assms
proof (induction items arbitrary: db)
  case (Cons item items)
  show ?case
  proof (cases "create_one su item db")
    case (Inl e)
    with Cons.prems show ?thesis by auto
  next
    case (Inr db1)
    note o = create_one_effect [OF Inr]
    obtain rows where rows: "db_deliveries db1 = db_deliveries db @ rows" "set rows \<subseteq> {planned_row su item}"
      using o(5) by blast
    have "create_planned su items db1 = (db', r)" using Cons.prems Inr by simp
    note ih = Cons.IH [OF this]
    then obtain rows' where rows': "db_deliveries db' = db_deliveries db1 @ rows'"
      "set rows' \<subseteq> planned_row su ` set items" by blast
    have "db_deliveries db' = db_deliveries db @ rows @ rows'"
      and "set (rows @ rows') \<subseteq> planned_row su ` set (item # items)"
      using rows rows' by auto
    moreover have "planned_key_hash item \<in> delivery_row_key_hash ` set (db_deliveries db')"
      using o(7) rows' by auto
    ultimately show ?thesis using ih o(1-4,6) by (simp del: set_append)
  qed
qed simp

lemma create_planned_known:
  assumes "\<forall>item \<in> set items. delivery_row_checks (planned_row su item) \<and>
     planned_key_hash item \<in> delivery_row_key_hash ` set (db_deliveries db)"
  shows "create_planned su items db = (db, Inr ())"
  using assms
proof (induction items)
  case (Cons item items)
  have k: "delivery_row_key_hash (planned_row su item) = planned_key_hash item"
    by (simp add: planned_row_def delivery_to_row_def)
  have "insert_delivery su item db = Inr (db, False)"
    unfolding insert_delivery_def Let_def planned_row_def [symmetric] k using Cons.prems by simp
  then have "create_one su item db = Inr db" by (simp add: create_one_def)
  with Cons show ?case by simp
qed simp

text \<open>The keys and the checked columns of a plan do not depend on the drawn ids.\<close>

lemma plan_item_nth:
  assumes "k < length (plan_targets prefs ms)"
  shows "planned_key_hash (plan_deliveries_use_case su sha al ms prefs rp a rq ids tids ! k) =
      planned_key_hash (plan_deliveries_use_case su sha al ms prefs rp a' rq' ids' tids' ! k)" (is "?key")
    and "delivery_row_checks (planned_row su (plan_deliveries_use_case su sha al ms prefs rp a rq ids tids ! k)) =
      delivery_row_checks (planned_row su (plan_deliveries_use_case su sha al ms prefs rp a' rq' ids' tids' ! k))"
      (is "?checks")
proof -
  obtain c x t ep where x: "plan_targets prefs ms ! k = (c, x, t, ep)" by (metis prod_cases4)
  have d: "planned_delivery (plan_deliveries_use_case su sha al ms prefs rp a rq ids tids ! k) =
      fst (plan_one su (Alert_Model.alert_id al) c ep t x rp (ids (2 * k)) (ids (2 * k + 1)))"
    and h: "planned_key_hash (plan_deliveries_use_case su sha al ms prefs rp a rq ids tids ! k) =
      sha (delivery_key (fst (plan_one su (Alert_Model.alert_id al) c ep t x rp (ids (2 * k)) (ids (2 * k + 1)))))"
    for a rq ids tids
    using assms x
    by (simp_all add: plan_deliveries_use_case_def plan_deliveries_spec nth_enumerate_eq split: prod.split)
  show ?key by (simp add: h plan_one_def Let_def)
  show ?checks by (simp add: planned_row_def h d plan_one_def Let_def delivery_to_row_def delivery_row_checks_def
      delivery_max_attempts_def)
qed

lemma length_plan: "length (plan_deliveries_use_case su sha al ms prefs rp a rq ids tids) = length (plan_targets prefs ms)"
  by (simp add: plan_deliveries_use_case_def plan_deliveries_spec)

lemma plan_known:
  assumes "\<forall>item \<in> set (plan_deliveries_use_case su sha al ms prefs rp a rq ids tids).
     delivery_row_checks (planned_row su item) \<and> planned_key_hash item \<in> K"
  shows "\<forall>item \<in> set (plan_deliveries_use_case su sha al ms prefs rp a' rq' ids' tids').
     delivery_row_checks (planned_row su item) \<and> planned_key_hash item \<in> K"
proof
  fix item
  assume "item \<in> set (plan_deliveries_use_case su sha al ms prefs rp a' rq' ids' tids')"
  then obtain k where k: "k < length (plan_targets prefs ms)"
    and item: "item = plan_deliveries_use_case su sha al ms prefs rp a' rq' ids' tids' ! k"
    unfolding in_set_conv_nth length_plan by blast
  have "plan_deliveries_use_case su sha al ms prefs rp a rq ids tids ! k \<in>
      set (plan_deliveries_use_case su sha al ms prefs rp a rq ids tids)"
    using k by (intro nth_mem) (simp add: length_plan)
  with assms show "delivery_row_checks (planned_row su item) \<and> planned_key_hash item \<in> K"
    unfolding item plan_item_nth [OF k, where a = a' and a' = a and rq = rq' and rq' = rq and ids = ids'
      and ids' = ids and tids = tids' and tids' = tids] by blast
qed

lemma alert_find_by_id_cong:
  "db_alerts db' = db_alerts db \<Longrightarrow> db_alert_fields db' = db_alert_fields db \<Longrightarrow>
   alert_find_by_id db' i = alert_find_by_id db i"
  by (simp add: alert_find_by_id_def field_rows_of_alert_def cong: option.case_cong)

lemma load_preferences_cong:
  "db_preferences db' = db_preferences db \<Longrightarrow> load_preferences db' ms = load_preferences db ms"
  by (induction ms) (simp_all add: preference_find_by_consumer_def)

lemma subscription_list_all_cong:
  "db_subscriptions db' = db_subscriptions db \<Longrightarrow> subscription_list_all db' = subscription_list_all db"
  by (simp add: subscription_list_all_def)

lemma match_and_plan_cases:
  assumes "match_and_plan su sha draw aid db = (db', Inr ())"
  obtains (no_alert) "alert_find_by_id db aid = Inr None" "db' = db"
  | (no_match) al ss where "alert_find_by_id db aid = Inr (Some al)" "subscription_list_all db = Inr ss"
      "deduplicate_by_consumer (evaluate_subscriptions ss al) = []" "db' = db"
  | (plan) al ss prefs rq ids tids where "alert_find_by_id db aid = Inr (Some al)"
      "subscription_list_all db = Inr ss" "deduplicate_by_consumer (evaluate_subscriptions ss al) \<noteq> []"
      "load_preferences db (deduplicate_by_consumer (evaluate_subscriptions ss al)) = Inr prefs"
      "create_planned su (plan_deliveries_use_case su sha al
         (deduplicate_by_consumer (evaluate_subscriptions ss al)) prefs retry_policy_standard
         Actor_Automated rq ids tids) db = (db', Inr ())"
  using assms
  by (auto simp: match_and_plan_def Let_def split: sum.splits option.splits if_splits prod.splits)

section \<open>Whom a matched alert reaches\<close>

lemma matched_consumer:
  assumes "m \<in> set (deduplicate_by_consumer (evaluate_subscriptions ss al))"
  shows "\<exists>s \<in> set ss. subscription_consumer_id s = match_consumer_id m \<and>
    list_all (rule_matches al) (subscription_rules s)"
  using assms by (auto simp: dedup_refines_spec dedup_spec_def evaluate_subscriptions_def)

lemma load_preferences_sound:
  "load_preferences db ms = Inr prefs \<Longrightarrow> prefs c = Some p \<Longrightarrow> preference_find_by_consumer db c = Inr (Some p)"
proof (induction ms arbitrary: prefs)
  case (Cons m ms)
  then obtain found prefs' where f: "preference_find_by_consumer db (match_consumer_id m) = Inr found"
    "load_preferences db ms = Inr prefs'"
    "prefs = (case found of None \<Rightarrow> prefs' | Some p \<Rightarrow> prefs'(match_consumer_id m \<mapsto> p))"
    by (auto simp: bind_result_Inr)
  with Cons show ?case by (cases "c = match_consumer_id m"; cases found) auto
qed simp

lemma plan_target_member:
  assumes "x \<in> set (plan_targets prefs ms)"
  obtains m p t ep where "m \<in> set ms" "prefs (match_consumer_id m) = Some p" "ep \<in> set (preference_channels p)"
    "x = (match_consumer_id m, matching_subscriptions m, t, ep)"
proof -
  obtain m where m: "m \<in> set ms" and x: "x \<in> set (case prefs (match_consumer_id m) of None \<Rightarrow> []
      | Some p \<Rightarrow> map (\<lambda>(t, ep). (match_consumer_id m, matching_subscriptions m, t, ep)) (preference_tiers p))"
    using assms unfolding plan_targets_def by auto
  then obtain p where p: "prefs (match_consumer_id m) = Some p" by (cases "prefs (match_consumer_id m)") auto
  with x obtain t ep where "(t, ep) \<in> set (preference_tiers p)"
    "x = (match_consumer_id m, matching_subscriptions m, t, ep)" by auto
  moreover from this(1) have "ep \<in> set (preference_channels p)"
    using map_snd_tiers [of p] by (metis image_eqI list.set_map snd_conv)
  ultimately show thesis using that m p by blast
qed

lemma plan_item_target:
  assumes "item \<in> set (plan_deliveries_use_case su sha al ms prefs rp a rq ids tids)"
  obtains c x t ep i e where "(c, x, t, ep) \<in> set (plan_targets prefs ms)"
    and "planned_delivery item = fst (plan_one su (Alert_Model.alert_id al) c ep t x rp i e)"
proof -
  obtain k where k: "k < length (plan_targets prefs ms)"
    and item: "item = plan_deliveries_use_case su sha al ms prefs rp a rq ids tids ! k"
    using assms unfolding in_set_conv_nth length_plan by blast
  obtain c x t ep where x: "plan_targets prefs ms ! k = (c, x, t, ep)" by (metis prod_cases4)
  show thesis
  proof (rule that)
    show "(c, x, t, ep) \<in> set (plan_targets prefs ms)" using k x by (metis nth_mem)
    show "planned_delivery item = fst (plan_one su (Alert_Model.alert_id al) c ep t x rp (ids (2 * k)) (ids (2 * k + 1)))"
      using k x by (simp add: item plan_deliveries_use_case_def plan_deliveries_spec nth_enumerate_eq split: prod.split)
  qed
qed

definition row_for_subscriber :: "database \<Rightarrow> alert \<Rightarrow> delivery_row \<Rightarrow> bool" where
  "row_for_subscriber db al r \<longleftrightarrow>
     delivery_row_alert_id r = alert_uuid (Alert_Model.alert_id al) \<and> delivery_row_status r = lit ''QUEUED'' \<and>
     (\<exists>ss. subscription_list_all db = Inr ss \<and>
       (\<exists>s \<in> set ss. list_all (rule_matches al) (subscription_rules s) \<and>
          delivery_row_consumer_id r = consumer_uuid (subscription_consumer_id s) \<and>
          (\<exists>p. preference_find_by_consumer db (subscription_consumer_id s) = Inr (Some p) \<and>
            (\<exists>ep \<in> set (preference_channels p). delivery_row_channel r = channel_type_to_db (endpoint_channel ep) \<and>
               delivery_row_endpoint_address r = endpoint_address ep))))"

lemma planned_row_for_subscriber:
  assumes ss: "subscription_list_all db = Inr ss"
    and prefs: "load_preferences db (deduplicate_by_consumer (evaluate_subscriptions ss al)) = Inr prefs"
    and item: "item \<in> set (plan_deliveries_use_case su sha al (deduplicate_by_consumer (evaluate_subscriptions ss al))
       prefs rp a rq ids tids)"
  shows "row_for_subscriber db al (planned_row su item)"
proof -
  obtain c x t ep i e where x: "(c, x, t, ep) \<in> set (plan_targets prefs (deduplicate_by_consumer (evaluate_subscriptions ss al)))"
    and d: "planned_delivery item = fst (plan_one su (Alert_Model.alert_id al) c ep t x rp i e)"
    using item by (rule plan_item_target)
  from x obtain m p where m: "m \<in> set (deduplicate_by_consumer (evaluate_subscriptions ss al))"
    "c = match_consumer_id m" and p: "prefs c = Some p" and ep: "ep \<in> set (preference_channels p)"
    by (rule plan_target_member) auto
  obtain s where s: "s \<in> set ss" "subscription_consumer_id s = c" "list_all (rule_matches al) (subscription_rules s)"
    using matched_consumer [OF m(1)] m(2) by blast
  have r: "delivery_row_alert_id (planned_row su item) = alert_uuid (Alert_Model.alert_id al)"
    "delivery_row_status (planned_row su item) = lit ''QUEUED''"
    "delivery_row_consumer_id (planned_row su item) = consumer_uuid c"
    "delivery_row_channel (planned_row su item) = channel_type_to_db (endpoint_channel ep)"
    "delivery_row_endpoint_address (planned_row su item) = endpoint_address ep"
    by (simp_all add: planned_row_def d plan_one_def Let_def delivery_to_row_def)
  show ?thesis
    unfolding row_for_subscriber_def r
    using ss s ep load_preferences_sound [OF prefs p] by blast
qed

section \<open>Properties\<close>

text \<open>C8: A worker never sends more messages for a delivery than the attempts that are stored for it,
  hence never more than its maximum, and sends them only to the address of the delivery; whatever the
  providers answer, whichever cycles fail or are repeated, and whatever other processes do between.\<close>

theorem sends_bounded_by_attempts:
  assumes "uuid_text su pu" and "worker_run su pu sha s log"
  shows "case delivery_lookup su pu (sys_db s) i of
       None \<Rightarrow> sends_of i log = 0
     | Some d \<Rightarrow> sends_of i log \<le> unat (delivery_attempt_count d) \<and>
         delivery_attempt_count d \<le> delivery_max_attempts d \<and>
         (\<forall>m. (i, m) \<in> set log \<longrightarrow> message_endpoint_address m = delivery_endpoint_address d)"
proof (cases "delivery_lookup su pu (sys_db s) i")
  case None
  with worker_run_inv [OF assms, of i] show ?thesis by (simp add: attempts_in_def)
next
  case (Some d)
  note inv = worker_run_inv [OF assms, of i]
  have "store_inv su pu (sys_db s)" using inv by (simp add: system_inv_def)
  from lookup_wf [OF this Some] have "delivery_attempt_count d \<le> delivery_max_attempts d"
    by (simp add: delivery_wf_def)
  moreover have "sends_of i log \<le> unat (delivery_attempt_count d)" using inv Some by (simp add: attempts_in_def)
  moreover have "message_endpoint_address m = delivery_endpoint_address d" if "(i, m) \<in> set log" for m
    using inv that Some by (fastforce simp: addressed_def)
  ultimately show ?thesis using Some by simp
qed

theorem sends_bounded_by_attempts_witness:
  "\<exists>d. delivery_lookup hyphenated parse_hyphenated sample_planned_db (DeliveryId 10) = Some d \<and>
     sends_of (DeliveryId 10) [] \<le> unat (delivery_attempt_count d)"
proof -
  obtain d where d: "delivery_lookup hyphenated parse_hyphenated sample_planned_db (DeliveryId 10) = Some d"
    using sample_queued by blast
  have "worker_run hyphenated parse_hyphenated utf8 \<lparr>sys_db = sample_planned_db, sys_held = []\<rparr> []"
    using sample_reachable worker_run_reachable by blast
  from sends_bounded_by_attempts [OF hyphenated_text this, of "DeliveryId 10"] d show ?thesis by auto
qed

text \<open>Matching an alert again after it has been matched, with any other drawn ids, changes nothing:
  an event that is handled twice creates no second delivery.\<close>

theorem matching_is_idempotent:
  assumes "match_and_plan su sha draw aid db = (db', Inr ())"
  shows "match_and_plan su sha draw' aid db' = (db', Inr ())"
  using assms
proof (cases rule: match_and_plan_cases)
  case no_alert
  then show ?thesis by (simp add: match_and_plan_def)
next
  case (no_match al ss)
  then show ?thesis by (simp add: match_and_plan_def)
next
  case (plan al ss prefs rq ids tids)
  note e = create_planned_effect [OF plan(5)]
  let ?ms = "deduplicate_by_consumer (evaluate_subscriptions ss al)"
  obtain rq' ids' tids' where draw: "draw' = (rq', ids', tids')" by (cases draw')
  have "create_planned su (plan_deliveries_use_case su sha al ?ms prefs retry_policy_standard Actor_Automated
      rq' ids' tids') db' = (db', Inr ())"
    by (rule create_planned_known [OF plan_known]) (use e in blast)
  moreover have "alert_find_by_id db' aid = Inr (Some al)" "subscription_list_all db' = Inr ss"
    "load_preferences db' ?ms = Inr prefs"
    using e plan(1,2,4) alert_find_by_id_cong [of db' db aid] subscription_list_all_cong [of db' db]
      load_preferences_cong [of db' db ?ms] by simp_all
  ultimately show ?thesis using plan(3) draw by (simp add: match_and_plan_def Let_def)
qed

theorem matching_is_idempotent_witness:
  "match_and_plan hyphenated utf8 (2, \<lambda>_. 3, \<lambda>_. 4) (AlertId 1) empty_database = (empty_database, Inr ())"
  by (rule matching_is_idempotent [of hyphenated utf8 "(0, \<lambda>_. 0, \<lambda>_. 0)" "AlertId 1" empty_database])
    (simp add: match_and_plan_def alert_find_by_id_def empty_database_def)



text \<open>C9: A cycle of the worker, whether it succeeds or fails, is a run of the delivery system: its effect
  on the database is that of planning, claiming and settling steps in some order, and it disturbs no copy
  that another process holds. So what holds in every reachable state holds with workers running.\<close>

theorem worker_refines_delivery_system:
  assumes "process_cycle su pu sha now registry c db = (db', sent, r)"
  shows "\<exists>hs'. (delivery_step su pu)\<^sup>*\<^sup>* \<lparr>sys_db = db, sys_held = hs\<rparr> \<lparr>sys_db = db', sys_held = hs'\<rparr> \<and>
    mset hs \<subseteq># mset hs'"
  using process_cycle_steps [OF assms] .

theorem worker_refines_delivery_system_witness:
  "\<exists>hs'. (delivery_step hyphenated parse_hyphenated)\<^sup>*\<^sup>* \<lparr>sys_db = sample_planned_db, sys_held = []\<rparr>
     \<lparr>sys_db = fst (process_cycle hyphenated parse_hyphenated utf8 5 registry_new
        \<lparr>cycle_events = (\<lambda>_. (0, \<lambda>_. 0, \<lambda>_. 0)), cycle_claims = of_nat, cycle_dispatches = (\<lambda>_. (0, of_nat)),
         cycle_locked_events = {}, cycle_locked_deliveries = {}\<rparr> sample_planned_db), sys_held = hs'\<rparr>"
  using worker_refines_delivery_system [of hyphenated parse_hyphenated utf8 5 registry_new
      "\<lparr>cycle_events = (\<lambda>_. (0, \<lambda>_. 0, \<lambda>_. 0)), cycle_claims = of_nat, cycle_dispatches = (\<lambda>_. (0, of_nat)),
         cycle_locked_events = {}, cycle_locked_deliveries = {}\<rparr>" sample_planned_db _ _ _ "[]"]
  by (metis prod.collapse)

end
