(* ===== verification/Organization_Api.thy ===== *)
theory Organization_Api
  imports Access_Api Subscription_Store
begin

text \<open>
  The endpoints that manage organizations (\<open>apps/api/src/organizations.rs\<close>): who may create, configure, edit
  and see an organization, and the handlers. What is shown: trust and activity change only at the hands of
  platform administrators, a profile edit touches nothing else, and a new organization comes with the consumer
  that its notification settings live under.
\<close>

definition organization_persistence_failed :: "uuid \<Rightarrow> api_error" where
  "organization_persistence_failed rid =
     api_error 500 ''ORGANIZATION_PERSISTENCE_FAILED'' ''The request could not be saved. Please try again.'' rid"

definition organization_not_authorized :: "uuid \<Rightarrow> api_error" where
  "organization_not_authorized rid =
     api_error 403 ''NOT_AUTHORIZED'' ''Only a platform admin may manage organizations.'' rid"

definition not_authorized_for_organization :: "uuid \<Rightarrow> api_error" where
  "not_authorized_for_organization rid =
     api_error 403 ''NOT_AUTHORIZED'' ''You are not authorized to view this organization.'' rid"

definition organization_not_found :: "uuid \<Rightarrow> api_error" where
  "organization_not_found rid =
     api_error 404 ''ORGANIZATION_NOT_FOUND'' ''No organization exists with the given id.'' rid"

section \<open>Who may do what\<close>

definition require_platform_admin :: "database \<Rightarrow> actor \<Rightarrow> uuid \<Rightarrow> api_error + unit" where
  "require_platform_admin db a rid =
     (case a of
        Actor_Reviewer reviewer \<Rightarrow>
          bind_result (map_err (\<lambda>_. organization_persistence_failed rid) (membership_find db reviewer)) (\<lambda>found.
            case found of
              Some m \<Rightarrow> if member_role m = Role_PlatformAdmin then Inr () else Inl (organization_not_authorized rid)
            | None \<Rightarrow> Inl (organization_not_authorized rid))
      | _ \<Rightarrow> Inl (organization_not_authorized rid))"

definition require_platform_admin_or_org_admin_of ::
  "database \<Rightarrow> actor \<Rightarrow> organization_id \<Rightarrow> uuid \<Rightarrow> api_error + unit" where
  "require_platform_admin_or_org_admin_of db a i rid =
     (case a of
        Actor_Reviewer reviewer \<Rightarrow>
          bind_result (map_err (\<lambda>_. organization_persistence_failed rid) (membership_find db reviewer)) (\<lambda>found.
            case found of
              Some m \<Rightarrow>
                if member_role m = Role_PlatformAdmin then Inr ()
                else if member_role m = Role_OrgAdmin \<and> member_organization_id m = Some i then Inr ()
                else Inl (not_authorized_for_organization rid)
            | None \<Rightarrow> Inl (not_authorized_for_organization rid))
      | _ \<Rightarrow> Inl (not_authorized_for_organization rid))"

definition require_membership_of :: "database \<Rightarrow> actor \<Rightarrow> organization_id \<Rightarrow> uuid \<Rightarrow> api_error + unit" where
  "require_membership_of db a i rid =
     (case a of
        Actor_Reviewer reviewer \<Rightarrow>
          bind_result (map_err (\<lambda>_. organization_persistence_failed rid) (membership_find db reviewer)) (\<lambda>found.
            case found of
              Some m \<Rightarrow>
                if member_role m = Role_PlatformAdmin then Inr ()
                else if member_organization_id m = Some i then Inr ()
                else Inl (not_authorized_for_organization rid)
            | None \<Rightarrow> Inl (not_authorized_for_organization rid))
      | _ \<Rightarrow> Inl (not_authorized_for_organization rid))"

section \<open>Handlers\<close>

record OrganizationResponse =
  response_organization_id :: uuid
  response_organization_name :: rstring
  response_description :: "rstring option"
  response_location :: "rstring option"
  response_contact :: "rstring option"
  response_verified_incident_types :: "incident_type list"
  response_verified_alert_visibilities :: "alert_visibility list"
  response_consumer_id :: "uuid option"
  response_is_active :: bool

definition organization_response :: "organization \<Rightarrow> OrganizationResponse" where
  "organization_response g =
     \<lparr>response_organization_id = organization_uuid (organization_id g),
      response_organization_name = organization_name g,
      response_description = organization_description g,
      response_location = organization_location g,
      response_contact = organization_contact g,
      response_verified_incident_types = organization_verified_incident_types g,
      response_verified_alert_visibilities = organization_verified_alert_visibilities g,
      response_consumer_id = map_option consumer_uuid (organization_consumer_id g),
      response_is_active = organization_is_active g\<rparr>"

definition nonblank :: "rstring option \<Rightarrow> rstring option" where
  "nonblank v = (case v of Some s \<Rightarrow> if trim s \<noteq> [] then Some s else None | None \<Rightarrow> None)"

text \<open>The stored organization, which the code expects to find.\<close>

definition reload_organization :: "database \<Rightarrow> organization_id \<Rightarrow> uuid \<Rightarrow> api_error + organization" where
  "reload_organization db i rid =
     map_err (\<lambda>_. organization_persistence_failed rid) (bind_result (organization_find_by_id db i) (ok_or DbPanic))"

text \<open>Three separate writes: an error of a later one leaves the earlier ones in place. The ids drawn are the
  organization's and the consumer's.\<close>

definition create_organization ::
  "api_config \<Rightarrow> api_request \<Rightarrow> rstring \<Rightarrow> rstring option \<Rightarrow> rstring option \<Rightarrow> database \<Rightarrow>
   database \<times> (api_error + nat \<times> OrganizationResponse)" where
  "create_organization cfg rq name description loc db =
     (let rid = api_request_id cfg rq in
      finish db (
      bind_result (api_actor cfg rq db) (\<lambda>a.
      bind_result (require_platform_admin db a rid) (\<lambda>_.
      bind_result (map_err (\<lambda>_. api_error 400 ''INVALID_ORGANIZATION_NAME'' ''name cannot be blank.'' rid)
        (organization_new (request_ids rq 0) name)) (\<lambda>g0.
      let g = organization_with_profile g0 (nonblank description) (nonblank loc) in
      bind_result (map_err (\<lambda>_. organization_persistence_failed rid) (organization_create g db)) (\<lambda>db1.
      Inr (case consumer_new (request_ids rq 1) ConsumerType_Organization (organization_name g) of
        Inl _ \<Rightarrow> (db1, Inl (organization_persistence_failed rid))
      | Inr c \<Rightarrow>
     (case consumer_repo_create c db1 of
        Inl _ \<Rightarrow> (db1, Inl (organization_persistence_failed rid))
      | Inr db2 \<Rightarrow>
     (case organization_set_consumer_id (organization_id g) (consumer_id c) db2 of
        Inl _ \<Rightarrow> (db2, Inl (organization_persistence_failed rid))
      | Inr db3 \<Rightarrow>
          (db3, bind_result (reload_organization db3 (organization_id g) rid) (\<lambda>stored.
                  Inr (201, organization_response stored))))))))))))"

definition find_organization :: "database \<Rightarrow> organization_id \<Rightarrow> uuid \<Rightarrow> api_error + organization" where
  "find_organization db i rid =
     bind_result (map_err (\<lambda>_. organization_persistence_failed rid) (organization_find_by_id db i))
       (ok_or (organization_not_found rid))"

definition get_organization :: "api_config \<Rightarrow> api_request \<Rightarrow> uuid \<Rightarrow> database \<Rightarrow> api_error + OrganizationResponse" where
  "get_organization cfg rq i db =
     (let rid = api_request_id cfg rq in
      bind_result (api_actor cfg rq db) (\<lambda>a.
      bind_result (require_membership_of db a (OrganizationId i) rid) (\<lambda>_.
      bind_result (find_organization db (OrganizationId i) rid) (\<lambda>g.
        Inr (organization_response g)))))"

definition ORGANIZATION_DEFAULT_LIMIT :: nat where
  "ORGANIZATION_DEFAULT_LIMIT = 50"

definition ORGANIZATION_MAX_LIMIT :: nat where
  "ORGANIZATION_MAX_LIMIT = 100"

definition list_organizations ::
  "api_config \<Rightarrow> api_request \<Rightarrow> u32 option \<Rightarrow> u32 option \<Rightarrow> database \<Rightarrow> api_error + OrganizationResponse list" where
  "list_organizations cfg rq limit offset db =
     (let rid = api_request_id cfg rq in
      bind_result (api_actor cfg rq db) (\<lambda>a.
      bind_result (require_platform_admin db a rid) (\<lambda>_.
      bind_result (map_err (\<lambda>_. organization_persistence_failed rid)
        (organization_list db
           (min (case limit of None \<Rightarrow> ORGANIZATION_DEFAULT_LIMIT | Some n \<Rightarrow> unat n) ORGANIZATION_MAX_LIMIT)
           (case offset of None \<Rightarrow> 0 | Some n \<Rightarrow> unat n))) (\<lambda>gs.
        Inr (map organization_response gs)))))"

text \<open>The write has taken effect when the stored organization is read again.\<close>

definition set_trust_grants ::
  "api_config \<Rightarrow> api_request \<Rightarrow> uuid \<Rightarrow> incident_type list \<Rightarrow> alert_visibility list \<Rightarrow> database \<Rightarrow>
   database \<times> (api_error + OrganizationResponse)" where
  "set_trust_grants cfg rq i its vs db =
     (let rid = api_request_id cfg rq in
      finish db (
      bind_result (api_actor cfg rq db) (\<lambda>a.
      bind_result (require_platform_admin db a rid) (\<lambda>_.
      bind_result (find_organization db (OrganizationId i) rid) (\<lambda>_.
      let db' = organization_set_trust_grants (OrganizationId i) its vs db in
      Inr (db', bind_result (reload_organization db' (OrganizationId i) rid) (\<lambda>g. Inr (organization_response g))))))))"

definition profile_too_long :: "rstring option \<Rightarrow> rstring option \<Rightarrow> rstring option \<Rightarrow> bool" where
  "profile_too_long contact description loc \<longleftrightarrow>
     (\<exists>v. description = Some v \<and> 5000 < length (utf8 v)) \<or>
     (\<exists>v. loc = Some v \<and> 500 < length (utf8 v)) \<or>
     (\<exists>v. contact = Some v \<and> 1000 < length (utf8 v))"

text \<open>The audit row's id is the only one drawn; profile and audit row are written in one transaction.\<close>

definition update_organization_profile ::
  "api_config \<Rightarrow> api_request \<Rightarrow> uuid \<Rightarrow> rstring option \<Rightarrow> rstring option \<Rightarrow> rstring option \<Rightarrow> database \<Rightarrow>
   database \<times> (api_error + OrganizationResponse)" where
  "update_organization_profile cfg rq i contact description loc db =
     (let rid = api_request_id cfg rq in
      finish db (
      bind_result (api_actor cfg rq db) (\<lambda>a.
      bind_result (require_platform_admin_or_org_admin_of db a (OrganizationId i) rid) (\<lambda>_.
      bind_result (find_organization db (OrganizationId i) rid) (\<lambda>_.
      bind_result (case a of Actor_Reviewer u \<Rightarrow> Inr u | _ \<Rightarrow> Inl (organization_not_authorized rid)) (\<lambda>u.
      if profile_too_long contact description loc
      then Inl (api_error 400 ''INVALID_ORGANIZATION_PROFILE''
             ''Description, location or contact exceeds the allowed length.'' rid)
      else
      bind_result (map_err (\<lambda>_. organization_persistence_failed rid)
        (organization_set_profile_audited (OrganizationId i) (nonblank description) (nonblank loc) contact u rid
           (request_ids rq 0) db)) (\<lambda>db'.
      Inr (db', bind_result (reload_organization db' (OrganizationId i) rid) (\<lambda>g. Inr (organization_response g))))))))))"

definition set_organization_active ::
  "api_config \<Rightarrow> api_request \<Rightarrow> uuid \<Rightarrow> bool \<Rightarrow> database \<Rightarrow> database \<times> (api_error + OrganizationResponse)" where
  "set_organization_active cfg rq i active db =
     (let rid = api_request_id cfg rq in
      finish db (
      bind_result (api_actor cfg rq db) (\<lambda>a.
      bind_result (require_platform_admin db a rid) (\<lambda>_.
      bind_result (find_organization db (OrganizationId i) rid) (\<lambda>_.
      let db' = organization_set_active (OrganizationId i) active db in
      Inr (db', bind_result (reload_organization db' (OrganizationId i) rid) (\<lambda>g. Inr (organization_response g))))))))"

definition deactivate_organization ::
  "api_config \<Rightarrow> api_request \<Rightarrow> uuid \<Rightarrow> database \<Rightarrow> database \<times> (api_error + OrganizationResponse)" where
  "deactivate_organization cfg rq i db = set_organization_active cfg rq i False db"

definition reactivate_organization ::
  "api_config \<Rightarrow> api_request \<Rightarrow> uuid \<Rightarrow> database \<Rightarrow> database \<times> (api_error + OrganizationResponse)" where
  "reactivate_organization cfg rq i db = set_organization_active cfg rq i True db"

definition list_members ::
  "api_config \<Rightarrow> api_request \<Rightarrow> uuid \<Rightarrow> database \<Rightarrow> api_error + membership_record list" where
  "list_members cfg rq i db =
     (let rid = api_request_id cfg rq in
      bind_result (api_actor cfg rq db) (\<lambda>a.
      bind_result (require_membership_of db a (OrganizationId i) rid) (\<lambda>_.
      bind_result (find_organization db (OrganizationId i) rid) (\<lambda>_.
        map_err (\<lambda>_. organization_persistence_failed rid) (membership_list db (OrganizationId i))))))"

section \<open>Authority\<close>

lemma require_platform_admin_Inr [result_simps]:
  "require_platform_admin db a rid = Inr x \<longleftrightarrow>
     (\<exists>u m. a = Actor_Reviewer u \<and> membership_find db u = Inr (Some m) \<and> member_role m = Role_PlatformAdmin)"
  by (auto simp: require_platform_admin_def bind_result_Inr map_err_Inr split: actor.splits option.splits if_splits)

lemma require_platform_admin_or_org_admin_of_Inr [result_simps]:
  "require_platform_admin_or_org_admin_of db a i rid = Inr x \<longleftrightarrow>
     (\<exists>u m. a = Actor_Reviewer u \<and> membership_find db u = Inr (Some m) \<and>
        (member_role m = Role_PlatformAdmin \<or> member_role m = Role_OrgAdmin \<and> member_organization_id m = Some i))"
  by (auto simp: require_platform_admin_or_org_admin_of_def bind_result_Inr map_err_Inr
      split: actor.splits option.splits if_splits)

lemma require_membership_of_Inr [result_simps]:
  "require_membership_of db a i rid = Inr x \<longleftrightarrow>
     (\<exists>u m. a = Actor_Reviewer u \<and> membership_find db u = Inr (Some m) \<and>
        (member_role m = Role_PlatformAdmin \<or> member_organization_id m = Some i))"
  by (auto simp: require_membership_of_def bind_result_Inr map_err_Inr split: actor.splits option.splits if_splits)

lemma finish_bind_changes:
  assumes "fst (finish db (bind_result r k)) \<noteq> db"
  obtains x where "r = Inr x" and "fst (finish db (k x)) \<noteq> db"
  using assms by (cases r) auto

text \<open>The requests that write, and the database that a request leaves.\<close>

datatype organization_call =
    OrganizationCall_Create rstring "rstring option" "rstring option"
  | OrganizationCall_SetTrust uuid "incident_type list" "alert_visibility list"
  | OrganizationCall_UpdateProfile uuid "rstring option" "rstring option" "rstring option"
  | OrganizationCall_SetActive uuid bool

fun organization_handle :: "api_config \<Rightarrow> api_request \<Rightarrow> organization_call \<Rightarrow> database \<Rightarrow> database" where
  "organization_handle cfg rq (OrganizationCall_Create name description loc) db =
     fst (create_organization cfg rq name description loc db)"
| "organization_handle cfg rq (OrganizationCall_SetTrust i its vs) db = fst (set_trust_grants cfg rq i its vs db)"
| "organization_handle cfg rq (OrganizationCall_UpdateProfile i contact description loc) db =
     fst (update_organization_profile cfg rq i contact description loc db)"
| "organization_handle cfg rq (OrganizationCall_SetActive i active) db = fst (set_organization_active cfg rq i active db)"

text \<open>A row without the columns of the profile.\<close>

definition institution :: "organization_row \<Rightarrow> organization_row" where
  "institution r = r\<lparr>organization_row_description := None, organization_row_location := None,
     organization_row_contact := None\<rparr>"

definition platform_admin :: "database \<Rightarrow> uuid \<Rightarrow> bool" where
  "platform_admin db u \<longleftrightarrow> (\<exists>m. membership_find db u = Inr (Some m) \<and> member_role m = Role_PlatformAdmin)"

definition org_admin_of :: "database \<Rightarrow> uuid \<Rightarrow> uuid \<Rightarrow> bool" where
  "org_admin_of db u i \<longleftrightarrow> (\<exists>m. membership_find db u = Inr (Some m) \<and> member_role m = Role_OrgAdmin \<and>
     member_organization_id m = Some (OrganizationId i))"

lemma create_organization_changes:
  "fst (create_organization cfg rq name d l db) \<noteq> db \<Longrightarrow>
   \<exists>u. api_actor cfg rq db = Inr (Actor_Reviewer u) \<and> platform_admin db u"
  unfolding create_organization_def Let_def
  by (elim finish_bind_changes) (auto simp: require_platform_admin_Inr platform_admin_def)

lemma set_trust_grants_changes:
  "fst (set_trust_grants cfg rq i its vs db) \<noteq> db \<Longrightarrow>
   \<exists>u. api_actor cfg rq db = Inr (Actor_Reviewer u) \<and> platform_admin db u"
  unfolding set_trust_grants_def Let_def
  by (elim finish_bind_changes) (auto simp: require_platform_admin_Inr platform_admin_def)

lemma set_organization_active_changes:
  "fst (set_organization_active cfg rq i b db) \<noteq> db \<Longrightarrow>
   \<exists>u. api_actor cfg rq db = Inr (Actor_Reviewer u) \<and> platform_admin db u"
  unfolding set_organization_active_def Let_def
  by (elim finish_bind_changes) (auto simp: require_platform_admin_Inr platform_admin_def)

lemma set_profile_institution:
  assumes "organization_set_profile_audited i d l c u rid k db = Inr db'"
  shows "map institution (db_organizations db') = map institution (db_organizations db)"
    and "db_memberships db' = db_memberships db"
  using record_audit_frame(1,2) [OF assms [unfolded organization_set_profile_audited_def]]
  by (auto simp: update_organization_def institution_def)

lemma update_profile_changes:
  assumes "fst (update_organization_profile cfg rq i c d l db) \<noteq> db"
  shows "\<exists>u. api_actor cfg rq db = Inr (Actor_Reviewer u) \<and> (platform_admin db u \<or> org_admin_of db u i)"
    and "map institution (db_organizations (fst (update_organization_profile cfg rq i c d l db))) =
      map institution (db_organizations db)"
proof -
  show "\<exists>u. api_actor cfg rq db = Inr (Actor_Reviewer u) \<and> (platform_admin db u \<or> org_admin_of db u i)"
    using assms unfolding update_organization_profile_def Let_def
    by (elim finish_bind_changes)
       (auto simp: require_platform_admin_or_org_admin_of_Inr platform_admin_def org_admin_of_def)
  show "map institution (db_organizations (fst (update_organization_profile cfg rq i c d l db))) =
      map institution (db_organizations db)"
    using assms unfolding update_organization_profile_def Let_def
    by (elim finish_bind_changes)
       (auto split: if_splits elim!: finish_bind_changes simp: map_err_Inr dest: set_profile_institution(1))
qed


section \<open>What a request keeps\<close>

text \<open>The directory stays sound, and who is registered with which membership is not touched.\<close>

definition directory_kept :: "database \<Rightarrow> database \<Rightarrow> bool" where
  "directory_kept db db' \<longleftrightarrow> (access_ok db \<longrightarrow> access_ok db') \<and> db_memberships db' = db_memberships db \<and>
     db_reviewers db' = db_reviewers db"

lemma directory_kept_refl: "directory_kept db db"
  by (simp add: directory_kept_def)

lemma directory_kept_trans: "directory_kept d1 d2 \<Longrightarrow> directory_kept d2 d3 \<Longrightarrow> directory_kept d1 d3"
  by (simp add: directory_kept_def)

lemma directory_kept_op:
  "access_apply db x = Inr (db', u) \<Longrightarrow> db_memberships db' = db_memberships db \<Longrightarrow> db_reviewers db' = db_reviewers db \<Longrightarrow>
   directory_kept db db'"
  by (auto simp: directory_kept_def intro: access_apply_ok)

lemma organization_ops_kept:
  "organization_create g db = Inr db' \<Longrightarrow> directory_kept db db'"
  "organization_set_consumer_id i c db = Inr db' \<Longrightarrow> directory_kept db db'"
  "organization_set_profile_audited i a b con u rid k db = Inr db' \<Longrightarrow> directory_kept db db'"
  "directory_kept db (organization_set_trust_grants i its vs db)"
  "directory_kept db (organization_set_active i active db)"
proof -
  show "organization_create g db = Inr db' \<Longrightarrow> directory_kept db db'"
    by (rule directory_kept_op [where x = "Access_CreateOrganization g"])
      (auto simp: map_ok_Inr organization_create_def bind_result_Inr split: if_splits)
  show "organization_set_consumer_id i c db = Inr db' \<Longrightarrow> directory_kept db db'"
    by (rule directory_kept_op [where x = "Access_SetConsumer i c"])
      (auto simp: map_ok_Inr organization_set_consumer_id_def split: if_splits)
  show "organization_set_profile_audited i a b con u rid k db = Inr db' \<Longrightarrow> directory_kept db db'"
    by (rule directory_kept_op [where x = "Access_SetProfileAudited i a b con u rid k"])
      (auto simp: map_ok_Inr organization_set_profile_audited_def dest: record_audit_frame)
  show "directory_kept db (organization_set_trust_grants i its vs db)"
    by (rule directory_kept_op [where x = "Access_SetTrust i its vs"]) (simp_all add: organization_set_trust_grants_def)
  show "directory_kept db (organization_set_active i active db)"
    by (rule directory_kept_op [where x = "Access_SetActive i active"]) (simp_all add: organization_set_active_def)
qed

lemma consumer_create_kept: "consumer_repo_create c db = Inr db' \<Longrightarrow> directory_kept db db'"
  by (auto simp: directory_kept_def consumer_repo_create_def consumer_insert_def bind_result_Inr
      intro: access_ok_cong split: if_splits)

lemma finish_kept:
  assumes "\<And>x. r = Inr x \<Longrightarrow> directory_kept db (fst (finish db (k x)))"
  shows "directory_kept db (fst (finish db (bind_result r k)))"
  using assms by (cases r) (simp_all add: directory_kept_refl)

lemma create_organization_kept: "directory_kept db (fst (create_organization cfg rq name d l db))"
  unfolding create_organization_def Let_def
  by (intro finish_kept)
    (auto simp: map_err_Inr split: sum.splits
      dest!: organization_ops_kept(1,2) consumer_create_kept elim: directory_kept_trans)

lemma update_organization_profile_kept: "directory_kept db (fst (update_organization_profile cfg rq i c d l db))"
  unfolding update_organization_profile_def Let_def
  by (intro finish_kept) (auto simp: directory_kept_refl map_err_Inr intro!: finish_kept dest: organization_ops_kept(3))

lemma organization_handle_kept: "directory_kept db (organization_handle cfg rq call db)"
proof (cases call)
  case (OrganizationCall_Create name d l)
  then show ?thesis using create_organization_kept by simp
next
  case (OrganizationCall_SetTrust i its vs)
  have "directory_kept db (fst (set_trust_grants cfg rq i its vs db))"
    unfolding set_trust_grants_def Let_def by (intro finish_kept) (simp add: organization_ops_kept)
  with OrganizationCall_SetTrust show ?thesis by simp
next
  case (OrganizationCall_UpdateProfile i c d l)
  then show ?thesis using update_organization_profile_kept by simp
next
  case (OrganizationCall_SetActive i b)
  have "directory_kept db (fst (set_organization_active cfg rq i b db))"
    unfolding set_organization_active_def Let_def by (intro finish_kept) (simp add: organization_ops_kept)
  with OrganizationCall_SetActive show ?thesis by simp
qed

section \<open>Onboarding\<close>

lemma failed_write_Inr:
  "(case r of Inl e \<Rightarrow> (d, Inl (f e)) | Inr x \<Rightarrow> k x) = (d', Inr y) \<longleftrightarrow> (\<exists>x. r = Inr x \<and> k x = (d', Inr y))"
  by (cases r) auto

lemma find_append_new: "x \<notin> k ` set rs \<Longrightarrow> k r = x \<Longrightarrow> find (\<lambda>y. k y = x) (rs @ [r]) = Some r"
  by (induction rs) auto

lemma find_append_none: "\<forall>x \<in> set rs. \<not> P x \<Longrightarrow> find P (rs @ [r]) = (if P r then Some r else None)"
  by (induction rs) auto

lemma create_organization_Inr:
  assumes "create_organization cfg rq name d l db = (db', Inr (st, resp))"
  shows "\<exists>u g db1 c db2 stored. api_actor cfg rq db = Inr (Actor_Reviewer u) \<and> platform_admin db u \<and>
    organization_new (request_ids rq 0) name = Inr g \<and>
    organization_create (organization_with_profile g (nonblank d) (nonblank l)) db = Inr db1 \<and>
    consumer_new (request_ids rq 1) ConsumerType_Organization (organization_name g) = Inr c \<and>
    consumer_repo_create c db1 = Inr db2 \<and>
    organization_set_consumer_id (organization_id g) (consumer_id c) db2 = Inr db' \<and>
    organization_find_by_id db' (organization_id g) = Inr (Some stored) \<and> st = 201 \<and> resp = organization_response stored"
proof -
  have w [simp]: "organization_id (organization_with_profile g x y) = organization_id g"
    "organization_name (organization_with_profile g x y) = organization_name g" for g x y
    by (simp_all add: organization_with_profile_def)
  show ?thesis
    using assms
    unfolding create_organization_def Let_def finish_Inr bind_result_Inr map_err_Inr ok_or_Inr sum.inject
      require_platform_admin_Inr reload_organization_def platform_admin_def w failed_write_Inr prod.inject
    by blast
qed

text \<open>The row of an organization with the given id and consumer, the rest as \<open>create\<close> leaves it.\<close>

definition new_organization_row :: "organization \<Rightarrow> uuid option \<Rightarrow> organization_row" where
  "new_organization_row g c =
     \<lparr>organization_row_id = organization_uuid (organization_id g), organization_row_name = organization_name g,
      organization_row_description = organization_description g, organization_row_location = organization_location g,
      organization_row_incident_types = [], organization_row_alert_visibilities = [],
      organization_row_consumer_id = c, organization_row_is_active = True, organization_row_contact = None\<rparr>"

lemma organization_linked:
  assumes "organization_create g db = Inr db1" and "consumer_repo_create c db1 = Inr db2"
    and "organization_set_consumer_id (organization_id g) (consumer_id c) db2 = Inr db3"
  shows "db_organizations db3 = db_organizations db @ [new_organization_row g (Some (consumer_uuid (consumer_id c)))]"
    and "organization_uuid (organization_id g) \<notin> organization_row_id ` set (db_organizations db)"
    and "\<forall>r \<in> set (db_organizations db). organization_row_consumer_id r \<noteq> Some (consumer_uuid (consumer_id c))"
    and "consumer_find_by_id db3 (consumer_id c) = Inr (Some c)"
proof -
  have 1: "db_organizations db1 = db_organizations db @ [new_organization_row g None]"
    "organization_uuid (organization_id g) \<notin> organization_row_id ` set (db_organizations db)"
    using assms(1) by (auto simp: organization_create_def new_organization_row_def bind_result_Inr insert_row_Inr
        split: if_splits)
  have 2: "db_organizations db2 = db_organizations db1"
    "consumer_find_by_id db2 (consumer_id c) = Inr (Some c)"
    using assms(2) by (auto simp: consumer_repo_create_def consumer_insert_def bind_result_Inr insert_row_Inr
        consumer_find_by_id_def find_append_new consumer_from_row_def consumer_reconstitute_def ok_or_def
        consumer_type_db.from_to split: if_splits)
  have 3: "db3 = update_organization (organization_id g)
      (\<lambda>r. r\<lparr>organization_row_consumer_id := Some (consumer_uuid (consumer_id c))\<rparr>) db2"
    "\<forall>r \<in> set (db_organizations db2). organization_row_id r \<noteq> organization_uuid (organization_id g) \<longrightarrow>
        organization_row_consumer_id r \<noteq> Some (consumer_uuid (consumer_id c))"
    using assms(3) 1 2(1) by (auto simp: organization_set_consumer_id_def new_organization_row_def split: if_splits)
  have "map (\<lambda>r. if organization_row_id r = organization_uuid (organization_id g)
      then r\<lparr>organization_row_consumer_id := Some (consumer_uuid (consumer_id c))\<rparr> else r) (db_organizations db) =
      db_organizations db" using 1(2) by (intro map_idI) (auto simp: image_iff)
  then show "db_organizations db3 = db_organizations db @ [new_organization_row g (Some (consumer_uuid (consumer_id c)))]"
    using 1(1) 2(1) 3(1) by (simp add: update_organization_def new_organization_row_def)
  show "organization_uuid (organization_id g) \<notin> organization_row_id ` set (db_organizations db)" by (rule 1(2))
  show "\<forall>r \<in> set (db_organizations db). organization_row_consumer_id r \<noteq> Some (consumer_uuid (consumer_id c))"
    using 1 2(1) 3(2) by (force simp: image_iff)
  show "consumer_find_by_id db3 (consumer_id c) = Inr (Some c)"
    using 2(2) 3(1) by (simp add: consumer_find_by_id_def update_organization_def)
qed

text \<open>A new organization is stored active, under its trimmed name and without any trust grant, so that it may
  neither verify a case nor issue an alert; it owns a new consumer of the same name, which the members can
  manage, and the organizations stored before are as they were.\<close>

theorem organization_onboarded:
  assumes "create_organization cfg rq name d l db = (db', Inr (st, resp))"
  shows "\<exists>g c row. organization_find_by_id db' (OrganizationId (request_ids rq 0)) = Inr (Some g) \<and>
    st = 201 \<and> resp = organization_response g \<and> organization_name g = trim name \<and> organization_is_active g \<and>
    (\<forall>it. \<not> may_verify g it) \<and> (\<forall>v. \<not> may_issue_alert g v) \<and>
    organization_consumer_id g = Some (consumer_id c) \<and> consumer_find_by_id db' (consumer_id c) = Inr (Some c) \<and>
    consumer_name c = trim name \<and> consumer_type c = ConsumerType_Organization \<and>
    organization_find_id_by_consumer db' (consumer_id c) = Some (organization_id g) \<and>
    db_organizations db' = db_organizations db @ [row]"
proof -
  obtain g db1 c db2 stored where new: "organization_new (request_ids rq 0) name = Inr g"
    and w: "organization_create (organization_with_profile g (nonblank d) (nonblank l)) db = Inr db1"
      "consumer_new (request_ids rq 1) ConsumerType_Organization (organization_name g) = Inr c"
      "consumer_repo_create c db1 = Inr db2" "organization_set_consumer_id (organization_id g) (consumer_id c) db2 = Inr db'"
    and st: "organization_find_by_id db' (organization_id g) = Inr (Some stored)" "st = 201"
      "resp = organization_response stored"
    using create_organization_Inr [OF assms] by blast
  let ?g = "organization_with_profile g (nonblank d) (nonblank l)"
  have g: "organization_id g = OrganizationId (request_ids rq 0)" "organization_name g = trim name"
    using new by (auto simp: organization_new_def Let_def split: if_splits)
  have c: "consumer_name c = trim name" "consumer_type c = ConsumerType_Organization"
    using w(2) g by (auto simp: consumer_new_def Let_def trim_trim split: if_splits)
  have id: "organization_id ?g = organization_id g" "organization_name ?g = organization_name g"
    by (simp_all add: organization_with_profile_def)
  note linked = organization_linked [OF w(1) w(3), unfolded id, OF w(4)]
  have f: "find (\<lambda>r. organization_row_id r = organization_uuid (organization_id g)) (db_organizations db') =
      Some (new_organization_row ?g (Some (consumer_uuid (consumer_id c))))"
    unfolding linked(1) using linked(2) by (rule find_append_new) (simp add: new_organization_row_def id)
  have "organization_find_id_by_consumer db' (consumer_id c) = Some (organization_id g)"
    unfolding organization_find_id_by_consumer_def linked(1) using linked(3)
    by (simp add: find_append_none new_organization_row_def id)
  moreover have "stored = \<lparr>organization_id = organization_id g, organization_name = trim name,
      organization_description = nonblank d, organization_location = nonblank l, organization_contact = None,
      organization_verified_incident_types = [], organization_verified_alert_visibilities = [],
      organization_consumer_id = Some (consumer_id c), organization_is_active = True\<rparr>"
    using st(1) f g parse_trust(1) [of "[]"] parse_trust(2) [of "[]"]
    by (simp add: organization_find_by_id_def organization_from_row_def new_organization_row_def
        organization_reconstitute_def organization_with_contact_def organization_with_profile_def)
  ultimately show ?thesis
    using st g c linked(1,4) by (intro exI [of _ stored] exI [of _ c] exI) (auto simp: may_verify_def may_issue_alert_def)
qed

lemma sample_gate_admin:
  "api_actor sample_config sample_request sample_gate_db = Inr (Actor_Reviewer 9)"
  "membership_find sample_gate_db 9 = Inr (Some \<lparr>member_role = Role_PlatformAdmin, member_organization_id = None\<rparr>)"
  by (rule sample_actor) (simp_all add: sample_gate_db_def membership_find_def role_from_db_def ok_or_def)

lemma sample_onboards:
  "\<exists>db' resp. create_organization sample_config sample_request (lit ''Red Cross'') None None sample_gate_db =
     (db', Inr (201, resp))"
proof -
  have new: "organization_new (request_ids sample_request 0) (lit ''Red Cross'') =
      Inr \<lparr>organization_id = OrganizationId 200, organization_name = lit ''Red Cross'', organization_description = None,
        organization_location = None, organization_contact = None, organization_verified_incident_types = [],
        organization_verified_alert_visibilities = [], organization_consumer_id = None, organization_is_active = True\<rparr>"
    "consumer_new (request_ids sample_request (Suc 0)) ConsumerType_Organization (lit ''Red Cross'') =
      Inr \<lparr>consumer_id = ConsumerId 201, consumer_name = lit ''Red Cross'', consumer_type = ConsumerType_Organization,
        consumer_locale = None\<rparr>"
    by (simp_all add: organization_new_def consumer_new_def trim_def lit_def is_whitespace_def sample_request_def Let_def)
  have "\<not> btrim_blank (lit ''Red Cross'')" by (simp add: btrim_blank_def lit_def)
  moreover have "db_organizations sample_gate_db = []" "db_consumers sample_gate_db = []"
    by (simp_all add: sample_gate_db_def empty_database_def)
  ultimately show ?thesis
    by (simp add: create_organization_def sample_gate_admin require_platform_admin_def new Let_def nonblank_def
        organization_with_profile_def organization_create_def consumer_repo_create_def consumer_insert_def insert_row_def
        organization_set_consumer_id_def reload_organization_def organization_find_by_id_def update_organization_def
        organization_from_row_def parse_incident_types_def parse_alert_visibilities_def ok_or_def)
qed

theorem organization_onboarded_witness:
  "\<exists>db' resp g. create_organization sample_config sample_request (lit ''Red Cross'') None None sample_gate_db =
     (db', Inr (201, resp)) \<and> organization_find_by_id db' (OrganizationId (request_ids sample_request 0)) = Inr (Some g) \<and>
     organization_is_active g \<and> \<not> may_verify g IncidentType_MissingChild"
  using sample_onboards organization_onboarded [of sample_config sample_request "lit ''Red Cross''" None None sample_gate_db]
  by blast

end
