(* ===== verification/Auth_Api.thy ===== *)
theory Auth_Api
  imports Organization_Api Authorization_Model
begin

text \<open>
  Accounts and sessions: the check of a Google identity (\<open>crates/infrastructure/src/google_identity.rs\<close>) and the
  endpoints \<open>register\<close>, \<open>google_login\<close> and \<open>logout\<close> (\<open>apps/api/src/auth.rs\<close>). Google's answer is an argument; the
  invitation that is handed to the mailer, whose outcome is ignored, is part of the result. What is shown: who may
  register whom, that every account has a membership, and from when to when a session is accepted.
\<close>

definition auth_persistence_failed :: "uuid \<Rightarrow> api_error" where
  "auth_persistence_failed rid =
     api_error 500 ''REVIEWER_PERSISTENCE_FAILED'' ''The request could not be saved. Please try again.'' rid"

definition auth_not_authorized :: "uuid \<Rightarrow> api_error" where
  "auth_not_authorized rid = api_error 403 ''NOT_AUTHORIZED''
     ''You are not authorized to register a reviewer with this role/organization.'' rid"

section \<open>Google identities\<close>

record token_info =
  info_aud :: "rstring option"
  info_email :: "rstring option"
  info_email_verified :: "rstring option"

definition validate_token_info :: "token_info \<Rightarrow> rstring \<Rightarrow> rstring + rstring" where
  "validate_token_info info expected_client_id =
     (if info_aud info \<noteq> Some expected_client_id then Inl (lit ''id token was not issued for this application'')
      else if info_email_verified info \<noteq> Some (lit ''true'') then Inl (lit ''Google account email is not verified'')
      else ok_or (lit ''Google did not return an email'') (info_email info))"

text \<open>What the endpoint answers: nothing, or a status and a body that may or may not decode.\<close>

datatype token_reply = Token_Unreachable | Token_Reply (reply_success: bool) (reply_body: "token_info option")

definition fetch_token_info :: "(rstring \<Rightarrow> token_reply) \<Rightarrow> rstring \<Rightarrow> rstring + token_info" where
  "fetch_token_info google id_token =
     (case google id_token of
        Token_Unreachable \<Rightarrow> Inl (lit ''could not reach Google to verify this sign-in'')
      | Token_Reply success body \<Rightarrow>
          if \<not> success then Inl (lit ''Google rejected this id token'')
          else ok_or (lit ''unexpected response from Google'') body)"

definition verify_id_token :: "(rstring \<Rightarrow> token_reply) \<Rightarrow> rstring \<Rightarrow> rstring \<Rightarrow> rstring + rstring" where
  "verify_id_token google expected_client_id id_token =
     bind_result (fetch_token_info google id_token) (\<lambda>info. validate_token_info info expected_client_id)"

section \<open>Registration\<close>

record register_request =
  register_email :: rstring
  register_role :: "role option"
  register_organization_id :: "uuid option"

record register_response =
  registered_reviewer_id :: uuid
  registered_email :: rstring
  registered_role :: role
  registered_organization_id :: "uuid option"

record invitation =
  invite_to :: rstring
  invite_role :: role
  invite_organization_name :: "rstring option"

text \<open>What a registration has read and checked before its first write.\<close>

record registration =
  registration_actor :: actor
  registration_role :: role
  registration_organization :: "organization_id option"
  registration_organization_name :: "rstring option"
  registration_email :: rstring

definition requested_membership :: "u64 \<Rightarrow> register_request \<Rightarrow> uuid \<Rightarrow> api_error + role \<times> organization_id option" where
  "requested_membership existing req rid =
     (if existing = 0 then Inr (Role_PlatformAdmin, None)
      else
      bind_result (ok_or (api_error 400 ''MISSING_ROLE'' ''role is required.'' rid) (register_role req)) (\<lambda>ro.
      let org = map_option OrganizationId (register_organization_id req) in
      bind_result (map_err (\<lambda>_. api_error 400 ''INVALID_MEMBERSHIP_SHAPE''
          ''PlatformAdmin must have no organization_id; OrgAdmin and Member must each have one.'' rid)
        (validate_membership_shape ro org)) (\<lambda>_.
      Inr (ro, org))))"

definition joined_organization :: "database \<Rightarrow> organization_id option \<Rightarrow> uuid \<Rightarrow> api_error + rstring option" where
  "joined_organization db org rid =
     (case org of
        None \<Rightarrow> Inr None
      | Some i \<Rightarrow>
          bind_result (bind_result (map_err (\<lambda>_. auth_persistence_failed rid) (organization_find_by_id db i))
            (ok_or (api_error 400 ''ORGANIZATION_NOT_FOUND'' ''No organization exists with the given id.'' rid))) (\<lambda>g.
          if \<not> organization_is_active g
          then Inl (api_error 409 ''ORGANIZATION_INACTIVE''
                 ''This organization is deactivated and cannot register new members.'' rid)
          else Inr (Some (organization_name g))))"

definition register_decide :: "api_config \<Rightarrow> api_request \<Rightarrow> register_request \<Rightarrow> database \<Rightarrow> api_error + registration" where
  "register_decide cfg rq req db =
     (let rid = api_request_id cfg rq in
      bind_result (api_actor cfg rq db) (\<lambda>a.
      let existing = of_nat (reviewer_count db) :: u64 in
      bind_result (requested_membership existing req rid) (\<lambda>(ro, org).
      bind_result (case a of
          Actor_Reviewer u \<Rightarrow> map_err (\<lambda>_. auth_persistence_failed rid) (membership_find db u)
        | _ \<Rightarrow> Inr None) (\<lambda>granter.
      bind_result (map_err (\<lambda>_. auth_not_authorized rid) (authorize_membership_grant granter existing ro org)) (\<lambda>_.
      bind_result (joined_organization db org rid) (\<lambda>name.
      let email = trim (register_email req) in
      if email = [] \<or> \<not> str_contains email (lit ''@'')
      then Inl (api_error 400 ''INVALID_EMAIL'' ''email must be a non-blank address.'' rid)
      else Inr \<lparr>registration_actor = a, registration_role = ro, registration_organization = org,
                registration_organization_name = name, registration_email = email\<rparr>))))))"

text \<open>Three separate writes, the account first. The ids drawn are the reviewer's and the audit row's.\<close>

definition register_write ::
  "uuid \<Rightarrow> (nat \<Rightarrow> uuid) \<Rightarrow> registration \<Rightarrow> database \<Rightarrow> database \<times> (api_error + nat \<times> register_response \<times> invitation)" where
  "register_write rid ids p db =
     (let u = ids 0 in
      case reviewer_create u (registration_email p) db of
        Inl _ \<Rightarrow> (db, Inl (auth_persistence_failed rid))
      | Inr (_, CreateReviewer_EmailAlreadyRegistered) \<Rightarrow>
          (db, Inl (api_error 409 ''EMAIL_ALREADY_REGISTERED'' ''An account with this email already exists.'' rid))
      | Inr (db1, CreateReviewer_Created) \<Rightarrow>
     (case membership_add u (registration_role p) (registration_organization p) db1 of
        Inl _ \<Rightarrow> (db1, Inl (auth_persistence_failed rid))
      | Inr db2 \<Rightarrow>
     (case record_registration (ids 1) u (registration_actor p) rid db2 of
        Inl _ \<Rightarrow> (db2, Inl (auth_persistence_failed rid))
      | Inr db3 \<Rightarrow>
          (db3, Inr (201,
             \<lparr>registered_reviewer_id = u, registered_email = registration_email p,
              registered_role = registration_role p,
              registered_organization_id = map_option organization_uuid (registration_organization p)\<rparr>,
             \<lparr>invite_to = registration_email p, invite_role = registration_role p,
              invite_organization_name = registration_organization_name p\<rparr>)))))"

definition register ::
  "api_config \<Rightarrow> api_request \<Rightarrow> register_request \<Rightarrow> database \<Rightarrow>
   database \<times> (api_error + nat \<times> register_response \<times> invitation)" where
  "register cfg rq req db =
     finish db (bind_result (register_decide cfg rq req db) (\<lambda>p.
       Inr (register_write (api_request_id cfg rq) (request_ids rq) p db)))"

section \<open>Login and logout\<close>

record login_response =
  login_token :: rstring
  login_expires_in_seconds :: u64
  login_reviewer_id :: uuid
  login_email :: rstring
  login_role :: role
  login_organization_id :: "uuid option"

text \<open>The verifier of identities and the issuer of sessions are arguments. An account that is not found is
  recorded; an account without a membership is a panic.\<close>

definition google_login ::
  "(rstring \<Rightarrow> rstring + rstring) \<Rightarrow> (uuid \<Rightarrow> u64 \<Rightarrow> issued_session_token) \<Rightarrow> api_config \<Rightarrow> api_request \<Rightarrow> rstring \<Rightarrow>
   database \<times> rate_limit_windows \<Rightarrow> (database \<times> rate_limit_windows) \<times> (api_error + login_response)" where
  "google_login verifier issue cfg rq id_token s =
     (let rid = api_request_id cfg rq; (db, limits) = s in
      case enforce_rate_limit limits Scope_ReviewerLoginAttempt (source_key_from_headers (request_headers rq))
             (request_now rq) rid of
        (limits', Inl e) \<Rightarrow> ((db, limits'), Inl e)
      | (limits', Inr _) \<Rightarrow>
     (case verifier id_token of
        Inl _ \<Rightarrow> ((db, limits'), Inl (api_error 401 ''INVALID_GOOGLE_TOKEN'' ''Google could not verify this sign-in.'' rid))
      | Inr email \<Rightarrow>
     (let normalized = to_lowercase (trim email) in
      case reviewer_find_by_email db normalized of
        None \<Rightarrow>
         (case record_login_failure (request_ids rq 0) None normalized rid db of
            Inl _ \<Rightarrow> ((db, limits'), Inl (auth_persistence_failed rid))
          | Inr db' \<Rightarrow> ((db', limits'), Inl (api_error 403 ''REVIEWER_NOT_REGISTERED''
                 ''This Google account is not registered as a reviewer.'' rid)))
      | Some u \<Rightarrow>
         (case record_login_success (request_ids rq 0) u rid db of
            Inl _ \<Rightarrow> ((db, limits'), Inl (auth_persistence_failed rid))
          | Inr db' \<Rightarrow>
         (case bind_result (membership_find db' u) (ok_or DbPanic) of
            Inl _ \<Rightarrow> ((db', limits'), Inl (auth_persistence_failed rid))
          | Inr m \<Rightarrow>
              (let issued = issue u (of_nat (request_now rq)) in
               ((db', limits'), Inr
                 \<lparr>login_token = issued_token issued, login_expires_in_seconds = issued_expires_in issued,
                  login_reviewer_id = u, login_email = normalized, login_role = member_role m,
                  login_organization_id = map_option organization_uuid (member_organization_id m)\<rparr>)))))))"

text \<open>The database's clock reads \<open>micros\<close> microseconds after the full second.\<close>

definition logout :: "api_config \<Rightarrow> api_request \<Rightarrow> nat \<Rightarrow> database \<Rightarrow> database \<times> (api_error + nat)" where
  "logout cfg rq micros db =
     (let rid = api_request_id cfg rq in
      finish db (
      bind_result (api_actor cfg rq db) (\<lambda>a.
      bind_result (case a of
          Actor_Reviewer u \<Rightarrow> Inr u
        | _ \<Rightarrow> Inl (api_error 401 ''NOT_AUTHENTICATED'' ''Logout requires an authenticated session.'' rid)) (\<lambda>u.
      let db1 = revoke_all_sessions (request_now rq * 1000000 + micros) u db in
      Inr (case record_logout (request_ids rq 0) u rid db1 of
        Inl _ \<Rightarrow> (db1, Inl (auth_persistence_failed rid))
      | Inr db2 \<Rightarrow> (db2, Inr 204))))))"

section \<open>What a registration writes\<close>

lemma reviewer_create_Created:
  "reviewer_create u email db = Inr (db', CreateReviewer_Created) \<longleftrightarrow>
     \<not> btrim_blank email \<and> u \<notin> reviewer_row_id ` set (db_reviewers db) \<and>
     to_lowercase email \<notin> (\<lambda>r. to_lowercase (reviewer_row_email r)) ` set (db_reviewers db) \<and>
     db' = db\<lparr>db_reviewers := db_reviewers db @
       [\<lparr>reviewer_row_id = u, reviewer_row_email = email, reviewer_row_sessions_revoked_at = None\<rparr>]\<rparr>"
  by (auto simp: reviewer_create_def)

lemma membership_add_Inr:
  "membership_add u ro g db = Inr db' \<longleftrightarrow>
     (ro = Role_PlatformAdmin \<longleftrightarrow> g = None) \<and> u \<notin> membership_row_reviewer_id ` set (db_memberships db) \<and>
     u \<in> reviewer_row_id ` set (db_reviewers db) \<and>
     (\<forall>i. g = Some i \<longrightarrow> organization_uuid i \<in> organization_row_id ` set (db_organizations db)) \<and>
     db' = db\<lparr>db_memberships := db_memberships db @
       [\<lparr>membership_row_reviewer_id = u, membership_row_role = role_to_db ro,
         membership_row_organization_id = map_option organization_uuid g\<rparr>]\<rparr>"
  by (auto simp: membership_add_def)

lemma membership_find_append:
  assumes "db_memberships db' = db_memberships db @
      [\<lparr>membership_row_reviewer_id = u, membership_row_role = role_to_db ro,
        membership_row_organization_id = map_option organization_uuid g\<rparr>]"
    and "u \<notin> membership_row_reviewer_id ` set (db_memberships db)"
  shows "membership_find db' v =
    (if v = u then Inr (Some \<lparr>member_role = ro, member_organization_id = g\<rparr>) else membership_find db v)"
proof -
  let ?r = "\<lparr>membership_row_reviewer_id = u, membership_row_role = role_to_db ro,
        membership_row_organization_id = map_option organization_uuid g\<rparr>"
  have other: "v \<noteq> u \<Longrightarrow> find (\<lambda>m. membership_row_reviewer_id m = v) (ms @ [?r]) = find (\<lambda>m. membership_row_reviewer_id m = v) ms"
    for ms by (induction ms) auto
  show ?thesis
  proof (cases "v = u")
    case True
    have "find (\<lambda>m. membership_row_reviewer_id m = u) (db_memberships db @ [?r]) = Some ?r"
      by (rule find_append_new [OF assms(2)]) simp
    then show ?thesis
      using True assms(1) by (cases g) (simp_all add: membership_find_def role_db.from_to ok_or_def)
  next
    case False
    then show ?thesis unfolding membership_find_def assms(1) by (simp add: other)
  qed
qed

lemma register_write_Inr:
  assumes "register_write rid ids p db = (db', Inr (st, resp, invite))"
  shows "\<exists>db1 db2. reviewer_create (ids 0) (registration_email p) db = Inr (db1, CreateReviewer_Created) \<and>
    membership_add (ids 0) (registration_role p) (registration_organization p) db1 = Inr db2 \<and>
    record_registration (ids 1) (ids 0) (registration_actor p) rid db2 = Inr db' \<and> st = 201 \<and>
    resp = \<lparr>registered_reviewer_id = ids 0, registered_email = registration_email p,
            registered_role = registration_role p,
            registered_organization_id = map_option organization_uuid (registration_organization p)\<rparr> \<and>
    invite = \<lparr>invite_to = registration_email p, invite_role = registration_role p,
              invite_organization_name = registration_organization_name p\<rparr>"
  using assms by (auto simp: register_write_def Let_def split: sum.splits prod.splits create_reviewer_outcome.splits)

lemma register_write_effect:
  assumes "register_write rid ids p db = (db', Inr (st, resp, invite))"
  shows "membership_find db' v =
      (if v = ids 0 then Inr (Some \<lparr>member_role = registration_role p, member_organization_id = registration_organization p\<rparr>)
       else membership_find db v)"
    and "reviewer_find_by_email db' (registration_email p) = Some (ids 0)"
    and "db_organizations db' = db_organizations db"
proof -
  obtain db1 db2 where c: "reviewer_create (ids 0) (registration_email p) db = Inr (db1, CreateReviewer_Created)"
    and m: "membership_add (ids 0) (registration_role p) (registration_organization p) db1 = Inr db2"
    and r: "record_registration (ids 1) (ids 0) (registration_actor p) rid db2 = Inr db'"
    using register_write_Inr [OF assms] by blast
  note frame = record_audit_frame [OF r [unfolded record_registration_def reviewer_record_def]]
  have db1: "db_memberships db1 = db_memberships db" "db_organizations db1 = db_organizations db"
    "db_reviewers db1 = db_reviewers db @ [\<lparr>reviewer_row_id = ids 0, reviewer_row_email = registration_email p,
       reviewer_row_sessions_revoked_at = None\<rparr>]"
    "to_lowercase (registration_email p) \<notin> (\<lambda>r. to_lowercase (reviewer_row_email r)) ` set (db_reviewers db)"
    using c by (simp_all add: reviewer_create_Created)
  show "membership_find db' v =
      (if v = ids 0 then Inr (Some \<lparr>member_role = registration_role p, member_organization_id = registration_organization p\<rparr>)
       else membership_find db v)"
    by (rule membership_find_append) (use m frame db1 in \<open>simp_all add: membership_add_Inr\<close>)
  have "db_reviewers db2 = db_reviewers db1" using m by (simp add: membership_add_Inr)
  then show "reviewer_find_by_email db' (registration_email p) = Some (ids 0)"
    unfolding reviewer_find_by_email_def frame(3) using db1
    by (simp add: find_append_new [where k = "\<lambda>r. to_lowercase (reviewer_row_email r)"])
  show "db_organizations db' = db_organizations db" using m frame db1 by (simp add: membership_add_Inr)
qed

lemma register_decide_Inr:
  assumes "register_decide cfg rq req db = Inr p" and "length (db_reviewers db) < 2 ^ 64"
  shows "api_actor cfg rq db = Inr (registration_actor p)"
    and "registration_email p = trim (register_email req)"
    and "registration_role p = Role_PlatformAdmin \<longleftrightarrow> registration_organization p = None"
    and "db_reviewers db = [] \<and> registration_role p = Role_PlatformAdmin \<or>
      (\<exists>v m. registration_actor p = Actor_Reviewer v \<and> membership_find db v = Inr (Some m) \<and>
         (member_role m = Role_PlatformAdmin \<or>
          member_role m = Role_OrgAdmin \<and> registration_role p = Role_Member \<and>
          registration_organization p = member_organization_id m))"
    and "registration_organization p = Some i \<Longrightarrow>
      \<exists>g. organization_find_by_id db i = Inr (Some g) \<and> organization_is_active g"
proof -
  let ?n = "of_nat (reviewer_count db) :: u64"
  obtain a ro org granter name where a: "api_actor cfg rq db = Inr a"
    and q: "requested_membership ?n req (api_request_id cfg rq) = Inr (ro, org)"
    and g: "(case a of Actor_Reviewer u \<Rightarrow> map_err (\<lambda>_. auth_persistence_failed (api_request_id cfg rq)) (membership_find db u)
              | _ \<Rightarrow> Inr None) = Inr granter"
    and grant: "authorize_membership_grant granter ?n ro org = Inr ()"
    and j: "joined_organization db org (api_request_id cfg rq) = Inr name"
    and p: "p = \<lparr>registration_actor = a, registration_role = ro, registration_organization = org,
        registration_organization_name = name, registration_email = trim (register_email req)\<rparr>"
    using assms(1) unfolding register_decide_def Let_def
    by (fastforce simp: bind_result_Inr map_err_Inr split: if_splits prod.splits)
  show "api_actor cfg rq db = Inr (registration_actor p)" using a p by simp
  show "registration_email p = trim (register_email req)" using p by simp
  have shape: "ro = Role_PlatformAdmin \<longleftrightarrow> org = None" and first: "?n = 0 \<Longrightarrow> ro = Role_PlatformAdmin"
    using q by (auto simp: requested_membership_def bind_result_Inr map_err_Inr validate_membership_shape_Inr Let_def
        split: if_splits)
  then show "registration_role p = Role_PlatformAdmin \<longleftrightarrow> registration_organization p = None" using p by simp
  have "?n = 0 \<longleftrightarrow> db_reviewers db = []"
    using assms(2) by (simp add: reviewer_count_def word_of_nat_eq_0_iff) (auto simp: dvd_def)
  then show "db_reviewers db = [] \<and> registration_role p = Role_PlatformAdmin \<or>
      (\<exists>v m. registration_actor p = Actor_Reviewer v \<and> membership_find db v = Inr (Some m) \<and>
         (member_role m = Role_PlatformAdmin \<or>
          member_role m = Role_OrgAdmin \<and> registration_role p = Role_Member \<and>
          registration_organization p = member_organization_id m))"
    using grant g first p by (auto simp: authorize_membership_grant_Inr map_err_Inr split: actor.splits)
  show "registration_organization p = Some i \<Longrightarrow>
      \<exists>g. organization_find_by_id db i = Inr (Some g) \<and> organization_is_active g"
    using j p by (auto simp: joined_organization_def bind_result_Inr map_err_Inr ok_or_Inr split: if_splits)
qed

text \<open>C30: Beyond the first account, which becomes a platform administrator, an account is registered only by a
  platform administrator, or by the administrator of an organization for an ordinary member of that
  organization; the organization joined is stored and active. Afterwards the given address leads to the new
  account, its membership is exactly the granted one, the invitation names it, and no other membership has
  changed.\<close>

theorem registration_authorized:
  assumes "register cfg rq req db = (db', Inr (st, resp, invite))" and "length (db_reviewers db) < 2 ^ 64"
  shows "(db_reviewers db = [] \<and> registered_role resp = Role_PlatformAdmin \<or>
      (\<exists>v m. api_actor cfg rq db = Inr (Actor_Reviewer v) \<and> membership_find db v = Inr (Some m) \<and>
         (member_role m = Role_PlatformAdmin \<or>
          member_role m = Role_OrgAdmin \<and> registered_role resp = Role_Member \<and>
          map_option OrganizationId (registered_organization_id resp) = member_organization_id m))) \<and>
    (\<forall>i. registered_organization_id resp = Some i \<longrightarrow>
      (\<exists>g. organization_find_by_id db' (OrganizationId i) = Inr (Some g) \<and> organization_is_active g)) \<and>
    reviewer_find_by_email db' (trim (register_email req)) = Some (registered_reviewer_id resp) \<and>
    invite_to invite = trim (register_email req) \<and> invite_role invite = registered_role resp \<and>
    (\<forall>v. membership_find db' v =
      (if v = registered_reviewer_id resp
       then Inr (Some \<lparr>member_role = registered_role resp,
                      member_organization_id = map_option OrganizationId (registered_organization_id resp)\<rparr>)
       else membership_find db v))"
proof -
  obtain p where p: "register_decide cfg rq req db = Inr p"
    and w: "register_write (api_request_id cfg rq) (request_ids rq) p db = (db', Inr (st, resp, invite))"
    using assms(1) by (auto simp: register_def finish_Inr bind_result_Inr)
  note d = register_decide_Inr [OF p assms(2)]
  have resp: "resp = \<lparr>registered_reviewer_id = request_ids rq 0, registered_email = registration_email p,
            registered_role = registration_role p,
            registered_organization_id = map_option organization_uuid (registration_organization p)\<rparr>"
    "invite_to invite = registration_email p" "invite_role invite = registration_role p"
    using register_write_Inr [OF w] by auto
  have org: "map_option OrganizationId (registered_organization_id resp) = registration_organization p"
    using resp by (cases "registration_organization p") auto
  have "organization_find_by_id db' i = organization_find_by_id db i" for i
    using register_write_effect(3) [OF w] by (simp add: organization_find_by_id_def)
  then have active: "\<forall>i. registered_organization_id resp = Some i \<longrightarrow>
      (\<exists>g. organization_find_by_id db' (OrganizationId i) = Inr (Some g) \<and> organization_is_active g)"
    using d(5) org by (metis option.simps(9))
  have who: "db_reviewers db = [] \<and> registered_role resp = Role_PlatformAdmin \<or>
      (\<exists>v m. api_actor cfg rq db = Inr (Actor_Reviewer v) \<and> membership_find db v = Inr (Some m) \<and>
         (member_role m = Role_PlatformAdmin \<or>
          member_role m = Role_OrgAdmin \<and> registered_role resp = Role_Member \<and>
          map_option OrganizationId (registered_organization_id resp) = member_organization_id m))"
    using d(1,4) resp(1) unfolding org by auto
  show ?thesis
    using who active resp(2,3) register_write_effect(1,2) [OF w] d(2) unfolding org by (simp add: resp(1))
qed

lemma sample_registers:
  "\<exists>db' resp invite. register sample_config sample_request
      \<lparr>register_email = lit ''a@b'', register_role = Some Role_PlatformAdmin, register_organization_id = None\<rparr>
      sample_gate_db = (db', Inr (201, resp, invite))"
proof -
  have d: "register_decide sample_config sample_request
      \<lparr>register_email = lit ''a@b'', register_role = Some Role_PlatformAdmin, register_organization_id = None\<rparr>
      sample_gate_db = Inr \<lparr>registration_actor = Actor_Reviewer 9, registration_role = Role_PlatformAdmin,
        registration_organization = None, registration_organization_name = None, registration_email = lit ''a@b''\<rparr>"
  proof -
    have "requested_membership n \<lparr>register_email = lit ''a@b'', register_role = Some Role_PlatformAdmin,
        register_organization_id = None\<rparr> rid = Inr (Role_PlatformAdmin, None)" for n rid
      by (simp add: requested_membership_def validate_membership_shape_def ok_or_def)
    moreover have "trim (lit ''a@b'') = lit ''a@b''" "str_contains (lit ''a@b'') (lit ''@'')" "lit ''a@b'' \<noteq> []"
      by (simp_all add: trim_def lit_def is_whitespace_def Let_def)
    ultimately show ?thesis
      by (simp add: register_decide_def sample_gate_admin authorize_membership_grant_def joined_organization_def)
  qed
  have "\<not> btrim_blank (lit ''a@b'')" "to_lowercase (lit ''a@b'') \<noteq> to_lowercase (lit ''r'')"
    by (simp_all add: btrim_blank_def lit_def to_lowercase_def char_lower_def)
  then show ?thesis
    by (simp add: register_def d register_write_def reviewer_create_def)
      (simp add: sample_gate_db_def empty_database_def sample_request_def membership_add_def record_registration_def
        reviewer_record_def record_audit_event_def insert_row_def organization_id_for_actor_def)
qed

theorem registration_authorized_witness:
  "\<exists>db' resp invite. register sample_config sample_request
      \<lparr>register_email = lit ''a@b'', register_role = Some Role_PlatformAdmin, register_organization_id = None\<rparr>
      sample_gate_db = (db', Inr (201, resp, invite)) \<and>
     reviewer_find_by_email db' (trim (lit ''a@b'')) = Some (registered_reviewer_id resp)"
proof -
  have "length (db_reviewers sample_gate_db) < 2 ^ 64" by (simp add: sample_gate_db_def)
  then show ?thesis using sample_registers registration_authorized by fastforce
qed

section \<open>Accounts and memberships\<close>

definition accounts_ok :: "database \<Rightarrow> bool" where
  "accounts_ok db \<longleftrightarrow> access_ok db \<and>
     membership_row_reviewer_id ` set (db_memberships db) = reviewer_row_id ` set (db_reviewers db)"

lemma find_Some_mem: "find P xs = Some x \<Longrightarrow> x \<in> set xs \<and> P x"
  by (auto simp: find_Some_iff)

lemma find_key_mem: "find (\<lambda>x. k x = y) xs \<noteq> None \<longleftrightarrow> y \<in> k ` set xs"
  by (induction xs) auto

lemma accounts_ok_kept: "accounts_ok db \<Longrightarrow> directory_kept db db' \<Longrightarrow> accounts_ok db'"
  by (simp add: accounts_ok_def directory_kept_def)

lemma record_kept: "reviewer_record k a act r rid meta db = Inr db' \<Longrightarrow> directory_kept db db'"
  unfolding reviewer_record_def directory_kept_def by (auto dest: record_audit_frame(2,3) intro: record_audit_ok)

lemma revoke_accounts: "accounts_ok db \<Longrightarrow> accounts_ok (revoke_all_sessions t u db)"
proof -
  assume ok: "accounts_ok db"
  have "reviewer_row_id ` set (db_reviewers (revoke_all_sessions t u db)) = reviewer_row_id ` set (db_reviewers db)"
    by (simp flip: set_map add: revoke_reviewer_ids)
  moreover have "access_ok (revoke_all_sessions t u db)"
    by (rule access_apply_ok [of db "Access_Revoke t u"]) (use ok in \<open>simp_all add: accounts_ok_def\<close>)
  ultimately show ?thesis using ok by (simp add: accounts_ok_def revoke_all_sessions_def)
qed

lemma register_write_accounts:
  assumes ok: "accounts_ok db" and shape: "registration_role p = Role_PlatformAdmin \<longleftrightarrow> registration_organization p = None"
    and org: "\<And>i. registration_organization p = Some i \<Longrightarrow> organization_uuid i \<in> organization_row_id ` set (db_organizations db)"
  shows "accounts_ok (fst (register_write rid ids p db))"
proof (cases "\<exists>db1. reviewer_create (ids 0) (registration_email p) db = Inr (db1, CreateReviewer_Created)")
  case False
  then have "fst (register_write rid ids p db) = db"
    by (auto simp: register_write_def Let_def split: sum.splits prod.splits create_reviewer_outcome.splits)
  with ok show ?thesis by simp
next
  case True
  then obtain db1 where c: "reviewer_create (ids 0) (registration_email p) db = Inr (db1, CreateReviewer_Created)" by blast
  have ok1: "access_ok db1"
    by (rule access_apply_ok [of db "Access_CreateReviewer (ids 0) (registration_email p)"])
      (use ok c in \<open>simp_all add: accounts_ok_def map_ok_Inr\<close>)
  have "\<exists>db2. membership_add (ids 0) (registration_role p) (registration_organization p) db1 = Inr db2"
    using c ok shape org by (auto simp: membership_add_Inr reviewer_create_Created accounts_ok_def)
  then obtain db2 where m: "membership_add (ids 0) (registration_role p) (registration_organization p) db1 = Inr db2" by blast
  have "access_ok db2" by (rule membership_add_ok [OF ok1 m])
  then have ok2: "accounts_ok db2"
    using c m ok by (simp add: accounts_ok_def membership_add_Inr reviewer_create_Created)
  then show ?thesis
    using c m accounts_ok_kept [OF ok2 record_kept]
    by (auto simp: register_write_def Let_def record_registration_def split: sum.splits)
qed

lemma register_accounts:
  assumes "accounts_ok db"
  shows "accounts_ok (fst (register cfg rq req db))"
proof (cases "register_decide cfg rq req db")
  case (Inl e)
  with assms show ?thesis by (simp add: register_def)
next
  case (Inr p)
  have "registration_role p = Role_PlatformAdmin \<longleftrightarrow> registration_organization p = None"
    and "registration_organization p = Some i \<Longrightarrow> \<exists>g. organization_find_by_id db i = Inr (Some g)" for i
    using Inr unfolding register_decide_def Let_def
    by (auto simp: bind_result_Inr map_err_Inr requested_membership_def validate_membership_shape_Inr Let_def
        joined_organization_def ok_or_Inr split: if_splits prod.splits)
  moreover have "organization_uuid i \<in> organization_row_id ` set (db_organizations db)"
    if "organization_find_by_id db i = Inr (Some g)" for i g
    using that find_key_mem [of organization_row_id "organization_uuid i"]
    by (auto simp: organization_find_by_id_def split: option.splits)
  ultimately have "accounts_ok (fst (register_write (api_request_id cfg rq) (request_ids rq) p db))"
    by (intro register_write_accounts [OF assms]) blast+
  with Inr show ?thesis by (simp add: register_def)
qed

lemma google_login_accounts:
  assumes "accounts_ok db"
  shows "accounts_ok (fst (fst (google_login verifier issue cfg rq tok (db, limits))))"
  using assms accounts_ok_kept [OF assms record_kept]
  by (auto simp: google_login_def record_login_success_def record_login_failure_def Let_def
      split: sum.splits option.splits prod.splits)

lemma logout_accounts:
  assumes "accounts_ok db"
  shows "accounts_ok (fst (logout cfg rq micros db))"
proof (cases "fst (logout cfg rq micros db) = db")
  case False
  then show ?thesis
    unfolding logout_def Let_def
    by (elim finish_bind_changes)
       (auto split: sum.splits intro: revoke_accounts assms accounts_ok_kept [OF revoke_accounts [OF assms] record_kept]
         simp: record_logout_def)
qed (simp add: assms)

text \<open>Requests in any order, each with its own headers, clock and drawn ids.\<close>

datatype account_call =
    AccountCall_Register register_request
  | AccountCall_Login rstring
  | AccountCall_Logout nat
  | AccountCall_Organization organization_call

fun account_handle ::
  "(rstring \<Rightarrow> rstring + rstring) \<Rightarrow> (uuid \<Rightarrow> u64 \<Rightarrow> issued_session_token) \<Rightarrow> api_config \<Rightarrow> api_request \<times> account_call \<Rightarrow>
   database \<times> rate_limit_windows \<Rightarrow> database \<times> rate_limit_windows" where
  "account_handle verifier issue cfg (rq, AccountCall_Register req) (db, limits) = (fst (register cfg rq req db), limits)"
| "account_handle verifier issue cfg (rq, AccountCall_Login tok) s = fst (google_login verifier issue cfg rq tok s)"
| "account_handle verifier issue cfg (rq, AccountCall_Logout micros) (db, limits) = (fst (logout cfg rq micros db), limits)"
| "account_handle verifier issue cfg (rq, AccountCall_Organization call) (db, limits) =
     (organization_handle cfg rq call db, limits)"

lemma account_handle_ok:
  assumes "accounts_ok (fst s)"
  shows "accounts_ok (fst (account_handle verifier issue cfg x s))"
proof -
  obtain db limits rq call where s: "s = (db, limits)" "x = (rq, call)" by (cases s, cases x)
  with assms show ?thesis
    by (cases call)
      (simp_all add: register_accounts google_login_accounts logout_accounts accounts_ok_kept [OF _ organization_handle_kept])
qed

lemma account_run_ok: "accounts_ok (fst s) \<Longrightarrow> accounts_ok (fst (fold (account_handle verifier issue cfg) xs s))"
  by (induction xs arbitrary: s) (simp_all add: account_handle_ok)


section \<open>The life of a session\<close>

lemma sint_of_small_nat: "n < 2 ^ 63 \<Longrightarrow> sint (of_nat n :: u64) = int n"
proof -
  assume n: "n < 2 ^ 63"
  have "sint (of_nat n :: u64) = signed_take_bit 63 (int n)"
    using sint_sbintrunc' [where 'a = 64, of "int n"] by simp
  with n show ?thesis by (simp add: signed_take_bit_int_eq_self)
qed

lemma google_login_Inr:
  assumes "google_login verifier issue cfg rq tok s = (s', Inr resp)"
  shows "login_token resp = issued_token (issue (login_reviewer_id resp) (of_nat (request_now rq)))"
    and "\<exists>email. verifier tok = Inr email \<and>
      reviewer_find_by_email (fst s) (to_lowercase (trim email)) = Some (login_reviewer_id resp)"
    and "\<exists>m. membership_find (fst s') (login_reviewer_id resp) = Inr (Some m) \<and> login_role resp = member_role m"
  using assms
  by (auto simp: google_login_def Let_def bind_result_Inr ok_or_Inr split: prod.splits sum.splits option.splits)

lemma verify_issued_session:
  assumes "uuid_text su pu" and "now + unat (issuer_ttl iss) < 2 ^ 63" and "later < 2 ^ 63"
  shows "session_verify hmac su pu iss (of_nat later) (issued_token (session_issue hmac su iss u (of_nat now))) =
    (if now + unat (issuer_ttl iss) < later then Inl TokenRejected
     else Inr \<lparr>verified_reviewer_id = u, verified_issued_at = of_nat now\<rparr>)"
proof -
  have n: "unat (of_nat now :: u64) = now" "unat (of_nat later :: u64) = later"
    using assms(2,3) by (simp_all add: unat_of_nat take_bit_nat_eq_self)
  have add: "unat (of_nat now + issuer_ttl iss) = now + unat (issuer_ttl iss)"
    using assms(2) n(1) unat_add_lem [of "of_nat now :: u64" "issuer_ttl iss"] by simp
  have "saturating_sub (of_nat now + issuer_ttl iss) (issuer_ttl iss) = of_nat now"
    using add by (simp add: saturating_sub_def word_less_nat_alt)
  then show ?thesis
    using session_verify_issue [OF assms(1)] by (simp add: add n word_less_nat_alt)
qed

lemma issued_actor:
  assumes cfg: "config_verify cfg = (\<lambda>t. session_verify hmac su pu iss (of_nat t))" and "uuid_text su pu"
    and "now + unat (issuer_ttl iss) < 2 ^ 63" and "request_now rq < 2 ^ 63"
    and hdr: "request_headers rq (lit ''Authorization'') =
      Some (Some (lit ''Bearer '' @ issued_token (session_issue hmac su iss u (of_nat now))))"
  shows "api_actor cfg rq db =
    (if now + unat (issuer_ttl iss) < request_now rq \<or> is_session_revoked db u (int now)
     then Inl (invalid_or_expired_session (api_request_id cfg rq)) else Inr (Actor_Reviewer u))"
proof -
  have "strip_prefix p (p @ x) = Some x" for p x by (simp add: strip_prefix_def starts_with_take)
  moreover have "sint (of_nat now :: u64) = int now" using assms(3) by (intro sint_of_small_nat) simp
  ultimately show ?thesis
    using verify_issued_session [OF assms(2-4), of hmac u]
    by (simp add: api_actor_def actor_from_headers_def hdr cfg ok_or_def)
qed

lemma logout_revokes:
  assumes "logout cfg rq micros db = (db', Inr st)" and "api_actor cfg rq db = Inr (Actor_Reviewer u)"
  shows "db_reviewers db' = db_reviewers (revoke_all_sessions (request_now rq * 1000000 + micros) u db)"
  using assms
  by (auto simp: logout_def record_logout_def reviewer_record_def Let_def split: sum.splits dest: record_audit_frame(3))

lemma revoked_by_reviewers: "db_reviewers d = db_reviewers d' \<Longrightarrow> is_session_revoked d u t = is_session_revoked d' u t"
  by (simp add: is_session_revoked_def)

lemma revoke_refuses:
  assumes "u \<in> reviewer_row_id ` set (db_reviewers db)"
  shows "is_session_revoked (revoke_all_sessions t u db) u i \<longleftrightarrow> i * 1000000 < int t"
proof -
  let ?f = "\<lambda>r. if reviewer_row_id r = u then r\<lparr>reviewer_row_sessions_revoked_at := Some t\<rparr> else r"
  obtain r where "find (\<lambda>r. reviewer_row_id r = u) (db_reviewers db) = Some r"
    using assms by (cases "find (\<lambda>r. reviewer_row_id r = u) (db_reviewers db)") (auto simp: find_None_iff)
  moreover from this have "reviewer_row_id r = u" by (auto dest: find_Some_mem)
  ultimately have "find (\<lambda>r. reviewer_row_id r = u) (map ?f (db_reviewers db)) = Some (r\<lparr>reviewer_row_sessions_revoked_at := Some t\<rparr>)"
    by (subst find_map_key) auto
  then show ?thesis by (simp add: is_session_revoked_def revoke_all_sessions_def)
qed

text \<open>C32: A login gives a token to the reviewer registered under the verified address, and to nobody else. A
  request that bears it counts as that reviewer's for the lifetime of the token, as long as the database has the
  reviewer and no revocation after the second of the login. Once the reviewer has logged out, in any session
  and by a clock that has moved on past the start of that second, the token is refused.\<close>

theorem session_lifetime:
  assumes cfg: "config_verify cfg = (\<lambda>t. session_verify hmac su pu iss (of_nat t))" and uuids: "uuid_text su pu"
    and login: "google_login verifier (session_issue hmac su iss) cfg rq tok s = (s', Inr resp)"
    and small: "request_now rq + unat (issuer_ttl iss) < 2 ^ 63" "request_now later < 2 ^ 63"
    and hdr: "request_headers later (lit ''Authorization'') = Some (Some (lit ''Bearer '' @ login_token resp))"
    and out: "logout cfg rq' micros db = (db', Inr st)"
      "api_actor cfg rq' db = Inr (Actor_Reviewer (login_reviewer_id resp))"
  shows "(\<exists>email. verifier tok = Inr email \<and>
      reviewer_find_by_email (fst s) (to_lowercase (trim email)) = Some (login_reviewer_id resp)) \<and>
    api_actor cfg later db =
      (if request_now rq + unat (issuer_ttl iss) < request_now later \<or>
          is_session_revoked db (login_reviewer_id resp) (int (request_now rq))
       then Inl (invalid_or_expired_session (api_request_id cfg later))
       else Inr (Actor_Reviewer (login_reviewer_id resp))) \<and>
    (api_actor cfg later db' = Inr (Actor_Reviewer (login_reviewer_id resp)) \<longleftrightarrow>
      request_now later \<le> request_now rq + unat (issuer_ttl iss) \<and>
      request_now rq' * 1000000 + micros \<le> request_now rq * 1000000)"
proof -
  note token = google_login_Inr [OF login]
  have actor: "api_actor cfg later d =
    (if request_now rq + unat (issuer_ttl iss) < request_now later \<or>
        is_session_revoked d (login_reviewer_id resp) (int (request_now rq))
     then Inl (invalid_or_expired_session (api_request_id cfg later))
     else Inr (Actor_Reviewer (login_reviewer_id resp)))" for d
    by (rule issued_actor [OF cfg uuids small]) (simp add: hdr token(1))
  obtain v :: verified_session_token where "\<not> is_session_revoked db (login_reviewer_id resp) (sint (verified_issued_at v))"
    using actor_from_headers_reviewer [OF out(2) [unfolded api_actor_def]] by blast
  then have stored: "login_reviewer_id resp \<in> reviewer_row_id ` set (db_reviewers db)"
    using find_key_mem [of reviewer_row_id "login_reviewer_id resp"] by (auto simp: is_session_revoked_def split: option.splits)
  have "is_session_revoked db' (login_reviewer_id resp) (int (request_now rq)) \<longleftrightarrow>
      int (request_now rq) * 1000000 < int (request_now rq' * 1000000 + micros)"
    using revoked_by_reviewers [OF logout_revokes [OF out]] revoke_refuses [OF stored] by simp
  then have "is_session_revoked db' (login_reviewer_id resp) (int (request_now rq)) \<longleftrightarrow>
      request_now rq * 1000000 < request_now rq' * 1000000 + micros" by linarith
  then show ?thesis using token(2) actor [of db'] actor [of db] by (auto simp: not_le not_less)
qed

definition sample_session_config :: api_config where
  "sample_session_config = sample_config\<lparr>config_verify :=
     (\<lambda>t. session_verify (\<lambda>k m. k @ m) hyphenated parse_hyphenated (session_issuer_new [1]) (of_nat t))\<rparr>"

definition sample_session_token :: rstring where
  "sample_session_token = issued_token (session_issue (\<lambda>k m. k @ m) hyphenated (session_issuer_new [1]) 9 (of_nat 5))"

definition sample_session_request :: "nat \<Rightarrow> api_request" where
  "sample_session_request t = sample_request\<lparr>request_now := t, request_headers :=
     (\<lambda>h. if h = lit ''Authorization'' then Some (Some (lit ''Bearer '' @ sample_session_token)) else None)\<rparr>"

lemma sample_session_actor:
  assumes "db_reviewers db = [\<lparr>reviewer_row_id = 9, reviewer_row_email = lit ''r'', reviewer_row_sessions_revoked_at = None\<rparr>]"
    and "t \<le> 43205"
  shows "api_actor sample_session_config (sample_session_request t) db = Inr (Actor_Reviewer 9)"
proof -
  have "api_actor sample_session_config (sample_session_request t) db =
    (if 5 + unat (issuer_ttl (session_issuer_new [1])) < request_now (sample_session_request t) \<or> is_session_revoked db 9 (int 5)
     then Inl (invalid_or_expired_session (api_request_id sample_session_config (sample_session_request t)))
     else Inr (Actor_Reviewer 9))"
    by (rule issued_actor [OF _ hyphenated_text, where iss = "session_issuer_new [1]" and hmac = "\<lambda>k m. k @ m" and now = 5])
      (use assms(2) in \<open>simp_all add: sample_session_config_def session_issuer_new_def sample_session_request_def
        sample_session_token_def\<close>)
  with assms show ?thesis
    by (simp add: session_issuer_new_def sample_session_request_def is_session_revoked_def)
qed

lemma sample_login:
  "\<exists>s' resp. google_login (\<lambda>_. Inr (lit ''r'')) (session_issue (\<lambda>k m. k @ m) hyphenated (session_issuer_new [1]))
     sample_session_config sample_request [] (sample_gate_db, \<lambda>_. None) = (s', Inr resp) \<and>
     login_reviewer_id resp = 9 \<and> login_token resp = sample_session_token"
proof -
  have "membership_find (sample_gate_db\<lparr>db_audit := rows\<rparr>) 9 =
      Inr (Some \<lparr>member_role = Role_PlatformAdmin, member_organization_id = None\<rparr>)" for rows
    using sample_gate_admin(2) by (simp add: membership_find_def)
  moreover have "reviewer_find_by_email sample_gate_db (to_lowercase (trim (lit ''r''))) = Some 9"
    by (simp add: reviewer_find_by_email_def sample_gate_db_def trim_def lit_def is_whitespace_def to_lowercase_def
        char_lower_def)
  moreover have "db_audit sample_gate_db = []" by (simp add: sample_gate_db_def empty_database_def)
  moreover have "request_now sample_request = 5" by (simp add: sample_request_def)
  ultimately show ?thesis
    by (simp add: google_login_def enforce_rate_limit_def pg_record_and_check_def Let_def record_login_success_def
        reviewer_record_def record_audit_event_def insert_row_def ok_or_def sample_session_token_def)
qed

lemma sample_logout:
  "\<exists>db' st. logout sample_session_config (sample_session_request 20) 0 sample_gate_db = (db', Inr st)"
proof -
  have "api_actor sample_session_config (sample_session_request 20) sample_gate_db = Inr (Actor_Reviewer 9)"
    by (rule sample_session_actor) (simp_all add: sample_gate_db_def)
  moreover have "db_audit (revoke_all_sessions t u sample_gate_db) = []" for t u
    by (simp add: sample_gate_db_def empty_database_def revoke_all_sessions_def)
  ultimately show ?thesis
    by (simp add: logout_def record_logout_def reviewer_record_def record_audit_event_def insert_row_def Let_def)
qed

theorem session_lifetime_witness:
  "\<exists>db' st. logout sample_session_config (sample_session_request 20) 0 sample_gate_db = (db', Inr st) \<and>
     api_actor sample_session_config (sample_session_request 30) sample_gate_db = Inr (Actor_Reviewer 9) \<and>
     api_actor sample_session_config (sample_session_request 30) db' \<noteq> Inr (Actor_Reviewer 9)"
proof -
  obtain s' resp where login: "google_login (\<lambda>_. Inr (lit ''r'')) (session_issue (\<lambda>k m. k @ m) hyphenated (session_issuer_new [1]))
     sample_session_config sample_request [] (sample_gate_db, \<lambda>_. None) = (s', Inr resp)"
    and r: "login_reviewer_id resp = 9" "login_token resp = sample_session_token" using sample_login by blast
  obtain db' st where out: "logout sample_session_config (sample_session_request 20) 0 sample_gate_db = (db', Inr st)"
    using sample_logout by blast
  have actor: "api_actor sample_session_config (sample_session_request t) sample_gate_db = Inr (Actor_Reviewer 9)"
    if "t \<le> 43205" for t by (rule sample_session_actor) (use that in \<open>simp_all add: sample_gate_db_def\<close>)
  from session_lifetime [OF _ hyphenated_text login _ _ _ out, of "sample_session_request 30"]
  have "api_actor sample_session_config (sample_session_request 30) db' \<noteq> Inr (Actor_Reviewer 9)"
    using actor [of 20] r
    by (simp add: sample_session_config_def) (simp add: sample_session_request_def session_issuer_new_def sample_request_def)
  with out actor [of 30] show ?thesis by auto
qed

section \<open>The first account\<close>


definition sample_anonymous_request :: "uuid \<Rightarrow> api_request" where
  "sample_anonymous_request i = sample_request\<lparr>request_headers := (\<lambda>_. None), request_ids := (\<lambda>k. i + of_nat k)\<rparr>"

definition sample_registration :: "rstring \<Rightarrow> registration" where
  "sample_registration email = \<lparr>registration_actor = Actor_Automated, registration_role = Role_PlatformAdmin,
     registration_organization = None, registration_organization_name = None, registration_email = email\<rparr>"

lemma sample_anonymous_decides:
  assumes "email \<in> {lit ''a@b'', lit ''c@d''}"
  shows "register_decide sample_config (sample_anonymous_request i)
      \<lparr>register_email = email, register_role = None, register_organization_id = None\<rparr> empty_database =
    Inr (sample_registration email)"
proof -
  have "trim email = email" "str_contains email (lit ''@'')" "email \<noteq> []"
    using assms by (auto simp: trim_def lit_def is_whitespace_def Let_def)
  moreover have "api_actor sample_config (sample_anonymous_request i) empty_database = Inr Actor_Automated"
    by (simp add: api_actor_def actor_from_headers_def sample_anonymous_request_def)
  moreover have "reviewer_count empty_database = 0" by (simp add: reviewer_count_def empty_database_def)
  ultimately show ?thesis
    by (simp add: register_decide_def requested_membership_def authorize_membership_grant_def joined_organization_def
        sample_registration_def)
qed

lemma sample_race_writes:
  "\<exists>db1 r1 i1 db2 r2 i2.
     register_write 1 (request_ids (sample_anonymous_request 300)) (sample_registration (lit ''a@b'')) empty_database =
       (db1, Inr (201, r1, i1)) \<and>
     register_write 1 (request_ids (sample_anonymous_request 400)) (sample_registration (lit ''c@d'')) db1 =
       (db2, Inr (201, r2, i2))"
proof -
  have ids: "request_ids (sample_anonymous_request i) 0 = i" "request_ids (sample_anonymous_request i) 1 = i + 1"
    "request_ids (sample_anonymous_request i) (Suc 0) = i + 1" for i
    by (simp_all add: sample_anonymous_request_def)
  have emails: "\<not> btrim_blank (lit ''a@b'')" "\<not> btrim_blank (lit ''c@d'')"
    "to_lowercase (lit ''c@d'') \<noteq> to_lowercase (lit ''a@b'')"
    by (simp_all add: btrim_blank_def lit_def to_lowercase_def char_lower_def)
  show ?thesis
    by (simp add: register_write_def sample_registration_def reviewer_create_def emails ids membership_add_def
        record_registration_def reviewer_record_def record_audit_event_def insert_row_def empty_database_def
        organization_id_for_actor_def Let_def)
qed


end
