(* ===== verification/Report_Store.thy ===== *)
theory Report_Store
  imports Store_Base Attachment_Model
begin

text \<open>
  The repositories of reports, attachments, extractions and generated descriptions
  (\<open>reports.rs\<close>, \<open>attachments.rs\<close>, \<open>extractions.rs\<close>, \<open>alert_description_generations.rs\<close> under
  \<open>crates/infrastructure/src/postgres\<close>). The status column of \<open>reports\<close>, which the case repository writes
  too, is the table \<open>db_report_status\<close> of the database; the other columns and the three tables that refer to
  reports and cases are the record \<open>evidence\<close>.
\<close>

section \<open>Tables\<close>

record report_row =
  report_row_id :: uuid
  report_row_source_channel :: rstring
  report_row_raw_content :: rstring
  report_row_token_hash :: bytes
  report_row_key_hash :: "bytes option"
  report_row_incident_type :: "rstring option"
  report_row_received_at :: rstring

record attachment_row =
  attachment_row_id :: uuid
  attachment_row_report_id :: uuid
  attachment_row_storage_provider :: rstring
  attachment_row_object_key :: rstring
  attachment_row_content_type :: rstring
  attachment_row_size_bytes :: "64 word"
  attachment_row_checksum :: rstring

record extraction_row =
  extraction_row_id :: uuid
  extraction_row_report_id :: uuid
  extraction_row_requested_by :: uuid
  extraction_row_provider :: rstring
  extraction_row_model :: rstring
  extraction_row_prompt_version :: rstring
  extraction_row_fields :: json

record generation_row =
  generation_row_id :: uuid
  generation_row_case_id :: uuid
  generation_row_requested_by :: uuid
  generation_row_provider :: rstring
  generation_row_model :: rstring
  generation_row_prompt_version :: rstring
  generation_row_source_text :: rstring
  generation_row_description_en :: rstring
  generation_row_description_fr :: rstring

record evidence =
  ev_reports :: "report_row list"
  ev_attachments :: "attachment_row list"
  ev_extractions :: "extraction_row list"
  ev_generations :: "generation_row list"

type_synonym evidence_db = "database \<times> evidence"

definition no_evidence :: evidence where
  "no_evidence = \<lparr>ev_reports = [], ev_attachments = [], ev_extractions = [], ev_generations = []\<rparr>"

section \<open>Reports\<close>

datatype submission_result = Submission_Created | Submission_Duplicate uuid

record report_summary =
  summary_id :: uuid
  summary_source_channel :: report_source_channel
  summary_status :: report_status
  summary_raw_content :: rstring
  summary_received_at :: rstring
  summary_incident_type :: "incident_type option"

text \<open>The row that a submission inserts; its status is the default, its time \<open>at\<close>.\<close>

definition report_to_row :: "rstring \<Rightarrow> report_submission \<Rightarrow> report_row" where
  "report_to_row at s =
     \<lparr>report_row_id = report_uuid (report_id (submission_report s)),
      report_row_source_channel = report_source_channel_to_db (report_source_channel (submission_report s)),
      report_row_raw_content = report_raw_content (submission_report s),
      report_row_token_hash = submission_reference_code_hash s,
      report_row_key_hash = submission_idempotency_key_hash s,
      report_row_incident_type = map_option incident_type_to_db (report_incident_type (submission_report s)),
      report_row_received_at = at\<rparr>"

text \<open>\<open>INSERT ... ON CONFLICT (idempotency_key_hash) DO NOTHING\<close>; another violated constraint is an error. The
  id found under the key afterwards is returned when it is another one.\<close>

definition insert_report :: "rstring \<Rightarrow> report_submission \<Rightarrow> evidence_db \<Rightarrow> db_error + evidence_db \<times> uuid option" where
  "insert_report at s = (\<lambda>(db, ev).
     let r = report_to_row at s; rows = ev_reports ev in
     bind_result
       (if btrim_blank (report_row_raw_content r) then Inl DbError_CheckViolation
        else if report_row_key_hash r \<noteq> None \<and> report_row_key_hash r \<in> report_row_key_hash ` set rows then Inr (db, ev)
        else if report_row_id r \<in> report_row_id ` set rows \<or> report_row_token_hash r \<in> report_row_token_hash ` set rows
        then Inl DbError_UniqueViolation
        else Inr (db\<lparr>db_report_status := db_report_status db @ [(report_row_id r, lit ''RECEIVED'')]\<rparr>,
                  ev\<lparr>ev_reports := rows @ [r]\<rparr>)) (\<lambda>(db', ev').
     Inr ((db', ev'),
       if submission_idempotency_key_hash s = None then None
       else
         let existing = map_option report_row_id
               (find (\<lambda>x. report_row_key_hash x = submission_idempotency_key_hash s) (ev_reports ev')) in
         if existing \<noteq> Some (report_uuid (report_id (submission_report s))) then existing else None)))"

definition insert_submission_audit_event :: "report_submission \<Rightarrow> database \<Rightarrow> db_error + database" where
  "insert_submission_audit_event s db =
     bind_result (insert_row audit_row_id
         \<lparr>audit_row_id = audit_event_uuid (submission_audit_event_id s), audit_row_actor_type = lit ''ANONYMOUS_REPORTER'',
          audit_row_actor_id = None, audit_row_organization_id = None, audit_row_action = lit ''REPORT_SUBMITTED'',
          audit_row_resource_type = lit ''REPORT'',
          audit_row_resource_id = Some (report_uuid (report_id (submission_report s))),
          audit_row_request_id = submission_request_id s, audit_row_metadata = JObj []\<rparr> (db_audit db))
       (\<lambda>rows. Inr (db\<lparr>db_audit := rows\<rparr>))"

definition insert_submission_outbox_event ::
  "(uuid \<Rightarrow> rstring) \<Rightarrow> report_submission \<Rightarrow> database \<Rightarrow> db_error + database" where
  "insert_submission_outbox_event su s db =
     bind_result (insert_row outbox_row_id
         \<lparr>outbox_row_id = outbox_event_uuid (submission_outbox_event_id s), outbox_row_aggregate_type = lit ''REPORT'',
          outbox_row_aggregate_id = report_uuid (report_id (submission_report s)),
          outbox_row_event_type = lit ''REPORT_SUBMITTED'', outbox_row_payload = report_submitted_event_payload su s,
          outbox_row_claimed_at = None, outbox_row_published_at = None\<rparr> (db_outbox db))
       (\<lambda>rows. Inr (db\<lparr>db_outbox := rows\<rparr>))"

definition submit_anonymous ::
  "(uuid \<Rightarrow> rstring) \<Rightarrow> rstring \<Rightarrow> report_submission \<Rightarrow> evidence_db \<Rightarrow> db_error + evidence_db \<times> submission_result" where
  "submit_anonymous su at s st =
     bind_result (insert_report at s st) (\<lambda>((db1, ev1), existing).
       case existing of
         Some i \<Rightarrow> Inr (st, Submission_Duplicate i)
       | None \<Rightarrow>
           bind_result (insert_submission_audit_event s db1) (\<lambda>db2.
           bind_result (insert_submission_outbox_event su s db2) (\<lambda>db3.
             Inr ((db3, ev1), Submission_Created))))"

definition report_exists :: "evidence_db \<Rightarrow> report_id \<Rightarrow> bool" where
  "report_exists st i \<longleftrightarrow> report_uuid i \<in> report_row_id ` set (ev_reports (snd st))"

definition report_status_text :: "database \<Rightarrow> uuid \<Rightarrow> rstring option" where
  "report_status_text db i = map_of (db_report_status db) i"

definition report_summary_of_row :: "database \<Rightarrow> report_row \<Rightarrow> db_error + report_summary" where
  "report_summary_of_row db r =
     bind_result (ok_or DbPanic (report_source_channel_from_db (report_row_source_channel r))) (\<lambda>channel.
     bind_result (ok_or DbPanic (Option.bind (report_status_text db (report_row_id r)) report_status_from_db)) (\<lambda>status.
     bind_result (case report_row_incident_type r of
          None \<Rightarrow> Inr None
        | Some v \<Rightarrow> bind_result (ok_or DbPanic (incident_type_from_db v)) (\<lambda>it. Inr (Some it))) (\<lambda>it.
       Inr \<lparr>summary_id = report_row_id r, summary_source_channel = channel, summary_status = status,
            summary_raw_content = report_row_raw_content r, summary_received_at = report_row_received_at r,
            summary_incident_type = it\<rparr>)))"

definition report_find_by_id :: "evidence_db \<Rightarrow> report_id \<Rightarrow> db_error + report_summary option" where
  "report_find_by_id = (\<lambda>(db, ev) i.
     case find (\<lambda>r. report_row_id r = report_uuid i) (ev_reports ev) of
       None \<Rightarrow> Inr None
     | Some r \<Rightarrow> bind_result (report_summary_of_row db r) (\<lambda>s. Inr (Some s)))"

text \<open>Whether a row has changed.\<close>

definition mark_under_review :: "report_id \<Rightarrow> database \<Rightarrow> database \<times> bool" where
  "mark_under_review i db =
     (let received = (\<lambda>(k, st). k = report_uuid i \<and> st = lit ''RECEIVED'') in
      (db\<lparr>db_report_status := map (\<lambda>(k, st). if received (k, st) then (k, lit ''UNDER_REVIEW'') else (k, st))
         (db_report_status db)\<rparr>, list_ex received (db_report_status db)))"

definition report_list :: "evidence_db \<Rightarrow> report_status option \<Rightarrow> nat \<Rightarrow> nat \<Rightarrow> db_error + report_summary list" where
  "report_list = (\<lambda>(db, ev) status limit offset.
     collect_results (map (report_summary_of_row db) (take limit (drop offset (rev
       (filter (\<lambda>r. case status of None \<Rightarrow> True
                     | Some s \<Rightarrow> report_status_text db (report_row_id r) = Some (report_status_to_db s))
          (ev_reports ev)))))))"

section \<open>Attachments\<close>

definition attachment_repo_create :: "attachment \<Rightarrow> evidence_db \<Rightarrow> db_error + evidence_db" where
  "attachment_repo_create a = (\<lambda>(db, ev).
     let r = \<lparr>attachment_row_id = attachment_uuid (attachment_id a),
              attachment_row_report_id = report_uuid (attachment_report_id a),
              attachment_row_storage_provider = storage_provider_to_db (attachment_storage_provider a),
              attachment_row_object_key = attachment_object_key a,
              attachment_row_content_type = content_type_to_db (attachment_content_type a),
              attachment_row_size_bytes = attachment_size_bytes a,
              attachment_row_checksum = attachment_checksum a\<rparr>; rows = ev_attachments ev in
     if btrim_blank (attachment_row_object_key r) \<or> btrim_blank (attachment_row_checksum r) \<or>
        sint (attachment_row_size_bytes r) \<le> 0 then Inl DbError_CheckViolation
     else if attachment_row_id r \<in> attachment_row_id ` set rows \<or>
             attachment_row_object_key r \<in> attachment_row_object_key ` set rows then Inl DbError_UniqueViolation
     else if attachment_row_report_id r \<notin> report_row_id ` set (ev_reports ev) then Inl DbError_ForeignKeyViolation
     else Inr (db, ev\<lparr>ev_attachments := rows @ [r]\<rparr>))"

definition attachment_from_row :: "attachment_row \<Rightarrow> db_error + attachment" where
  "attachment_from_row r =
     bind_result (ok_or DbPanic (storage_provider_from_db (attachment_row_storage_provider r))) (\<lambda>p.
     bind_result (ok_or DbPanic (content_type_from_db (attachment_row_content_type r))) (\<lambda>ct.
       Inr (attachment_reconstitute (AttachmentId (attachment_row_id r)) (ReportId (attachment_row_report_id r)) p
              (attachment_row_object_key r) ct (attachment_row_size_bytes r) (attachment_row_checksum r))))"

definition attachment_find_by_id :: "evidence \<Rightarrow> attachment_id \<Rightarrow> db_error + attachment option" where
  "attachment_find_by_id ev i =
     (case find (\<lambda>r. attachment_row_id r = attachment_uuid i) (ev_attachments ev) of
        None \<Rightarrow> Inr None
      | Some r \<Rightarrow> bind_result (attachment_from_row r) (\<lambda>a. Inr (Some a)))"

definition attachment_find_by_report_id :: "evidence \<Rightarrow> report_id \<Rightarrow> db_error + attachment list" where
  "attachment_find_by_report_id ev i =
     collect_results (map attachment_from_row
       (filter (\<lambda>r. attachment_row_report_id r = report_uuid i) (ev_attachments ev)))"

text \<open>Draws the audit row's id.\<close>

definition record_download_access :: "uuid \<Rightarrow> attachment_id \<Rightarrow> actor \<Rightarrow> uuid \<Rightarrow> database \<Rightarrow> db_error + database" where
  "record_download_access audit_id i a rid db =
     record_audit_event audit_id a (lit ''ATTACHMENT_DOWNLOAD_URL_ISSUED'') (lit ''ATTACHMENT'')
       (Some (attachment_uuid i)) rid (JObj []) db"

section \<open>Extractions\<close>

text \<open>The port of a language model that extracts fields (\<open>crates/application/src/ai_extraction.rs\<close>).\<close>

record report_extractor =
  extractor_provider :: rstring
  extractor_model :: rstring
  extractor_extract :: "rstring \<Rightarrow> rstring + extracted_report_fields"

definition EXTRACTION_PROMPT_VERSION :: rstring where
  "EXTRACTION_PROMPT_VERSION = lit ''v1''"

record extraction_record =
  extraction_id :: report_extraction_id
  extraction_report_id :: report_id
  extraction_requested_by :: uuid
  extraction_provider :: rstring
  extraction_model :: rstring
  extraction_prompt_version :: rstring
  extraction_fields :: extracted_report_fields

definition request_report_extraction ::
  "report_extractor \<Rightarrow> report_id \<Rightarrow> rstring \<Rightarrow> uuid \<Rightarrow> uuid \<Rightarrow> rstring + extraction_record" where
  "request_report_extraction extractor i raw_content requested_by new_id =
     bind_result (extractor_extract extractor raw_content) (\<lambda>found.
       Inr \<lparr>extraction_id = ReportExtractionId new_id, extraction_report_id = i, extraction_requested_by = requested_by,
            extraction_provider = extractor_provider extractor, extraction_model = extractor_model extractor,
            extraction_prompt_version = EXTRACTION_PROMPT_VERSION, extraction_fields = found\<rparr>)"

fun opt_str_to_json :: "rstring option \<Rightarrow> json" where
  "opt_str_to_json None = JNull"
| "opt_str_to_json (Some s) = JStr s"

definition fields_to_json :: "extracted_report_fields \<Rightarrow> json" where
  "fields_to_json f = JObj
     [(lit ''person_description'', opt_str_to_json (extracted_person_description f)),
      (lit ''age'', opt_str_to_json (extracted_age f)),
      (lit ''time'', opt_str_to_json (extracted_time f)),
      (lit ''place'', opt_str_to_json (extracted_place f)),
      (lit ''incident_category'', opt_str_to_json (extracted_incident_category f)),
      (lit ''vehicle_details'', opt_str_to_json (extracted_vehicle_details f)),
      (lit ''contact_request'', opt_str_to_json (extracted_contact_request f))]"

text \<open>A field that is missing or null is \<open>None\<close>; anything but a string does not decode.\<close>

definition opt_str_from_json :: "json \<Rightarrow> rstring \<Rightarrow> db_error + rstring option" where
  "opt_str_from_json j k =
     (case json_get j k of
        None \<Rightarrow> Inr None
      | Some JNull \<Rightarrow> Inr None
      | Some v \<Rightarrow> bind_result (ok_or DbPanic (json_as_str v)) (\<lambda>s. Inr (Some s)))"

definition fields_from_json :: "json \<Rightarrow> db_error + extracted_report_fields" where
  "fields_from_json j =
     bind_result (opt_str_from_json j (lit ''person_description'')) (\<lambda>person.
     bind_result (opt_str_from_json j (lit ''age'')) (\<lambda>age.
     bind_result (opt_str_from_json j (lit ''time'')) (\<lambda>time.
     bind_result (opt_str_from_json j (lit ''place'')) (\<lambda>place.
     bind_result (opt_str_from_json j (lit ''incident_category'')) (\<lambda>category.
     bind_result (opt_str_from_json j (lit ''vehicle_details'')) (\<lambda>vehicle.
     bind_result (opt_str_from_json j (lit ''contact_request'')) (\<lambda>contact.
       Inr (extracted_new person age time place category vehicle contact))))))))"

definition extraction_from_row :: "extraction_row \<Rightarrow> db_error + extraction_record" where
  "extraction_from_row r =
     bind_result (fields_from_json (extraction_row_fields r)) (\<lambda>f.
       Inr \<lparr>extraction_id = ReportExtractionId (extraction_row_id r),
            extraction_report_id = ReportId (extraction_row_report_id r),
            extraction_requested_by = extraction_row_requested_by r, extraction_provider = extraction_row_provider r,
            extraction_model = extraction_row_model r, extraction_prompt_version = extraction_row_prompt_version r,
            extraction_fields = f\<rparr>)"

definition extraction_create :: "extraction_record \<Rightarrow> evidence \<Rightarrow> db_error + evidence" where
  "extraction_create x ev =
     (if btrim_blank (extraction_provider x) \<or> btrim_blank (extraction_model x) \<or>
         btrim_blank (extraction_prompt_version x) then Inl DbError_CheckViolation
      else if report_uuid (extraction_report_id x) \<notin> report_row_id ` set (ev_reports ev)
      then Inl DbError_ForeignKeyViolation
      else bind_result (insert_row extraction_row_id
         \<lparr>extraction_row_id = report_extraction_uuid (extraction_id x),
          extraction_row_report_id = report_uuid (extraction_report_id x),
          extraction_row_requested_by = extraction_requested_by x, extraction_row_provider = extraction_provider x,
          extraction_row_model = extraction_model x, extraction_row_prompt_version = extraction_prompt_version x,
          extraction_row_fields = fields_to_json (extraction_fields x)\<rparr> (ev_extractions ev))
        (\<lambda>rows. Inr (ev\<lparr>ev_extractions := rows\<rparr>)))"

definition extraction_find_by_report :: "evidence \<Rightarrow> report_id \<Rightarrow> db_error + extraction_record list" where
  "extraction_find_by_report ev i =
     collect_results (map extraction_from_row
       (rev (filter (\<lambda>r. extraction_row_report_id r = report_uuid i) (ev_extractions ev))))"

section \<open>Generated descriptions\<close>

text \<open>The port of a language model that drafts descriptions
  (\<open>crates/application/src/alert_description_generation.rs\<close>).\<close>

record description_generator =
  generator_provider :: rstring
  generator_model :: rstring
  generator_generate :: "rstring \<Rightarrow> rstring + generated_description"

definition DESCRIPTION_GENERATION_PROMPT_VERSION :: rstring where
  "DESCRIPTION_GENERATION_PROMPT_VERSION = lit ''v1''"

record generation_record =
  generation_id :: alert_description_generation_id
  generation_case_id :: case_id
  generation_requested_by :: uuid
  generation_provider :: rstring
  generation_model :: rstring
  generation_prompt_version :: rstring
  generation_source_text :: rstring
  generation_description :: generated_description

definition request_description_generation ::
  "description_generator \<Rightarrow> case_id \<Rightarrow> rstring \<Rightarrow> uuid \<Rightarrow> uuid \<Rightarrow> rstring + generation_record" where
  "request_description_generation generator i source_text requested_by new_id =
     bind_result (generator_generate generator source_text) (\<lambda>d.
       Inr \<lparr>generation_id = AlertDescriptionGenerationId new_id, generation_case_id = i,
            generation_requested_by = requested_by, generation_provider = generator_provider generator,
            generation_model = generator_model generator,
            generation_prompt_version = DESCRIPTION_GENERATION_PROMPT_VERSION,
            generation_source_text = source_text, generation_description = d\<rparr>)"

definition generation_from_row :: "generation_row \<Rightarrow> generation_record" where
  "generation_from_row r =
     \<lparr>generation_id = AlertDescriptionGenerationId (generation_row_id r), generation_case_id = CaseId (generation_row_case_id r),
      generation_requested_by = generation_row_requested_by r, generation_provider = generation_row_provider r,
      generation_model = generation_row_model r, generation_prompt_version = generation_row_prompt_version r,
      generation_source_text = generation_row_source_text r,
      generation_description =
        \<lparr>description_en = generation_row_description_en r, description_fr = generation_row_description_fr r\<rparr>\<rparr>"

definition generation_create :: "generation_record \<Rightarrow> evidence_db \<Rightarrow> db_error + evidence_db" where
  "generation_create x = (\<lambda>(db, ev).
     if btrim_blank (generation_provider x) \<or> btrim_blank (generation_model x) \<or>
        btrim_blank (generation_prompt_version x) \<or> btrim_blank (generation_source_text x) \<or>
        btrim_blank (description_en (generation_description x)) \<or> btrim_blank (description_fr (generation_description x))
     then Inl DbError_CheckViolation
     else if case_uuid (generation_case_id x) \<notin> case_row_id ` set (db_cases db) then Inl DbError_ForeignKeyViolation
     else bind_result (insert_row generation_row_id
         \<lparr>generation_row_id = alert_description_generation_uuid (generation_id x),
          generation_row_case_id = case_uuid (generation_case_id x),
          generation_row_requested_by = generation_requested_by x, generation_row_provider = generation_provider x,
          generation_row_model = generation_model x, generation_row_prompt_version = generation_prompt_version x,
          generation_row_source_text = generation_source_text x,
          generation_row_description_en = description_en (generation_description x),
          generation_row_description_fr = description_fr (generation_description x)\<rparr> (ev_generations ev))
       (\<lambda>rows. Inr (db, ev\<lparr>ev_generations := rows\<rparr>)))"

definition generation_find_by_case :: "evidence \<Rightarrow> case_id \<Rightarrow> generation_record list" where
  "generation_find_by_case ev i =
     map generation_from_row (rev (filter (\<lambda>r. generation_row_case_id r = case_uuid i) (ev_generations ev)))"

section \<open>What is read back\<close>

definition normalized :: "extracted_report_fields \<Rightarrow> extracted_report_fields" where
  "normalized f = extracted_new (extracted_person_description f) (extracted_age f) (extracted_time f)
     (extracted_place f) (extracted_incident_category f) (extracted_vehicle_details f) (extracted_contact_request f)"

lemma opt_str_from_to: "json_get j k = Some (opt_str_to_json v) \<Longrightarrow> opt_str_from_json j k = Inr v"
  by (cases v) (simp_all add: opt_str_from_json_def ok_or_def)

lemma fields_from_to_json: "fields_from_json (fields_to_json f) = Inr (normalized f)"
proof -
  have "opt_str_from_json (fields_to_json f) (lit ''person_description'') = Inr (extracted_person_description f)"
    "opt_str_from_json (fields_to_json f) (lit ''age'') = Inr (extracted_age f)"
    "opt_str_from_json (fields_to_json f) (lit ''time'') = Inr (extracted_time f)"
    "opt_str_from_json (fields_to_json f) (lit ''place'') = Inr (extracted_place f)"
    "opt_str_from_json (fields_to_json f) (lit ''incident_category'') = Inr (extracted_incident_category f)"
    "opt_str_from_json (fields_to_json f) (lit ''vehicle_details'') = Inr (extracted_vehicle_details f)"
    "opt_str_from_json (fields_to_json f) (lit ''contact_request'') = Inr (extracted_contact_request f)"
    by (rule opt_str_from_to; simp add: fields_to_json_def lit_def)+
  then show ?thesis by (simp add: fields_from_json_def normalized_def)
qed

section \<open>Submissions\<close>

text \<open>The two parts of the table of reports have the same rows, one per id, and no two share an idempotency
  key.\<close>

definition reports_ok :: "evidence_db \<Rightarrow> bool" where
  "reports_ok = (\<lambda>(db, ev). map fst (db_report_status db) = map report_row_id (ev_reports ev) \<and>
     distinct (map report_row_id (ev_reports ev)))"

definition summary_of_submission :: "rstring \<Rightarrow> report_submission \<Rightarrow> report_summary" where
  "summary_of_submission at s =
     \<lparr>summary_id = report_uuid (report_id (submission_report s)),
      summary_source_channel = report_source_channel (submission_report s), summary_status = ReportStatus_Received,
      summary_raw_content = report_raw_content (submission_report s), summary_received_at = at,
      summary_incident_type = report_incident_type (submission_report s)\<rparr>"

text \<open>A key that is stored already.\<close>

lemma insert_report_conflict:
  assumes key: "submission_idempotency_key_hash s = Some h" "Some h \<in> report_row_key_hash ` set (ev_reports ev)"
    and new: "report_uuid (report_id (submission_report s)) \<notin> report_row_id ` set (ev_reports ev)"
    and i: "insert_report at s (db, ev) = Inr (st', existing)"
  shows "st' = (db, ev) \<and> (\<exists>i \<in> report_row_id ` set (ev_reports ev). existing = Some i)"
proof -
  obtain r where r: "find (\<lambda>x. report_row_key_hash x = Some h) (ev_reports ev) = Some r"
    using key(2) by (cases "find (\<lambda>x. report_row_key_hash x = Some h) (ev_reports ev)") (auto simp: find_None_iff)
  then have m: "report_row_id r \<in> report_row_id ` set (ev_reports ev)" by (auto simp: find_Some_iff)
  then have "report_row_id r \<noteq> report_uuid (report_id (submission_report s))" using new by metis
  then have "st' = (db, ev) \<and> existing = Some (report_row_id r)"
    using i r by (auto simp: insert_report_def report_to_row_def key bind_result_Inr Let_def split: if_splits)
  with m show ?thesis by blast
qed

lemma resubmission:
  assumes "submission_idempotency_key_hash s = Some h" and "Some h \<in> report_row_key_hash ` set (ev_reports ev)"
    and "report_uuid (report_id (submission_report s)) \<notin> report_row_id ` set (ev_reports ev)"
    and "submit_anonymous su at s (db, ev) = Inr (st', res)"
  shows "st' = (db, ev) \<and> (\<exists>i \<in> report_row_id ` set (ev_reports ev). res = Submission_Duplicate i)"
proof -
  obtain st1 existing where "insert_report at s (db, ev) = Inr (st1, existing)"
    using assms(4) by (auto simp: submit_anonymous_def bind_result_Inr)
  with insert_report_conflict [OF assms(1-3) this] assms(4) show ?thesis
    by (auto simp: submit_anonymous_def split: prod.splits)
qed

lemma submit_anonymous_Inr:
  assumes "submit_anonymous su at s (db, ev) = Inr (st', Submission_Created)"
    and new: "report_uuid (report_id (submission_report s)) \<notin> report_row_id ` set (ev_reports ev)"
  shows "ev_reports (snd st') = ev_reports ev @ [report_to_row at s]"
    and "db_report_status (fst st') = db_report_status db @ [(report_uuid (report_id (submission_report s)), lit ''RECEIVED'')]"
proof -
  obtain db1 ev1 db2 db3 where i: "insert_report at s (db, ev) = Inr ((db1, ev1), None)"
    and a: "insert_submission_audit_event s db1 = Inr db2" "insert_submission_outbox_event su s db2 = Inr db3"
    and st': "st' = (db3, ev1)"
    using assms(1) by (auto simp: submit_anonymous_def bind_result_Inr split: option.splits prod.splits)
  have "db_report_status db3 = db_report_status db1"
    using a by (auto simp: insert_submission_audit_event_def insert_submission_outbox_event_def bind_result_Inr)
  moreover have "\<not> (report_row_key_hash (report_to_row at s) \<noteq> None \<and>
      report_row_key_hash (report_to_row at s) \<in> report_row_key_hash ` set (ev_reports ev))"
    using insert_report_conflict [OF _ _ new i]
    by (cases "submission_idempotency_key_hash s") (simp add: report_to_row_def, force simp: report_to_row_def)
  then have "ev_reports ev1 = ev_reports ev @ [report_to_row at s] \<and>
      db_report_status db1 = db_report_status db @ [(report_row_id (report_to_row at s), lit ''RECEIVED'')]"
    using i by (auto simp: insert_report_def Let_def bind_result_Inr split: if_splits)
  ultimately show "ev_reports (snd st') = ev_reports ev @ [report_to_row at s]"
    "db_report_status (fst st') = db_report_status db @ [(report_uuid (report_id (submission_report s)), lit ''RECEIVED'')]"
    using st' by (simp_all add: report_to_row_def)
qed

lemma map_of_append_new: "k \<notin> fst ` set xs \<Longrightarrow> map_of (xs @ [(k, v)]) k = Some v"
  by (induction xs) auto

lemma map_of_append_old: "j \<noteq> k \<Longrightarrow> map_of (xs @ [(k, v)]) j = map_of xs j"
  by (induction xs) auto

lemma find_append_one: "find P (xs @ [x]) = (case find P xs of None \<Rightarrow> if P x then Some x else None | Some y \<Rightarrow> Some y)"
  by (induction xs) auto

lemma submitted_report_found:
  assumes ok: "reports_ok (db, ev)" and ev': "ev_reports ev' = ev_reports ev @ [report_to_row at s]"
    and st: "db_report_status db' = db_report_status db @ [(report_uuid (report_id (submission_report s)), lit ''RECEIVED'')]"
    and new: "report_uuid (report_id (submission_report s)) \<notin> report_row_id ` set (ev_reports ev)"
  shows "report_find_by_id (db', ev') (report_id (submission_report s)) = Inr (Some (summary_of_submission at s))"
    and "k \<noteq> report_id (submission_report s) \<Longrightarrow> report_find_by_id (db', ev') k = report_find_by_id (db, ev) k"
    and "reports_ok (db', ev')"
proof -
  let ?i = "report_uuid (report_id (submission_report s))"
  have keys: "fst ` set (db_report_status db) = report_row_id ` set (ev_reports ev)"
    using ok by (simp add: reports_ok_def flip: set_map)
  have row: "report_row_id (report_to_row at s) = ?i" by (simp add: report_to_row_def)
  have "find (\<lambda>r. report_row_id r = ?i) (ev_reports ev) = None" using new by (auto simp: find_None_iff image_iff)
  moreover have "report_status_text db' ?i = Some (lit ''RECEIVED'')"
    unfolding report_status_text_def st using new keys by (intro map_of_append_new) simp
  moreover have "report_status_from_db (lit ''RECEIVED'') = Some ReportStatus_Received"
    by (simp add: report_status_from_db_def)
  ultimately show "report_find_by_id (db', ev') (report_id (submission_report s)) = Inr (Some (summary_of_submission at s))"
    by (cases "report_incident_type (submission_report s)")
      (simp_all add: report_find_by_id_def ev' find_append_one row report_summary_of_row_def ok_or_def,
       simp_all add: report_to_row_def summary_of_submission_def report_source_channel_db.from_to incident_type_db.from_to)
  show "reports_ok (db', ev')" using ok new by (simp add: reports_ok_def ev' st row)
  show "report_find_by_id (db', ev') k = report_find_by_id (db, ev) k" if k: "k \<noteq> report_id (submission_report s)"
  proof -
    have ne: "report_uuid k \<noteq> ?i" using k by (cases k, cases "report_id (submission_report s)") simp
    have "report_status_text db' j = report_status_text db j" if "j \<noteq> ?i" for j
      unfolding report_status_text_def st using that by (rule map_of_append_old)
    then have same: "report_row_id r \<noteq> ?i \<Longrightarrow> report_summary_of_row db' r = report_summary_of_row db r" for r
      by (simp add: report_summary_of_row_def)
    show ?thesis
    proof (cases "find (\<lambda>r. report_row_id r = report_uuid k) (ev_reports ev)")
      case None
      then show ?thesis using ne by (simp add: report_find_by_id_def ev' find_append_one row)
    next
      case (Some r)
      then have "report_row_id r = report_uuid k" by (auto simp: find_Some_iff)
      then show ?thesis using Some ne same [of r] by (simp add: report_find_by_id_def ev' find_append_one row)
    qed
  qed
qed

end
