(* ===== verification/Report_Api.thy ===== *)
theory Report_Api
  imports Access_Api Case_Api Report_Store
begin

text \<open>
  The endpoints for reports, their attachments and extractions, and for generated descriptions
  (\<open>reports.rs\<close>, \<open>attachments.rs\<close>, \<open>extractions.rs\<close>, \<open>alert_description.rs\<close> under \<open>apps/api/src\<close>). The object storage,
  the transcriber and the language models are arguments.
\<close>

section \<open>Reports\<close>

definition report_persistence_failed :: "uuid \<Rightarrow> api_error" where
  "report_persistence_failed rid =
     api_error 500 ''REPORT_PERSISTENCE_FAILED'' ''The report could not be saved. Please try again.'' rid"

record create_report_response =
  created_report_id :: uuid
  created_reference_code :: rstring
  created_status :: rstring

fun report_validation_api_error :: "uuid \<Rightarrow> report_validation_error \<Rightarrow> api_error" where
  "report_validation_api_error rid ReportValidation_EmptyContent =
     api_error 400 ''INVALID_REPORT_CONTENT'' ''Report content cannot be blank.'' rid"
| "report_validation_api_error rid ReportValidation_ContentTooLong =
     api_error 400 ''INVALID_REPORT_CONTENT'' ''Report content is too long.'' rid"

text \<open>Draws the reference token and the ids of the report, the audit row and the outbox row.\<close>

definition create_anonymous_report ::
  "api_config \<Rightarrow> api_request \<Rightarrow> rstring \<Rightarrow> rstring \<Rightarrow> incident_type option \<Rightarrow> evidence_db \<times> rate_limit_windows \<Rightarrow>
   (evidence_db \<times> rate_limit_windows) \<times> (api_error + nat \<times> create_report_response)" where
  "create_anonymous_report cfg rq at content reported s =
     (let rid = api_request_id cfg rq; ids = request_ids rq; (st, limits) = s in
      case enforce_rate_limit limits Scope_AnonymousReportSubmission (source_key_from_headers (request_headers rq))
             (request_now rq) rid of
        (limits', Inl e) \<Rightarrow> ((st, limits'), Inl e)
      | (limits', Inr _) \<Rightarrow>
     (case idempotency_key_from_headers (request_headers rq) rid of
        Inl e \<Rightarrow> ((st, limits'), Inl e)
      | Inr key \<Rightarrow>
     (case prepare_anonymous_report (config_show_uuid cfg) (config_sha256 cfg) content rid key reported
             (ids 0, ids 1, ids 2, ids 3) of
        Inl e \<Rightarrow> ((st, limits'), Inl (report_validation_api_error rid e))
      | Inr submission \<Rightarrow>
     (case submit_anonymous (config_show_uuid cfg) at submission st of
        Inl _ \<Rightarrow> ((st, limits'), Inl (report_persistence_failed rid))
      | Inr (st', Submission_Duplicate _) \<Rightarrow>
          ((st', limits'), Inl (api_error 409 ''IDEMPOTENCY_KEY_REUSED''
             ''This Idempotency-Key was already used for a report.'' rid))
      | Inr (st', Submission_Created) \<Rightarrow>
          ((st', limits'), Inr (201,
             \<lparr>created_report_id = report_uuid (report_id (submission_report submission)),
              created_reference_code = submission_reference_code submission,
              created_status = lit ''RECEIVED''\<rparr>))))))"

definition MAX_AUDIO_BYTES :: nat where
  "MAX_AUDIO_BYTES = 8 * 1024 * 1024"

definition transcription_format_from_content_type :: "rstring option \<Rightarrow> rstring" where
  "transcription_format_from_content_type content_type =
     (case Option.bind (map_option (takeWhile (\<lambda>c. c \<noteq> 59)) content_type) (strip_prefix (lit ''audio/'')) of
        None \<Rightarrow> lit ''webm''
      | Some f \<Rightarrow>
          if f = lit ''webm'' then lit ''webm''
          else if f = lit ''ogg'' then lit ''ogg''
          else if f \<in> {lit ''wav'', lit ''wave'', lit ''x-wav''} then lit ''wav''
          else if f \<in> {lit ''mp4'', lit ''m4a'', lit ''x-m4a''} then lit ''m4a''
          else if f \<in> {lit ''mpeg'', lit ''mp3''} then lit ''mp3''
          else if f = lit ''aac'' then lit ''aac''
          else if f = lit ''flac'' then lit ''flac''
          else lit ''webm'')"

definition voice_disabled :: "uuid \<Rightarrow> api_error" where
  "voice_disabled rid =
     api_error 404 ''VOICE_REPORTS_DISABLED'' ''Voice reporting is not available on this deployment.'' rid"

definition transcribe_audio ::
  "bool \<Rightarrow> (bytes \<Rightarrow> rstring \<Rightarrow> rstring + rstring) \<Rightarrow> api_config \<Rightarrow> api_request \<Rightarrow> bytes \<Rightarrow> rate_limit_windows \<Rightarrow>
   rate_limit_windows \<times> (api_error + rstring)" where
  "transcribe_audio enabled transcriber cfg rq body limits =
     (let rid = api_request_id cfg rq in
      if \<not> enabled then (limits, Inl (voice_disabled rid))
      else
     (case enforce_rate_limit limits Scope_VoiceTranscriptionRequest (source_key_from_headers (request_headers rq))
             (request_now rq) rid of
        (limits', Inl e) \<Rightarrow> (limits', Inl e)
      | (limits', Inr _) \<Rightarrow>
          (limits',
           if body = [] then Inl (api_error 400 ''EMPTY_AUDIO'' ''No audio was received.'' rid)
           else if MAX_AUDIO_BYTES < length body
           then Inl (api_error 413 ''AUDIO_TOO_LARGE''
                  ''The recording is too long. Please keep recordings under 2 minutes.'' rid)
           else map_err (\<lambda>_. api_error 502 ''TRANSCRIPTION_FAILED''
                  ''The recording could not be transcribed. Please try again or type your report instead.'' rid)
                (transcriber body
                  (transcription_format_from_content_type (header_str (request_headers rq) ''Content-Type''))))))"

definition REPORT_DEFAULT_LIMIT :: nat where
  "REPORT_DEFAULT_LIMIT = 50"

definition REPORT_MAX_LIMIT :: nat where
  "REPORT_MAX_LIMIT = 100"

definition report_query_failed :: "string \<Rightarrow> uuid \<Rightarrow> api_error" where
  "report_query_failed message rid = api_error 500 ''REPORT_QUERY_FAILED'' message rid"

definition list_reports ::
  "api_config \<Rightarrow> api_request \<Rightarrow> report_status option \<Rightarrow> u32 option \<Rightarrow> u32 option \<Rightarrow> evidence_db \<Rightarrow>
   api_error + report_summary list" where
  "list_reports cfg rq status limit offset st =
     (let rid = api_request_id cfg rq in
      bind_result (api_actor cfg rq (fst st)) (\<lambda>a.
      bind_result (map_err (\<lambda>_. api_error 403 ''NOT_AUTHORIZED'' ''Only an identified reviewer may list reports.'' rid)
        (authorize a Capability_ViewCase)) (\<lambda>_.
      map_err (\<lambda>_. report_query_failed ''Reports could not be read. Please try again.'' rid)
        (report_list st status
           (min (case limit of None \<Rightarrow> REPORT_DEFAULT_LIMIT | Some n \<Rightarrow> unat n) REPORT_MAX_LIMIT)
           (case offset of None \<Rightarrow> 0 | Some n \<Rightarrow> unat n)))))"

text \<open>The write has taken effect when the report is read again.\<close>

definition start_report_review ::
  "api_config \<Rightarrow> api_request \<Rightarrow> uuid \<Rightarrow> evidence_db \<Rightarrow> evidence_db \<times> (api_error + report_summary)" where
  "start_report_review cfg rq i st =
     (let rid = api_request_id cfg rq; (db, ev) = st in
      case bind_result (api_actor cfg rq db) (\<lambda>a.
           map_err (\<lambda>_. api_error 403 ''NOT_AUTHORIZED'' ''Only an identified reviewer may start reviewing a report.'' rid)
             (authorize a Capability_ReviewReport)) of
        Inl e \<Rightarrow> (st, Inl e)
      | Inr _ \<Rightarrow>
     (case mark_under_review (ReportId i) db of
        (db', changed) \<Rightarrow>
          if \<not> changed
          then ((db', ev), Inl (api_error 409 ''REPORT_NOT_RECEIVED'' ''This report is no longer awaiting review.'' rid))
          else ((db', ev), map_err (\<lambda>_. report_query_failed ''The report could not be read. Please try again.'' rid)
                  (bind_result (report_find_by_id (db', ev) (ReportId i)) (ok_or DbPanic)))))"

definition get_report :: "api_config \<Rightarrow> api_request \<Rightarrow> uuid \<Rightarrow> evidence_db \<Rightarrow> api_error + report_summary" where
  "get_report cfg rq i st =
     (let rid = api_request_id cfg rq in
      bind_result (api_actor cfg rq (fst st)) (\<lambda>a.
      bind_result (map_err (\<lambda>_. api_error 403 ''NOT_AUTHORIZED'' ''Only an identified reviewer may view a report.'' rid)
        (authorize a Capability_ViewCase)) (\<lambda>_.
      bind_result (map_err (\<lambda>_. report_query_failed ''The report could not be read. Please try again.'' rid)
        (report_find_by_id st (ReportId i)))
        (ok_or (api_error 404 ''REPORT_NOT_FOUND'' ''No report exists with the given id.'' rid)))))"

section \<open>Attachments\<close>

definition attachment_persistence_failed :: "uuid \<Rightarrow> api_error" where
  "attachment_persistence_failed rid =
     api_error 500 ''ATTACHMENT_PERSISTENCE_FAILED'' ''The attachment could not be saved. Please try again.'' rid"

definition storage_unavailable :: "uuid \<Rightarrow> api_error" where
  "storage_unavailable rid =
     api_error 500 ''ATTACHMENT_STORAGE_UNAVAILABLE''
       ''Attachment storage is temporarily unavailable. Please try again.'' rid"

record attachment_storage =
  storage_provider_of :: storage_provider
  storage_upload_url :: "rstring \<Rightarrow> attachment_content_type \<Rightarrow> rstring + signed_url"
  storage_download_url :: "rstring \<Rightarrow> rstring + signed_url"

record create_attachment_request =
  upload_content_type :: rstring
  upload_size_bytes :: u64
  upload_checksum :: rstring

record create_attachment_response =
  created_attachment_id :: uuid
  created_object_key :: rstring
  created_upload_url :: rstring
  created_upload_expires_in :: nat

fun prepare_attachment_api_error :: "uuid \<Rightarrow> prepare_attachment_error \<Rightarrow> api_error" where
  "prepare_attachment_api_error rid (PrepareAttachment_Invalid Attachment_ZeroSize) =
     api_error 400 ''INVALID_ATTACHMENT_SIZE'' ''size_bytes must be greater than zero.'' rid"
| "prepare_attachment_api_error rid (PrepareAttachment_Invalid (Attachment_SizeExceedsLimit _)) =
     api_error 400 ''ATTACHMENT_TOO_LARGE'' ''This attachment exceeds the size limit.'' rid"
| "prepare_attachment_api_error rid (PrepareAttachment_Invalid _) =
     api_error 400 ''INVALID_ATTACHMENT'' ''The attachment metadata is invalid.'' rid"
| "prepare_attachment_api_error rid (PrepareAttachment_Storage _) = storage_unavailable rid"

text \<open>Draws the UUID of the object key and the attachment's id.\<close>

definition create_attachment ::
  "attachment_storage \<Rightarrow> api_config \<Rightarrow> api_request \<Rightarrow> uuid \<Rightarrow> create_attachment_request \<Rightarrow>
   evidence_db \<times> rate_limit_windows \<Rightarrow>
   (evidence_db \<times> rate_limit_windows) \<times> (api_error + nat \<times> create_attachment_response)" where
  "create_attachment storage cfg rq i req s =
     (let rid = api_request_id cfg rq; (st, limits) = s in
      case enforce_rate_limit limits Scope_AttachmentUploadRequest (source_key_from_headers (request_headers rq))
             (request_now rq) rid of
        (limits', Inl e) \<Rightarrow> ((st, limits'), Inl e)
      | (limits', Inr _) \<Rightarrow>
          if \<not> report_exists st (ReportId i)
          then ((st, limits'), Inl (api_error 404 ''REPORT_NOT_FOUND'' ''No report exists with the given id.'' rid))
          else
     (case content_type_from_mime (upload_content_type req) of
        None \<Rightarrow> ((st, limits'), Inl (api_error 400 ''UNSUPPORTED_ATTACHMENT_CONTENT_TYPE''
                  ''This attachment content type is not supported.'' rid))
      | Some ct \<Rightarrow>
     (case prepare_attachment_upload (config_show_uuid cfg) (storage_provider_of storage) (storage_upload_url storage)
             (ReportId i) ct (upload_size_bytes req) (upload_checksum req) (request_ids rq 0, request_ids rq 1) of
        Inl e \<Rightarrow> ((st, limits'), Inl (prepare_attachment_api_error rid e))
      | Inr prepared \<Rightarrow>
     (case attachment_repo_create (prepared_attachment prepared) st of
        Inl _ \<Rightarrow> ((st, limits'), Inl (attachment_persistence_failed rid))
      | Inr st' \<Rightarrow>
          ((st', limits'), Inr (201,
             \<lparr>created_attachment_id = attachment_uuid (attachment_id (prepared_attachment prepared)),
              created_object_key = attachment_object_key (prepared_attachment prepared),
              created_upload_url = signed_url_url (prepared_upload prepared),
              created_upload_expires_in = signed_url_expires_in (prepared_upload prepared)\<rparr>))))))"

record attachment_summary =
  attachment_summary_id :: uuid
  attachment_summary_object_key :: rstring
  attachment_summary_content_type :: rstring
  attachment_summary_size_bytes :: u64
  attachment_summary_checksum :: rstring

definition attachment_summary_response :: "attachment \<Rightarrow> attachment_summary" where
  "attachment_summary_response a =
     \<lparr>attachment_summary_id = attachment_uuid (attachment_id a), attachment_summary_object_key = attachment_object_key a,
      attachment_summary_content_type = content_type_to_mime (attachment_content_type a),
      attachment_summary_size_bytes = attachment_size_bytes a, attachment_summary_checksum = attachment_checksum a\<rparr>"

definition list_attachments_for_report ::
  "api_config \<Rightarrow> api_request \<Rightarrow> uuid \<Rightarrow> evidence_db \<Rightarrow> api_error + attachment_summary list" where
  "list_attachments_for_report cfg rq i st =
     (let rid = api_request_id cfg rq in
      bind_result (api_actor cfg rq (fst st)) (\<lambda>a.
      bind_result (map_err (\<lambda>_. api_error 403 ''NOT_AUTHORIZED''
          ''Only an identified reviewer may list a report's attachments.'' rid) (authorize a Capability_ViewCase)) (\<lambda>_.
      bind_result (map_err (\<lambda>_. attachment_persistence_failed rid)
        (attachment_find_by_report_id (snd st) (ReportId i))) (\<lambda>found.
        Inr (map attachment_summary_response found)))))"

text \<open>The url is issued before the access is recorded.\<close>

definition create_download_url ::
  "attachment_storage \<Rightarrow> api_config \<Rightarrow> api_request \<Rightarrow> uuid \<Rightarrow> evidence_db \<Rightarrow> evidence_db \<times> (api_error + signed_url)" where
  "create_download_url storage cfg rq i st =
     (let rid = api_request_id cfg rq; (db, ev) = st in
      case bind_result (api_actor cfg rq db) (\<lambda>a.
           bind_result (map_err (\<lambda>_. api_error 403 ''NOT_AUTHORIZED''
               ''Only an identified reviewer may access an attachment.'' rid) (authorize a Capability_ViewCase)) (\<lambda>_.
           bind_result (bind_result (map_err (\<lambda>_. attachment_persistence_failed rid) (attachment_find_by_id ev (AttachmentId i)))
             (ok_or (api_error 404 ''ATTACHMENT_NOT_FOUND'' ''No attachment exists with the given id.'' rid))) (\<lambda>x.
           bind_result (map_err (\<lambda>_. storage_unavailable rid) (storage_download_url storage (attachment_object_key x))) (\<lambda>url.
           bind_result (map_err (\<lambda>_. attachment_persistence_failed rid)
             (record_download_access (request_ids rq 0) (attachment_id x) a rid db)) (\<lambda>db'.
           Inr (db', url)))))) of
        Inl e \<Rightarrow> (st, Inl e)
      | Inr (db', url) \<Rightarrow> ((db', ev), Inr url))"

section \<open>Suggestions of language models\<close>

definition extraction_not_authorized :: "uuid \<Rightarrow> api_error" where
  "extraction_not_authorized rid =
     api_error 403 ''NOT_AUTHORIZED'' ''Only an identified reviewer may request an extraction.'' rid"

definition extraction_report_not_found :: "uuid \<Rightarrow> api_error" where
  "extraction_report_not_found rid = api_error 404 ''REPORT_NOT_FOUND'' ''No report exists with the given id.'' rid"

definition extraction_persistence_failed :: "uuid \<Rightarrow> api_error" where
  "extraction_persistence_failed rid =
     api_error 500 ''EXTRACTION_PERSISTENCE_FAILED'' ''The extraction could not be saved. Please try again.'' rid"

record extraction_response =
  response_extraction_report_id :: uuid
  response_extraction_requested_by :: uuid
  response_extraction_provider :: rstring
  response_extraction_model :: rstring
  response_extraction_prompt_version :: rstring
  response_extraction_fields :: extracted_report_fields

definition extraction_response_of :: "extraction_record \<Rightarrow> extraction_response" where
  "extraction_response_of x =
     \<lparr>response_extraction_report_id = report_uuid (extraction_report_id x),
      response_extraction_requested_by = extraction_requested_by x,
      response_extraction_provider = extraction_provider x, response_extraction_model = extraction_model x,
      response_extraction_prompt_version = extraction_prompt_version x, response_extraction_fields = extraction_fields x\<rparr>"

text \<open>The reviewer who asks; draws the extraction's id.\<close>

definition requesting_reviewer :: "(uuid \<Rightarrow> api_error) \<Rightarrow> api_config \<Rightarrow> api_request \<Rightarrow> database \<Rightarrow> api_error + uuid" where
  "requesting_reviewer denied cfg rq db =
     bind_result (api_actor cfg rq db) (\<lambda>a.
     bind_result (map_err (\<lambda>_. denied (api_request_id cfg rq)) (authorize a Capability_ViewCase)) (\<lambda>_.
       case a of Actor_Reviewer u \<Rightarrow> Inr u | _ \<Rightarrow> Inl (denied (api_request_id cfg rq))))"

definition create_extraction ::
  "report_extractor \<Rightarrow> api_config \<Rightarrow> api_request \<Rightarrow> uuid \<Rightarrow> evidence_db \<Rightarrow>
   evidence_db \<times> (api_error + nat \<times> extraction_response)" where
  "create_extraction extractor cfg rq i st =
     (let rid = api_request_id cfg rq; (db, ev) = st in
      case bind_result (requesting_reviewer extraction_not_authorized cfg rq db) (\<lambda>u.
           bind_result (bind_result (map_err (\<lambda>_. extraction_persistence_failed rid) (report_find_by_id st (ReportId i)))
             (ok_or (extraction_report_not_found rid))) (\<lambda>report.
           bind_result (map_err (\<lambda>_. api_error 502 ''EXTRACTION_FAILED''
               ''The extraction could not be completed. Please try again.'' rid)
             (request_report_extraction extractor (ReportId i) (summary_raw_content report) u (request_ids rq 0))) (\<lambda>x.
           bind_result (map_err (\<lambda>_. extraction_persistence_failed rid) (extraction_create x ev)) (\<lambda>ev'.
             Inr (ev', extraction_response_of x))))) of
        Inl e \<Rightarrow> (st, Inl e)
      | Inr (ev', resp) \<Rightarrow> ((db, ev'), Inr (201, resp)))"

definition list_extractions ::
  "api_config \<Rightarrow> api_request \<Rightarrow> uuid \<Rightarrow> evidence_db \<Rightarrow> api_error + extraction_response list" where
  "list_extractions cfg rq i st =
     (let rid = api_request_id cfg rq in
      bind_result (api_actor cfg rq (fst st)) (\<lambda>a.
      bind_result (map_err (\<lambda>_. extraction_not_authorized rid) (authorize a Capability_ViewCase)) (\<lambda>_.
      if \<not> report_exists st (ReportId i) then Inl (extraction_report_not_found rid)
      else bind_result (map_err (\<lambda>_. extraction_persistence_failed rid)
        (extraction_find_by_report (snd st) (ReportId i))) (\<lambda>xs. Inr (map extraction_response_of xs)))))"

definition generation_not_authorized :: "uuid \<Rightarrow> api_error" where
  "generation_not_authorized rid =
     api_error 403 ''NOT_AUTHORIZED'' ''Only an identified reviewer may request a description suggestion.'' rid"

definition generation_persistence_failed :: "uuid \<Rightarrow> api_error" where
  "generation_persistence_failed rid =
     api_error 500 ''ALERT_DESCRIPTION_GENERATION_PERSISTENCE_FAILED''
       ''The suggestion could not be saved. Please try again.'' rid"

record description_suggestion =
  suggestion_description_en :: rstring
  suggestion_description_fr :: rstring
  suggestion_provider :: rstring
  suggestion_model :: rstring
  suggestion_prompt_version :: rstring

definition generate_alert_description ::
  "description_generator \<Rightarrow> api_config \<Rightarrow> api_request \<Rightarrow> uuid \<Rightarrow> rstring \<Rightarrow> evidence_db \<Rightarrow>
   evidence_db \<times> (api_error + nat \<times> description_suggestion)" where
  "generate_alert_description generator cfg rq i source st =
     (let rid = api_request_id cfg rq; (db, ev) = st; source_text = trim source in
      case bind_result (requesting_reviewer generation_not_authorized cfg rq db) (\<lambda>u.
           if source_text = [] then Inl (api_error 400 ''EMPTY_SOURCE_TEXT'' ''source_text cannot be blank.'' rid)
           else
           bind_result (bind_result (map_err (\<lambda>_. generation_persistence_failed rid) (case_find_by_id db (CaseId i)))
             (ok_or (api_error 404 ''CASE_NOT_FOUND'' ''No case exists with the given id.'' rid))) (\<lambda>_.
           bind_result (map_err (\<lambda>_. api_error 502 ''ALERT_DESCRIPTION_GENERATION_FAILED''
               ''The suggestion could not be generated. Please try again.'' rid)
             (request_description_generation generator (CaseId i) source_text u (request_ids rq 0))) (\<lambda>x.
           bind_result (map_err (\<lambda>_. generation_persistence_failed rid) (generation_create x st)) (\<lambda>st'.
             Inr (st', x))))) of
        Inl e \<Rightarrow> (st, Inl e)
      | Inr (st', x) \<Rightarrow> (st', Inr (201,
          \<lparr>suggestion_description_en = description_en (generation_description x),
           suggestion_description_fr = description_fr (generation_description x),
           suggestion_provider = generation_provider x, suggestion_model = generation_model x,
           suggestion_prompt_version = generation_prompt_version x\<rparr>)))"

section \<open>Suggestions change nothing\<close>

lemma requesting_reviewer_Inr:
  assumes "requesting_reviewer denied cfg rq db = Inr u"
  shows "api_actor cfg rq db = Inr (Actor_Reviewer u)"
proof -
  obtain a where "api_actor cfg rq db = Inr a"
    "(case a of Actor_Reviewer u \<Rightarrow> Inr u | _ \<Rightarrow> Inl (denied (api_request_id cfg rq))) = Inr u"
    using assms by (auto simp: requesting_reviewer_def bind_result_Inr)
  then show ?thesis by (cases a) simp_all
qed

lemma extraction_create_Inr:
  "extraction_create x ev = Inr ev' \<Longrightarrow>
   \<exists>row. ev' = ev\<lparr>ev_extractions := ev_extractions ev @ [row]\<rparr> \<and>
     extraction_row_requested_by row = extraction_requested_by x \<and>
     extraction_row_report_id row = report_uuid (extraction_report_id x)"
  by (fastforce simp: extraction_create_def bind_result_Inr insert_row_Inr split: if_splits)

lemma generation_create_Inr:
  "generation_create x (db, ev) = Inr st' \<Longrightarrow>
   \<exists>row. st' = (db, ev\<lparr>ev_generations := ev_generations ev @ [row]\<rparr>) \<and>
     generation_row_requested_by row = generation_requested_by x \<and>
     generation_row_case_id row = case_uuid (generation_case_id x)"
  by (fastforce simp: generation_create_def bind_result_Inr insert_row_Inr split: if_splits)

lemma create_extraction_effect:
  assumes "create_extraction extractor cfg rq i (db, ev) = (st', r)"
  shows "st' = (db, ev) \<or>
    (\<exists>u row. api_actor cfg rq db = Inr (Actor_Reviewer u) \<and> st' = (db, ev\<lparr>ev_extractions := ev_extractions ev @ [row]\<rparr>) \<and>
       extraction_row_requested_by row = u \<and> extraction_row_report_id row = i)"
proof (cases r)
  case (Inl e)
  with assms show ?thesis by (auto simp: create_extraction_def Let_def split: sum.splits)
next
  case (Inr x)
  with assms show ?thesis
    by (force simp: create_extraction_def Let_def bind_result_Inr map_err_Inr request_report_extraction_def
        split: sum.splits dest!: requesting_reviewer_Inr extraction_create_Inr)
qed

lemma generate_alert_description_effect:
  assumes "generate_alert_description generator cfg rq i source (db, ev) = (st', r)"
  shows "st' = (db, ev) \<or>
    (\<exists>u row. api_actor cfg rq db = Inr (Actor_Reviewer u) \<and> st' = (db, ev\<lparr>ev_generations := ev_generations ev @ [row]\<rparr>) \<and>
       generation_row_requested_by row = u \<and> generation_row_case_id row = i)"
proof (cases r)
  case (Inl e)
  with assms show ?thesis by (auto simp: generate_alert_description_def Let_def split: sum.splits)
next
  case (Inr x)
  with assms show ?thesis
    by (force simp: generate_alert_description_def Let_def bind_result_Inr map_err_Inr request_description_generation_def
        split: sum.splits if_splits dest!: requesting_reviewer_Inr generation_create_Inr)
qed

text \<open>C34: Whatever a language model answers, asking it for the fields of a report or for a description leaves the
  whole database as it was, cases, alerts, audit trail and the status of the reports included, and the
  reports, attachments and earlier suggestions too. At most one suggestion is added, it names the authenticated
  reviewer who asked, and nobody else can add one.\<close>

theorem suggestions_change_nothing:
  "(\<exists>rows. fst (create_extraction extractor cfg rq i (db, ev)) = (db, ev\<lparr>ev_extractions := ev_extractions ev @ rows\<rparr>) \<and>
     length rows \<le> 1 \<and> list_all (\<lambda>row. api_actor cfg rq db = Inr (Actor_Reviewer (extraction_row_requested_by row))) rows) \<and>
   (\<exists>rows. fst (generate_alert_description generator cfg rq j source (db, ev)) =
       (db, ev\<lparr>ev_generations := ev_generations ev @ rows\<rparr>) \<and>
     length rows \<le> 1 \<and> list_all (\<lambda>row. api_actor cfg rq db = Inr (Actor_Reviewer (generation_row_requested_by row))) rows)"
proof
  obtain st1 r1 where 1: "create_extraction extractor cfg rq i (db, ev) = (st1, r1)" by (cases "create_extraction extractor cfg rq i (db, ev)")
  show "\<exists>rows. fst (create_extraction extractor cfg rq i (db, ev)) = (db, ev\<lparr>ev_extractions := ev_extractions ev @ rows\<rparr>) \<and>
     length rows \<le> 1 \<and> list_all (\<lambda>row. api_actor cfg rq db = Inr (Actor_Reviewer (extraction_row_requested_by row))) rows"
    using create_extraction_effect [OF 1]
  proof
    assume "st1 = (db, ev)"
    with 1 show ?thesis by (intro exI [of _ "[]"]) simp
  next
    assume "\<exists>u row. api_actor cfg rq db = Inr (Actor_Reviewer u) \<and>
      st1 = (db, ev\<lparr>ev_extractions := ev_extractions ev @ [row]\<rparr>) \<and> extraction_row_requested_by row = u \<and>
      extraction_row_report_id row = i"
    then obtain row where "api_actor cfg rq db = Inr (Actor_Reviewer (extraction_row_requested_by row))"
      "st1 = (db, ev\<lparr>ev_extractions := ev_extractions ev @ [row]\<rparr>)" by blast
    with 1 show ?thesis by (intro exI [of _ "[row]"]) simp
  qed
next
  obtain st2 r2 where 2: "generate_alert_description generator cfg rq j source (db, ev) = (st2, r2)"
    by (cases "generate_alert_description generator cfg rq j source (db, ev)")
  show "\<exists>rows. fst (generate_alert_description generator cfg rq j source (db, ev)) =
       (db, ev\<lparr>ev_generations := ev_generations ev @ rows\<rparr>) \<and>
     length rows \<le> 1 \<and> list_all (\<lambda>row. api_actor cfg rq db = Inr (Actor_Reviewer (generation_row_requested_by row))) rows"
    using generate_alert_description_effect [OF 2]
  proof
    assume "st2 = (db, ev)"
    with 2 show ?thesis by (intro exI [of _ "[]"]) simp
  next
    assume "\<exists>u row. api_actor cfg rq db = Inr (Actor_Reviewer u) \<and>
      st2 = (db, ev\<lparr>ev_generations := ev_generations ev @ [row]\<rparr>) \<and> generation_row_requested_by row = u \<and>
      generation_row_case_id row = j"
    then obtain row where "api_actor cfg rq db = Inr (Actor_Reviewer (generation_row_requested_by row))"
      "st2 = (db, ev\<lparr>ev_generations := ev_generations ev @ [row]\<rparr>)" by blast
    with 2 show ?thesis by (intro exI [of _ "[row]"]) simp
  qed
qed

section \<open>Submitting once\<close>

lemma create_anonymous_report_Inr:
  assumes "create_anonymous_report cfg rq at content reported (st, limits) = ((st', limits'), Inr (status, resp))"
  shows "\<exists>key sub. idempotency_key_from_headers (request_headers rq) (api_request_id cfg rq) = Inr key \<and>
    prepare_anonymous_report (config_show_uuid cfg) (config_sha256 cfg) content (api_request_id cfg rq) key reported
      (request_ids rq 0, request_ids rq 1, request_ids rq 2, request_ids rq 3) = Inr sub \<and>
    submit_anonymous (config_show_uuid cfg) at sub st = Inr (st', Submission_Created) \<and> status = 201 \<and>
    resp = \<lparr>created_report_id = report_uuid (report_id (submission_report sub)),
            created_reference_code = submission_reference_code sub, created_status = lit ''RECEIVED''\<rparr>"
  using assms
  by (auto simp: create_anonymous_report_def Let_def split: sum.splits prod.splits submission_result.splits)

lemma create_anonymous_report_repeated:
  assumes "idempotency_key_from_headers (request_headers rq) (api_request_id cfg rq) = Inr (Some key)"
    and "Some (config_sha256 cfg key) \<in> report_row_key_hash ` set (ev_reports (snd st))"
    and "request_ids rq 1 \<notin> report_row_id ` set (ev_reports (snd st))"
  shows "fst (fst (create_anonymous_report cfg rq at content reported (st, limits))) = st"
proof -
  obtain db ev where st: "st = (db, ev)" by (cases st)
  have "st' = (db, ev) \<and> (\<exists>i. res = Submission_Duplicate i)"
    if p: "prepare_anonymous_report (config_show_uuid cfg) (config_sha256 cfg) content rid (Some key) reported
        (request_ids rq 0, request_ids rq 1, request_ids rq 2, request_ids rq 3) = Inr sub"
      and s: "submit_anonymous (config_show_uuid cfg) at sub (db, ev) = Inr (st', res)" for rid sub st' res
    using resubmission [OF _ _ _ s, of "config_sha256 cfg key"] prepare_anonymous_report_Inr(3,6) [OF p] assms(2,3) st
    by auto
  with assms(1) st show ?thesis
    by (fastforce simp: create_anonymous_report_def Let_def split: sum.splits prod.splits submission_result.splits)
qed

lemma first_submission_accepted:
  assumes "\<not> btrim_blank (report_raw_content (submission_report s))" and "submission_idempotency_key_hash s = None"
  shows "\<exists>st'. submit_anonymous su at s (empty_database, no_evidence) = Inr (st', Submission_Created)"
  using assms by (simp add: submit_anonymous_def insert_report_def insert_submission_audit_event_def
      insert_submission_outbox_event_def insert_row_def report_to_row_def empty_database_def no_evidence_def Let_def)

lemma sample_report_accepted:
  "\<exists>st' limits' resp. create_anonymous_report sample_config sample_request (lit ''2026'') (lit ''help'') None
     ((empty_database, no_evidence), \<lambda>_. None) = ((st', limits'), Inr (201, resp))"
proof -
  let ?rid = "api_request_id sample_config sample_request" and ?ids = "request_ids sample_request"
  obtain limits' where "enforce_rate_limit (\<lambda>_. None) Scope_AnonymousReportSubmission
      (source_key_from_headers (request_headers sample_request)) (request_now sample_request) ?rid = (limits', Inr ())"
    by (simp add: enforce_rate_limit_def pg_record_and_check_def Let_def)
  moreover have "idempotency_key_from_headers (request_headers sample_request) ?rid = Inr None"
    by (simp add: idempotency_key_from_headers_def sample_request_def header_str_def lit_def)
  moreover obtain sub where "prepare_anonymous_report (config_show_uuid sample_config) (config_sha256 sample_config)
      (lit ''help'') ?rid None None (?ids 0, ?ids 1, ?ids 2, ?ids 3) = Inr sub"
    and "report_raw_content (submission_report sub) = lit ''help''" "submission_idempotency_key_hash sub = None"
    by (simp add: prepare_anonymous_report_def trim_def is_whitespace_def lit_def MAX_REPORT_CONTENT_CHARS_def Let_def)
  moreover have "\<not> btrim_blank (lit ''help'')" by (simp add: btrim_blank_def lit_def)
  ultimately show ?thesis
    using first_submission_accepted [of sub "config_show_uuid sample_config" "lit ''2026''"]
    by (auto simp: create_anonymous_report_def Let_def)
qed



section \<open>The review queue\<close>

lemma map_of_start_review:
  "distinct (map fst xs) \<Longrightarrow>
   map_of (map (\<lambda>(k, st). if k = i \<and> st = a then (k, b) else (k, st)) xs) j =
     (if j = i \<and> map_of xs i = Some a then Some b else map_of xs j)"
  by (induction xs) (auto simp: image_iff split: if_splits)

lemma mark_under_review_effect:
  assumes "reports_ok (db, ev)" and "mark_under_review (ReportId i) db = (db', changed)"
  shows "changed \<longleftrightarrow> report_status_text db i = Some (lit ''RECEIVED'')"
    and "report_status_text db' j =
      (if j = i \<and> changed then Some (lit ''UNDER_REVIEW'') else report_status_text db j)"
    and "\<not> changed \<Longrightarrow> db' = db"
proof -
  have d: "distinct (map fst (db_report_status db))" using assms(1) by (simp add: reports_ok_def)
  show c: "changed \<longleftrightarrow> report_status_text db i = Some (lit ''RECEIVED'')"
    using assms(2) map_of_eq_Some_iff [OF d, of i "lit ''RECEIVED''"]
    by (auto simp: mark_under_review_def report_status_text_def list_ex_iff Let_def)
  show "report_status_text db' j = (if j = i \<and> changed then Some (lit ''UNDER_REVIEW'') else report_status_text db j)"
    using assms(2) c map_of_start_review [OF d, of i "lit ''RECEIVED''" "lit ''UNDER_REVIEW''" j]
    by (auto simp: mark_under_review_def report_status_text_def Let_def)
  assume n: "\<not> changed"
  have "map (\<lambda>(k, st). if k = i \<and> st = lit ''RECEIVED'' then (k, lit ''UNDER_REVIEW'') else (k, st)) (db_report_status db) =
      db_report_status db"
    using n c map_of_eq_Some_iff [OF d, of i "lit ''RECEIVED''"]
    by (intro map_idI) (auto simp: report_status_text_def)
  then show "db' = db" using assms(2) by (simp add: mark_under_review_def Let_def)
qed

text \<open>A review is started only by an identified reviewer and only of a report that is still received: it is
  under review afterwards, and nothing else changes. In particular a report linked to a case or already
  under review is left alone.\<close>

theorem review_starts_once:
  assumes ok: "reports_ok (db, ev)"
    and "start_report_review cfg rq i (db, ev) = ((db', ev'), r)"
  shows "ev' = ev \<and>
    (db' = db \<and> (\<exists>e. r = Inl e) \<or>
     (\<exists>u. api_actor cfg rq db = Inr (Actor_Reviewer u)) \<and> report_status_text db i = Some (lit ''RECEIVED'') \<and>
     (\<forall>j. report_status_text db' j = (if j = i then Some (lit ''UNDER_REVIEW'') else report_status_text db j)) \<and>
     (\<exists>rows. db' = db\<lparr>db_report_status := rows\<rparr>) \<and>
     (\<forall>s. r = Inr s \<longrightarrow> summary_id s = i \<and> summary_status s = ReportStatus_UnderReview))"
proof -
  obtain db1 changed where m: "mark_under_review (ReportId i) db = (db1, changed)" by (cases "mark_under_review (ReportId i) db")
  note effect = mark_under_review_effect [OF ok m]
  show ?thesis
  proof (cases "(\<exists>u. api_actor cfg rq db = Inr (Actor_Reviewer u)) \<and> changed \<and> db' = db1")
    case True
    have "summary_id s = i \<and> summary_status s = ReportStatus_UnderReview" if "r = Inr s" for s
      using assms(2) m that True effect(2)
      by (auto simp: start_report_review_def report_find_by_id_def report_summary_of_row_def bind_result_Inr map_err_Inr
          ok_or_Inr find_Some_iff report_status_from_db_def Let_def split: sum.splits option.splits if_splits)
    moreover have "ev' = ev" using assms(2) m True by (auto simp: start_report_review_def Let_def split: sum.splits if_splits)
    moreover have "\<exists>rows. db1 = db\<lparr>db_report_status := rows\<rparr>" using m by (auto simp: mark_under_review_def Let_def)
    ultimately show ?thesis using True effect(1,2) by auto
  next
    case False
    have "authorize a Capability_ReviewReport = Inr x \<Longrightarrow> \<exists>u. a = Actor_Reviewer u" for a x
      by (cases a) (auto simp: authorize_def)
    then have "ev' = ev \<and> db' = db \<and> (\<exists>e. r = Inl e)"
      using assms(2) m False effect(3)
      by (fastforce simp: start_report_review_def Let_def bind_result_Inr map_err_Inr split: sum.splits if_splits)
    then show ?thesis by blast
  qed
qed

definition sample_reports :: evidence_db where
  "sample_reports = (sample_gate_db\<lparr>db_report_status := [(1, lit ''RECEIVED'')]\<rparr>,
     no_evidence\<lparr>ev_reports := [\<lparr>report_row_id = 1, report_row_source_channel = lit ''WEB'',
       report_row_raw_content = lit ''help'', report_row_token_hash = [1], report_row_key_hash = None,
       report_row_incident_type = None, report_row_received_at = lit ''2026''\<rparr>]\<rparr>)"

theorem review_starts_once_witness:
  "\<exists>db' ev' s. start_report_review sample_config sample_request 1 sample_reports = ((db', ev'), Inr s) \<and>
     report_status_text db' 1 = Some (lit ''UNDER_REVIEW'') \<and> summary_status s = ReportStatus_UnderReview"
proof -
  have a: "api_actor sample_config sample_request (fst sample_reports) = Inr (Actor_Reviewer 9)"
    by (rule sample_actor) (simp add: sample_reports_def sample_gate_db_def)
  have v: "report_source_channel_from_db (lit ''WEB'') = Some ReportSourceChannel_Web"
    "report_status_from_db (lit ''UNDER_REVIEW'') = Some ReportStatus_UnderReview"
    by (simp_all add: report_source_channel_from_db_def report_status_from_db_def)
  obtain db' ev' s where r: "start_report_review sample_config sample_request 1 sample_reports = ((db', ev'), Inr s)"
    using a by (simp add: start_report_review_def sample_reports_def authorize_def map_err_def mark_under_review_def
        report_find_by_id_def report_summary_of_row_def report_status_text_def ok_or_def v Let_def)
  obtain db ev where st: "sample_reports = (db, ev)" by (cases sample_reports)
  have ok: "reports_ok (db, ev)" unfolding st [symmetric] by (simp add: reports_ok_def sample_reports_def)
  show ?thesis using review_starts_once [OF ok r [unfolded st]] r by auto
qed

section \<open>Evidence\<close>

lemma attachment_stored:
  assumes "attachment_repo_create a (db, ev) = Inr st'"
  shows "\<exists>row. st' = (db, ev\<lparr>ev_attachments := ev_attachments ev @ [row]\<rparr>) \<and>
    attachment_object_key a \<notin> attachment_row_object_key ` set (ev_attachments ev) \<and>
    attachment_find_by_id (snd st') (attachment_id a) = Inr (Some a)"
proof -
  let ?row = "\<lparr>attachment_row_id = attachment_uuid (attachment_id a),
    attachment_row_report_id = report_uuid (attachment_report_id a),
    attachment_row_storage_provider = storage_provider_to_db (attachment_storage_provider a),
    attachment_row_object_key = attachment_object_key a,
    attachment_row_content_type = content_type_to_db (attachment_content_type a),
    attachment_row_size_bytes = attachment_size_bytes a, attachment_row_checksum = attachment_checksum a\<rparr>"
  have st': "st' = (db, ev\<lparr>ev_attachments := ev_attachments ev @ [?row]\<rparr>)"
    and new: "attachment_uuid (attachment_id a) \<notin> attachment_row_id ` set (ev_attachments ev)"
      "attachment_object_key a \<notin> attachment_row_object_key ` set (ev_attachments ev)"
    using assms by (auto simp: attachment_repo_create_def Let_def split: if_splits)
  have "find (\<lambda>r. attachment_row_id r = attachment_uuid (attachment_id a)) (ev_attachments ev) = None"
    using new(1) by (auto simp: find_None_iff image_iff)
  moreover have "attachment_from_row ?row = Inr a"
    by (simp add: attachment_from_row_def ok_or_def storage_provider_db.from_to content_type_db.from_to
        attachment_reconstitute_def)
  ultimately have "attachment_find_by_id (snd st') (attachment_id a) = Inr (Some a)"
    by (simp add: attachment_find_by_id_def st' find_append_one)
  with st' new(2) show ?thesis by blast
qed

lemma create_attachment_Inr:
  assumes "create_attachment storage cfg rq i req (st, limits) = ((st', limits'), Inr (status, resp))"
  shows "\<exists>ct prepared. report_exists st (ReportId i) \<and> content_type_from_mime (upload_content_type req) = Some ct \<and>
    prepare_attachment_upload (config_show_uuid cfg) (storage_provider_of storage) (storage_upload_url storage)
      (ReportId i) ct (upload_size_bytes req) (upload_checksum req) (request_ids rq 0, request_ids rq 1) = Inr prepared \<and>
    attachment_repo_create (prepared_attachment prepared) st = Inr st' \<and>
    created_attachment_id resp = attachment_uuid (attachment_id (prepared_attachment prepared)) \<and>
    created_upload_url resp = signed_url_url (prepared_upload prepared)"
  using assms
  by (auto simp: create_attachment_def Let_def split: prod.splits sum.splits option.splits if_splits)

lemma create_attachment_Inl:
  "create_attachment storage cfg rq i req (st, limits) = ((st', limits'), Inl e) \<Longrightarrow> st' = st"
  by (auto simp: create_attachment_def Let_def split: prod.splits sum.splits option.splits if_splits)


text \<open>C37: A download url is given only to an identified reviewer and only for a stored attachment, and never without an
  audit row that names the reviewer, the attachment and the request; the row is all that changes. A request
  that is refused, or whose audit row cannot be written, gets no url and changes nothing.\<close>

theorem downloads_recorded:
  "case create_download_url storage cfg rq i (db, ev) of
     (st', Inl e) \<Rightarrow> st' = (db, ev)
   | (st', Inr url) \<Rightarrow>
       (\<exists>u a row. api_actor cfg rq db = Inr (Actor_Reviewer u) \<and>
          attachment_find_by_id ev (AttachmentId i) = Inr (Some a) \<and>
          storage_download_url storage (attachment_object_key a) = Inr url \<and>
          st' = (db\<lparr>db_audit := db_audit db @ [row]\<rparr>, ev) \<and> audit_row_actor_id row = Some u \<and>
          audit_row_action row = lit ''ATTACHMENT_DOWNLOAD_URL_ISSUED'' \<and>
          audit_row_resource_id row = Some (attachment_uuid (attachment_id a)) \<and>
          audit_row_request_id row = api_request_id cfg rq)"
proof -
  obtain st' r where c: "create_download_url storage cfg rq i (db, ev) = (st', r)" by (metis prod.exhaust)
  show ?thesis
  proof (cases r)
    case (Inl e)
    with c show ?thesis by (auto simp: create_download_url_def Let_def split: sum.splits)
  next
    case (Inr url)
    then obtain a x db' where a: "api_actor cfg rq db = Inr a"
      and v: "map_err (\<lambda>_. api_error 403 ''NOT_AUTHORIZED'' ''Only an identified reviewer may access an attachment.''
          (api_request_id cfg rq)) (authorize a Capability_ViewCase) = Inr ()"
      and x: "attachment_find_by_id ev (AttachmentId i) = Inr (Some x)"
      and url: "storage_download_url storage (attachment_object_key x) = Inr url"
      and w: "record_download_access (request_ids rq 0) (attachment_id x) a (api_request_id cfg rq) db = Inr db'"
      and st': "st' = (db', ev)"
      using c by (auto simp: create_download_url_def Let_def bind_result_Inr map_err_Inr ok_or_Inr split: sum.splits)
    obtain u where u: "a = Actor_Reviewer u" using v by (cases a) (auto simp: authorize_def map_err_Inr)
    have "\<exists>row. db' = db\<lparr>db_audit := db_audit db @ [row]\<rparr> \<and> audit_row_actor_id row = Some u \<and>
        audit_row_action row = lit ''ATTACHMENT_DOWNLOAD_URL_ISSUED'' \<and>
        audit_row_resource_id row = Some (attachment_uuid (attachment_id x)) \<and>
        audit_row_request_id row = api_request_id cfg rq"
      using w unfolding u by (fastforce simp: record_download_access_def record_audit_event_def bind_result_Inr insert_row_Inr)
    then show ?thesis unfolding c Inr using a u x url st' by auto
  qed
qed

end
