(* ===== verification/Read_Api.thy ===== *)
theory Read_Api
  imports Organization_Api Case_Api Delivery_System
begin

text \<open>
  The endpoints that show the directory of consumers, the deliveries of an alert and the audit trail
  (\<open>consumers.rs\<close>, \<open>deliveries.rs\<close>, \<open>audit_events.rs\<close> under \<open>apps/api/src\<close>). Only the registration of a consumer
  writes.
\<close>

section \<open>Consumers\<close>

definition consumer_not_authorized :: "uuid \<Rightarrow> api_error" where
  "consumer_not_authorized rid =
     api_error 403 ''NOT_AUTHORIZED'' ''Only an identified reviewer may manage consumers.'' rid"

definition consumer_not_found :: "uuid \<Rightarrow> api_error" where
  "consumer_not_found rid = api_error 404 ''CONSUMER_NOT_FOUND'' ''No consumer exists with the given id.'' rid"

definition consumer_persistence_failed :: "uuid \<Rightarrow> api_error" where
  "consumer_persistence_failed rid =
     api_error 500 ''CONSUMER_PERSISTENCE_FAILED'' ''The consumer could not be saved. Please try again.'' rid"

record create_consumer_request =
  new_consumer_name :: rstring
  new_consumer_type :: consumer_type

record consumer_response =
  shown_consumer_id :: uuid
  shown_consumer_name :: rstring
  shown_consumer_type :: consumer_type

definition consumer_response :: "consumer \<Rightarrow> consumer_response" where
  "consumer_response c =
     \<lparr>shown_consumer_id = consumer_uuid (consumer_id c), shown_consumer_name = consumer_name c,
      shown_consumer_type = consumer_type c\<rparr>"

definition consumer_manager :: "api_config \<Rightarrow> api_request \<Rightarrow> database \<Rightarrow> api_error + unit" where
  "consumer_manager cfg rq db =
     bind_result (api_actor cfg rq db) (\<lambda>a.
       map_err (\<lambda>_. consumer_not_authorized (api_request_id cfg rq)) (authorize a Capability_ManageSubscriptions))"

text \<open>Draws the consumer's id.\<close>

definition register_consumer ::
  "api_config \<Rightarrow> api_request \<Rightarrow> create_consumer_request \<Rightarrow> database \<Rightarrow> database \<times> (api_error + nat \<times> consumer_response)" where
  "register_consumer cfg rq req db =
     (let rid = api_request_id cfg rq in
      answer db (
        bind_result (consumer_manager cfg rq db) (\<lambda>_.
        bind_result (map_err (\<lambda>_. api_error 400 ''INVALID_CONSUMER_NAME'' ''name cannot be blank.'' rid)
          (consumer_new (request_ids rq 0) (new_consumer_type req) (new_consumer_name req))) (\<lambda>c.
        bind_result (map_err (\<lambda>_. consumer_persistence_failed rid) (consumer_repo_create c db)) (\<lambda>db'.
          Inr (db', (201, consumer_response c)))))))"

definition get_consumer :: "api_config \<Rightarrow> api_request \<Rightarrow> uuid \<Rightarrow> database \<Rightarrow> api_error + consumer_response" where
  "get_consumer cfg rq i db =
     (let rid = api_request_id cfg rq in
      bind_result (consumer_manager cfg rq db) (\<lambda>_.
      bind_result (map_err (\<lambda>_. consumer_persistence_failed rid) (consumer_find_by_id db (ConsumerId i))) (\<lambda>found.
      bind_result (ok_or (consumer_not_found rid) found) (\<lambda>c.
        Inr (consumer_response c)))))"

definition CONSUMER_DEFAULT_LIMIT :: nat where "CONSUMER_DEFAULT_LIMIT = 50"

definition CONSUMER_MAX_LIMIT :: nat where "CONSUMER_MAX_LIMIT = 100"

record list_consumers_query =
  consumers_of_type :: "consumer_type option"
  consumers_limit :: "u32 option"
  consumers_offset :: "u32 option"

definition list_consumers ::
  "api_config \<Rightarrow> api_request \<Rightarrow> list_consumers_query \<Rightarrow> database \<Rightarrow> api_error + consumer_response list" where
  "list_consumers cfg rq q db =
     (let rid = api_request_id cfg rq;
          limit = min (case consumers_limit q of None \<Rightarrow> CONSUMER_DEFAULT_LIMIT | Some n \<Rightarrow> unat n) CONSUMER_MAX_LIMIT;
          offset = (case consumers_offset q of None \<Rightarrow> 0 | Some n \<Rightarrow> unat n) in
      bind_result (consumer_manager cfg rq db) (\<lambda>_.
      bind_result (map_err (\<lambda>_. consumer_persistence_failed rid) (consumer_list db (consumers_of_type q) limit offset)) (\<lambda>cs.
        Inr (map consumer_response cs))))"

section \<open>Deliveries\<close>

definition delivery_persistence_failed :: "uuid \<Rightarrow> api_error" where
  "delivery_persistence_failed rid =
     api_error 500 ''DELIVERY_PERSISTENCE_FAILED'' ''The request could not be completed. Please try again.'' rid"

definition delivery_not_authorized :: "uuid \<Rightarrow> api_error" where
  "delivery_not_authorized rid =
     api_error 403 ''NOT_AUTHORIZED'' ''Only an identified reviewer may view delivery detail.'' rid"

record delivery_response =
  response_delivery_id :: uuid
  response_delivery_alert_id :: uuid
  response_delivery_consumer_id :: uuid
  response_delivery_channel :: rstring
  response_delivery_endpoint :: rstring
  response_delivery_tier :: u8
  response_delivery_status :: rstring
  response_delivery_attempt_count :: u32
  response_delivery_max_attempts :: u32
  response_delivery_version :: u64

definition delivery_response :: "delivery \<Rightarrow> delivery_response" where
  "delivery_response d =
     \<lparr>response_delivery_id = delivery_uuid (delivery_id d), response_delivery_alert_id = alert_uuid (delivery_alert_id d),
      response_delivery_consumer_id = consumer_uuid (delivery_consumer_id d),
      response_delivery_channel = channel_type_to_db (delivery_channel d),
      response_delivery_endpoint = delivery_endpoint_address d, response_delivery_tier = delivery_tier d,
      response_delivery_status = delivery_status_to_db (delivery_status d),
      response_delivery_attempt_count = delivery_attempt_count d,
      response_delivery_max_attempts = delivery_max_attempts d, response_delivery_version = delivery_version d\<rparr>"

definition delivery_viewer :: "api_config \<Rightarrow> api_request \<Rightarrow> database \<Rightarrow> api_error + unit" where
  "delivery_viewer cfg rq db =
     bind_result (api_actor cfg rq db) (\<lambda>a.
       map_err (\<lambda>_. delivery_not_authorized (api_request_id cfg rq)) (authorize a Capability_ViewCase))"

definition list_deliveries_for_alert ::
  "api_config \<Rightarrow> api_request \<Rightarrow> uuid \<Rightarrow> database \<Rightarrow> api_error + delivery_response list" where
  "list_deliveries_for_alert cfg rq i db =
     bind_result (delivery_viewer cfg rq db) (\<lambda>_.
     bind_result (map_err (\<lambda>_. delivery_persistence_failed (api_request_id cfg rq))
       (delivery_find_by_alert_id (config_show_uuid cfg) (config_parse_uuid cfg) db (AlertId i))) (\<lambda>ds.
       Inr (map delivery_response ds)))"

record attempt_response =
  response_attempt_number :: u32
  response_attempt_outcome :: rstring
  response_attempt_message_id :: "rstring option"
  response_attempt_retryable :: "bool option"
  response_attempt_failure_reason :: "rstring option"

definition attempt_response :: "delivery_attempt \<Rightarrow> attempt_response" where
  "attempt_response a =
     (case attempt_outcome a of
        AttemptOutcome_Sent message_id \<Rightarrow>
          \<lparr>response_attempt_number = attempt_number a, response_attempt_outcome = lit ''SENT'',
           response_attempt_message_id = message_id, response_attempt_retryable = None,
           response_attempt_failure_reason = None\<rparr>
      | AttemptOutcome_Failed retryable reason \<Rightarrow>
          \<lparr>response_attempt_number = attempt_number a, response_attempt_outcome = lit ''FAILED'',
           response_attempt_message_id = None, response_attempt_retryable = Some retryable,
           response_attempt_failure_reason = Some reason\<rparr>)"

record delivery_detail =
  detail_delivery :: delivery_response
  detail_attempts :: "attempt_response list"

definition get_delivery :: "api_config \<Rightarrow> api_request \<Rightarrow> uuid \<Rightarrow> database \<Rightarrow> api_error + delivery_detail" where
  "get_delivery cfg rq i db =
     (let rid = api_request_id cfg rq in
      bind_result (delivery_viewer cfg rq db) (\<lambda>_.
      bind_result (map_err (\<lambda>_. delivery_persistence_failed rid)
        (delivery_find_by_id (config_show_uuid cfg) (config_parse_uuid cfg) db (DeliveryId i))) (\<lambda>found.
      bind_result (ok_or (api_error 404 ''DELIVERY_NOT_FOUND'' ''No delivery exists with the given id.'' rid) found) (\<lambda>d.
      bind_result (map_err (\<lambda>_. delivery_persistence_failed rid) (delivery_find_attempts db (DeliveryId i))) (\<lambda>attempts.
        Inr \<lparr>detail_delivery = delivery_response d, detail_attempts = map attempt_response attempts\<rparr>)))))"

section \<open>The audit trail\<close>

definition AUDIT_DEFAULT_LIMIT :: nat where "AUDIT_DEFAULT_LIMIT = 50"

definition AUDIT_MAX_LIMIT :: nat where "AUDIT_MAX_LIMIT = 100"

record list_audit_events_query =
  audit_query_filter :: audit_event_filter
  audit_query_limit :: "u32 option"
  audit_query_offset :: "u32 option"

text \<open>A row is answered as it is stored. The query that reads it cannot fail; \<open>occurred_at\<close> is the row's place.\<close>

definition list_audit_events ::
  "api_config \<Rightarrow> api_request \<Rightarrow> list_audit_events_query \<Rightarrow> database \<Rightarrow> api_error + audit_row list" where
  "list_audit_events cfg rq q db =
     (let rid = api_request_id cfg rq;
          limit = min (case audit_query_limit q of None \<Rightarrow> AUDIT_DEFAULT_LIMIT | Some n \<Rightarrow> unat n) AUDIT_MAX_LIMIT;
          offset = (case audit_query_offset q of None \<Rightarrow> 0 | Some n \<Rightarrow> unat n) in
      bind_result (api_actor cfg rq db) (\<lambda>a.
      bind_result (map_err (\<lambda>_. api_error 403 ''NOT_AUTHORIZED''
          ''Only an identified reviewer may view the audit trail.'' rid) (authorize a Capability_ViewAudit)) (\<lambda>_.
        Inr (audit_list (audit_query_filter q) limit offset db))))"

section \<open>Reading what is stored\<close>

lemma reader_Inr:
  "bind_result (api_actor cfg rq db) (\<lambda>a. map_err (\<lambda>_. denied) (authorize a cap)) = Inr u \<longleftrightarrow>
     (\<exists>a. api_actor cfg rq db = Inr a \<and> (cap = Capability_Report \<or> is_reviewer a))"
  by (auto simp: bind_result_Inr map_err_Inr authorize_Inr)

lemma is_reviewer_iff: "is_reviewer a \<longleftrightarrow> (\<exists>u. a = Actor_Reviewer u)"
  by (cases a) auto

lemma api_actor_cong: "db_reviewers db' = db_reviewers db \<Longrightarrow> api_actor cfg rq db' = api_actor cfg rq db"
  by (simp add: api_actor_def actor_from_headers_def is_session_revoked_def cong: option.case_cong)

lemma find_append_other: "k r \<noteq> x \<Longrightarrow> find (\<lambda>y. k y = x) (rs @ [r]) = find (\<lambda>y. k y = x) rs"
  by (induction rs) auto

text \<open>A consumer is registered only by an identified reviewer and only under a name that is not blank: one row
  with a new id is added and nothing else changes, what is shown of every other consumer stays as it was, and from then
  on every reviewer is shown exactly what the registration answered.\<close>

theorem consumer_registered:
  assumes "register_consumer cfg rq req db = (db', Inr (status, resp))"
  shows "(\<exists>u. api_actor cfg rq db = Inr (Actor_Reviewer u)) \<and>
    \<not> is_blank (shown_consumer_name resp) \<and> shown_consumer_name resp = trim (new_consumer_name req) \<and>
    shown_consumer_type resp = new_consumer_type req \<and>
    (\<exists>row. db' = db\<lparr>db_consumers := db_consumers db @ [row]\<rparr>) \<and>
    shown_consumer_id resp \<notin> consumer_row_id ` set (db_consumers db) \<and>
    (\<forall>rq2 u. api_actor cfg rq2 db = Inr (Actor_Reviewer u) \<longrightarrow>
       get_consumer cfg rq2 (shown_consumer_id resp) db' = Inr resp) \<and>
    (\<forall>rq2 j. j \<noteq> shown_consumer_id resp \<longrightarrow> get_consumer cfg rq2 j db' = get_consumer cfg rq2 j db)"
proof -
  obtain a c where a: "api_actor cfg rq db = Inr a" "is_reviewer a"
    and c: "consumer_new (request_ids rq 0) (new_consumer_type req) (new_consumer_name req) = Inr c"
    and w: "consumer_repo_create c db = Inr db'" and resp: "resp = consumer_response c"
    using assms by (auto simp: register_consumer_def Let_def answer_Inr consumer_manager_def bind_result_Inr map_err_Inr
        authorize_Inr)
  have name: "consumer_name c = trim (new_consumer_name req)" "consumer_type c = new_consumer_type req"
    using c by (auto simp: consumer_new_def Let_def split: if_splits)
  obtain row where db': "db' = db\<lparr>db_consumers := db_consumers db @ [row]\<rparr>"
    and new: "consumer_row_id row \<notin> consumer_row_id ` set (db_consumers db)"
    and row: "consumer_row_id row = shown_consumer_id resp" "consumer_row_name row = consumer_name c"
      "consumer_row_type row = consumer_type_to_db (consumer_type c)"
    using w resp by (fastforce simp: consumer_repo_create_def consumer_insert_def bind_result_Inr insert_row_Inr
        consumer_response_def split: if_splits)
  have actor: "api_actor cfg rq2 db' = api_actor cfg rq2 db" for rq2 by (rule api_actor_cong) (simp add: db')
  have "find (\<lambda>r. consumer_row_id r = shown_consumer_id resp) (db_consumers db @ [row]) = Some row"
    by (rule find_append_new) (use new row(1) in simp_all)
  then have "\<exists>c'. consumer_find_by_id db' (ConsumerId (shown_consumer_id resp)) = Inr (Some c') \<and>
      consumer_response c' = resp"
    using row resp by (simp add: consumer_find_by_id_def db' consumer_from_row_def ok_or_def
        consumer_type_db.from_to consumer_reconstitute_def consumer_response_def)
  then have shown: "get_consumer cfg rq2 (shown_consumer_id resp) db' = Inr resp"
    if "api_actor cfg rq2 db = Inr (Actor_Reviewer u)" for rq2 u
    using that by (auto simp: get_consumer_def Let_def consumer_manager_def actor ok_or_def authorize_def map_err_def)
  have "get_consumer cfg rq2 j db' = get_consumer cfg rq2 j db" if "j \<noteq> shown_consumer_id resp" for rq2 j
  proof -
    have "find (\<lambda>r. consumer_row_id r = j) (db_consumers db @ [row]) = find (\<lambda>r. consumer_row_id r = j) (db_consumers db)"
      using that row(1) by (intro find_append_other) simp
    then have "consumer_find_by_id db' (ConsumerId j) = consumer_find_by_id db (ConsumerId j)"
      by (simp add: consumer_find_by_id_def db')
    then show ?thesis by (simp add: get_consumer_def Let_def consumer_manager_def actor)
  qed
  moreover have "\<not> is_blank (consumer_name c)" using consumer_name.mk_Inr_nonblank [OF c] by simp
  ultimately show ?thesis using a name db' new row(1) shown resp by (auto simp: is_reviewer_iff consumer_response_def)
qed

text \<open>A name the database accepts.\<close>

theorem consumer_registered_witness:
  "\<exists>db' resp. register_consumer sample_config sample_request
       \<lparr>new_consumer_name = lit ''Red Cross'', new_consumer_type = ConsumerType_Organization\<rparr> sample_gate_db =
       (db', Inr (201, resp)) \<and>
     get_consumer sample_config sample_request (shown_consumer_id resp) db' = Inr resp"
proof -
  have a: "api_actor sample_config sample_request sample_gate_db = Inr (Actor_Reviewer 9)"
    by (rule sample_actor) (simp add: sample_gate_db_def)
  have "\<exists>c. consumer_new 200 ConsumerType_Organization (lit ''Red Cross'') = Inr c \<and> \<not> btrim_blank (consumer_name c)"
    by (simp add: consumer_new_def trim_def is_whitespace_def lit_def btrim_blank_def Let_def)
  then obtain db' resp where r: "register_consumer sample_config sample_request
       \<lparr>new_consumer_name = lit ''Red Cross'', new_consumer_type = ConsumerType_Organization\<rparr> sample_gate_db =
       (db', Inr (201, resp))"
    using a by (auto simp: register_consumer_def consumer_manager_def authorize_def map_err_def answer_def Let_def
        consumer_repo_create_def consumer_insert_def insert_row_def sample_gate_db_def empty_database_def
        sample_request_def)
  with consumer_registered [OF r] a show ?thesis by blast
qed

section \<open>Paging\<close>

lemma concat_pages: "concat (map (\<lambda>k. take n (drop (k * n) xs)) [0..<m]) = take (m * n) xs"
proof (induction m)
  case (Suc m)
  have "take (Suc m * n) xs = take (m * n) xs @ take n (drop (m * n) xs)"
    by (simp add: take_add add.commute [of n])
  with Suc show ?case by simp
qed simp

definition audit_matches :: "audit_event_filter \<Rightarrow> audit_row \<Rightarrow> bool" where
  "audit_matches f r \<longleftrightarrow>
     (\<forall>t. filter_resource_type f = Some t \<longrightarrow> audit_row_resource_type r = t) \<and>
     (\<forall>i. filter_resource_id f = Some i \<longrightarrow> audit_row_resource_id r = Some i) \<and>
     (\<forall>t. filter_action f = Some t \<longrightarrow> audit_row_action r = t) \<and>
     (\<forall>i. filter_actor_id f = Some i \<longrightarrow> audit_row_actor_id r = Some i) \<and>
     (\<forall>i. filter_organization_id f = Some i \<longrightarrow> audit_row_organization_id r = Some i)"

lemma audit_list_matches:
  "audit_list f limit offset db = take limit (drop offset (rev (filter (audit_matches f) (db_audit db))))"
proof -
  have opt: "(x = None \<or> x = Some y) \<longleftrightarrow> (\<forall>t. x = Some t \<longrightarrow> y = t)" "(z = None \<or> z = w) \<longleftrightarrow> (\<forall>t. z = Some t \<longrightarrow> w = Some t)"
    for x :: "'a option" and y and z w :: "'b option"
    by (cases x; auto) (cases z; auto)
  show ?thesis by (simp add: audit_list_def audit_matches_def [abs_def] opt)
qed

text \<open>The audit trail is shown to identified reviewers only, at most 100 rows at a time. A reviewer who reads page
  after page is shown every stored row that matches the filter exactly once, the newest first, whatever the page
  size: the pages put together are the beginning of the matching trail.\<close>

theorem audit_pages_complete:
  "(\<forall>rows. list_audit_events cfg rq q db = Inr rows \<longrightarrow>
      (\<exists>u. api_actor cfg rq db = Inr (Actor_Reviewer u)) \<and> length rows \<le> 100) \<and>
   (\<forall>u n m. api_actor cfg rq db = Inr (Actor_Reviewer u) \<and> n \<le> 100 \<and> m * n < 2 ^ 32 \<longrightarrow>
      (\<exists>page. (\<forall>k < m. list_audit_events cfg rq (q\<lparr>audit_query_limit := Some (of_nat n),
                       audit_query_offset := Some (of_nat (k * n))\<rparr>) db = Inr (page k)) \<and>
         concat (map page [0..<m]) =
           take (m * n) (rev (filter (audit_matches (audit_query_filter q)) (db_audit db)))))"
proof (intro conjI allI impI)
  fix rows assume r: "list_audit_events cfg rq q db = Inr rows"
  then show "\<exists>u. api_actor cfg rq db = Inr (Actor_Reviewer u)"
    by (auto simp: list_audit_events_def Let_def bind_result_Inr map_err_Inr authorize_Inr is_reviewer_iff)
  show "length rows \<le> 100"
    using r by (auto simp: list_audit_events_def Let_def bind_result_Inr audit_list_matches AUDIT_MAX_LIMIT_def)
next
  fix u and n m :: nat assume p: "api_actor cfg rq db = Inr (Actor_Reviewer u) \<and> n \<le> 100 \<and> m * n < 2 ^ 32"
  let ?rows = "rev (filter (audit_matches (audit_query_filter q)) (db_audit db))"
  have n: "unat (of_nat n :: u32) = n" using p by (simp add: unat_of_nat take_bit_nat_eq_self)
  have "list_audit_events cfg rq (q\<lparr>audit_query_limit := Some (of_nat n), audit_query_offset := Some (of_nat (k * n))\<rparr>) db =
      Inr (take n (drop (k * n) ?rows))" if "k < m" for k
  proof -
    have "k * n \<le> m * n" using that by simp
    then have "k * n < 2 ^ 32" using p by linarith
    then have "unat (of_nat (k * n) :: u32) = k * n" by (simp add: unat_of_nat take_bit_nat_eq_self del: of_nat_mult)
    then show ?thesis
      using p n by (simp add: list_audit_events_def Let_def audit_list_matches authorize_def map_err_def AUDIT_MAX_LIMIT_def)
  qed
  then show "\<exists>page. (\<forall>k < m. list_audit_events cfg rq (q\<lparr>audit_query_limit := Some (of_nat n),
                       audit_query_offset := Some (of_nat (k * n))\<rparr>) db = Inr (page k)) \<and>
         concat (map page [0..<m]) = take (m * n) ?rows"
    by (intro exI [of _ "\<lambda>k. take n (drop (k * n) ?rows)"]) (simp add: concat_pages)
qed

theorem audit_pages_complete_witness:
  "\<exists>page. concat (map page [0..<2::nat]) = take 4 (rev (filter
       (audit_matches \<lparr>filter_resource_type = None, filter_resource_id = None, filter_action = None,
          filter_actor_id = None, filter_organization_id = None\<rparr>) (db_audit sample_gate_db)))"
proof -
  let ?f = "\<lparr>filter_resource_type = None, filter_resource_id = None, filter_action = None, filter_actor_id = None,
    filter_organization_id = None\<rparr>"
  have a: "api_actor sample_config sample_request sample_gate_db = Inr (Actor_Reviewer 9)"
    by (rule sample_actor) (simp add: sample_gate_db_def)
  note p = conjunct2 [OF audit_pages_complete [of sample_config sample_request
    "\<lparr>audit_query_filter = ?f, audit_query_limit = None, audit_query_offset = None\<rparr>" sample_gate_db]]
  have "\<exists>page. concat (map page [0..<2]) = take (2 * 2) (rev (filter (audit_matches ?f) (db_audit sample_gate_db)))"
    using p [rule_format, of 9 2 2] a by auto
  then show ?thesis by simp
qed

section \<open>The history of a delivery\<close>

lemma sort_key_sorted: "sorted (map f xs) \<Longrightarrow> sort_key f xs = xs"
  by (induction xs) (simp_all add: insort_is_Cons)

lemma sint_small:
  assumes "unat (v :: u32) < 2 ^ 31"
  shows "sint v = int (unat v)"
proof -
  have lt: "uint v < 2 ^ 31"
    using assms of_nat_less_iff [of "unat v" "2 ^ 31", where 'a = int] by (simp only: of_nat_power of_nat_numeral uint_nat)
  then have "uint v div 2 ^ 31 = 0" by (simp add: div_pos_pos_trivial)
  then have "\<not> bit (uint v) 31" by (simp add: bit_iff_odd)
  then have "sint v = uint v" using lt by (simp add: sint_uint signed_take_bit_eq_take_bit_add take_bit_int_eq_self_iff)
  then show ?thesis by (simp only: uint_nat)
qed

lemma attempts_read:
  assumes "delivery_find_attempts db (DeliveryId i) = Inr as"
    and n: "map (unat \<circ> attempt_row_number) (filter (\<lambda>r. attempt_row_delivery_id r = i) (db_attempts db)) = [1..<k]"
    and k: "k \<le> 2 ^ 31"
  shows "map (unat \<circ> attempt_number) as = [1..<k]"
proof -
  let ?mine = "filter (\<lambda>r. attempt_row_delivery_id r = i) (db_attempts db)"
  have "unat (attempt_row_number r) < 2 ^ 31" if "r \<in> set ?mine" for r
  proof -
    have "unat (attempt_row_number r) \<in> set (map (unat \<circ> attempt_row_number) ?mine)" using that by auto
    then have "unat (attempt_row_number r) < k" unfolding n by simp
    with k show ?thesis by simp
  qed
  then have "map (\<lambda>r. sint (attempt_row_number r)) ?mine = map int (map (unat \<circ> attempt_row_number) ?mine)"
    by (simp add: sint_small)
  then have "sorted (map (\<lambda>r. sint (attempt_row_number r)) ?mine)" unfolding n by (simp add: sorted_map sorted_wrt_iff_nth_less)
  then have as: "map (attempt_of_row (DeliveryId i)) ?mine = map Inr as"
    using assms(1) by (simp add: delivery_find_attempts_def collect_results_Inr sort_key_sorted)
  have "attempt_of_row (DeliveryId i) r = Inr a \<Longrightarrow> attempt_number a = attempt_row_number r" for r a
    by (auto simp: attempt_of_row_def bind_result_Inr split: if_splits)
  then have "map attempt_number as = map attempt_row_number ?mine"
    using as by (auto simp: list_eq_iff_nth_eq)
  then show ?thesis using n by (metis map_map)
qed



end
