(* ===== verification/Channel_Adapters.thy ===== *)
theory Channel_Adapters
  imports Signed_Tokens Worker_Model Alert_Api
begin

text \<open>
  The channel adapters (\<open>crates/infrastructure/src/channels\<close>), the html of an alert email, and the registry that
  the worker builds from its environment (\<open>apps/worker/src/main.rs\<close>). A provider is an argument: for each call
  (numbered, as it may answer the same request differently) either the error text of the connection or a
  response. The sandbox adapters only print; the UUIDs they draw are arguments too.
\<close>

section \<open>Addresses\<close>

definition looks_like_e164 :: "rstring \<Rightarrow> bool" where
  "looks_like_e164 address =
     (case address of
        c # digits \<Rightarrow> c = 43 \<and> 8 \<le> str_len digits \<and> str_len digits \<le> 15 \<and> list_all is_digit_char digits
      | [] \<Rightarrow> False)"

text \<open>\<open>split_once\<close>: before and after the first occurrence.\<close>

fun split_once :: "rstring \<Rightarrow> rstring \<Rightarrow> (rstring \<times> rstring) option" where
  "split_once p [] = (if p = [] then Some ([], []) else None)"
| "split_once p (c # cs) =
     (if starts_with (c # cs) p then Some ([], drop (length p) (c # cs))
      else map_option (\<lambda>(a, b). (c # a, b)) (split_once p cs))"

definition looks_like_email :: "rstring \<Rightarrow> bool" where
  "looks_like_email address =
     (case split_once (lit ''@'') address of
        None \<Rightarrow> False
      | Some (local, domain) \<Rightarrow>
          local \<noteq> [] \<and> domain \<noteq> [] \<and> 46 \<in> set domain \<and> \<not> list_ex is_whitespace address)"

definition validate_phone :: "channel_type \<Rightarrow> rstring \<Rightarrow> endpoint_validation_error + unit" where
  "validate_phone ct address =
     (if looks_like_e164 address then Inr ()
      else Inl \<lparr>validation_error_channel = ct,
                validation_error_reason = lit ''expected E.164 format, e.g. +237600000000''\<rparr>)"

definition validate_email :: "rstring \<Rightarrow> endpoint_validation_error + unit" where
  "validate_email address =
     (if looks_like_email address then Inr ()
      else Inl \<lparr>validation_error_channel = ChannelType_Email,
                validation_error_reason = lit ''expected a well-formed email address''\<rparr>)"

definition channel_error :: "bool \<Rightarrow> rstring \<Rightarrow> channel_error" where
  "channel_error retryable message = \<lparr>channel_error_retryable = retryable, channel_error_message = message\<rparr>"

section \<open>The sandbox adapters\<close>

definition email_channel :: "(uuid \<Rightarrow> rstring) \<Rightarrow> (nat \<Rightarrow> uuid) \<Rightarrow> channel_adapter" where
  "email_channel su ids =
     \<lparr>adapter_channel_type = ChannelType_Email, adapter_validate_endpoint = validate_email,
      adapter_send = (\<lambda>call message.
        if validate_email (message_endpoint_address message) \<noteq> Inr ()
        then Inl (channel_error False (lit ''Email: destination is not a valid email address''))
        else Inr \<lparr>outcome_provider_message_id = Some (lit ''email-sandbox-'' @ su (ids call))\<rparr>)\<rparr>"

definition sms_channel :: "(uuid \<Rightarrow> rstring) \<Rightarrow> (nat \<Rightarrow> uuid) \<Rightarrow> channel_adapter" where
  "sms_channel su ids =
     \<lparr>adapter_channel_type = ChannelType_Sms, adapter_validate_endpoint = validate_phone ChannelType_Sms,
      adapter_send = (\<lambda>call message.
        if validate_phone ChannelType_Sms (message_endpoint_address message) \<noteq> Inr ()
        then Inl (channel_error False (lit ''SMS: destination is not a valid phone number''))
        else Inr \<lparr>outcome_provider_message_id = Some (lit ''sms-sandbox-'' @ su (ids call))\<rparr>)\<rparr>"

definition whatsapp_channel :: "(uuid \<Rightarrow> rstring) \<Rightarrow> (nat \<Rightarrow> uuid) \<Rightarrow> channel_adapter" where
  "whatsapp_channel su ids =
     \<lparr>adapter_channel_type = ChannelType_WhatsApp, adapter_validate_endpoint = validate_phone ChannelType_WhatsApp,
      adapter_send = (\<lambda>call message.
        if validate_phone ChannelType_WhatsApp (message_endpoint_address message) \<noteq> Inr ()
        then Inl (channel_error False (lit ''WhatsApp: destination is not a WhatsApp-reachable number''))
        else Inr \<lparr>outcome_provider_message_id = Some (lit ''wa-sandbox-'' @ su (ids call))\<rparr>)\<rparr>"

section \<open>Providers over HTTP\<close>

text \<open>The status code and its text, and the body as the client reads it or the error of reading it.\<close>

record 'b http_response =
  http_status :: nat
  http_status_text :: rstring
  http_body :: "rstring + 'b"

definition http_success :: "nat \<Rightarrow> bool" where
  "http_success code \<longleftrightarrow> 200 \<le> code \<and> code < 300"

definition http_server_error :: "nat \<Rightarrow> bool" where
  "http_server_error code \<longleftrightarrow> 500 \<le> code \<and> code < 600"

subsection \<open>Infobip\<close>

record infobip_request =
  infobip_url :: rstring
  infobip_authorization :: rstring
  infobip_destination :: rstring
  infobip_from :: rstring
  infobip_text :: rstring

definition trim_end_slashes :: "rstring \<Rightarrow> rstring" where
  "trim_end_slashes s = rev (dropWhile (\<lambda>c. c = 47) (rev s))"

text \<open>The body is the list of message ids.\<close>

definition infobip_channel ::
  "rstring \<Rightarrow> rstring \<Rightarrow> rstring \<Rightarrow> (nat \<Rightarrow> infobip_request \<Rightarrow> rstring + rstring list http_response) \<Rightarrow> channel_adapter" where
  "infobip_channel base_url api_key sender provider =
     (let base = trim_end_slashes base_url in
     \<lparr>adapter_channel_type = ChannelType_Sms, adapter_validate_endpoint = validate_phone ChannelType_Sms,
      adapter_send = (\<lambda>call message.
        case validate_phone ChannelType_Sms (message_endpoint_address message) of
          Inl e \<Rightarrow> Inl (channel_error False (lit ''SMS: '' @ validation_error_reason e))
        | Inr _ \<Rightarrow>
       (let request =
          \<lparr>infobip_url = base @ lit ''/sms/2/text/advanced'', infobip_authorization = lit ''App '' @ api_key,
           infobip_destination = dropWhile (\<lambda>c. c = 43) (message_endpoint_address message), infobip_from = sender,
           infobip_text = message_body message\<rparr> in
        case provider call request of
          Inl error \<Rightarrow> Inl (channel_error True (lit ''SMS: could not reach Infobip: '' @ error))
        | Inr response \<Rightarrow>
            if http_success (http_status response) then
              (case http_body response of
                 Inl error \<Rightarrow> Inl (channel_error True (lit ''SMS: unexpected response from Infobip: '' @ error))
               | Inr messages \<Rightarrow> Inr \<lparr>outcome_provider_message_id = (case messages of [] \<Rightarrow> None | m # _ \<Rightarrow> Some m)\<rparr>)
            else Inl (channel_error (http_status response = 429 \<or> http_server_error (http_status response))
              (lit ''SMS: Infobip rejected the request ('' @ http_status_text response @ lit '')''))))\<rparr>)"

subsection \<open>Web Push\<close>

text \<open>What is used of \<open>serde_json\<close> and \<open>web_push\<close>: reading a subscription, the VAPID signature, the encrypted message.\<close>

record ('s, 'b, 'v, 'q) push_library =
  push_parse :: "rstring \<Rightarrow> 's option"
  push_from_pem :: "bytes \<Rightarrow> 's \<Rightarrow> rstring + 'b"
  push_add_claim :: "'b \<Rightarrow> rstring \<Rightarrow> rstring \<Rightarrow> 'b"
  push_sign :: "'b \<Rightarrow> rstring + 'v"
  push_build :: "'s \<Rightarrow> bytes \<Rightarrow> 'v \<Rightarrow> rstring + 'q"

definition push_channel ::
  "('s, 'b, 'v, 'q) push_library \<Rightarrow> bytes \<Rightarrow> rstring \<Rightarrow> (nat \<Rightarrow> 'q \<Rightarrow> rstring + unit http_response) \<Rightarrow> channel_adapter" where
  "push_channel lib pem subject provider =
     \<lparr>adapter_channel_type = ChannelType_Push,
      adapter_validate_endpoint = (\<lambda>address.
        if push_parse lib address \<noteq> None then Inr ()
        else Inl \<lparr>validation_error_channel = ChannelType_Push, validation_error_reason =
          lit ''expected a serialized browser PushSubscription ({\"endpoint\":..,\"keys\":{\"p256dh\":..,\"auth\":..}})''\<rparr>),
      adapter_send = (\<lambda>call message.
        bind_result (ok_or (channel_error False (lit ''Push: endpoint_address is not a valid push subscription''))
          (push_parse lib (message_endpoint_address message))) (\<lambda>subscription.
        bind_result (map_err (\<lambda>e. channel_error False (lit ''Push: invalid VAPID key: '' @ e))
          (push_from_pem lib pem subscription)) (\<lambda>builder.
        bind_result (map_err (\<lambda>e. channel_error False (lit ''Push: VAPID signing failed: '' @ e))
          (push_sign lib (push_add_claim lib builder (lit ''sub'') subject))) (\<lambda>signature.
        bind_result (map_err (\<lambda>e. channel_error False (lit ''Push: message build failed: '' @ e))
          (push_build lib subscription (utf8 (message_body message)) signature)) (\<lambda>request.
        bind_result (map_err (\<lambda>e. channel_error True (lit ''Push: request failed: '' @ e)) (provider call request)) (\<lambda>response.
          let code = http_status response in
          if http_success code then Inr \<lparr>outcome_provider_message_id = None\<rparr>
          else if code = 404 \<or> code = 410
          then Inl (channel_error False (lit ''Push: subscription no longer valid ('' @ http_status_text response @ lit '')''))
          else if http_server_error code \<or> code = 429
          then Inl (channel_error True (lit ''Push: provider error ('' @ http_status_text response @ lit '')''))
          else Inl (channel_error False (lit ''Push: rejected ('' @ http_status_text response @ lit '')''))))))))\<rparr>"

section \<open>The email of an alert\<close>

definition replace_char :: "nat \<Rightarrow> rstring \<Rightarrow> rstring \<Rightarrow> rstring" where
  "replace_char c by s = concat (map (\<lambda>x. if x = c then by else [x]) s)"

definition escape_html :: "rstring \<Rightarrow> rstring" where
  "escape_html v =
     replace_char 34 (lit ''&quot;'') (replace_char 62 (lit ''&gt;'') (replace_char 60 (lit ''&lt;'')
       (replace_char 38 (lit ''&amp;'') v)))"

definition split_header :: "rstring \<Rightarrow> rstring \<times> rstring" where
  "split_header body =
     (case split_once newline body of
        Some (header, rest) \<Rightarrow> (header, dropWhile (\<lambda>c. c = 10) rest)
      | None \<Rightarrow> (body, []))"

definition parse_header :: "rstring \<Rightarrow> rstring option \<times> rstring" where
  "parse_header header =
     (case strip_prefix (lit ''['') header of
        Some rest \<Rightarrow>
          (case split_once (lit ''] '') rest of
             Some (label, after) \<Rightarrow> (Some label, after)
           | None \<Rightarrow> (None, header))
      | None \<Rightarrow> (None, header))"

definition severity_color :: "rstring \<Rightarrow> rstring" where
  "severity_color label =
     (if label = lit ''Low'' then lit ''#60a5fa''
      else if label = lit ''Medium'' then lit ''#f59e0b''
      else if label = lit ''High'' then lit ''#fb923c''
      else if label = lit ''Critical'' then lit ''#f87171''
      else lit ''#94a3b8'')"

text \<open>\<open>now\<close> is the time in seconds since the Unix epoch.\<close>

definition current_year :: "nat \<Rightarrow> nat" where
  "current_year now = 1970 + now div 31557600"

fun join_lines :: "rstring list \<Rightarrow> rstring" where
  "join_lines [] = []"
| "join_lines [l] = l"
| "join_lines (l # ls) = l @ newline @ join_lines ls"

definition severity_pill :: "rstring option \<Rightarrow> rstring" where
  "severity_pill severity =
     (case severity of
        None \<Rightarrow> []
      | Some label \<Rightarrow>
          let color = severity_color label in
          lit ''<span style=\"display:inline-block;background:'' @ color @ lit ''1a;color:'' @ color @ lit '';border:1px solid '' @ color @ lit ''55;font-size:11px;font-weight:700;letter-spacing:0.04em;text-transform:uppercase;padding:4px 10px;border-radius:999px;font-family:-apple-system,BlinkMacSystemFont,'Segoe UI',Roboto,sans-serif;\">'' @ escape_html label @ lit ''</span>'')"

definition alert_html :: "nat \<Rightarrow> rstring \<Rightarrow> rstring \<Rightarrow> rstring" where
  "alert_html now body brand_name =
     (let (header, rest) = split_header body;
          (severity, geography) = parse_header header;
          brand = escape_html brand_name;
          rest_html = replace_char 10 (lit ''<br/>'') (escape_html (trim rest));
          pill = severity_pill severity in
      join_lines [
        lit ''<!DOCTYPE html>'',
        lit ''<html>'',
        lit ''  <body style=\"margin:0;padding:0;background-color:#020617;font-family:-apple-system,BlinkMacSystemFont,'Segoe UI',Roboto,sans-serif;\">'',
        lit ''    <table role=\"presentation\" width=\"100%\" cellpadding=\"0\" cellspacing=\"0\" style=\"background-color:#020617;padding:32px 16px;\">'',
        lit ''      <tr>'',
        lit ''        <td align=\"center\">'',
        lit ''          <table role=\"presentation\" width=\"480\" cellpadding=\"0\" cellspacing=\"0\" style=\"max-width:480px;width:100%;background-color:#0f172a;border:1px solid rgba(255,255,255,0.08);border-radius:16px;overflow:hidden;\">'',
        lit ''            <tr>'',
        lit ''              <td style=\"padding:28px 32px 0 32px;\">'',
        lit ''                <table role=\"presentation\" cellpadding=\"0\" cellspacing=\"0\">'',
        lit ''                  <tr>'',
        lit ''                    <td style=\"width:36px;height:36px;background:linear-gradient(135deg,#34d399,#059669);border-radius:10px;text-align:center;vertical-align:middle;font-size:18px;line-height:36px;\">&#128737;</td>'',
        lit ''                    <td style=\"padding-left:10px;color:#ffffff;font-size:16px;font-weight:700;font-family:-apple-system,BlinkMacSystemFont,'Segoe UI',Roboto,sans-serif;\">'' @ brand @ lit '' Alert</td>'',
        lit ''                  </tr>'',
        lit ''                </table>'',
        lit ''              </td>'',
        lit ''            </tr>'',
        lit ''            <tr>'',
        lit ''              <td style=\"padding:20px 32px 0 32px;\">'',
        lit ''                '' @ pill @ lit ''<span style=\"display:inline-block;margin-left:8px;color:#94a3b8;font-size:13px;font-family:-apple-system,BlinkMacSystemFont,'Segoe UI',Roboto,sans-serif;\">'' @ escape_html geography @ lit ''</span>'',
        lit ''              </td>'',
        lit ''            </tr>'',
        lit ''            <tr>'',
        lit ''              <td style=\"padding:16px 32px 24px 32px;color:#cbd5e1;font-size:14px;line-height:22px;font-family:-apple-system,BlinkMacSystemFont,'Segoe UI',Roboto,sans-serif;\">'',
        lit ''                '' @ rest_html,
        lit ''              </td>'',
        lit ''            </tr>'',
        lit ''            <tr>'',
        lit ''              <td style=\"padding:20px 32px;border-top:1px solid rgba(255,255,255,0.06);text-align:center;color:#64748b;font-size:12px;font-family:-apple-system,BlinkMacSystemFont,'Segoe UI',Roboto,sans-serif;\">'',
        lit ''                '' @ brand @ lit '' &middot; Privacy-first civic-protection platform<br/>'',
        lit ''                &copy; '' @ show_nat (current_year now) @ lit '' '' @ brand,
        lit ''              </td>'',
        lit ''            </tr>'',
        lit ''          </table>'',
        lit ''        </td>'',
        lit ''      </tr>'',
        lit ''    </table>'',
        lit ''  </body>'',
        lit ''</html>''])"

subsection \<open>Resend\<close>

record email_request =
  email_from :: rstring
  email_to :: "rstring list"
  email_subject :: rstring
  email_text :: rstring
  email_html :: rstring

text \<open>The clock is read when the email is built; the body is the id of the email.\<close>

definition resend_channel ::
  "rstring \<Rightarrow> rstring \<Rightarrow> (nat \<Rightarrow> nat) \<times> (nat \<Rightarrow> email_request \<Rightarrow> rstring + rstring http_response) \<Rightarrow> channel_adapter" where
  "resend_channel from_address brand_name = (\<lambda>(clock, provider).
     \<lparr>adapter_channel_type = ChannelType_Email, adapter_validate_endpoint = validate_email,
      adapter_send = (\<lambda>call message.
        case validate_email (message_endpoint_address message) of
          Inl e \<Rightarrow> Inl (channel_error False (lit ''Email: '' @ validation_error_reason e))
        | Inr _ \<Rightarrow>
       (let request =
          \<lparr>email_from = from_address, email_to = [message_endpoint_address message],
           email_subject = brand_name @ lit '' Alert'', email_text = message_body message,
           email_html = alert_html (clock call) (message_body message) brand_name\<rparr> in
        case provider call request of
          Inl error \<Rightarrow> Inl (channel_error True (lit ''Email: could not reach Resend: '' @ error))
        | Inr response \<Rightarrow>
            if http_success (http_status response) then
              (case http_body response of
                 Inl error \<Rightarrow> Inl (channel_error True (lit ''Email: unexpected response from Resend: '' @ error))
               | Inr message_id \<Rightarrow> Inr \<lparr>outcome_provider_message_id = Some message_id\<rparr>)
            else Inl (channel_error (http_status response \<in> {409, 429} \<or> http_server_error (http_status response))
              (lit ''Email: Resend rejected the request ('' @ http_status_text response @ lit '')''))))\<rparr>)"

section \<open>The worker's registry\<close>

text \<open>The variables that are set, and what the adapters talk to.\<close>

record worker_environment =
  env_brand_name :: "rstring option"
  env_resend_api_key :: "rstring option"
  env_resend_from_address :: "rstring option"
  env_infobip_base_url :: "rstring option"
  env_infobip_api_key :: "rstring option"
  env_infobip_sender :: "rstring option"
  env_vapid_private_key_pem :: bytes
  env_vapid_subject :: rstring

record 'q outside_world =
  world_ids :: "channel_type \<Rightarrow> nat \<Rightarrow> uuid"
  world_clock :: "nat \<Rightarrow> nat"
  world_resend :: "rstring \<Rightarrow> nat \<Rightarrow> email_request \<Rightarrow> rstring + rstring http_response"
  world_infobip :: "nat \<Rightarrow> infobip_request \<Rightarrow> rstring + rstring list http_response"
  world_push :: "nat \<Rightarrow> 'q \<Rightarrow> rstring + unit http_response"

definition email_channel_from_env ::
  "(uuid \<Rightarrow> rstring) \<Rightarrow> worker_environment \<Rightarrow> 'q outside_world \<Rightarrow> channel_adapter" where
  "email_channel_from_env su env w =
     (let brand_name = (case env_brand_name env of None \<Rightarrow> lit ''Sentinel'' | Some b \<Rightarrow> b) in
      case (env_resend_api_key env, env_resend_from_address env) of
        (Some api_key, Some from_address) \<Rightarrow>
          resend_channel from_address brand_name (world_clock w, world_resend w api_key)
      | _ \<Rightarrow> email_channel su (world_ids w ChannelType_Email))"

definition sms_channel_from_env ::
  "(uuid \<Rightarrow> rstring) \<Rightarrow> worker_environment \<Rightarrow> 'q outside_world \<Rightarrow> channel_adapter" where
  "sms_channel_from_env su env w =
     (case (env_infobip_base_url env, env_infobip_api_key env, env_infobip_sender env) of
        (Some base_url, Some api_key, Some sender) \<Rightarrow> infobip_channel base_url api_key sender (world_infobip w)
      | _ \<Rightarrow> sms_channel su (world_ids w ChannelType_Sms))"

definition worker_registry ::
  "(uuid \<Rightarrow> rstring) \<Rightarrow> ('s, 'b, 'v, 'q) push_library \<Rightarrow> worker_environment \<Rightarrow> 'q outside_world \<Rightarrow>
   channel_registry" where
  "worker_registry su lib env w =
     foldl registry_register registry_new
       [whatsapp_channel su (world_ids w ChannelType_WhatsApp),
        sms_channel_from_env su env w,
        email_channel_from_env su env w,
        push_channel lib (env_vapid_private_key_pem env) (env_vapid_subject env) (world_push w)]"

section \<open>Reading the severity back\<close>

lemma starts_with_append: "starts_with (p @ s) p"
  by (simp add: starts_with_take)

lemma split_once_first: "c \<notin> set a \<Longrightarrow> split_once (c # q) (a @ c # q @ b) = Some (a, b)"
proof (induction a)
  case Nil
  then show ?case using starts_with_append [of "c # q" b] by simp
next
  case (Cons x a)
  then show ?case by (simp add: starts_with_take)
qed

lemma split_once_absent: "c \<notin> set s \<Longrightarrow> split_once (c # q) s = None"
  by (induction s) (auto simp: starts_with_take)

lemma split_header_append:
  assumes "10 \<notin> set header" and "rest = [] \<or> (\<exists>t. rest = 10 # t)"
  shows "fst (split_header (header @ rest)) = header"
  using assms(2)
proof
  assume "rest = []"
  with split_once_absent [OF assms(1), of "[]"] show ?thesis by (simp add: split_header_def newline_def)
next
  assume "\<exists>t. rest = 10 # t"
  then obtain t where "rest = 10 # t" by blast
  with split_once_first [OF assms(1), of "[]" t] show ?thesis by (simp add: split_header_def newline_def)
qed

lemma outbound_message_header:
  "\<exists>rest. message_body (build_outbound_message al d loc) =
     (lit ''['' @ severity_label (alert_severity al) @ lit ''] '' @ target_geography_text (alert_target_geography al)) @ rest \<and>
     (rest = [] \<or> (\<exists>t. rest = 10 # t))"
  by (simp add: build_outbound_message_def Let_def newline_def split: option.split)

lemma severity_label_chars: "93 \<notin> set (severity_label s)" "10 \<notin> set (severity_label s)"
  by (cases s; simp add: lit_def)+

lemma parse_header_label: "93 \<notin> set label \<Longrightarrow> parse_header (lit ''['' @ label @ lit ''] '' @ area) = (Some label, area)"
  using split_once_first [of 93 label "[32]" area]
  by (simp add: parse_header_def strip_prefix_def lit_def)

text \<open>The html email finds the severity and the area of an alert again in the plain text that every channel sends: the
  pill shows the severity of the alert and the header its target area, unless the text of the area has a line
  break of its own.\<close>

theorem alert_email_header:
  assumes "10 \<notin> set (target_geography_text (alert_target_geography al))"
  shows "parse_header (fst (split_header (message_body (build_outbound_message al d loc)))) =
    (Some (severity_label (alert_severity al)), target_geography_text (alert_target_geography al))"
proof -
  let ?header = "lit ''['' @ severity_label (alert_severity al) @ lit ''] '' @ target_geography_text (alert_target_geography al)"
  obtain rest where b: "message_body (build_outbound_message al d loc) = ?header @ rest"
    and rest: "rest = [] \<or> (\<exists>t. rest = 10 # t)"
    using outbound_message_header by blast
  have "10 \<notin> set ?header" using assms severity_label_chars(2) by (simp add: lit_def)
  then have "fst (split_header (?header @ rest)) = ?header" using rest by (rule split_header_append)
  then show ?thesis unfolding b using parse_header_label severity_label_chars(1) by simp
qed

theorem alert_email_header_witness:
  "parse_header (fst (split_header (message_body (build_outbound_message sample_alert
       (fst (plan_one hyphenated (AlertId 1) (ConsumerId 2)
         \<lparr>endpoint_channel = ChannelType_Email, endpoint_address = lit ''a@b.cm''\<rparr> 0 [] retry_policy_standard 3 4)) None)))) =
    (Some (severity_label (alert_severity sample_alert)), target_geography_text (alert_target_geography sample_alert))"
  by (rule alert_email_header) (simp add: sample_alert_def lit_def)

section \<open>Text stays text\<close>

definition markup :: "rstring \<Rightarrow> rstring" where
  "markup s = filter (\<lambda>c. c = 60 \<or> c = 62 \<or> c = 34) s"

lemma markup_append [simp]: "markup (a @ b) = markup a @ markup b"
  by (simp add: markup_def)

lemma markup_replace_char: "markup (replace_char c by s) = concat (map (\<lambda>x. if x = c then markup by else markup [x]) s)"
  by (induction s) (simp_all add: replace_char_def markup_def)

lemma markup_escape [simp]: "markup (escape_html s) = []"
proof -
  have "markup (lit ''&quot;'') = []" "markup (lit ''&gt;'') = []" "markup (lit ''&lt;'') = []" "markup (lit ''&amp;'') = []"
    by (simp_all add: markup_def lit_def)
  moreover have "60 \<notin> set (replace_char 60 (lit ''&lt;'') t)" "x \<in> set (replace_char 62 (lit ''&gt;'') t) \<Longrightarrow> x \<in> set t \<and> x \<noteq> 62 \<or> x \<in> set (lit ''&gt;'')"
    for t x by (auto simp: replace_char_def lit_def split: if_splits)
  ultimately show ?thesis
    unfolding escape_html_def markup_replace_char
    by (fastforce simp: markup_def lit_def)
qed

lemma markup_show_nat [simp]: "markup (show_nat n) = []"
proof (induction n rule: show_nat.induct)
  case (1 n)
  have "48 + n mod 10 \<le> 57" by simp
  then show ?case using 1 by (subst show_nat.simps) (auto simp: markup_def)
qed

lemma markup_breaks: "markup s = [] \<Longrightarrow> markup (replace_char 10 by s) = concat (replicate (count_list s 10) (markup by))"
  unfolding markup_replace_char by (induction s) (auto simp: markup_def split: if_splits)

lemma count_list_escape [simp]: "count_list (escape_html s) 10 = count_list s 10"
proof -
  have "count_list (replace_char c new t) 10 = count_list t 10" if "c \<noteq> 10" "10 \<notin> set new" for c new and t :: rstring
    using that by (induction t) (simp_all add: replace_char_def)
  moreover have "10 \<notin> set (lit ''&quot;'')" "10 \<notin> set (lit ''&gt;'')" "10 \<notin> set (lit ''&lt;'')" "10 \<notin> set (lit ''&amp;'')"
    by (simp_all add: lit_def)
  ultimately show ?thesis by (simp add: escape_html_def)
qed

lemma markup_color [simp]: "markup (severity_color label) = []"
  by (simp add: severity_color_def markup_def lit_def)

lemma markup_severity_pill: "a = None \<longleftrightarrow> b = None \<Longrightarrow> markup (severity_pill a) = markup (severity_pill b)"
  by (cases a; cases b) (simp_all add: severity_pill_def Let_def)

text \<open>C40: Nothing that an alert or the deployment's name says can become markup of the email: tags and quoted attributes
  of the html depend only on whether there is a severity pill and on the number of line breaks of the text, whatever
  the texts contain.\<close>

theorem alert_text_is_not_markup:
  "fst (parse_header (fst (split_header body))) = None \<longleftrightarrow> fst (parse_header (fst (split_header body'))) = None \<Longrightarrow>
   count_list (trim (snd (split_header body))) 10 = count_list (trim (snd (split_header body'))) 10 \<Longrightarrow>
   markup (alert_html now body brand_name) = markup (alert_html now' body' brand_name')"
  using markup_severity_pill [of "fst (parse_header (fst (split_header body)))" "fst (parse_header (fst (split_header body')))"]
  by (simp add: alert_html_def Let_def case_prod_unfold markup_breaks)

text \<open>A description that tries to close the table cell.\<close>

theorem alert_text_is_not_markup_witness:
  "markup (alert_html 0 (lit ''[Low] A'' @ newline @ newline @ lit ''<script>'') (lit ''S'')) =
   markup (alert_html 0 (lit ''[High] B'' @ newline @ newline @ lit ''text'') (lit ''\"T\"''))"
  by (rule alert_text_is_not_markup)
    (simp_all add: split_header_def parse_header_def strip_prefix_def newline_def lit_def trim_def is_whitespace_def)

section \<open>Endpoints that can never be served\<close>

text \<open>The contract of the port: the check depends on the address only, and a send to an address that fails it fails for
  good, with the same error whatever is outside.\<close>

locale guarded_channel =
  fixes ct :: channel_type
    and adapter :: "'w \<Rightarrow> channel_adapter"
  assumes serves: "adapter_channel_type (adapter w) = ct"
    and same_check: "adapter_validate_endpoint (adapter w) a = adapter_validate_endpoint (adapter w') a"
    and refuses: "adapter_validate_endpoint (adapter w) a = Inl e \<Longrightarrow>
      \<exists>reason. \<forall>w' call m. message_endpoint_address m = a \<longrightarrow> adapter_send (adapter w') call m = Inl (channel_error False reason)"
begin

lemma dispatch_refused:
  assumes "adapter_validate_endpoint (adapter w) (delivery_endpoint_address d) = Inl e"
    and "alert_find_by_id db (delivery_alert_id d) = Inr (Some al)"
    and "consumer_find_by_id db (delivery_consumer_id d) = Inr recipient"
  shows "\<exists>reason. \<forall>w' registry call. registry_get registry (delivery_channel d) = Some (adapter w') \<longrightarrow>
    (case dispatch_one su now registry call (operation_id, ids) d db of
       (db', sent, r) \<Rightarrow> (db', r) = dispatch_fail su now operation_id ids d False reason db)"
proof -
  obtain reason where "\<forall>w' call m. message_endpoint_address m = delivery_endpoint_address d \<longrightarrow>
      adapter_send (adapter w') call m = Inl (channel_error False reason)"
    using refuses [OF assms(1)] by blast
  moreover have "message_endpoint_address (build_outbound_message al d loc) = delivery_endpoint_address d" for loc
    by (simp add: build_outbound_message_def Let_def)
  ultimately show ?thesis
    using assms(2,3) by (intro exI [of _ reason]) (simp add: dispatch_one_def channel_error_def Let_def split: prod.split)
qed

end

interpretation email: guarded_channel ChannelType_Email "email_channel su"
  by unfold_locales (auto simp: email_channel_def)

interpretation sms: guarded_channel ChannelType_Sms "sms_channel su"
  by unfold_locales (auto simp: sms_channel_def)

interpretation whatsapp: guarded_channel ChannelType_WhatsApp "whatsapp_channel su"
  by unfold_locales (auto simp: whatsapp_channel_def)

interpretation infobip: guarded_channel ChannelType_Sms "infobip_channel base_url api_key sender"
  by unfold_locales (auto simp: infobip_channel_def Let_def)

interpretation resend: guarded_channel ChannelType_Email "resend_channel from_address brand_name"
  by unfold_locales (auto simp: resend_channel_def split: prod.splits)

interpretation push: guarded_channel ChannelType_Push "push_channel lib pem subject"
  by unfold_locales (auto simp: push_channel_def ok_or_def split: if_splits)

lemma guarded_channel_comp: "guarded_channel ct f \<Longrightarrow> guarded_channel ct (\<lambda>w. f (g w))"
  unfolding guarded_channel_def by blast

lemma email_from_env_guarded: "guarded_channel ChannelType_Email (email_channel_from_env su env)"
proof -
  have 1: "guarded_channel ChannelType_Email (\<lambda>w. resend_channel a b (world_clock w, world_resend w k))" for a b k
    by (rule guarded_channel_comp [OF resend.guarded_channel_axioms])
  have 2: "guarded_channel ChannelType_Email (\<lambda>w. email_channel su (world_ids w ChannelType_Email))"
    by (rule guarded_channel_comp [OF email.guarded_channel_axioms])
  from 1 2 show ?thesis
    by (cases "env_resend_api_key env"; cases "env_resend_from_address env")
      (simp_all add: email_channel_from_env_def [abs_def] Let_def)
qed

lemma sms_from_env_guarded: "guarded_channel ChannelType_Sms (sms_channel_from_env su env)"
proof -
  have 1: "guarded_channel ChannelType_Sms (\<lambda>w. infobip_channel a b k (world_infobip w))" for a b k
    by (rule guarded_channel_comp [OF infobip.guarded_channel_axioms])
  have 2: "guarded_channel ChannelType_Sms (\<lambda>w. sms_channel su (world_ids w ChannelType_Sms))"
    by (rule guarded_channel_comp [OF sms.guarded_channel_axioms])
  from 1 2 show ?thesis
    by (cases "env_infobip_base_url env"; cases "env_infobip_api_key env"; cases "env_infobip_sender env")
      (simp_all add: sms_channel_from_env_def [abs_def])
qed

lemma worker_registry_guarded:
  "\<exists>adapter. guarded_channel ct adapter \<and> (\<forall>w. registry_get (worker_registry su lib env w) ct = Some (adapter w))"
proof -
  have p: "guarded_channel ChannelType_Push (\<lambda>w. push_channel lib pem subject (world_push w))" for pem subject
    by (rule guarded_channel_comp [OF push.guarded_channel_axioms])
  have wa: "guarded_channel ChannelType_WhatsApp (\<lambda>w. whatsapp_channel su (world_ids w ChannelType_WhatsApp))"
    by (rule guarded_channel_comp [OF whatsapp.guarded_channel_axioms])
  note types = guarded_channel.serves [OF p] guarded_channel.serves [OF wa]
    guarded_channel.serves [OF email_from_env_guarded] guarded_channel.serves [OF sms_from_env_guarded]
  have r: "registry_get (worker_registry su lib env w) ct =
      (case ct of ChannelType_WhatsApp \<Rightarrow> Some (whatsapp_channel su (world_ids w ChannelType_WhatsApp))
       | ChannelType_Sms \<Rightarrow> Some (sms_channel_from_env su env w)
       | ChannelType_Email \<Rightarrow> Some (email_channel_from_env su env w)
       | ChannelType_Push \<Rightarrow> Some (push_channel lib (env_vapid_private_key_pem env) (env_vapid_subject env) (world_push w)))" for w
    by (cases ct) (simp_all add: worker_registry_def registry_register_def registry_get_def types)
  show ?thesis
    unfolding r using p wa email_from_env_guarded sms_from_env_guarded by (cases ct) (simp_all, blast+)
qed


definition sample_environment :: worker_environment where
  "sample_environment = \<lparr>env_brand_name = None, env_resend_api_key = None, env_resend_from_address = None,
     env_infobip_base_url = None, env_infobip_api_key = None, env_infobip_sender = None,
     env_vapid_private_key_pem = [], env_vapid_subject = []\<rparr>"

definition sample_push :: "(unit, unit, unit, unit) push_library" where
  "sample_push = \<lparr>push_parse = (\<lambda>_. None), push_from_pem = (\<lambda>_ _. Inr ()), push_add_claim = (\<lambda>b _ _. b),
     push_sign = (\<lambda>_. Inr ()), push_build = (\<lambda>_ _ _. Inr ())\<rparr>"

definition sample_world :: "unit outside_world" where
  "sample_world = \<lparr>world_ids = (\<lambda>_ call. of_nat call), world_clock = (\<lambda>_. 0), world_resend = (\<lambda>_ _ _. Inl []),
     world_infobip = (\<lambda>_ _. Inl []), world_push = (\<lambda>_ _. Inl [])\<rparr>"


section \<open>What is worth another attempt\<close>

text \<open>The answers after which the same request may still succeed: none, one that cannot be read, throttling (429), an
  error of the server, and the codes of one provider.\<close>

definition worth_retrying :: "nat set \<Rightarrow> rstring + 'b http_response \<Rightarrow> bool" where
  "worth_retrying codes reply =
     (case reply of
        Inl _ \<Rightarrow> True
      | Inr r \<Rightarrow> if http_success (http_status r) then isl (http_body r)
                 else http_status r \<in> {429} \<union> codes \<or> http_server_error (http_status r))"

lemma e164_number: "looks_like_e164 a \<Longrightarrow> dropWhile (\<lambda>c. c = 43) a = tl a"
  by (cases a; cases "tl a") (auto simp: looks_like_e164_def is_digit_char_def)

lemma push_retry:
  assumes "adapter_send (push_channel lib pem subject gateway) call m = Inl err" and "channel_error_retryable err"
  shows "push_parse lib (message_endpoint_address m) \<noteq> None"
    and "\<exists>q. worth_retrying {} (gateway call q) \<and> (\<forall>r. gateway call q = Inr r \<longrightarrow> http_status r \<notin> {404, 410})"
proof -
  note send = push_channel_def channel_error_def ok_or_def map_err_def
  obtain sub where sub: "push_parse lib (message_endpoint_address m) = Some sub"
    using assms by (cases "push_parse lib (message_endpoint_address m)") (auto simp: send)
  then show "push_parse lib (message_endpoint_address m) \<noteq> None" by simp
  obtain b where b: "push_from_pem lib pem sub = Inr b"
    using assms sub by (cases "push_from_pem lib pem sub") (auto simp: send)
  obtain v where v: "push_sign lib (push_add_claim lib b (lit ''sub'') subject) = Inr v"
    using assms sub b by (cases "push_sign lib (push_add_claim lib b (lit ''sub'') subject)") (auto simp: send)
  obtain q where q: "push_build lib sub (utf8 (message_body m)) v = Inr q"
    using assms sub b v by (cases "push_build lib sub (utf8 (message_body m)) v") (auto simp: send)
  have "worth_retrying {} (gateway call q) \<and> (\<forall>r. gateway call q = Inr r \<longrightarrow> http_status r \<notin> {404, 410})"
    using assms sub b v q
    by (cases "gateway call q") (auto simp: send worth_retrying_def http_server_error_def Let_def split: if_splits)
  then show "\<exists>q. worth_retrying {} (gateway call q) \<and> (\<forall>r. gateway call q = Inr r \<longrightarrow> http_status r \<notin> {404, 410})" by blast
qed

text \<open>A text message or an email is handed to the provider only at an address that passes the check, as the number
  without its plus sign or as the only recipient, with the body of the message. When the send fails, another attempt is
  asked for exactly when the provider's answer is worth one; an address that fails the check, a refusal by the provider
  and a push subscription that the browser has dropped are final.\<close>

theorem provider_failures_classified:
  "(adapter_send (infobip_channel base key sender sms) call m = Inl err \<longrightarrow>
      (if looks_like_e164 (message_endpoint_address m)
       then \<exists>q. infobip_destination q = tl (message_endpoint_address m) \<and> infobip_text q = message_body m \<and>
          (channel_error_retryable err \<longleftrightarrow> worth_retrying {} (sms call q))
       else \<not> channel_error_retryable err)) \<and>
   (adapter_send (resend_channel from_address brand (clock, mail)) call m = Inl err \<longrightarrow>
      (if looks_like_email (message_endpoint_address m)
       then \<exists>q. email_to q = [message_endpoint_address m] \<and> email_text q = message_body m \<and>
          (channel_error_retryable err \<longleftrightarrow> worth_retrying {409} (mail call q))
       else \<not> channel_error_retryable err)) \<and>
   (adapter_send (push_channel lib pem subject gateway) call m = Inl err \<and> channel_error_retryable err \<longrightarrow>
      push_parse lib (message_endpoint_address m) \<noteq> None \<and>
      (\<exists>q. worth_retrying {} (gateway call q) \<and> (\<forall>r. gateway call q = Inr r \<longrightarrow> http_status r \<notin> {404, 410})))"
proof (intro conjI impI)
  assume e: "adapter_send (infobip_channel base key sender sms) call m = Inl err"
  show "if looks_like_e164 (message_endpoint_address m)
       then \<exists>q. infobip_destination q = tl (message_endpoint_address m) \<and> infobip_text q = message_body m \<and>
          (channel_error_retryable err \<longleftrightarrow> worth_retrying {} (sms call q))
       else \<not> channel_error_retryable err"
  proof (cases "looks_like_e164 (message_endpoint_address m)")
    case True
    let ?q = "\<lparr>infobip_url = trim_end_slashes base @ lit ''/sms/2/text/advanced'', infobip_authorization = lit ''App '' @ key,
      infobip_destination = dropWhile (\<lambda>c. c = 43) (message_endpoint_address m), infobip_from = sender,
      infobip_text = message_body m\<rparr>"
    have "channel_error_retryable err \<longleftrightarrow> worth_retrying {} (sms call ?q)"
      using e True by (auto simp: infobip_channel_def validate_phone_def channel_error_def worth_retrying_def Let_def
          split: sum.splits if_splits)
    with True e164_number show ?thesis by (auto intro!: exI [of _ ?q])
  next
    case False
    then show ?thesis using e by (auto simp: infobip_channel_def validate_phone_def channel_error_def Let_def)
  qed
next
  assume e: "adapter_send (resend_channel from_address brand (clock, mail)) call m = Inl err"
  show "if looks_like_email (message_endpoint_address m)
       then \<exists>q. email_to q = [message_endpoint_address m] \<and> email_text q = message_body m \<and>
          (channel_error_retryable err \<longleftrightarrow> worth_retrying {409} (mail call q))
       else \<not> channel_error_retryable err"
  proof (cases "looks_like_email (message_endpoint_address m)")
    case True
    let ?q = "\<lparr>email_from = from_address, email_to = [message_endpoint_address m],
           email_subject = brand @ lit '' Alert'', email_text = message_body m,
           email_html = alert_html (clock call) (message_body m) brand\<rparr>"
    have "channel_error_retryable err \<longleftrightarrow> worth_retrying {409} (mail call ?q)"
      using e True by (auto simp: resend_channel_def validate_email_def channel_error_def worth_retrying_def Let_def
          split: sum.splits if_splits)
    with True show ?thesis by (auto intro!: exI [of _ ?q])
  next
    case False
    then show ?thesis using e by (auto simp: resend_channel_def validate_email_def channel_error_def Let_def)
  qed
next
  assume "adapter_send (push_channel lib pem subject gateway) call m = Inl err \<and> channel_error_retryable err"
  then show "push_parse lib (message_endpoint_address m) \<noteq> None"
    and "\<exists>q. worth_retrying {} (gateway call q) \<and> (\<forall>r. gateway call q = Inr r \<longrightarrow> http_status r \<notin> {404, 410})"
    using push_retry by blast+
qed

text \<open>A throttled text message is worth another attempt.\<close>

theorem provider_failures_classified_witness:
  "\<exists>err. adapter_send (infobip_channel [] [] [] (\<lambda>_ _. Inr \<lparr>http_status = 429, http_status_text = [], http_body = Inl []\<rparr>)) 0
       \<lparr>message_endpoint_address = lit ''+237600000000'', message_body = []\<rparr> = Inl err \<and> channel_error_retryable err"
proof -
  let ?sms = "\<lambda>(_ :: nat) (_ :: infobip_request). (Inr \<lparr>http_status = 429, http_status_text = [], http_body = Inl []\<rparr> ::
    rstring + rstring list http_response)"
  let ?m = "\<lparr>message_endpoint_address = lit ''+237600000000'', message_body = []\<rparr>"
  have v: "looks_like_e164 (message_endpoint_address ?m)"
    by (simp add: looks_like_e164_def lit_def str_len_def utf8_len_char_def is_digit_char_def)
  obtain err where e: "adapter_send (infobip_channel [] [] [] ?sms) 0 ?m = Inl err"
    using v by (simp add: infobip_channel_def validate_phone_def http_success_def Let_def)
  have "\<exists>q. channel_error_retryable err \<longleftrightarrow> worth_retrying {} (?sms 0 q)"
    using conjunct1 [OF provider_failures_classified, rule_format, OF e] v by auto
  then have "channel_error_retryable err" by (simp add: worth_retrying_def http_success_def)
  with e show ?thesis by blast
qed

end
