(* ===== verification/Ai_Adapters.thy ===== *)
theory Ai_Adapters
  imports Report_Api Channel_Adapters
begin

text \<open>
  The adapters of the language model provider (\<open>crates/infrastructure/src/ai\<close>): extraction, bilingual descriptions and
  transcription over OpenRouter, and the adapters that stand in when it is not configured. The provider, the
  decoding of the model's output by \<open>serde_json\<close> and base64 are arguments. What is shown: what a model answers
  reaches a reviewer or a reporter only as text that is not blank.
\<close>

section \<open>Chat requests\<close>

record json_schema_spec =
  schema_name :: rstring
  schema_strict :: bool
  schema_schema :: json

record chat_message =
  message_role :: rstring
  message_content :: json

record chat_request =
  chat_model :: rstring
  chat_messages :: "chat_message list"
  chat_response_format :: "json_schema_spec option"

text \<open>The provider answers with the content of each choice.\<close>

type_synonym chat_provider = "chat_request \<Rightarrow> rstring + rstring option list http_response"

definition chat_first_content :: "chat_provider \<Rightarrow> chat_request \<Rightarrow> rstring + rstring option" where
  "chat_first_content provider request =
     bind_result (map_err (\<lambda>error. lit ''could not reach OpenRouter: '' @ error) (provider request)) (\<lambda>response.
       if \<not> http_success (http_status response)
       then Inl (lit ''OpenRouter rejected the request ('' @ http_status_text response @ lit '')'')
       else bind_result (map_err (\<lambda>error. lit ''unexpected response from OpenRouter: '' @ error) (http_body response))
         (\<lambda>choices. Inr (case choices of [] \<Rightarrow> None | c # _ \<Rightarrow> c)))"

definition required_strings :: "json \<Rightarrow> rstring list \<Rightarrow> json" where
  "required_strings kind names =
     JObj [(lit ''type'', JStr (lit ''object'')), (lit ''properties'', JObj (map (\<lambda>n. (n, JObj [(lit ''type'', kind)])) names)),
           (lit ''required'', JArr (map JStr names)), (lit ''additionalProperties'', JBool False)]"

section \<open>Extraction\<close>

definition EXTRACTION_SYSTEM_PROMPT :: rstring where
  "EXTRACTION_SYSTEM_PROMPT =
     lit ''You are assisting a trained human reviewer triaging an anonymous safety report (for example, a '' @
     lit ''missing person or another protection incident). Extract only information explicitly present in '' @
     lit ''the report text into the given JSON schema. Do not guess, infer, or invent any detail the text '' @
     lit ''does not state. Leave a field null if the text does not mention it. This is an unverified '' @
     lit ''suggestion for a human reviewer, never a decision, and must never be treated as confirmed fact.''"

definition extraction_json_schema :: json where
  "extraction_json_schema = required_strings (JArr [JStr (lit ''string''), JStr (lit ''null'')])
     [lit ''person_description'', lit ''age'', lit ''time'', lit ''place'', lit ''incident_category'',
      lit ''vehicle_details'', lit ''contact_request'']"

record raw_extraction_fields =
  raw_person_description :: "rstring option"
  raw_age :: "rstring option"
  raw_time :: "rstring option"
  raw_place :: "rstring option"
  raw_incident_category :: "rstring option"
  raw_vehicle_details :: "rstring option"
  raw_contact_request :: "rstring option"

definition openrouter_extract ::
  "(rstring \<Rightarrow> rstring + raw_extraction_fields) \<Rightarrow> chat_provider \<Rightarrow> rstring \<Rightarrow> rstring \<Rightarrow> rstring + extracted_report_fields" where
  "openrouter_extract decode provider model raw_content =
     bind_result (chat_first_content provider
         \<lparr>chat_model = model,
          chat_messages = [\<lparr>message_role = lit ''system'', message_content = JStr EXTRACTION_SYSTEM_PROMPT\<rparr>,
            \<lparr>message_role = lit ''user'', message_content = JStr raw_content\<rparr>],
          chat_response_format = Some \<lparr>schema_name = lit ''report_extraction'', schema_strict = True,
            schema_schema = extraction_json_schema\<rparr>\<rparr>) (\<lambda>found.
     bind_result (ok_or (lit ''OpenRouter returned no content'') found) (\<lambda>content.
     bind_result (map_err (\<lambda>error. lit ''model output did not match the requested schema: '' @ error) (decode content)) (\<lambda>raw.
       Inr (extracted_new (raw_person_description raw) (raw_age raw) (raw_time raw) (raw_place raw)
              (raw_incident_category raw) (raw_vehicle_details raw) (raw_contact_request raw)))))"

definition openrouter_extractor ::
  "(rstring \<Rightarrow> rstring + raw_extraction_fields) \<Rightarrow> chat_provider \<Rightarrow> rstring \<Rightarrow> report_extractor" where
  "openrouter_extractor decode provider model =
     \<lparr>extractor_provider = lit ''OPENROUTER'', extractor_model = model,
      extractor_extract = openrouter_extract decode provider model\<rparr>"

definition disabled_extractor :: report_extractor where
  "disabled_extractor =
     \<lparr>extractor_provider = lit ''DISABLED'', extractor_model = lit ''none'',
      extractor_extract = (\<lambda>_. Inl (lit ''AI extraction is not configured for this deployment''))\<rparr>"

section \<open>Descriptions\<close>

definition DESCRIPTION_SYSTEM_PROMPT :: rstring where
  "DESCRIPTION_SYSTEM_PROMPT =
     lit ''You are formalizing a community safety alert description for public distribution, based on a '' @
     lit ''reviewer's draft (which may be informal, in English, in French, or a mix of both). Produce two '' @
     lit ''versions of the same description: one in formal English, one in formal French. Preserve every '' @
     lit ''fact in the draft exactly -- do not add, remove, or guess any detail the draft does not '' @
     lit ''contain. Use a clear, professional tone suitable for public broadcast. This is an unverified '' @
     lit ''suggestion for a human reviewer, never a decision, and must be reviewed before use.''"

definition description_json_schema :: json where
  "description_json_schema = required_strings (JStr (lit ''string'')) [lit ''description_en'', lit ''description_fr'']"

definition openrouter_generate ::
  "(rstring \<Rightarrow> rstring + generated_description) \<Rightarrow> chat_provider \<Rightarrow> rstring \<Rightarrow> rstring \<Rightarrow> rstring + generated_description" where
  "openrouter_generate decode provider model source_text =
     bind_result (chat_first_content provider
         \<lparr>chat_model = model,
          chat_messages = [\<lparr>message_role = lit ''system'', message_content = JStr DESCRIPTION_SYSTEM_PROMPT\<rparr>,
            \<lparr>message_role = lit ''user'', message_content = JStr source_text\<rparr>],
          chat_response_format = Some \<lparr>schema_name = lit ''alert_description_generation'', schema_strict = True,
            schema_schema = description_json_schema\<rparr>\<rparr>) (\<lambda>found.
     bind_result (ok_or (lit ''OpenRouter returned no content'') found) (\<lambda>content.
     bind_result (map_err (\<lambda>error. lit ''model output did not match the requested schema: '' @ error) (decode content)) (\<lambda>raw.
       if trim (description_en raw) = [] \<or> trim (description_fr raw) = []
       then Inl (lit ''model returned an empty description'')
       else Inr \<lparr>description_en = description_en raw, description_fr = description_fr raw\<rparr>)))"

definition openrouter_generator ::
  "(rstring \<Rightarrow> rstring + generated_description) \<Rightarrow> chat_provider \<Rightarrow> rstring \<Rightarrow> description_generator" where
  "openrouter_generator decode provider model =
     \<lparr>generator_provider = lit ''OPENROUTER'', generator_model = model,
      generator_generate = openrouter_generate decode provider model\<rparr>"

definition disabled_generator :: description_generator where
  "disabled_generator =
     \<lparr>generator_provider = lit ''DISABLED'', generator_model = lit ''none'',
      generator_generate = (\<lambda>_. Inl (lit ''Alert description generation is not configured for this deployment''))\<rparr>"

section \<open>Transcription\<close>

definition TRANSCRIPTION_SYSTEM_PROMPT :: rstring where
  "TRANSCRIPTION_SYSTEM_PROMPT =
     lit ''Transcribe the spoken audio exactly as spoken, in the language it was spoken in. Return only '' @
     lit ''the transcript text, with no commentary, translation, or formatting added.''"

fun input_audio_part :: "rstring \<times> rstring \<Rightarrow> json" where
  "input_audio_part (encoded, format) =
     JObj [(lit ''type'', JStr (lit ''input_audio'')),
           (lit ''input_audio'', JObj [(lit ''data'', JStr encoded), (lit ''format'', JStr format)])]"

definition text_part :: "rstring \<Rightarrow> json" where
  "text_part t = JObj [(lit ''type'', JStr (lit ''text'')), (lit ''text'', JStr t)]"

definition openrouter_transcribe ::
  "(bytes \<Rightarrow> rstring) \<Rightarrow> chat_provider \<Rightarrow> rstring \<Rightarrow> bytes \<Rightarrow> rstring \<Rightarrow> rstring + rstring" where
  "openrouter_transcribe base64 provider model audio_bytes format =
     bind_result (chat_first_content provider
         \<lparr>chat_model = model,
          chat_messages = [\<lparr>message_role = lit ''system'', message_content = JStr TRANSCRIPTION_SYSTEM_PROMPT\<rparr>,
            \<lparr>message_role = lit ''user'', message_content =
               JArr [input_audio_part (base64 audio_bytes, format), text_part (lit ''Transcribe this audio.'')]\<rparr>],
          chat_response_format = None\<rparr>) (\<lambda>found.
     ok_or (lit ''OpenRouter returned no transcript'')
       (Option.bind found (\<lambda>content. if trim content \<noteq> [] then Some content else None)))"

definition disabled_transcribe :: "bytes \<Rightarrow> rstring \<Rightarrow> rstring + rstring" where
  "disabled_transcribe = (\<lambda>_ _. Inl (lit ''Voice transcription is not configured for this deployment''))"

section \<open>What reaches a person\<close>

definition extracted_texts :: "extracted_report_fields \<Rightarrow> rstring option list" where
  "extracted_texts f = [extracted_person_description f, extracted_age f, extracted_time f, extracted_place f,
     extracted_incident_category f, extracted_vehicle_details f, extracted_contact_request f]"

lemma normalized_text: "normalize_text v = Some t \<Longrightarrow> \<not> is_blank t \<and> trim t = t"
  by (auto simp: normalize_text_Some simp flip: trim_Nil_iff)

lemma extracted_new_texts: "Some t \<in> set (extracted_texts (extracted_new a b c d e f g)) \<Longrightarrow> \<not> is_blank t \<and> trim t = t"
  by (auto simp: extracted_texts_def extracted_new_def dest: sym [THEN normalized_text])

lemma openrouter_extract_texts:
  "openrouter_extract decode provider model content = Inr f \<Longrightarrow> Some t \<in> set (extracted_texts f) \<Longrightarrow> \<not> is_blank t \<and> trim t = t"
  by (auto simp: openrouter_extract_def bind_result_Inr dest: extracted_new_texts)

lemma openrouter_generate_texts:
  "openrouter_generate decode provider model source = Inr d \<Longrightarrow> \<not> is_blank (description_en d) \<and> \<not> is_blank (description_fr d)"
  by (auto simp: openrouter_generate_def bind_result_Inr trim_Nil_iff split: if_splits)

lemma openrouter_transcribe_text: "openrouter_transcribe base64 provider model audio format = Inr t \<Longrightarrow> \<not> is_blank t"
  by (auto simp: openrouter_transcribe_def bind_result_Inr ok_or_Inr bind_eq_Some_conv trim_Nil_iff split: if_splits)

text \<open>Whatever the language model answers, a suggested field and both languages of a suggested description are text
  that is not blank, attributed to the provider and the model asked; a transcript is not blank and comes from a
  recording of at most 8 MiB on a deployment that offers it. On a deployment without the provider every
  request for a suggestion is an error and changes nothing.\<close>

theorem model_answers_are_checked:
  "(create_extraction (openrouter_extractor decode provider model) cfg rq i st = (st1, Inr (status1, x)) \<longrightarrow>
      response_extraction_provider x = lit ''OPENROUTER'' \<and> response_extraction_model x = model \<and>
      (\<forall>t. Some t \<in> set (extracted_texts (response_extraction_fields x)) \<longrightarrow> \<not> is_blank t \<and> trim t = t)) \<and>
   (generate_alert_description (openrouter_generator decode2 provider model) cfg rq i source st = (st2, Inr (status2, d)) \<longrightarrow>
      suggestion_provider d = lit ''OPENROUTER'' \<and> suggestion_model d = model \<and>
      \<not> is_blank (suggestion_description_en d) \<and> \<not> is_blank (suggestion_description_fr d)) \<and>
   (transcribe_audio enabled (openrouter_transcribe base64 provider model) cfg rq body limits = (limits', Inr transcript) \<longrightarrow>
      enabled \<and> \<not> is_blank transcript \<and> 0 < length body \<and> length body \<le> 8388608) \<and>
   (\<exists>e. create_extraction disabled_extractor cfg rq i st = (st, Inl e)) \<and>
   (\<exists>e. generate_alert_description disabled_generator cfg rq i source st = (st, Inl e)) \<and>
   (\<exists>e. snd (transcribe_audio enabled disabled_transcribe cfg rq body limits) = Inl e)"
proof (intro conjI impI)
  assume "create_extraction (openrouter_extractor decode provider model) cfg rq i st = (st1, Inr (status1, x))"
  then obtain content f where "openrouter_extract decode provider model content = Inr f"
    and x: "response_extraction_fields x = f" "response_extraction_provider x = lit ''OPENROUTER''" "response_extraction_model x = model"
    by (auto simp: create_extraction_def Let_def request_report_extraction_def openrouter_extractor_def bind_result_Inr
        map_err_Inr extraction_response_of_def split: sum.splits prod.splits)
  then show "response_extraction_provider x = lit ''OPENROUTER''" "response_extraction_model x = model"
    "\<forall>t. Some t \<in> set (extracted_texts (response_extraction_fields x)) \<longrightarrow> \<not> is_blank t \<and> trim t = t"
    using openrouter_extract_texts by blast+
next
  assume "generate_alert_description (openrouter_generator decode2 provider model) cfg rq i source st = (st2, Inr (status2, d))"
  then obtain s g where "openrouter_generate decode2 provider model s = Inr g"
    and "suggestion_description_en d = description_en g" "suggestion_description_fr d = description_fr g"
      "suggestion_provider d = lit ''OPENROUTER''" "suggestion_model d = model"
    by (auto simp: generate_alert_description_def Let_def request_description_generation_def openrouter_generator_def
        bind_result_Inr map_err_Inr split: sum.splits prod.splits if_splits)
  then show "suggestion_provider d = lit ''OPENROUTER''" "suggestion_model d = model"
    "\<not> is_blank (suggestion_description_en d)" "\<not> is_blank (suggestion_description_fr d)"
    using openrouter_generate_texts by metis+
next
  assume "transcribe_audio enabled (openrouter_transcribe base64 provider model) cfg rq body limits = (limits', Inr transcript)"
  then show "enabled" "\<not> is_blank transcript" "0 < length body" "length body \<le> 8388608"
    by (auto simp: transcribe_audio_def Let_def MAX_AUDIO_BYTES_def map_err_Inr dest!: openrouter_transcribe_text
        split: prod.splits sum.splits if_splits)
next
  show "\<exists>e. create_extraction disabled_extractor cfg rq i st = (st, Inl e)"
    by (cases st) (auto simp: create_extraction_def Let_def request_report_extraction_def disabled_extractor_def bind_result_Inr
        map_err_Inr split: sum.split)
next
  show "\<exists>e. generate_alert_description disabled_generator cfg rq i source st = (st, Inl e)"
    by (cases st) (auto simp: generate_alert_description_def Let_def request_description_generation_def disabled_generator_def
        bind_result_Inr map_err_Inr split: sum.split)
next
  show "\<exists>e. snd (transcribe_audio enabled disabled_transcribe cfg rq body limits) = Inl e"
    by (auto simp: transcribe_audio_def Let_def disabled_transcribe_def map_err_def split: prod.split sum.split)
qed

text \<open>A one-byte recording that the model hears as \<open>help\<close>.\<close>

theorem model_answers_are_checked_witness:
  "\<exists>limits' transcript. transcribe_audio True (openrouter_transcribe (\<lambda>_. []) (\<lambda>_. Inr \<lparr>http_status = 200,
       http_status_text = [], http_body = Inr [Some (lit ''help'')]\<rparr>) (lit ''m'')) sample_config sample_request [1] (\<lambda>_. None) =
     (limits', Inr transcript) \<and> \<not> is_blank transcript"
proof -
  let ?transcriber = "openrouter_transcribe (\<lambda>_. []) (\<lambda>_. Inr \<lparr>http_status = 200, http_status_text = [],
    http_body = Inr [Some (lit ''help'')]\<rparr>) (lit ''m'')"
  have "?transcriber [1] f = Inr (lit ''help'')" for f
    by (simp add: openrouter_transcribe_def chat_first_content_def http_success_def map_err_def ok_or_def trim_def
        is_whitespace_def lit_def)
  then obtain limits' transcript where t: "transcribe_audio True ?transcriber sample_config sample_request [1] (\<lambda>_. None) =
      (limits', Inr transcript)"
    by (simp add: transcribe_audio_def Let_def enforce_rate_limit_def pg_record_and_check_def MAX_AUDIO_BYTES_def map_err_def)
  have "\<not> is_blank transcript"
    using model_answers_are_checked [of _ _ _ sample_config sample_request _ _ _ _ _ _ _ _ _ _ True "\<lambda>_. []"] t by metis
  with t show ?thesis by blast
qed

end
