(* ===== verification/Invite_Mailer.thy ===== *)
theory Invite_Mailer
  imports Auth_Api Channel_Adapters
begin

text \<open>
  The mail that tells a newly registered reviewer to sign in (\<open>crates/application/src/invite_mailer.rs\<close>,
  \<open>crates/infrastructure/src/invite_mailer\<close>). The provider is an argument. What is shown: the mail of a registration
  names the role that was stored, and nothing typed by an administrator becomes markup of it.
\<close>

section \<open>Texts\<close>

fun role_label :: "role \<Rightarrow> rstring" where
  "role_label Role_PlatformAdmin = lit ''platform admin''"
| "role_label Role_OrgAdmin = lit ''organization admin''"
| "role_label Role_Member = lit ''member''"

definition added_as_line :: "role \<Rightarrow> rstring option \<Rightarrow> rstring \<Rightarrow> rstring" where
  "added_as_line r org_name brand_name =
     (case org_name of
        Some name \<Rightarrow> lit ''You've been added to '' @ brand_name @ lit '' as a '' @ role_label r @ lit '' for '' @ name @ lit ''.''
      | None \<Rightarrow> lit ''You've been added to '' @ brand_name @ lit '' as a '' @ role_label r @ lit ''.'')"

text \<open>183 is the middle dot.\<close>

definition invite_text :: "role \<Rightarrow> rstring option \<Rightarrow> rstring \<Rightarrow> rstring option \<Rightarrow> rstring" where
  "invite_text r org_name brand_name console_url =
     added_as_line r org_name brand_name @ newline @ newline @
     lit ''Sign in with this exact email address (Google sign-in) to get started.'' @
     (case console_url of None \<Rightarrow> [] | Some url \<Rightarrow> newline @ newline @ url) @
     newline @ newline @ lit ''---'' @ newline @ brand_name @ lit '' '' @ [183] @
     lit '' Privacy-first civic-protection platform''"

definition invite_button :: "rstring option \<Rightarrow> rstring" where
  "invite_button console_url =
     (case console_url of
        None \<Rightarrow> []
      | Some url \<Rightarrow> join_lines [
        lit ''<tr><td style=\"padding:0 32px 32px 32px;\">'',
        lit ''                 <a href=\"'' @ url @ lit ''\" style=\"display:inline-block;background:linear-gradient(135deg,#059669,#047857);color:#ffffff;text-decoration:none;font-size:14px;font-weight:600;padding:12px 22px;border-radius:10px;font-family:-apple-system,BlinkMacSystemFont,'Segoe UI',Roboto,sans-serif;\">Sign in to the portal</a>'',
        lit ''               </td></tr>''])"

definition invite_html :: "nat \<Rightarrow> role \<Rightarrow> rstring option \<Rightarrow> rstring \<Rightarrow> rstring option \<Rightarrow> rstring" where
  "invite_html now r org_name brand_name console_url =
     (let brand = escape_html brand_name;
          added = escape_html (added_as_line r org_name brand_name);
          button = invite_button console_url in
      join_lines [
        lit ''<!DOCTYPE html>'',
        lit ''<html>'',
        lit ''  <body style=\"margin:0;padding:0;background-color:#020617;font-family:-apple-system,BlinkMacSystemFont,'Segoe UI',Roboto,sans-serif;\">'',
        lit ''    <table role=\"presentation\" width=\"100%\" cellpadding=\"0\" cellspacing=\"0\" style=\"background-color:#020617;padding:32px 16px;\">'',
        lit ''      <tr>'',
        lit ''        <td align=\"center\">'',
        lit ''          <table role=\"presentation\" width=\"480\" cellpadding=\"0\" cellspacing=\"0\" style=\"max-width:480px;width:100%;background-color:#0f172a;border:1px solid rgba(255,255,255,0.08);border-radius:16px;overflow:hidden;\">'',
        lit ''            <tr>'',
        lit ''              <td style=\"padding:28px 32px 0 32px;\">'',
        lit ''                <table role=\"presentation\" cellpadding=\"0\" cellspacing=\"0\">'',
        lit ''                  <tr>'',
        lit ''                    <td style=\"width:36px;height:36px;background:linear-gradient(135deg,#34d399,#059669);border-radius:10px;text-align:center;vertical-align:middle;font-size:18px;line-height:36px;\">&#128737;</td>'',
        lit ''                    <td style=\"padding-left:10px;color:#ffffff;font-size:16px;font-weight:700;font-family:-apple-system,BlinkMacSystemFont,'Segoe UI',Roboto,sans-serif;\">'' @ brand @ lit ''</td>'',
        lit ''                  </tr>'',
        lit ''                </table>'',
        lit ''              </td>'',
        lit ''            </tr>'',
        lit ''            <tr>'',
        lit ''              <td style=\"padding:24px 32px 8px 32px;color:#ffffff;font-size:18px;font-weight:600;font-family:-apple-system,BlinkMacSystemFont,'Segoe UI',Roboto,sans-serif;\">You've been invited</td>'',
        lit ''            </tr>'',
        lit ''            <tr>'',
        lit ''              <td style=\"padding:0 32px 24px 32px;color:#cbd5e1;font-size:14px;line-height:22px;font-family:-apple-system,BlinkMacSystemFont,'Segoe UI',Roboto,sans-serif;\">'',
        lit ''                '' @ added @ lit ''<br/><br/>'',
        lit ''                Sign in with this exact email address (Google sign-in) to get started.'',
        lit ''              </td>'',
        lit ''            </tr>'',
        lit ''            '' @ button,
        lit ''            <tr>'',
        lit ''              <td style=\"padding:20px 32px;border-top:1px solid rgba(255,255,255,0.06);text-align:center;color:#64748b;font-size:12px;font-family:-apple-system,BlinkMacSystemFont,'Segoe UI',Roboto,sans-serif;\">'',
        lit ''                '' @ brand @ lit '' &middot; Privacy-first civic-protection platform<br/>'',
        lit ''                &copy; '' @ show_nat (current_year now) @ lit '' '' @ brand,
        lit ''              </td>'',
        lit ''            </tr>'',
        lit ''          </table>'',
        lit ''        </td>'',
        lit ''      </tr>'',
        lit ''    </table>'',
        lit ''  </body>'',
        lit ''</html>''])"

section \<open>The mailers\<close>

record resend_mailer =
  mailer_from_address :: rstring
  mailer_brand_name :: rstring
  mailer_console_url :: "rstring option"

definition invite_request :: "resend_mailer \<Rightarrow> nat \<Rightarrow> invitation \<Rightarrow> email_request" where
  "invite_request s now i =
     (let r = invite_role i; name = invite_organization_name i in
      \<lparr>email_from = mailer_from_address s, email_to = [invite_to i],
       email_subject = lit ''You've been invited to '' @ mailer_brand_name s,
       email_text = invite_text r name (mailer_brand_name s) (mailer_console_url s),
       email_html = invite_html now r name (mailer_brand_name s) (mailer_console_url s)\<rparr>)"

definition resend_send_invite ::
  "(email_request \<Rightarrow> rstring + rstring http_response) \<Rightarrow> resend_mailer \<Rightarrow> nat \<Rightarrow> invitation \<Rightarrow> rstring + unit" where
  "resend_send_invite provider s now i =
     bind_result (map_err (\<lambda>error. lit ''could not reach Resend: '' @ error) (provider (invite_request s now i))) (\<lambda>response.
       if http_success (http_status response)
       then bind_result (map_err (\<lambda>error. lit ''unexpected response from Resend: '' @ error) (http_body response)) (\<lambda>_. Inr ())
       else Inl (lit ''Resend rejected the invite email ('' @ http_status_text response @ lit '')''))"

definition disabled_send_invite :: "invitation \<Rightarrow> rstring + unit" where
  "disabled_send_invite = (\<lambda>_. Inr ())"

section \<open>Properties\<close>

lemma invite_markup:
  "markup (invite_html now r name brand_name url) = markup (invite_html now' r' name' brand_name' url)"
  by (simp add: invite_html_def Let_def)

lemma invite_text_start:
  "\<exists>rest. invite_text r name brand_name url = lit ''You've been added to '' @ brand_name @ lit '' as a '' @ role_label r @ rest"
  by (cases name) (simp_all add: invite_text_def added_as_line_def)

text \<open>The mail of a registration goes to the registered address and to nobody else, and its text names the role that
  is stored for the new account. Tags and quoted attributes of its html depend on nothing but the deployment's
  link: no name typed by an administrator becomes markup.\<close>

theorem invite_mail_truthful:
  assumes "register cfg rq req db = (db', Inr (st, resp, invite))"
  shows "email_to (invite_request mailer now invite) = [registered_email resp] \<and>
    reviewer_find_by_email db' (registered_email resp) = Some (registered_reviewer_id resp) \<and>
    (\<exists>m rest. membership_find db' (registered_reviewer_id resp) = Inr (Some m) \<and>
       email_text (invite_request mailer now invite) =
         lit ''You've been added to '' @ mailer_brand_name mailer @ lit '' as a '' @ role_label (member_role m) @ rest) \<and>
    (\<forall>other now'. mailer_console_url other = mailer_console_url mailer \<longrightarrow>
       (\<forall>i. markup (email_html (invite_request other now' i)) = markup (email_html (invite_request mailer now invite))))"
proof -
  obtain p where w: "register_write (api_request_id cfg rq) (request_ids rq) p db = (db', Inr (st, resp, invite))"
    using assms by (auto simp: register_def finish_Inr bind_result_Inr)
  have resp: "registered_reviewer_id resp = request_ids rq 0" "registered_email resp = registration_email p"
    and invite: "invite_to invite = registration_email p" "invite_role invite = registration_role p"
    using register_write_Inr [OF w] by auto
  have "\<exists>rest. email_text (invite_request mailer now invite) =
      lit ''You've been added to '' @ mailer_brand_name mailer @ lit '' as a '' @ role_label (registration_role p) @ rest"
    using invite_text_start by (simp add: invite_request_def Let_def invite(2))
  moreover have html: "email_html (invite_request s t i) = invite_html t (invite_role i) (invite_organization_name i)
      (mailer_brand_name s) (mailer_console_url s)" for s t i by (simp add: invite_request_def Let_def)
  have "markup (email_html (invite_request other now' i)) = markup (email_html (invite_request mailer now invite))"
    if "mailer_console_url other = mailer_console_url mailer" for other now' i
    unfolding html that by (rule invite_markup)
  moreover have "email_to (invite_request mailer now invite) = [registered_email resp]"
    using resp invite(1) by (simp add: invite_request_def Let_def)
  moreover have "membership_find db' (registered_reviewer_id resp) =
      Inr (Some \<lparr>member_role = registration_role p, member_organization_id = registration_organization p\<rparr>)"
    using register_write_effect(1) [OF w, of "request_ids rq 0"] resp by simp
  moreover have "reviewer_find_by_email db' (registered_email resp) = Some (registered_reviewer_id resp)"
    using register_write_effect(2) [OF w] resp by simp
  ultimately show ?thesis by (metis membership.select_convs(1))
qed

theorem invite_mail_truthful_witness:
  "\<exists>db' resp invite. register sample_config sample_request
      \<lparr>register_email = lit ''a@b'', register_role = Some Role_PlatformAdmin, register_organization_id = None\<rparr>
      sample_gate_db = (db', Inr (201, resp, invite)) \<and>
     email_to (invite_request \<lparr>mailer_from_address = [], mailer_brand_name = lit ''S'', mailer_console_url = None\<rparr> 0 invite) =
       [registered_email resp]"
  using sample_registers invite_mail_truthful by fastforce

end
