(* ===== verification/Spec2Isabelle.thy ===== *)
theory Spec2Isabelle
  imports Attachment_Model Authorization_Model Alert_Workflow Citizen_Subscription Rate_Limit
    Case_Api Alert_Api Subscription_Api Citizen_Api Webhook_Api Worker_Model
    Organization_Api Auth_Api Report_Api Read_Api Channel_Adapters Ai_Adapters Invite_Mailer
begin

text \<open>
  Sentinel takes anonymous incident reports, lets reviewers turn them into cases, issues alerts from
  verified cases under disclosure policies, matches alerts with the subscriptions of consumers, and
  delivers them over several channels with retries and fallbacks. This library models its Rust code: the
  domain (\<open>crates/domain\<close>), the use cases (\<open>crates/application\<close>), the Postgres repositories, the signed
  tokens and the adapters of channels, language models and mail (\<open>crates/infrastructure\<close>), the worker
  (\<open>apps/worker\<close>) and the HTTP handlers (\<open>apps/api\<close>).

  How the parts interact. A handler authenticates its caller (\<open>actor_from_headers\<close>), loads aggregates from
  the database, runs a use case on them in memory and hands the result to a repository, which writes
  aggregate, event, audit and outbox rows in one transaction guarded by the aggregate's version. The
  worker claims \<open>ALERT_CREATED\<close> outbox events, evaluates the subscriptions, plans deliveries, claims those
  that are due and sends them. Providers confirm or refute deliveries through webhooks.

  Conventions. \<open>Result\<close> is a sum with the error on the left, \<open>Option\<close> is \<open>option\<close>. Integers keep their width:
  \<open>u8\<close>, \<open>u32\<close>, \<open>u64\<close> and UUIDs are words. A string is the list of its Unicode scalar values (\<open>rstring\<close>).
  UUIDs that the code draws and the clock are arguments of the operation that draws or reads them. A panic
  is an error value (\<open>DbPanic\<close>, \<open>TokenPanic\<close>, ...). A table is a list of rows in insertion order, the database is the
  record of the tables (\<open>Store_Base\<close>), and a statement's effect includes the unique, foreign-key and check
  constraints of the migrations. SQL that runs in one statement or one transaction is one step; what
  \<open>FOR UPDATE SKIP LOCKED\<close> passes over is an argument. Hash functions, MACs, UUID text and the JSON parser are
  arguments, and so is every third party (Google, the providers of channels, mail and language models, the object
  storage): a function from the request to what comes back. Where a proof relies on them, it does so through a named hypothesis (\<open>uuid_text\<close>: parsing
  inverts printing) that \<open>hyphenated_text\<close> discharges for the concrete UUID text.

  Theories, in the order of the code:

    \<open>Sentinel_Prelude\<close>, \<open>Uuid_Text\<close>: integers, results, strings, the text of UUIDs; the lemma collections.
    \<open>Sentinel_Contracts\<close>: identifiers (\<open>ids.rs\<close>), JSON values, and the contracts as locales: columns that store
      an enum, text newtypes, versioned aggregates, status machines, versioned stores. Each is interpreted
      on every component that provides it.
    \<open>Case_Model\<close>, \<open>Report_Model\<close>, \<open>Attachment_Model\<close>, \<open>Organization_Model\<close>, \<open>Alert_Model\<close>,
      \<open>Subscription_Model\<close>, \<open>Delivery_Model\<close>: the aggregates of \<open>crates/domain\<close> with every operation.
    \<open>Case_Workflow\<close>, \<open>Authorization_Model\<close>, \<open>Alert_Workflow\<close>, \<open>Delivery_Workflow\<close>, \<open>Citizen_Subscription\<close>,
      \<open>Rate_Limit\<close>, \<open>Webhook_Model\<close>: the use cases of \<open>crates/application\<close> with their authorization, and the
      in-memory and Postgres adapters of the last two.
    \<open>Signed_Tokens\<close>: hexadecimal text, session tokens, signed attachment URLs.
    \<open>Store_Base\<close>, \<open>Case_Store\<close>, \<open>Alert_Store\<close>, \<open>Subscription_Store\<close>, \<open>Delivery_Store\<close>, \<open>Organization_Store\<close>,
      \<open>Report_Store\<close>: the tables and the repositories of \<open>crates/infrastructure/src/postgres\<close>; the last also has the
      ports of extraction and description.
    \<open>Delivery_Lifecycle\<close>, \<open>Delivery_Store_Lemmas\<close>, \<open>Delivery_Invariants\<close>, \<open>Delivery_System\<close>: the life of one delivery, what
      the delivery tables keep, and the step relation of all processes that plan, claim, load and settle
      deliveries concurrently.
    \<open>Worker_Model\<close>: matching, dispatching and the cycle of \<open>apps/worker\<close>.
    \<open>Access_Api\<close>: what handlers share (errors, request ids, idempotency and source keys, rate limits, the caller, the
      gate of the platform-only paths). \<open>Case_Api\<close>, \<open>Alert_Api\<close>, \<open>Subscription_Api\<close>, \<open>Citizen_Api\<close>,
      \<open>Webhook_Api\<close>, \<open>Organization_Api\<close>, \<open>Auth_Api\<close> (with \<open>google_identity.rs\<close>), \<open>Report_Api\<close> (reports, attachments,
      extractions, descriptions), \<open>Read_Api\<close> (consumers, deliveries, audit trail): the handlers of \<open>apps/api/src\<close>.
    \<open>Channel_Adapters\<close>, \<open>Ai_Adapters\<close>, \<open>Invite_Mailer\<close>: the adapters of \<open>crates/infrastructure/src\<close> under
      \<open>channels\<close>, \<open>ai\<close> and \<open>invite_mailer\<close>, and the registry that the worker builds from its environment.

  What the lemmas show. Per aggregate: construction and transition errors are exact, versions count
  events, statuses follow the allowed relation, a verified case has a reviewer's verification in its
  history. Disclosure: an alert created from a case carries only fields its policy allows, and messages
  show only public fields. Matching: the evaluation of rules is equivalent to a declarative
  specification and yields one match per consumer. Deliveries: the tables stay consistent with
  the stored histories under any interleaving, claimed deliveries respect fallback tiers, statuses only
  move forward, and the number of messages sent for a delivery is bounded by its stored attempts. Stores:
  optimistic versions let exactly one writer per version through. Access: a session token is accepted
  only with its MAC, raw incident data needs a platform administrator, verification needs a trusted
  organization (and the generic transition endpoint does not check it), trust and activity of organizations change
  only at the hands of platform administrators, an account always has a membership, and who may register whom.
  Reports: a submission is stored once under its idempotency key, suggestions of language models change no
  aggregate, downloads of evidence never go unrecorded. Adapters: an address that fails its check fails for good
  without a provider being asked, and no text of an alert becomes markup of its email.

  Bounds and totality. All recursion is structural, over lists that shrink, or by a measure (the scan of alerts
  in \<open>Alert_Api\<close>, whose offset grows up to the number of rows), so every definition is total and no fuel is used.
  Versions wrap at \<open>2 ^ 64\<close>; lemmas on serialized writes say for how many writes they hold.

  Not modelled: HTTP routing, request decoding and wiring (\<open>main.rs\<close>, \<open>state.rs\<close>, serde), the demo and migration
  programs, connection errors of the database, tracing, the polling loop of the worker, the request signing of the
  object storage (\<open>storage/r2.rs\<close>, calls of a cloud library), the fakes for tests, and the citizen and console
  front ends. Transactions are atomic: interleavings inside one are those that the row locks admit.
\<close>

end
